(* ===== verification/Prelude.thy ===== *)
theory Prelude
  imports Main "HOL-Library.AList" "HOL-Library.Sublist" "HOL-Library.List_Lexorder"
    "HOL-Library.Char_ord"
begin

text \<open>
  What the components share: Python's exceptions as values, a result type with its bind, Python
  text (strings of ASCII characters) and the string operations the code calls, insertion-ordered
  dictionaries (association lists updated in place, as \<open>dict\<close> does), \<open>dict.fromkeys\<close>
  de-duplication and stable sorting.
\<close>

section \<open>Exceptions and results\<close>

text \<open>
  One constructor per exception class the modelled code raises; the argument is the constant part
  of the message (the interpolated values are not kept).
\<close>

datatype py_error =
    ValueError string
  | TypeError string
  | KeyError string
  | AssertionError string
  | InvalidOperation string
  | DivisionByZero string
  | DecimalOverflow string
  | OverflowError string
  | FreezeIntegrityError string
  | ModelOutputFailure string
  | EvidenceIntegrityError string
  | EvidenceNotFoundError string
  | EvidenceRejectedError string string
  | FileNotFoundError string
  | FileExistsError string
  | HistoricalStateUnavailable string
  | RuntimeError string
  | JsonDecodeError string
  | RecursionError string

type_synonym 'a res = "py_error + 'a"

abbreviation Ok :: "'a \<Rightarrow> 'a res" where "Ok \<equiv> Inr"
abbreviation Err :: "py_error \<Rightarrow> 'a res" where "Err \<equiv> Inl"

definition bindR :: "'a res \<Rightarrow> ('a \<Rightarrow> 'b res) \<Rightarrow> 'b res" where
  "bindR m f = (case m of Inl e \<Rightarrow> Inl e | Inr x \<Rightarrow> f x)"

text \<open>\<open>checkR\<close> is \<open>if not b: raise e\<close>.\<close>

definition checkR :: "bool \<Rightarrow> py_error \<Rightarrow> unit res" where
  "checkR b e = (if b then Ok () else Err e)"

definition is_ok :: "'a res \<Rightarrow> bool" where
  "is_ok r = (case r of Inl e \<Rightarrow> False | Inr x \<Rightarrow> True)"

text \<open>A comprehension whose body may raise: the first failure is the result.\<close>

fun mapR :: "('a \<Rightarrow> 'b res) \<Rightarrow> 'a list \<Rightarrow> 'b list res" where
  "mapR f [] = Ok []"
| "mapR f (x # xs) = bindR (f x) (\<lambda>y. bindR (mapR f xs) (\<lambda>ys. Ok (y # ys)))"

named_theorems res_simps "equations of the result monad"

lemma bindR_simps [simp, res_simps]:
  "bindR (Inl e) f = Inl e"
  "bindR (Inr x) f = f x"
  by (simp_all add: bindR_def)

lemma bindR_Ok_iff: "bindR m f = Inr y \<longleftrightarrow> (\<exists>x. m = Inr x \<and> f x = Inr y)"
  by (cases m) auto

lemma bindR_Err_iff: "bindR m f = Inl e \<longleftrightarrow> m = Inl e \<or> (\<exists>x. m = Inr x \<and> f x = Inl e)"
  by (cases m) auto

lemma checkR_simps [simp, res_simps]:
  "checkR True e = Inr ()"
  "checkR False e = Inl e"
  by (simp_all add: checkR_def)

lemma checkR_Ok_iff [simp]: "checkR b e = Inr u \<longleftrightarrow> b"
  by (auto simp: checkR_def)

lemma checkR_Err_iff [simp]: "checkR b e = Inl e' \<longleftrightarrow> \<not> b \<and> e' = e"
  by (auto simp: checkR_def)

lemma is_ok_simps [simp, res_simps]: "is_ok (Inr x)" "\<not> is_ok (Inl e)"
  by (simp_all add: is_ok_def)

lemma is_ok_iff: "is_ok r \<longleftrightarrow> (\<exists>x. r = Inr x)"
  by (cases r) auto

lemma is_ok_bindR: "is_ok (bindR m f) \<longleftrightarrow> (\<exists>x. m = Inr x \<and> is_ok (f x))"
  by (cases m) auto

lemma is_ok_checkR [simp]: "is_ok (checkR b e) \<longleftrightarrow> b"
  by (simp add: checkR_def)

lemma mapR_Ok_length: "mapR f xs = Inr ys \<Longrightarrow> length ys = length xs"
  by (induction xs arbitrary: ys) (auto simp: bindR_Ok_iff)

lemma mapR_Ok_nth: "mapR f xs = Inr ys \<Longrightarrow> i < length xs \<Longrightarrow> f (xs ! i) = Inr (ys ! i)"
proof (induction xs arbitrary: ys i)
  case Nil
  then show ?case by simp
next
  case (Cons x xs)
  then show ?case by (cases i) (auto simp: bindR_Ok_iff)
qed

lemma mapR_Ok_set:
  assumes "mapR f xs = Inr ys" and "y \<in> set ys"
  shows "\<exists>x \<in> set xs. f x = Inr y"
  using assms mapR_Ok_length [OF assms(1)] mapR_Ok_nth [OF assms(1)]
  by (metis in_set_conv_nth)

lemma mapR_Ok_mem:
  assumes "mapR f xs = Inr ys" and "x \<in> set xs"
  shows "\<exists>y \<in> set ys. f x = Inr y"
  using assms mapR_Ok_length [OF assms(1)] mapR_Ok_nth [OF assms(1)]
  by (metis in_set_conv_nth)

lemma mapR_map_Ok: "(\<And>x. x \<in> set xs \<Longrightarrow> f x = Inr (g x)) \<Longrightarrow> mapR f xs = Inr (map g xs)"
  by (induction xs) auto

lemma mapR_roundtrip: "(\<And>x. x \<in> set xs \<Longrightarrow> f (g x) = Inr x) \<Longrightarrow> mapR f (map g xs) = Inr xs"
  by (induction xs) auto

lemma mapR_Ok_iff: "mapR f xs = Inr ys \<longleftrightarrow> (\<forall>x \<in> set xs. is_ok (f x)) \<and> ys = map (\<lambda>x. projr (f x)) xs"
proof (induction xs arbitrary: ys)
  case Nil
  show ?case by auto
next
  case (Cons x xs)
  show ?case by (cases "f x") (auto simp: bindR_Ok_iff Cons.IH)
qed

text \<open>A comprehension with a condition that may raise.\<close>

fun filterR :: "('a \<Rightarrow> bool res) \<Rightarrow> 'a list \<Rightarrow> 'a list res" where
  "filterR f [] = Ok []"
| "filterR f (x # xs) =
     bindR (f x) (\<lambda>b. bindR (filterR f xs) (\<lambda>ys. Ok (if b then x # ys else ys)))"

lemma filterR_Ok_iff:
  "filterR f xs = Inr ys \<longleftrightarrow> (\<forall>x \<in> set xs. is_ok (f x)) \<and> ys = filter (\<lambda>x. f x = Inr True) xs"
proof (induction xs arbitrary: ys)
  case Nil
  show ?case by auto
next
  case (Cons x xs)
  show ?case by (cases "f x") (auto simp: bindR_Ok_iff Cons.IH)
qed

lemma filterR_filter:
  "(\<And>x. x \<in> set xs \<Longrightarrow> \<not> P x \<Longrightarrow> f x = Inr False) \<Longrightarrow> filterR f (filter P xs) = filterR f xs"
proof (induction xs)
  case (Cons x xs)
  then show ?case by (cases "filterR f xs") auto
qed simp

section \<open>Text\<close>

text \<open>
  \<open>str.strip\<close>, \<open>str.lower\<close> and \<open>str.upper\<close> on the ASCII range; \<open>is_space\<close> lists
  the ASCII characters for which \<open>str.isspace\<close> holds.
\<close>

definition is_space :: "char \<Rightarrow> bool" where
  "is_space c = (let n = (of_char c :: nat) in n = 32 \<or> (9 \<le> n \<and> n \<le> 13) \<or> (28 \<le> n \<and> n \<le> 31))"

definition strip :: "string \<Rightarrow> string" where
  "strip s = rev (dropWhile is_space (rev (dropWhile is_space s)))"

definition lower_char :: "char \<Rightarrow> char" where
  "lower_char c = (let n = (of_char c :: nat) in if 65 \<le> n \<and> n \<le> 90 then char_of (n + 32) else c)"

definition upper_char :: "char \<Rightarrow> char" where
  "upper_char c = (let n = (of_char c :: nat) in if 97 \<le> n \<and> n \<le> 122 then char_of (n - 32) else c)"

definition lower :: "string \<Rightarrow> string" where
  "lower s = map lower_char s"

definition upper :: "string \<Rightarrow> string" where
  "upper s = map upper_char s"

definition is_digit_char :: "char \<Rightarrow> bool" where
  "is_digit_char c = (let n = (of_char c :: nat) in 48 \<le> n \<and> n \<le> 57)"

text \<open>\<open>sep.join(xs)\<close>.\<close>

fun join :: "string \<Rightarrow> string list \<Rightarrow> string" where
  "join sep [] = []"
| "join sep [x] = x"
| "join sep (x # xs) = x @ sep @ join sep xs"

text \<open>The decimal rendering of a non-negative integer, as an f-string prints it.\<close>

fun nat_str :: "nat \<Rightarrow> string" where
  "nat_str n = (if n < 10 then [char_of (48 + n)] else nat_str (n div 10) @ [char_of (48 + n mod 10)])"

declare nat_str.simps [simp del]

fun str_nat :: "string \<Rightarrow> nat" where
  "str_nat s = foldl (\<lambda>a c. 10 * a + (of_char c - 48)) 0 s"

lemma str_nat_snoc: "str_nat (s @ [c]) = 10 * str_nat s + (of_char c - 48)"
  by simp

declare str_nat.simps [simp del]

lemma str_nat_nat_str: "str_nat (nat_str n) = n"
proof (induction n rule: nat_str.induct)
  case (1 n)
  show ?case
  proof (cases "n < 10")
    case True
    then show ?thesis
      by (subst nat_str.simps) (simp add: str_nat.simps of_char_of)
  next
    case False
    have "(48 + n mod 10) mod 256 = 48 + n mod 10"
      by (rule mod_less) (use mod_less_divisor [of 10 n] in simp)
    with False "1.IH" show ?thesis
      by (subst nat_str.simps) (simp add: str_nat_snoc of_char_of)
  qed
qed

lemma nat_str_inject [simp]: "nat_str m = nat_str n \<longleftrightarrow> m = n"
  by (metis str_nat_nat_str)

lemma nat_str_digits: "c \<in> set (nat_str n) \<Longrightarrow> is_digit_char c"
proof (induction n rule: nat_str.induct)
  case (1 n)
  have digit: "is_digit_char (char_of (48 + m))" if "m < 10" for m :: nat
    using that by (simp add: is_digit_char_def of_char_of)
  from 1 show ?case
    by (subst (asm) nat_str.simps) (auto simp: digit split: if_splits)
qed

lemma dropWhile_last: "dropWhile P xs \<noteq> [] \<Longrightarrow> last (dropWhile P xs) = last xs"
  by (induction xs) (auto split: if_splits)

lemma strip_no_space_ends:
  "strip s \<noteq> [] \<Longrightarrow> \<not> is_space (hd (strip s)) \<and> \<not> is_space (last (strip s))"
proof -
  let ?d = "dropWhile is_space s"
  let ?e = "dropWhile is_space (rev ?d)"
  assume "strip s \<noteq> []"
  then have e: "?e \<noteq> []" by (simp add: strip_def)
  then have d: "?d \<noteq> []" by (metis dropWhile.simps(1) rev.simps(1))
  have "\<not> is_space (hd ?e)" using e by (rule hd_dropWhile)
  then have last: "\<not> is_space (last (strip s))" using e by (simp add: strip_def last_rev)
  have "hd (strip s) = last ?e" using e by (simp add: strip_def hd_rev)
  also have "\<dots> = last (rev ?d)" using e by (rule dropWhile_last)
  also have "\<dots> = hd ?d" using d by (simp add: last_rev)
  finally have "\<not> is_space (hd (strip s))" using hd_dropWhile [OF d] by simp
  with last show ?thesis by simp
qed

lemma strip_idem [simp]: "strip (strip s) = strip s"
proof (cases "strip s = []")
  case True
  show ?thesis by (simp only: True) (simp add: strip_def)
next
  case False
  have no_drop: "dropWhile is_space xs = xs" if "xs \<noteq> []" "\<not> is_space (hd xs)" for xs
    using that by (cases xs) auto
  from strip_no_space_ends [OF False] have "dropWhile is_space (strip s) = strip s"
    and "dropWhile is_space (rev (strip s)) = rev (strip s)"
    using False by (auto intro!: no_drop simp: hd_rev)
  then show ?thesis by (simp add: strip_def [of "strip s"])
qed

lemma lower_char_idem [simp]: "lower_char (lower_char c) = lower_char c"
  by (auto simp: lower_char_def Let_def of_char_of)

lemma lower_idem [simp]: "lower (lower s) = lower s"
  by (simp add: lower_def)

section \<open>Dictionaries and sequences\<close>

text \<open>
  A \<open>dict\<close> is an association list in insertion order; \<open>map_of\<close> is the lookup and
  \<open>AList.update\<close> the assignment (in place for a present key, at the end for a new one).
\<close>

type_synonym ('k, 'v) dict = "('k \<times> 'v) list"

abbreviation dget :: "('k, 'v) dict \<Rightarrow> 'k \<Rightarrow> 'v option" where
  "dget \<equiv> map_of"

abbreviation dset :: "'k \<Rightarrow> 'v \<Rightarrow> ('k, 'v) dict \<Rightarrow> ('k, 'v) dict" where
  "dset \<equiv> AList.update"

definition dget_default :: "('k, 'v) dict \<Rightarrow> 'k \<Rightarrow> 'v \<Rightarrow> 'v" where
  "dget_default d k v = (case dget d k of None \<Rightarrow> v | Some x \<Rightarrow> x)"

text \<open>\<open>list(dict.fromkeys(xs))\<close>: first occurrences, in order.\<close>

fun dedup :: "'a list \<Rightarrow> 'a list" where
  "dedup [] = []"
| "dedup (x # xs) = x # filter (\<lambda>y. y \<noteq> x) (dedup xs)"

lemma set_dedup [simp]: "set (dedup xs) = set xs"
  by (induction xs) auto

lemma distinct_dedup [simp]: "distinct (dedup xs)"
  by (induction xs) auto

lemma dedup_empty_iff [simp]: "dedup xs = [] \<longleftrightarrow> xs = []"
  by (cases xs) auto

lemma hd_dedup [simp]: "xs \<noteq> [] \<Longrightarrow> hd (dedup xs) = hd xs"
  by (cases xs) auto

lemma Nil_eq_dedup_iff [simp]: "[] = dedup xs \<longleftrightarrow> xs = []"
  by (cases xs) auto

lemma length_dedup: "length (dedup xs) = card (set xs)"
  by (metis distinct_card distinct_dedup set_dedup)

lemma length_dedup_le_1_iff:
  "xs \<noteq> [] \<Longrightarrow> length (dedup xs) \<le> 1 \<longleftrightarrow> (\<forall>x \<in> set xs. x = hd xs)"
  by (cases xs) (auto simp: filter_empty_conv)

text \<open>\<open>list.sort(key=k, reverse=True)\<close> keeps the order of equal elements.\<close>

definition sort_desc :: "('a \<Rightarrow> 'k::linorder) \<Rightarrow> 'a list \<Rightarrow> 'a list" where
  "sort_desc k xs = rev (sort_key k (rev xs))"

lemma set_sort_desc [simp]: "set (sort_desc k xs) = set xs"
  by (simp add: sort_desc_def)

lemma sort_desc_sorted: "sorted (rev (map k (sort_desc k xs)))"
  by (simp add: sort_desc_def rev_map)

lemma dget_dset [simp]: "dget (dset k v d) k' = (if k' = k then Some v else dget d k')"
  by (simp add: update_conv')

end
