(* ===== verification/Interfaces.thy ===== *)
theory Interfaces
  imports Prelude
begin

text \<open>
  The contracts several components of the program share, stated once as locales.  Every one of them
  is interpreted by the component that provides it: append-only logs (relationship revisions, the
  evidence ledger, the journal), numbered logs (revision numbers, versions of thesis snapshots),
  lifecycles with terminal states (sessions, jobs), point-in-time gates (ticker aliases, thesis
  snapshots) and metered resources (execution budget, jobs, billed calls).
\<close>

section \<open>Append-only logs\<close>

locale append_log =
  fixes entries :: "'s \<Rightarrow> 'e list"
    and step :: "'s \<Rightarrow> 's \<Rightarrow> bool"
  assumes step_extends: "step s t \<Longrightarrow> prefix (entries s) (entries t)"
begin

lemma run_extends: "step\<^sup>*\<^sup>* s t \<Longrightarrow> prefix (entries s) (entries t)"
proof (induction rule: rtranclp_induct)
  case base
  show ?case by simp
next
  case (step t u)
  from step.IH step_extends [OF step.hyps(2)] show ?case by (rule prefix_order.trans)
qed

lemma entry_stable:
  assumes "step\<^sup>*\<^sup>* s t" and "i < length (entries s)"
  shows "i < length (entries t) \<and> entries t ! i = entries s ! i"
proof -
  from run_extends [OF assms(1)] obtain es where "entries t = entries s @ es"
    by (auto simp: prefix_def)
  with assms(2) show ?thesis by (simp add: nth_append)
qed

lemma run_keeps: "step\<^sup>*\<^sup>* s t \<Longrightarrow> set (entries s) \<subseteq> set (entries t)"
  using run_extends by (blast dest: set_mono_prefix)

end

text \<open>Entries that carry their own 1-based position.\<close>

definition numbered :: "('e \<Rightarrow> nat) \<Rightarrow> 'e list \<Rightarrow> bool" where
  "numbered num es \<longleftrightarrow> map num es = [1..<Suc (length es)]"

lemma numbered_Nil [simp]: "numbered num []"
  by (simp add: numbered_def)

lemma numbered_snoc: "numbered num (es @ [e]) \<longleftrightarrow> numbered num es \<and> num e = Suc (length es)"
  by (auto simp: numbered_def)

lemma numbered_nth:
  assumes "numbered num es" and "i < length es"
  shows "num (es ! i) = Suc i"
proof -
  have "num (es ! i) = map num es ! i" using assms(2) by simp
  also have "\<dots> = [1..<Suc (length es)] ! i" using assms(1) by (simp add: numbered_def)
  also have "\<dots> = Suc i" using assms(2) by (simp del: upt_Suc)
  finally show ?thesis .
qed

lemma numbered_distinct: "numbered num es \<Longrightarrow> distinct (map num es)"
  by (simp add: numbered_def)

locale numbered_log = append_log entries step
  for entries :: "'s \<Rightarrow> 'e list" and step :: "'s \<Rightarrow> 's \<Rightarrow> bool" +
  fixes num :: "'e \<Rightarrow> nat"
  assumes step_numbered: "step s t \<Longrightarrow> numbered num (entries s) \<Longrightarrow> numbered num (entries t)"
begin

lemma run_numbered: "step\<^sup>*\<^sup>* s t \<Longrightarrow> numbered num (entries s) \<Longrightarrow> numbered num (entries t)"
  by (induction rule: rtranclp_induct) (auto intro: step_numbered)

lemma run_num: 
  assumes "step\<^sup>*\<^sup>* s t" and "numbered num (entries s)" and "i < length (entries t)"
  shows "num (entries t ! i) = Suc i"
  using numbered_nth [OF run_numbered [OF assms(1,2)] assms(3)] .

end

section \<open>Lifecycles\<close>

locale lifecycle =
  fixes moves :: "'a \<Rightarrow> 'a \<Rightarrow> bool"
    and terminal :: "'a \<Rightarrow> bool"
  assumes terminal_stuck: "terminal x \<Longrightarrow> \<not> moves x y"
begin

lemma terminal_absorbing: "moves\<^sup>*\<^sup>* x y \<Longrightarrow> terminal x \<Longrightarrow> y = x"
  by (induction rule: rtranclp_induct) (auto dest: terminal_stuck)

end

text \<open>A lifecycle whose moves strictly decrease a rank cannot run for ever.\<close>

locale bounded_lifecycle = lifecycle moves terminal
  for moves :: "'a \<Rightarrow> 'a \<Rightarrow> bool" and terminal :: "'a \<Rightarrow> bool" +
  fixes rank :: "'a \<Rightarrow> nat"
  assumes moves_rank: "moves x y \<Longrightarrow> rank y < rank x"
begin

lemma run_length: "(moves ^^ n) x y \<Longrightarrow> n + rank y \<le> rank x"
proof (induction n arbitrary: y)
  case 0
  then show ?case by simp
next
  case (Suc n)
  from Suc.prems obtain z where z: "(moves ^^ n) x z" "moves z y"
    by (simp only: relpowp.simps) (erule relcomppE)
  from Suc.IH [OF z(1)] moves_rank [OF z(2)] show ?case by simp
qed

lemma run_bounded: "(moves ^^ n) x y \<Longrightarrow> n \<le> rank x"
  using run_length [of n x y] by simp

end

section \<open>Point-in-time gates\<close>

text \<open>
  A gate decides from a cutoff whether a record may be seen; later cutoffs admit more.
\<close>

locale pit_gate =
  fixes admits :: "'c::linorder \<Rightarrow> 'r \<Rightarrow> bool"
  assumes admits_mono: "c \<le> c' \<Longrightarrow> admits c r \<Longrightarrow> admits c' r"
begin

lemma visible_mono: "c \<le> c' \<Longrightarrow> set (filter (admits c) rs) \<subseteq> set (filter (admits c') rs)"
  by (auto intro: admits_mono)

lemma no_lookahead:
  "\<forall>r \<in> set future. \<not> admits c r \<Longrightarrow> filter (admits c) (past @ future) = filter (admits c) past"
  by simp

lemma filter_later: "c \<le> c' \<Longrightarrow> filter (admits c) (filter (admits c') rs) = filter (admits c) rs"
  by (induction rs) (auto intro: admits_mono)

end

section \<open>Metered resources\<close>

text \<open>
  A counter with an optional ceiling: a granted request never passes the ceiling, and no step
  changes the ceiling.
\<close>

locale metered =
  fixes used :: "'s \<Rightarrow> int"
    and ceiling :: "'s \<Rightarrow> int option"
    and step :: "'s \<Rightarrow> 's \<Rightarrow> bool"
  assumes step_ceiling: "step s t \<Longrightarrow> ceiling t = ceiling s"
    and step_within: "step s t \<Longrightarrow> ceiling s = Some m \<Longrightarrow> used s \<le> m \<Longrightarrow> used t \<le> m"
begin

lemma run_ceiling: "step\<^sup>*\<^sup>* s t \<Longrightarrow> ceiling t = ceiling s"
  by (induction rule: rtranclp_induct) (auto dest: step_ceiling)

lemma run_within:
  assumes "step\<^sup>*\<^sup>* s t" and "ceiling s = Some m" and "used s \<le> m"
  shows "used t \<le> m"
  using assms
proof (induction rule: rtranclp_induct)
  case base
  then show ?case by simp
next
  case (step t u)
  have "ceiling t = Some m" using run_ceiling [OF step.hyps(1)] step.prems by simp
  from step_within [OF step.hyps(2) this] step.IH step.prems show ?case by blast
qed

end

end
