(* ===== verification/PyDecimal.thy ===== *)
theory PyDecimal
  imports Complex_Main Interfaces
begin

text \<open>
  Python's \<open>decimal.Decimal\<close> under the default context: finite values are rationals, the
  arithmetic operations round their exact result to 28 significant digits half-to-even (to fewer
  below the exponent -999999, where the context's numbers are subnormal), and the conditions the
  default context traps (\<open>InvalidOperation\<close>, \<open>DivisionByZero\<close> and \<open>Overflow\<close>, a
  rounded result of 10 to the 1000000 or more) are errors.  The sign of zero is not modelled.
\<close>

section \<open>Powers of ten and decimal exponents\<close>

definition pow10 :: "int \<Rightarrow> rat" where
  "pow10 e = (if 0 \<le> e then 10 ^ nat e else 1 / 10 ^ nat (- e))"

lemma pow10_powi: "pow10 e = 10 powi e"
  by (simp add: pow10_def power_int_def inverse_eq_divide power_one_over)

lemma pow10_pos [simp]: "0 < pow10 e"
  by (simp add: pow10_def)

lemma pow10_nonneg [simp]: "0 \<le> pow10 e"
  by (simp add: less_imp_le)

lemma pow10_nonzero [simp]: "pow10 e \<noteq> 0"
  using pow10_pos [of e] by linarith

lemma pow10_add: "pow10 (a + b) = pow10 a * pow10 b"
  by (simp add: pow10_powi power_int_add)

lemma pow10_mono: "a \<le> b \<Longrightarrow> pow10 a \<le> pow10 b"
  by (simp add: pow10_powi power_int_increasing)

lemma pow10_strict_mono: "a < b \<Longrightarrow> pow10 a < pow10 b"
  by (simp add: pow10_powi power_int_strict_increasing)

lemma pow10_less_iff [simp]: "pow10 a < pow10 b \<longleftrightarrow> a < b"
  by (meson linorder_not_le pow10_mono pow10_strict_mono)

text \<open>Number of decimal digits of a natural number (1 for 0).\<close>

fun ndigits :: "nat \<Rightarrow> nat" where
  "ndigits n = (if n < 10 then 1 else Suc (ndigits (n div 10)))"

declare ndigits.simps [simp del]

lemma ndigits_pos: "0 < ndigits n"
  by (subst ndigits.simps) simp

lemma ndigits_upper: "n < 10 ^ ndigits n"
proof (induction n rule: ndigits.induct)
  case (1 n)
  show ?case
  proof (cases "n < 10")
    case True
    then show ?thesis by (subst ndigits.simps) simp
  next
    case False
    with 1 have "n div 10 < 10 ^ ndigits (n div 10)" by simp
    then have "n < 10 * 10 ^ ndigits (n div 10)" by linarith
    with False show ?thesis by (subst ndigits.simps) simp
  qed
qed

lemma ndigits_lower: "0 < n \<Longrightarrow> 10 ^ (ndigits n - 1) \<le> n"
proof (induction n rule: ndigits.induct)
  case (1 n)
  show ?case
  proof (cases "n < 10")
    case True
    with "1.prems" show ?thesis by (subst ndigits.simps) simp
  next
    case False
    with "1.IH" have "10 ^ (ndigits (n div 10) - 1) \<le> n div 10" by auto
    then have "10 * 10 ^ (ndigits (n div 10) - 1) \<le> n" by linarith
    moreover have "10 * 10 ^ (ndigits (n div 10) - 1) = (10::nat) ^ ndigits (n div 10)"
      using ndigits_pos [of "n div 10"] by (metis Suc_diff_1 power_Suc)
    ultimately show ?thesis using False by (subst ndigits.simps) simp
  qed
qed

text \<open>
  The adjusted exponent of a positive value: the \<open>e\<close> with \<open>10^e \<le> x < 10^(e+1)\<close>.
\<close>

definition dexp :: "rat \<Rightarrow> int" where
  "dexp x = (if 1 \<le> x then int (ndigits (nat \<lfloor>x\<rfloor>)) - 1
             else - int (ndigits (nat (\<lceil>1 / x\<rceil> - 1))))"

lemma dexp_bounds:
  assumes "0 < x"
  shows "pow10 (dexp x) \<le> x \<and> x < pow10 (dexp x + 1)"
proof (cases "1 \<le> x")
  case True
  define n where "n = nat \<lfloor>x\<rfloor>"
  from True have n: "0 < n" by (simp add: n_def)
  have "of_nat n \<le> x" using True by (simp add: n_def)
  moreover have "x < of_nat n + 1" using True by (simp add: n_def) linarith
  moreover have lo: "(10::rat) ^ (ndigits n - 1) \<le> of_nat n"
    using ndigits_lower [OF n] by (metis of_nat_le_iff of_nat_numeral of_nat_power)
  moreover have "of_nat n + 1 \<le> (10::rat) ^ ndigits n"
    using ndigits_upper [of n]
    by (metis Suc_leI of_nat_Suc of_nat_le_iff of_nat_numeral of_nat_power add.commute)
  moreover have "dexp x = int (ndigits n) - 1" using True by (simp add: dexp_def n_def)
  moreover have "pow10 (int (ndigits n) - 1) = 10 ^ (ndigits n - 1)"
    and "pow10 (int (ndigits n)) = 10 ^ ndigits n"
    using ndigits_pos [of n] by (simp_all add: pow10_def nat_diff_distrib)
  ultimately show ?thesis by (metis diff_add_cancel order_less_le_trans order_trans)
next
  case False
  define m where "m = nat (\<lceil>1 / x\<rceil> - 1)"
  from False assms have inv: "1 < 1 / x" by simp
  then have ceil: "2 \<le> \<lceil>1 / x\<rceil>" by linarith
  have m: "0 < m" using ceil by (simp add: m_def)
  have "of_nat m < 1 / x" using ceil unfolding m_def by (simp add: less_ceiling_iff) linarith
  moreover have "1 / x \<le> of_nat m + 1"
  proof -
    have "int m + 1 = \<lceil>1 / x\<rceil>" using ceil assms unfolding m_def by simp
    then have "(of_nat m + 1 :: rat) = of_int \<lceil>1 / x\<rceil>" by (metis of_int_1 of_int_add of_int_of_nat_eq)
    then show ?thesis by (metis le_of_int_ceiling)
  qed
  moreover have "(10::rat) ^ (ndigits m - 1) \<le> of_nat m"
    using ndigits_lower [OF m] by (metis of_nat_le_iff of_nat_numeral of_nat_power)
  moreover have "of_nat m + 1 \<le> (10::rat) ^ ndigits m"
    using ndigits_upper [of m]
    by (metis Suc_leI of_nat_Suc of_nat_le_iff of_nat_numeral of_nat_power add.commute)
  ultimately have lo: "(10::rat) ^ (ndigits m - 1) < 1 / x" and hi: "1 / x \<le> 10 ^ ndigits m"
    by linarith+
  have e: "dexp x = - int (ndigits m)" using False by (simp add: dexp_def m_def)
  have "1 \<le> x * 10 ^ ndigits m" using hi assms by (simp add: field_simps)
  then have "pow10 (dexp x) \<le> x" using e ndigits_pos [of m]
    by (simp add: pow10_def field_simps)
  moreover have "x * 10 ^ (ndigits m - 1) < 1" using lo assms by (simp add: field_simps)
  then have "x < pow10 (dexp x + 1)"
    using e ndigits_pos [of m]
    by (cases "ndigits m = 1") (auto simp: pow10_def field_simps nat_diff_distrib)
  ultimately show ?thesis by simp
qed

lemma dexp_mono:
  assumes "0 < x" and "x \<le> y"
  shows "dexp x \<le> dexp y"
proof -
  have "pow10 (dexp x) < pow10 (dexp y + 1)"
    using dexp_bounds [of x] dexp_bounds [of y] assms by linarith
  then show ?thesis by simp
qed

section \<open>Rounding to 28 significant digits\<close>

text \<open>Round half to even, on exact rationals.\<close>

definition round_half_even :: "rat \<Rightarrow> int" where
  "round_half_even r =
     (let f = \<lfloor>r\<rfloor>; d = r - of_int f
      in if d < 1 / 2 then f else if 1 / 2 < d then f + 1 else if even f then f else f + 1)"

lemma round_half_even_of_int [simp]: "round_half_even (of_int n) = n"
  by (simp add: round_half_even_def)

lemma round_half_even_between: "\<lfloor>r\<rfloor> \<le> round_half_even r \<and> round_half_even r \<le> \<lfloor>r\<rfloor> + 1"
  by (simp add: round_half_even_def Let_def)

lemma round_half_even_error: "\<bar>of_int (round_half_even r) - r\<bar> \<le> 1 / 2"
proof -
  have "of_int \<lfloor>r\<rfloor> \<le> r" and "r < of_int \<lfloor>r\<rfloor> + 1" by linarith+
  then show ?thesis by (auto simp: round_half_even_def Let_def)
qed

lemma round_half_even_mono:
  assumes "x \<le> y"
  shows "round_half_even x \<le> round_half_even y"
proof (cases "\<lfloor>x\<rfloor> = \<lfloor>y\<rfloor>")
  case True
  with assms show ?thesis by (simp add: round_half_even_def Let_def)
next
  case False
  with assms have "\<lfloor>x\<rfloor> + 1 \<le> \<lfloor>y\<rfloor>" by (meson floor_mono linorder_not_le order_antisym zless_imp_add1_zle)
  then show ?thesis using round_half_even_between [of x] round_half_even_between [of y] by linarith
qed

lemma round_half_even_ge: "of_int n \<le> r \<Longrightarrow> n \<le> round_half_even r"
  using round_half_even_mono [of "of_int n" r] by simp

lemma round_half_even_le: "r \<le> of_int n \<Longrightarrow> round_half_even r \<le> n"
  using round_half_even_mono [of r "of_int n"] by simp

text \<open>
  \<open>prec\<close> is the default context's precision, \<open>etiny\<close> the exponent of its last place
  (\<open>Emin - prec + 1\<close>).  A positive value is scaled so that its coefficient has \<open>prec\<close>
  digits before the point, or fewer where that would need a place below \<open>etiny\<close>, rounded, and
  scaled back; negative values are rounded by symmetry.
\<close>

definition prec :: int where
  "prec = 28"

definition etiny :: int where
  "etiny = - 1000026"

definition last_place :: "rat \<Rightarrow> int" where
  "last_place x = max (dexp x - (prec - 1)) etiny"

definition round_pos :: "rat \<Rightarrow> rat" where
  "round_pos x = (let q = pow10 (last_place x) in of_int (round_half_even (x / q)) * q)"

definition rnd :: "rat \<Rightarrow> rat" where
  "rnd x = (if x = 0 then 0 else if 0 < x then round_pos x else - round_pos (- x))"

lemma pow10_multiple:
  assumes "p \<le> e"
  shows "pow10 e = of_int (10 ^ nat (e - p)) * pow10 p"
proof -
  have "pow10 e = pow10 (e - p) * pow10 p" by (simp flip: pow10_add)
  then show ?thesis using assms by (simp add: pow10_def [of "e - p"])
qed

lemma last_place_ge: "dexp x - 27 \<le> last_place x" "etiny \<le> last_place x"
  by (simp_all add: last_place_def prec_def)

lemma last_place_normal: "etiny \<le> dexp x \<Longrightarrow> last_place x \<le> dexp x"
  by (simp add: last_place_def prec_def)

text \<open>Rounding stays between two neighbouring powers of ten, and below a subnormal's own.\<close>

lemma round_pos_ge:
  assumes "0 < x" and "etiny \<le> dexp x"
  shows "pow10 (dexp x) \<le> round_pos x"
proof -
  define q where "q = pow10 (last_place x)"
  define n :: int where "n = 10 ^ nat (dexp x - last_place x)"
  have q: "0 < q" by (simp add: q_def)
  have lo: "pow10 (dexp x) = of_int n * q"
    unfolding q_def n_def by (rule pow10_multiple [OF last_place_normal [OF assms(2)]])
  from dexp_bounds [OF assms(1)] q have "of_int n \<le> x / q"
    unfolding lo by (simp add: pos_le_divide_eq)
  then have "n \<le> round_half_even (x / q)" by (rule round_half_even_ge)
  then have "of_int n * q \<le> of_int (round_half_even (x / q)) * q"
    using q by (simp only: mult_le_cancel_right_pos of_int_le_iff)
  then show ?thesis unfolding lo by (simp add: round_pos_def Let_def flip: q_def)
qed

lemma round_pos_le:
  assumes "0 < x"
  shows "round_pos x \<le> pow10 (dexp x + 1)"
proof -
  define q where "q = pow10 (last_place x)"
  have q: "0 < q" by (simp add: q_def)
  show ?thesis
  proof (cases "last_place x \<le> dexp x + 1")
    case True
    define n :: int where "n = 10 ^ nat (dexp x + 1 - last_place x)"
    have hi: "pow10 (dexp x + 1) = of_int n * q"
      unfolding q_def n_def by (rule pow10_multiple [OF True])
    from dexp_bounds [OF assms] q have "x / q \<le> of_int n"
      unfolding hi by (simp add: pos_divide_le_eq)
    then have "round_half_even (x / q) \<le> n" by (rule round_half_even_le)
    then have "of_int (round_half_even (x / q)) * q \<le> of_int n * q"
      using q by (simp only: mult_le_cancel_right_pos of_int_le_iff)
    then show ?thesis unfolding hi by (simp add: round_pos_def Let_def flip: q_def)
  next
    case False
    then have "pow10 (dexp x + 1) \<le> pow10 (last_place x - 1)" by (intro pow10_mono) simp
    also have "\<dots> = q / 10" unfolding q_def using pow10_add [of "last_place x" "- 1"] by (simp add: pow10_def [of "- 1"])
    finally have "x / q < 1 / 2" using dexp_bounds [OF assms] q by (simp add: pos_divide_less_eq)
    moreover have "0 < x / q" using assms q by simp
    ultimately have "\<lfloor>x / q\<rfloor> = 0" by linarith
    with \<open>x / q < 1 / 2\<close> have "round_half_even (x / q) = 0" by (simp add: round_half_even_def)
    then show ?thesis by (simp add: round_pos_def Let_def flip: q_def)
  qed
qed

lemma round_pos_nonneg: "0 < x \<Longrightarrow> 0 \<le> round_pos x"
  using round_half_even_ge [of 0 "x / pow10 (last_place x)"]
  by (simp add: round_pos_def Let_def less_imp_le)

lemma round_pos_mono:
  assumes "0 < x" and "x \<le> y"
  shows "round_pos x \<le> round_pos y"
proof (cases "last_place x = last_place y")
  case True
  have "x / pow10 (last_place y) \<le> y / pow10 (last_place y)"
    using assms by (simp add: divide_right_mono)
  then show ?thesis
    unfolding round_pos_def Let_def True
    by (intro mult_right_mono of_int_le_iff [THEN iffD2] round_half_even_mono) simp_all
next
  case False
  with dexp_mono [OF assms] have "dexp x + 1 \<le> dexp y" and "etiny \<le> dexp y"
    by (auto simp: last_place_def prec_def max_def split: if_splits)
  moreover from this(1) have "pow10 (dexp x + 1) \<le> pow10 (dexp y)" by (rule pow10_mono)
  ultimately show ?thesis
    using round_pos_le [of x] round_pos_ge [of y] assms by linarith
qed

lemma rnd_0 [simp]: "rnd 0 = 0"
  by (simp add: rnd_def)

lemma rnd_minus: "rnd (- x) = - rnd x"
  by (simp add: rnd_def)

lemma rnd_nonneg: "0 \<le> x \<Longrightarrow> 0 \<le> rnd x"
  by (cases "x = 0") (auto simp: rnd_def round_pos_nonneg)

lemma rnd_mono:
  assumes "x \<le> y"
  shows "rnd x \<le> rnd y"
proof -
  consider "0 < x" | "x \<le> 0" "0 \<le> y" | "y < 0" using assms by linarith
  then show ?thesis
  proof cases
    case 1
    with assms round_pos_mono [of x y] show ?thesis by (simp add: rnd_def)
  next
    case 2
    with rnd_nonneg [of y] rnd_nonneg [of "- x"] show ?thesis by (simp add: rnd_minus)
  next
    case 3
    with assms round_pos_mono [of "- y" "- x"] show ?thesis by (simp add: rnd_def)
  qed
qed

text \<open>A value with at most 28 significant digits is left alone.\<close>

lemma dexp_unique:
  assumes "pow10 e \<le> x" and "x < pow10 (e + 1)"
  shows "dexp x = e"
proof -
  have x: "0 < x" using assms(1) pow10_pos [of e] by linarith
  have "pow10 e < pow10 (dexp x + 1)" and "pow10 (dexp x) < pow10 (e + 1)"
    using dexp_bounds [OF x] assms by linarith+
  then show ?thesis by simp
qed

lemma round_pos_exact:
  assumes "0 < c" and "c < 10 ^ 28" and "etiny \<le> e"
  shows "round_pos (of_int c * pow10 e) = of_int c * pow10 e"
proof -
  define x where "x = of_int c * pow10 e"
  define q where "q = pow10 (last_place x)"
  have x: "0 < x" using assms by (simp add: x_def)
  have "x < of_int (10 ^ 28) * pow10 e"
    using assms(2) unfolding x_def by (simp only: mult_less_cancel_right_pos pow10_pos of_int_less_iff)
  also have "\<dots> = pow10 (e + 28)" by (simp add: pow10_add pow10_def [of 28])
  finally have "pow10 (dexp x) < pow10 (e + 28)" using dexp_bounds [OF x] by linarith
  then have "dexp x < e + 28" by simp
  with assms(3) have le: "last_place x \<le> e" by (simp add: last_place_def prec_def)
  define k where "k = nat (e - last_place x)"
  have "pow10 e = of_int (10 ^ k) * q" unfolding q_def k_def by (rule pow10_multiple [OF le])
  then have xq: "x = of_int (c * 10 ^ k) * q" by (simp add: x_def)
  then have "x / q = of_int (c * 10 ^ k)" by (metis nonzero_mult_div_cancel_right pow10_nonzero q_def)
  then have "round_pos x = of_int (c * 10 ^ k) * q"
    unfolding round_pos_def Let_def q_def [symmetric]
    by (simp del: of_int_mult of_int_power add: numeral_eq_one_iff)
  with xq have "round_pos x = x" by metis
  then show ?thesis by (simp add: x_def)
qed

definition representable :: "rat \<Rightarrow> bool" where
  "representable x \<longleftrightarrow> (\<exists>c e. \<bar>c\<bar> < 10 ^ 28 \<and> etiny \<le> e \<and> x = of_int c * pow10 e)"

lemma rnd_exact:
  assumes "representable x"
  shows "rnd x = x"
proof -
  from assms obtain c e where c: "\<bar>c\<bar> < 10 ^ 28" and e: "etiny \<le> e" and x: "x = of_int c * pow10 e"
    by (auto simp: representable_def)
  consider "c = 0" | "0 < c" | "c < 0" by linarith
  then show ?thesis
  proof cases
    case 2
    with c x e round_pos_exact [of c e] show ?thesis by (simp add: rnd_def zero_less_mult_iff)
  next
    case 3
    then have "x < 0" using x by (simp add: mult_less_0_iff)
    with 3 c x e round_pos_exact [of "- c" e] show ?thesis by (simp add: rnd_def)
  qed (simp add: x)
qed

lemma representable_of_int: "\<bar>n\<bar> < 10 ^ 28 \<Longrightarrow> representable (of_int n)"
  unfolding representable_def by (intro exI [of _ n] exI [of _ 0]) (simp add: pow10_def etiny_def)

lemma rnd_pow10: "etiny \<le> e \<Longrightarrow> rnd (pow10 e) = pow10 e"
proof (rule rnd_exact)
  assume "etiny \<le> e"
  then show "representable (pow10 e)"
    unfolding representable_def by (intro exI [of _ 1] exI [of _ e]) simp
qed

text \<open>Terminating decimals with at most 28 digits, as literals are written.\<close>

lemma rnd_decimal:
  assumes "\<bar>c\<bar> < 10 ^ 28" and "k \<le> 1000000"
  shows "rnd (of_int c / 10 ^ k) = of_int c / 10 ^ k"
proof (rule rnd_exact)
  have "pow10 (- int k) = 1 / 10 ^ k" by (auto simp: pow10_def)
  then have "(of_int c / 10 ^ k :: rat) = of_int c * pow10 (- int k)" by simp
  moreover have "etiny \<le> - int k" using assms(2) by (simp add: etiny_def)
  ultimately show "representable (of_int c / 10 ^ k)" using assms(1) unfolding representable_def by blast
qed

lemma representable_1 [simp]: "representable 1"
  using representable_of_int [of 1] by simp

text \<open>The error of one operation is at most half a unit in the last place.\<close>

lemma rnd_error:
  assumes "0 < x"
  shows "\<bar>rnd x - x\<bar> \<le> pow10 (last_place x) / 2"
proof -
  define q where "q = pow10 (last_place x)"
  have q: "0 < q" by (simp add: q_def)
  have "rnd x - x = (of_int (round_half_even (x / q)) - x / q) * q"
    using assms q by (simp add: rnd_def round_pos_def q_def [symmetric] field_simps)
  then have "\<bar>rnd x - x\<bar> = \<bar>of_int (round_half_even (x / q)) - x / q\<bar> * q"
    using q by (simp add: abs_mult)
  also have "\<dots> \<le> 1 / 2 * q"
    using q by (intro mult_right_mono round_half_even_error) simp
  finally show ?thesis by (simp add: q_def)
qed

lemma round_pos_representable:
  assumes "0 < x"
  shows "representable (round_pos x)"
proof -
  define q where "q = pow10 (last_place x)"
  define c where "c = round_half_even (x / q)"
  have q: "0 < q" by (simp add: q_def)
  have eq: "round_pos x = of_int c * q" by (simp add: round_pos_def c_def q_def Let_def)
  have "x < pow10 (last_place x + 28)"
    using dexp_bounds [OF assms] pow10_mono [of "dexp x + 1" "last_place x + 28"] last_place_ge(1) [of x] by simp
  also have "\<dots> = of_int (10 ^ 28) * q" by (simp add: q_def pow10_add pow10_def [of 28])
  finally have "x / q \<le> of_int (10 ^ 28)" using q by (simp add: pos_divide_le_eq)
  then have hi: "c \<le> 10 ^ 28" unfolding c_def by (rule round_half_even_le)
  have "of_int 0 \<le> x / q" using assms q by simp
  then have lo: "0 \<le> c" unfolding c_def by (rule round_half_even_ge)
  show ?thesis
  proof (cases "c = 10 ^ 28")
    case True
    then have "round_pos x = of_int 1 * pow10 (last_place x + 28)"
      using eq by (simp add: q_def pow10_add pow10_def [of 28])
    moreover have "etiny \<le> last_place x + 28" using last_place_ge(2) [of x] by simp
    ultimately show ?thesis unfolding representable_def
      by (intro exI [of _ 1] exI [of _ "last_place x + 28"]) simp
  next
    case False
    with hi lo have "\<bar>c\<bar> < 10 ^ 28" by simp
    with eq last_place_ge(2) [of x] show ?thesis unfolding representable_def q_def by blast
  qed
qed

lemma representable_uminus: "representable x \<Longrightarrow> representable (- x)"
  unfolding representable_def by (metis abs_minus_cancel minus_mult_left of_int_minus)

lemma representable_0 [simp]: "representable 0"
  using representable_of_int [of 0] by simp

lemma rnd_representable [simp]: "representable (rnd x)"
proof -
  consider "x = 0" | "0 < x" | "x < 0" by linarith
  then show ?thesis
    by cases (auto simp: rnd_def round_pos_representable representable_uminus)
qed

lemma rnd_idem [simp]: "rnd (rnd x) = rnd x"
  by (rule rnd_exact) simp

lemma rnd_abs: "\<bar>rnd x\<bar> = rnd \<bar>x\<bar>"
  using rnd_nonneg [of x] rnd_nonneg [of "- x"] by (cases "0 \<le> x") (auto simp: rnd_minus)

lemma rnd_abs_le: "etiny \<le> e \<Longrightarrow> \<bar>x\<bar> \<le> pow10 e \<Longrightarrow> \<bar>rnd x\<bar> \<le> pow10 e"
  using rnd_mono [of "\<bar>x\<bar>" "pow10 e"] by (simp add: rnd_abs rnd_pow10)

text \<open>
  The overflow condition: the rounded result needs an exponent above the context's \<open>Emax\<close>.
\<close>

definition emax :: int where
  "emax = 999999"

definition overflows :: "rat \<Rightarrow> bool" where
  "overflows z \<longleftrightarrow> emax < dexp \<bar>rnd z\<bar>"

lemma overflows_minus [simp]: "overflows (- z) = overflows z"
  by (simp add: overflows_def rnd_minus)

lemma not_overflows:
  assumes "\<bar>z\<bar> \<le> pow10 e" and "etiny \<le> e" and "e \<le> emax"
  shows "\<not> overflows z"
proof (cases "rnd z = 0")
  case True
  then show ?thesis by (simp add: overflows_def dexp_def emax_def)
next
  case False
  then have "pow10 (dexp \<bar>rnd z\<bar>) \<le> \<bar>rnd z\<bar>" by (intro conjunct1 [OF dexp_bounds]) simp
  also have "\<dots> \<le> pow10 e" by (rule rnd_abs_le [OF assms(2,1)])
  also have "\<dots> < pow10 (e + 1)" by simp
  finally show ?thesis using assms(3) by (simp add: overflows_def)
qed

text \<open>Every literal amount of the examples is far below the bound.\<close>

lemma small_fits: "\<bar>z\<bar> \<le> 1000000 \<Longrightarrow> \<not> overflows z"
  by (rule not_overflows [of _ 6]) (simp_all add: pow10_def etiny_def emax_def)

lemma sum_abs_le: "\<bar>x\<bar> \<le> pow10 e \<Longrightarrow> \<bar>y\<bar> \<le> pow10 e \<Longrightarrow> \<bar>x + y\<bar> \<le> pow10 (e + 1)"
  using pow10_pos [of e] by (simp add: pow10_add pow10_def [of 1])

section \<open>Rounding as an interface\<close>

text \<open>
  What the portfolio arithmetic needs of the rounding; the client lemmas below hold for any
  operation with these laws.
\<close>

locale rounding =
  fixes r :: "rat \<Rightarrow> rat"
  assumes r_mono: "x \<le> y \<Longrightarrow> r x \<le> r y"
    and r_idem: "r (r x) = r x"
    and r_zero: "r 0 = 0"
    and r_one: "r 1 = 1"
begin

lemma r_nonneg: "0 \<le> x \<Longrightarrow> 0 \<le> r x"
  using r_mono [of 0 x] r_zero by simp

lemma r_le_one: "x \<le> 1 \<Longrightarrow> r x \<le> 1"
  using r_mono [of x 1] r_one by simp

lemma quotient_unit_interval: "0 \<le> a \<Longrightarrow> a \<le> b \<Longrightarrow> 0 < b \<Longrightarrow> 0 \<le> r (a / b) \<and> r (a / b) \<le> 1"
  by (auto intro!: r_nonneg r_le_one)

lemma r_add_ge: "r a = a \<Longrightarrow> 0 \<le> b \<Longrightarrow> a \<le> r (a + b)"
  using r_mono [of a "a + b"] by simp

text \<open>The rounded running sum of \<open>sum(xs, start)\<close>.\<close>

lemma fold_sum_ge_start:
  "\<forall>x \<in> set xs. 0 \<le> x \<Longrightarrow> r start = start \<Longrightarrow> start \<le> foldl (\<lambda>s x. r (s + x)) start xs"
proof (induction xs arbitrary: start)
  case Nil
  then show ?case by simp
next
  case (Cons x xs)
  then have "start \<le> r (start + x)" by (intro r_add_ge) simp_all
  with Cons.IH [of "r (start + x)"] Cons.prems show ?case by (simp add: r_idem)
qed

lemma fold_sum_ge_member:
  "\<forall>x \<in> set xs. 0 \<le> x \<Longrightarrow> y \<in> set xs \<Longrightarrow> r y = y \<Longrightarrow> 0 \<le> start \<Longrightarrow>
    y \<le> foldl (\<lambda>s x. r (s + x)) start xs"
proof (induction xs arbitrary: start)
  case Nil
  then show ?case by simp
next
  case (Cons x xs)
  have nn: "0 \<le> r (start + x)" using Cons.prems by (intro r_nonneg) simp
  show ?case
  proof (cases "y = x")
    case True
    then have "y \<le> r (start + x)" using Cons.prems r_mono [of y "start + x"] by simp
    also have "\<dots> \<le> foldl (\<lambda>s x. r (s + x)) (r (start + x)) xs"
      using Cons.prems by (intro fold_sum_ge_start) (simp_all add: r_idem)
    finally show ?thesis by simp
  next
    case False
    with Cons.IH [of "r (start + x)"] Cons.prems nn show ?thesis by simp
  qed
qed

text \<open>Summing a larger selection of non-negative terms, or one that only adds zeros.\<close>

lemma fold_sum_filter_mono:
  "\<forall>p \<in> set ps. P p \<longrightarrow> Q p \<Longrightarrow> \<forall>p \<in> set ps. Q p \<longrightarrow> 0 \<le> f p \<Longrightarrow> r s' = s' \<Longrightarrow> s \<le> s' \<Longrightarrow>
    foldl (\<lambda>s x. r (s + x)) s (map f (filter P ps)) \<le> foldl (\<lambda>s x. r (s + x)) s' (map f (filter Q ps))"
proof (induction ps arbitrary: s s')
  case Nil
  then show ?case by simp
next
  case (Cons p ps)
  consider "P p" | "\<not> P p" "Q p" | "\<not> Q p" by blast
  then show ?case
  proof cases
    case 1
    with Cons show ?thesis by (auto intro!: Cons.IH simp: r_idem r_mono)
  next
    case 2
    then have "s' \<le> r (s' + f p)" using Cons.prems by (intro r_add_ge) auto
    with 2 Cons show ?thesis by (auto intro!: Cons.IH simp: r_idem)
  next
    case 3
    with Cons show ?thesis by auto
  qed
qed

lemma fold_sum_filter_zero:
  "\<forall>p \<in> set ps. P p \<longrightarrow> Q p \<Longrightarrow> \<forall>p \<in> set ps. Q p \<and> \<not> P p \<longrightarrow> f p = 0 \<Longrightarrow> r s = s \<Longrightarrow>
    foldl (\<lambda>s x. r (s + x)) s (map f (filter Q ps)) = foldl (\<lambda>s x. r (s + x)) s (map f (filter P ps))"
  by (induction ps arbitrary: s) (auto simp: r_idem)

lemma fold_sum_fixed: "r start = start \<Longrightarrow> r (foldl (\<lambda>s x. r (s + x)) start xs) = foldl (\<lambda>s x. r (s + x)) start xs"
  by (induction xs arbitrary: start) (simp_all add: r_idem)

end

interpretation rnd: rounding rnd
  by unfold_locales (simp_all add: rnd_mono rnd_exact)

section \<open>Decimals\<close>

datatype decimal = Fin rat | PInf | NInf | NaN

text \<open>
  Ordering comparisons signal \<open>InvalidOperation\<close> on a NaN; \<open>==\<close> is false on it.
\<close>

definition d_nan_cmp :: py_error where
  "d_nan_cmp = InvalidOperation ''comparison involving NaN''"

fun d_lt :: "decimal \<Rightarrow> decimal \<Rightarrow> bool res" where
  "d_lt NaN y = Err d_nan_cmp"
| "d_lt x NaN = Err d_nan_cmp"
| "d_lt (Fin x) (Fin y) = Ok (x < y)"
| "d_lt NInf y = Ok (y \<noteq> NInf)"
| "d_lt (Fin x) y = Ok (y = PInf)"
| "d_lt PInf y = Ok False"

fun d_eq :: "decimal \<Rightarrow> decimal \<Rightarrow> bool" where
  "d_eq NaN y = False"
| "d_eq x NaN = False"
| "d_eq x y = (x = y)"

definition d_gt :: "decimal \<Rightarrow> decimal \<Rightarrow> bool res" where
  "d_gt x y = d_lt y x"

definition d_le :: "decimal \<Rightarrow> decimal \<Rightarrow> bool res" where
  "d_le x y = bindR (d_lt x y) (\<lambda>b. Ok (b \<or> d_eq x y))"

definition d_ge :: "decimal \<Rightarrow> decimal \<Rightarrow> bool res" where
  "d_ge x y = d_le y x"

fun d_neg :: "decimal \<Rightarrow> decimal" where
  "d_neg (Fin x) = Fin (- x)"
| "d_neg PInf = NInf"
| "d_neg NInf = PInf"
| "d_neg NaN = NaN"

text \<open>What an operation on finite operands returns: its rounded exact result, or the trapped overflow.\<close>

definition decimal_overflow :: py_error where
  "decimal_overflow = DecimalOverflow ''above Emax''"

definition d_result :: "rat \<Rightarrow> decimal res" where
  "d_result z = (if overflows z then Err decimal_overflow else Ok (Fin (rnd z)))"

fun d_add :: "decimal \<Rightarrow> decimal \<Rightarrow> decimal res" where
  "d_add NaN y = Ok NaN"
| "d_add x NaN = Ok NaN"
| "d_add (Fin x) (Fin y) = d_result (x + y)"
| "d_add PInf NInf = Err (InvalidOperation ''-INF + INF'')"
| "d_add NInf PInf = Err (InvalidOperation ''-INF + INF'')"
| "d_add PInf y = Ok PInf"
| "d_add NInf y = Ok NInf"
| "d_add x y = Ok y"

definition d_sub :: "decimal \<Rightarrow> decimal \<Rightarrow> decimal res" where
  "d_sub x y = d_add x (d_neg y)"

definition d_inf_of :: "bool \<Rightarrow> decimal" where
  "d_inf_of pos = (if pos then PInf else NInf)"

fun d_mul :: "decimal \<Rightarrow> decimal \<Rightarrow> decimal res" where
  "d_mul NaN y = Ok NaN"
| "d_mul x NaN = Ok NaN"
| "d_mul (Fin x) (Fin y) = d_result (x * y)"
| "d_mul (Fin x) y =
     (if x = 0 then Err (InvalidOperation ''0 * INF'') else Ok (d_inf_of ((0 < x) = (y = PInf))))"
| "d_mul x (Fin y) =
     (if y = 0 then Err (InvalidOperation ''0 * INF'') else Ok (d_inf_of ((0 < y) = (x = PInf))))"
| "d_mul x y = Ok (d_inf_of (x = y))"

fun d_div :: "decimal \<Rightarrow> decimal \<Rightarrow> decimal res" where
  "d_div NaN y = Ok NaN"
| "d_div x NaN = Ok NaN"
| "d_div (Fin x) (Fin y) =
     (if y = 0 then (if x = 0 then Err (InvalidOperation ''0 / 0'') else Err (DivisionByZero ''x / 0''))
      else d_result (x / y))"
| "d_div (Fin x) y = Ok (Fin 0)"
| "d_div x (Fin y) = Ok (d_inf_of ((0 \<le> y) = (x = PInf)))"
| "d_div x y = Err (InvalidOperation ''INF / INF'')"

definition d_zero :: decimal where
  "d_zero = Fin 0"

named_theorems dec_simps "decimal operations on finite values"

lemma d_fin_simps [dec_simps]:
  "d_lt (Fin x) (Fin y) = Ok (x < y)"
  "d_gt (Fin x) (Fin y) = Ok (y < x)"
  "d_le (Fin x) (Fin y) = Ok (x \<le> y)"
  "d_ge (Fin x) (Fin y) = Ok (y \<le> x)"
  "d_eq (Fin x) (Fin y) = (x = y)"
  "d_add (Fin x) (Fin y) = d_result (x + y)"
  "d_sub (Fin x) (Fin y) = d_result (x - y)"
  "d_mul (Fin x) (Fin y) = d_result (x * y)"
  "y \<noteq> 0 \<Longrightarrow> d_div (Fin x) (Fin y) = d_result (x / y)"
  by (auto simp: d_gt_def d_le_def d_ge_def d_sub_def)

lemma d_result_Ok [dec_simps]: "d_result z = Inr v \<longleftrightarrow> \<not> overflows z \<and> v = Fin (rnd z)"
  by (auto simp: d_result_def)

lemma d_result_small: "\<bar>z\<bar> \<le> 1000000 \<Longrightarrow> d_result z = Ok (Fin (rnd z))"
  by (simp add: d_result_def small_fits)

text \<open>\<open>sum(xs, start)\<close>.\<close>

fun d_sum :: "decimal \<Rightarrow> decimal list \<Rightarrow> decimal res" where
  "d_sum s [] = Ok s"
| "d_sum s (x # xs) = bindR (d_add s x) (\<lambda>t. d_sum t xs)"

text \<open>A sum of finite amounts is the running rounded sum, unless a partial sum overflows.\<close>

fun sum_fits :: "rat \<Rightarrow> rat list \<Rightarrow> bool" where
  "sum_fits s [] = True"
| "sum_fits s (x # xs) = (\<not> overflows (s + x) \<and> sum_fits (rnd (s + x)) xs)"

lemma d_sum_Fin: "d_sum (Fin s) (map Fin xs)
    = (if sum_fits s xs then Ok (Fin (foldl (\<lambda>s x. rnd (s + x)) s xs)) else Err decimal_overflow)"
  by (induction xs arbitrary: s) (simp_all add: d_result_def)

lemma sum_bounded:
  assumes "\<forall>x \<in> set xs. \<bar>x\<bar> \<le> pow10 e" and "\<bar>s\<bar> \<le> pow10 e" and "0 \<le> e" and "e + int (length xs) \<le> emax"
  shows "sum_fits s xs \<and> \<bar>foldl (\<lambda>s x. rnd (s + x)) s xs\<bar> \<le> pow10 (e + int (length xs))"
  using assms
proof (induction xs arbitrary: s e)
  case Nil
  then show ?case by simp
next
  case (Cons x xs)
  have tiny: "etiny \<le> e + 1" using Cons.prems(3) by (simp add: etiny_def)
  have up: "pow10 e \<le> pow10 (e + 1)" by (rule pow10_mono) simp
  have sum: "\<bar>s + x\<bar> \<le> pow10 (e + 1)" using Cons.prems by (intro sum_abs_le) simp_all
  then have "\<not> overflows (s + x)" using tiny Cons.prems(4) by (intro not_overflows [of _ "e + 1"]) simp_all
  moreover have "\<bar>rnd (s + x)\<bar> \<le> pow10 (e + 1)" by (rule rnd_abs_le [OF tiny sum])
  then have "sum_fits (rnd (s + x)) xs
      \<and> \<bar>foldl (\<lambda>s x. rnd (s + x)) (rnd (s + x)) xs\<bar> \<le> pow10 (e + 1 + int (length xs))"
    using Cons.prems up by (intro Cons.IH) (auto intro: order_trans)
  ultimately show ?case by (simp add: algebra_simps)
qed

text \<open>Ordering comparisons fail exactly when an operand is a NaN.\<close>

lemma d_lt_ok_iff: "is_ok (d_lt x y) \<longleftrightarrow> x \<noteq> NaN \<and> y \<noteq> NaN"
  by (cases x; cases y) simp_all

lemma d_le_ok_iff: "is_ok (d_le x y) \<longleftrightarrow> x \<noteq> NaN \<and> y \<noteq> NaN"
  by (cases x; cases y) (simp_all add: d_le_def)

lemma d_le_gt: "x \<noteq> NaN \<Longrightarrow> y \<noteq> NaN \<Longrightarrow> d_le x y = Ok b \<longleftrightarrow> d_gt x y = Ok (\<not> b)"
  by (cases x; cases y) (auto simp: d_le_def d_gt_def)


end
