(* ===== verification/PyValue.thy ===== *)
theory PyValue
  imports PyDecimal
begin

text \<open>
  Python objects as they come out of \<open>json.loads\<close> and out of the untyped boundaries of the
  code, with the conversions the modelled functions apply to them, and timestamps.  A float is
  given by the decimal its \<open>repr\<close> prints (the shortest one that reads back as the float), so
  \<open>Decimal(str(x))\<close> is a projection and float comparison is comparison of these decimals.
\<close>

section \<open>Objects\<close>

datatype pyobj =
    PNone
  | PBool bool
  | PInt int
  | PFloat decimal
  | PStr string
  | PList "pyobj list"
  | PDict "(string \<times> pyobj) list"

fun is_str :: "pyobj \<Rightarrow> bool" where
  "is_str (PStr s) = True"
| "is_str v = False"

fun str_of :: "pyobj \<Rightarrow> string" where
  "str_of (PStr s) = s"
| "str_of v = []"

text \<open>\<open>bool(v)\<close>.\<close>

fun truthy :: "pyobj \<Rightarrow> bool" where
  "truthy PNone = False"
| "truthy (PBool b) = b"
| "truthy (PInt n) = (n \<noteq> 0)"
| "truthy (PFloat d) = (d \<noteq> Fin 0)"
| "truthy (PStr s) = (s \<noteq> [])"
| "truthy (PList xs) = (xs \<noteq> [])"
| "truthy (PDict d) = (d \<noteq> [])"

text \<open>\<open>d.get(k, default)\<close>.\<close>

definition obj_get :: "(string, pyobj) dict \<Rightarrow> string \<Rightarrow> pyobj" where
  "obj_get d k = dget_default d k PNone"

text \<open>\<open>v in (s1, ..., sn)\<close> for a tuple of strings.\<close>

definition in_vocab :: "pyobj \<Rightarrow> string list \<Rightarrow> bool" where
  "in_vocab v xs = (case v of PStr s \<Rightarrow> s \<in> set xs | _ \<Rightarrow> False)"

lemma in_vocab_iff: "in_vocab v xs \<longleftrightarrow> (\<exists>s \<in> set xs. v = PStr s)"
  by (cases v) (auto simp: in_vocab_def)

section \<open>Decimal text\<close>

text \<open>
  The numeric strings \<open>Decimal(text)\<close> accepts: surrounding white space and underscores are
  dropped, an optional sign, then \<open>Inf\<close>, \<open>Infinity\<close>, \<open>NaN\<close> or \<open>sNaN\<close> with an optional
  digit payload (any case), or digits with an optional point and an optional exponent.
\<close>

definition digits_val :: "string \<Rightarrow> int" where
  "digits_val ds = foldl (\<lambda>a c. 10 * a + (of_char c - 48)) 0 ds"

definition split_sign :: "string \<Rightarrow> bool \<times> string" where
  "split_sign s = (case s of [] \<Rightarrow> (False, [])
     | c # cs \<Rightarrow> if c = CHR ''-'' then (True, cs) else if c = CHR ''+'' then (False, cs) else (False, s))"

definition span_digits :: "string \<Rightarrow> string \<times> string" where
  "span_digits s = (takeWhile is_digit_char s, dropWhile is_digit_char s)"

definition parse_exponent :: "string \<Rightarrow> int option" where
  "parse_exponent s = (case s of [] \<Rightarrow> Some 0
     | c # cs \<Rightarrow>
       if c = CHR ''e'' then
         (let (neg, ds) = split_sign cs
          in if ds \<noteq> [] \<and> list_all is_digit_char ds
             then Some (if neg then - digits_val ds else digits_val ds) else None)
       else None)"

definition parse_number :: "string \<Rightarrow> rat option" where
  "parse_number s =
     (let (ip, rest) = span_digits s;
          (fp, rest') = (case rest of [] \<Rightarrow> ([], [])
                         | c # cs \<Rightarrow> if c = CHR ''.'' then span_digits cs else ([], rest))
      in if ip = [] \<and> fp = [] then None
         else map_option (\<lambda>e. of_int (digits_val (ip @ fp)) * pow10 (e - int (length fp)))
                (parse_exponent rest'))"

definition dec_of_str :: "string \<Rightarrow> decimal option" where
  "dec_of_str text =
     (let (neg, body) = split_sign (filter (\<lambda>c. c \<noteq> CHR ''_'') (lower (strip text)))
      in if body \<in> set [''inf'', ''infinity''] then Some (if neg then NInf else PInf)
         else if (take 3 body = ''nan'' \<and> list_all is_digit_char (drop 3 body))
               \<or> (take 4 body = ''snan'' \<and> list_all is_digit_char (drop 4 body)) then Some NaN
         else map_option (\<lambda>q. Fin (if neg then - q else q)) (parse_number body))"

text \<open>
  \<open>Decimal(str(value))\<close>: \<open>None\<close> is the \<open>InvalidOperation\<close> the constructor raises.  The
  text of a bool, \<open>None\<close>, a list or a dict is never numeric.
\<close>

fun dec_of_obj :: "pyobj \<Rightarrow> decimal option" where
  "dec_of_obj (PInt n) = Some (Fin (of_int n))"
| "dec_of_obj (PFloat d) = Some d"
| "dec_of_obj (PStr s) = dec_of_str s"
| "dec_of_obj v = None"

section \<open>Timestamps\<close>

text \<open>
  An aware \<open>datetime\<close> is its instant (microseconds from a fixed origin, in UTC); a naive one
  only has wall-clock fields, kept as the instant they would name in UTC.
\<close>

type_synonym instant = int

datatype pydatetime = Naive instant | Aware instant

text \<open>
  \<open>datetime.fromisoformat\<close> (\<open>None\<close> where it raises \<open>ValueError\<close>) is the argument
  \<open>fromiso\<close> of the functions that call it; nothing is assumed about which texts it accepts.
\<close>

type_synonym iso_parser = "string \<Rightarrow> pydatetime option"

fun to_utc :: "pydatetime \<Rightarrow> instant" where
  "to_utc (Naive t) = t"
| "to_utc (Aware t) = t"

end
