(* ===== verification/Portfolio.thy ===== *)
theory Portfolio
  imports PyValue
begin

text \<open>
  The portfolio domain (\<open>app/domain/portfolio\<close> and the quote model of
  \<open>app/domain/market/quotes.py\<close>): valuation of a position and assembly of a snapshot.
  A \<open>str(Decimal)\<close> passed between two functions and read back with \<open>Decimal(...)\<close> is
  kept as the decimal it prints.
\<close>

section \<open>Data\<close>

record quote =
  q_ticker :: string
  q_last :: "decimal option"
  q_bid :: "decimal option"
  q_ask :: "decimal option"
  q_retrieved_at :: instant
  q_source :: string
  q_security_id :: "string option"

record security_resolution =
  sr_security_id :: "string option"
  sr_entity_id :: "string option"
  sr_ticker :: string
  sr_resolved :: bool
  sr_method :: string

record position =
  p_position_id :: string
  p_account_id :: string
  p_security_id :: "string option"
  p_entity_id :: "string option"
  p_ticker :: string
  p_quantity :: decimal
  p_average_cost :: "decimal option"
  p_market_price :: "decimal option"
  p_market_value :: "decimal option"
  p_unrealized_gain :: "decimal option"
  p_unrealized_gain_pct :: "decimal option"
  p_portfolio_weight :: "decimal option"
  p_source :: string
  p_retrieved_at :: instant
  p_price_type :: "string option"
  p_quote_retrieved_at :: "instant option"
  p_asset_type :: string

record brokerage_input =
  b_position_id :: string
  b_account_id :: string
  b_ticker :: string
  b_quantity :: decimal
  b_average_cost :: "decimal option"
  b_retrieved_at :: instant
  b_source :: string
  b_asset_type :: string

record snapshot =
  s_snapshot_id :: string
  s_created_at :: instant
  s_broker :: string
  s_account_ids :: "string list"
  s_cash :: "decimal option"
  s_invested_value :: "decimal option"
  s_total_value :: "decimal option"
  s_positions :: "position list"

section \<open>Valuation\<close>

definition q_mid :: "quote \<Rightarrow> decimal option res" where
  "q_mid q = (case (q_bid q, q_ask q) of
      (Some b, Some a) \<Rightarrow> bindR (d_add b a) (\<lambda>s. bindR (d_div s (Fin 2)) (\<lambda>m. Ok (Some m)))
    | _ \<Rightarrow> Ok None)"

definition ratio :: "decimal option \<Rightarrow> decimal option \<Rightarrow> decimal option res" where
  "ratio num den = (case (num, den) of
      (Some n, Some d) \<Rightarrow>
        if d_eq d d_zero then Ok None else bindR (d_div n d) (\<lambda>r. Ok (Some r))
    | _ \<Rightarrow> Ok None)"

definition valuation_price :: "quote option \<Rightarrow> (decimal option \<times> string option) res" where
  "valuation_price qo = (case qo of
      None \<Rightarrow> Ok (None, None)
    | Some q \<Rightarrow>
        (case q_last q of
           Some l \<Rightarrow> Ok (Some l, Some ''last'')
         | None \<Rightarrow> bindR (q_mid q) (\<lambda>m. case m of
               Some v \<Rightarrow> Ok (Some v, Some ''mid'')
             | None \<Rightarrow> Ok (None, None))))"

definition position_market_value :: "decimal option \<Rightarrow> decimal option \<Rightarrow> decimal option res" where
  "position_market_value quantity price =
     (if (case quantity of Some q \<Rightarrow> d_eq q d_zero | None \<Rightarrow> False) then Ok (Some d_zero)
      else (case (quantity, price) of
          (Some q, Some p) \<Rightarrow> bindR (d_mul q p) (\<lambda>v. Ok (Some v))
        | _ \<Rightarrow> Ok None))"

definition unrealized_gain ::
    "decimal option \<Rightarrow> decimal option \<Rightarrow> decimal option \<Rightarrow> decimal option res" where
  "unrealized_gain market_value average_cost quantity =
     (case (market_value, average_cost, quantity) of
        (Some v, Some c, Some q) \<Rightarrow>
          bindR (d_mul c q) (\<lambda>cost. bindR (d_sub v cost) (\<lambda>g. Ok (Some g)))
      | _ \<Rightarrow> Ok None)"

definition unrealized_gain_pct :: "decimal option \<Rightarrow> decimal option \<Rightarrow> decimal option res" where
  "unrealized_gain_pct gain cost_basis = ratio gain cost_basis"

definition priced_values :: "'a option list \<Rightarrow> 'a list" where
  "priced_values vs = map the (filter (\<lambda>v. v \<noteq> None) vs)"

definition portfolio_market_value :: "decimal option list \<Rightarrow> (decimal option \<times> nat \<times> nat) res" where
  "portfolio_market_value vs =
     (let priced = priced_values vs
      in bindR (if priced = [] then Ok None else bindR (d_sum d_zero priced) (\<lambda>t. Ok (Some t)))
           (\<lambda>total. Ok (total, length priced, length vs)))"

definition position_weight :: "decimal option \<Rightarrow> decimal option \<Rightarrow> decimal option res" where
  "position_weight market_value portfolio_total = ratio market_value portfolio_total"

definition build_position ::
    "brokerage_input \<Rightarrow> security_resolution \<Rightarrow> quote option \<Rightarrow> position res" where
  "build_position raw resolution quote =
     bindR (valuation_price quote) (\<lambda>(market_price, price_type).
     bindR (position_market_value (Some (b_quantity raw)) market_price) (\<lambda>market_value.
     bindR (unrealized_gain market_value (b_average_cost raw) (Some (b_quantity raw))) (\<lambda>gain.
     bindR (case b_average_cost raw of
              Some c \<Rightarrow> bindR (d_mul c (b_quantity raw)) (\<lambda>v. Ok (Some v))
            | None \<Rightarrow> Ok None) (\<lambda>cost_basis.
     bindR (unrealized_gain_pct gain cost_basis) (\<lambda>pct.
     Ok \<lparr>p_position_id = b_position_id raw,
         p_account_id = b_account_id raw,
         p_security_id = sr_security_id resolution,
         p_entity_id = sr_entity_id resolution,
         p_ticker = b_ticker raw,
         p_quantity = b_quantity raw,
         p_average_cost = b_average_cost raw,
         p_market_price = market_price,
         p_market_value = market_value,
         p_unrealized_gain = gain,
         p_unrealized_gain_pct = pct,
         p_portfolio_weight = None,
         p_source = b_source raw,
         p_retrieved_at = b_retrieved_at raw,
         p_price_type = price_type,
         p_quote_retrieved_at = map_option q_retrieved_at quote,
         p_asset_type = b_asset_type raw\<rparr>)))))"

section \<open>Snapshot assembly\<close>

text \<open>The cash balances are a \<open>dict\<close> from account id to an optional balance.\<close>

definition cash_total ::
    "string list \<Rightarrow> (string, decimal option) dict \<Rightarrow> decimal option res" where
  "cash_total account_ids cash_balances =
     (if cash_balances \<noteq> []
         \<and> length cash_balances = length account_ids
         \<and> set (map fst cash_balances) = set account_ids
         \<and> list_all (\<lambda>c. c \<noteq> None) (map snd cash_balances)
      then bindR (d_sum (Fin 0) (priced_values (map snd cash_balances))) (\<lambda>t. Ok (Some t))
      else Ok None)"

definition valuation_complete :: "position list \<Rightarrow> bool" where
  "valuation_complete ps \<longleftrightarrow>
     list_all (\<lambda>p. p_market_value p \<noteq> None \<or> d_eq (p_quantity p) (Fin 0)) ps"

definition total_value ::
    "position list \<Rightarrow> decimal option \<Rightarrow> decimal option \<Rightarrow> decimal option res" where
  "total_value positions invested cash =
     bindR (case (invested, cash) of
              (Some i, Some c) \<Rightarrow> bindR (d_add i c) (\<lambda>t. Ok (Some t))
            | _ \<Rightarrow> Ok None)
       (\<lambda>total. if valuation_complete positions then Ok total else Ok None)"

definition weighted_position :: "string \<Rightarrow> decimal option \<Rightarrow> position \<Rightarrow> position res" where
  "weighted_position snapshot_id tot p =
     bindR (position_weight (p_market_value p) tot) (\<lambda>w.
       Ok (p\<lparr>p_position_id := snapshot_id @ '':'' @ p_account_id p @ '':'' @ p_ticker p,
             p_portfolio_weight := w\<rparr>))"

definition weighted_positions :: "string \<Rightarrow> position list \<Rightarrow> decimal option \<Rightarrow> position list res" where
  "weighted_positions snapshot_id positions tot = mapR (weighted_position snapshot_id tot) positions"

text \<open>\<open>isoformat\<close> renders the creation time; it only enters the snapshot id.\<close>

definition invested_total :: "position list \<Rightarrow> decimal option \<Rightarrow> decimal option res" where
  "invested_total positions cash =
     (if positions = [] \<and> cash \<noteq> None then Ok (Some (Fin 0))
      else bindR (portfolio_market_value (map p_market_value positions)) (\<lambda>r. Ok (fst r)))"

definition snapshot_id :: "string \<Rightarrow> string \<Rightarrow> string" where
  "snapshot_id broker created = ''portfolio:'' @ broker @ '':'' @ created"

definition build_portfolio_snapshot ::
    "(instant \<Rightarrow> string) \<Rightarrow> string \<Rightarrow> string list \<Rightarrow> position list \<Rightarrow>
      (string, decimal option) dict \<Rightarrow> instant \<Rightarrow> snapshot res" where
  "build_portfolio_snapshot isoformat broker account_ids positions cash_balances created_at =
     bindR (cash_total account_ids cash_balances) (\<lambda>cash.
     bindR (invested_total positions cash) (\<lambda>invested.
     bindR (total_value positions invested cash) (\<lambda>tot.
     let sid = snapshot_id broker (isoformat created_at)
     in bindR (weighted_positions sid positions tot) (\<lambda>ps.
          Ok \<lparr>s_snapshot_id = sid,
              s_created_at = created_at,
              s_broker = broker,
              s_account_ids = account_ids,
              s_cash = cash,
              s_invested_value = invested,
              s_total_value = tot,
              s_positions = ps\<rparr>))))"

section \<open>Supporting facts\<close>

text \<open>Amounts a long-only account holds: absent, or a finite non-negative context value.\<close>

definition money :: "decimal option \<Rightarrow> bool" where
  "money v \<longleftrightarrow> (\<forall>d. v = Some d \<longrightarrow> (\<exists>x. d = Fin x \<and> 0 \<le> x \<and> rnd x = x))"

definition fin_val :: "decimal \<Rightarrow> rat" where
  "fin_val d = (case d of Fin x \<Rightarrow> x | _ \<Rightarrow> 0)"

lemma fin_val_Fin [simp]: "fin_val (Fin x) = x"
  by (simp add: fin_val_def)

lemma set_priced_values: "set (priced_values vs) = {v. Some v \<in> set vs}"
  by (force simp: priced_values_def)

lemma priced_values_Nil_iff: "priced_values vs = [] \<longleftrightarrow> (\<forall>v \<in> set vs. v = None)"
  by (auto simp: priced_values_def filter_empty_conv)

lemma money_list_Fin:
  assumes "\<forall>v \<in> set vs. money v"
  shows "priced_values vs = map Fin (map fin_val (priced_values vs))"
    and "\<forall>x \<in> set (map fin_val (priced_values vs)). 0 \<le> x \<and> rnd x = x"
proof -
  have each: "\<exists>x. d = Fin x \<and> 0 \<le> x \<and> rnd x = x" if "d \<in> set (priced_values vs)" for d
    using that assms by (auto simp: set_priced_values money_def)
  then have "map (\<lambda>d. Fin (fin_val d)) (priced_values vs) = priced_values vs"
    by (intro map_idI) force
  then show "priced_values vs = map Fin (map fin_val (priced_values vs))" by (simp add: o_def)
  from each show "\<forall>x \<in> set (map fin_val (priced_values vs)). 0 \<le> x \<and> rnd x = x" by force
qed

definition rsum :: "rat list \<Rightarrow> rat" where
  "rsum xs = foldl (\<lambda>s x. rnd (s + x)) 0 xs"

lemma rsum_nonneg: "\<forall>x \<in> set xs. 0 \<le> x \<Longrightarrow> 0 \<le> rsum xs"
  unfolding rsum_def by (rule rnd.fold_sum_ge_start) simp_all

lemma rsum_member: "\<forall>x \<in> set xs. 0 \<le> x \<Longrightarrow> y \<in> set xs \<Longrightarrow> rnd y = y \<Longrightarrow> y \<le> rsum xs"
  unfolding rsum_def by (rule rnd.fold_sum_ge_member) simp_all

lemma rsum_fixed: "rnd (rsum xs) = rsum xs"
  unfolding rsum_def by (rule rnd.fold_sum_fixed) simp

lemma d_sum_money:
  assumes "\<forall>v \<in> set vs. money v"
  shows "d_sum (Fin 0) (priced_values vs)
    = (if sum_fits 0 (map fin_val (priced_values vs)) then Ok (Fin (rsum (map fin_val (priced_values vs))))
       else Err decimal_overflow)"
  by (subst money_list_Fin(1) [OF assms]) (simp only: d_sum_Fin rsum_def)

lemma market_value_money:
  assumes "\<forall>v \<in> set vs. money v" and "portfolio_market_value vs = Ok (tot, n, m)"
  shows "money tot \<and> (\<forall>x. Some (Fin x) \<in> set vs \<longrightarrow> (\<exists>t. tot = Some (Fin t) \<and> x \<le> t))"
proof -
  let ?xs = "map fin_val (priced_values vs)"
  note fin = money_list_Fin(2) [OF assms(1)]
  have tot: "tot = (if priced_values vs = [] then None else Some (Fin (rsum ?xs)))"
    using assms(2) by (auto simp: portfolio_market_value_def Let_def d_zero_def
        d_sum_money [OF assms(1)] split: if_splits)
  have "x \<le> rsum ?xs" if "Some (Fin x) \<in> set vs" for x
  proof -
    have "Fin x \<in> set (priced_values vs)" using that by (simp add: set_priced_values)
    then have "x \<in> set ?xs" by (metis fin_val_Fin image_eqI list.set_map)
    with fin show ?thesis by (intro rsum_member) auto
  qed
  moreover have "priced_values vs \<noteq> []" if "Some (Fin x) \<in> set vs" for x
    using that by (auto simp: priced_values_Nil_iff)
  moreover have "0 \<le> rsum ?xs" using fin by (intro rsum_nonneg) simp
  ultimately show ?thesis using tot rsum_fixed [of ?xs] by (auto simp: money_def)
qed

lemma ratio_None_iff:
  assumes "ratio num den = Ok r"
  shows "r = None \<longleftrightarrow> num = None \<or> (\<forall>d. den = Some d \<longrightarrow> d_eq d d_zero)"
  using assms by (cases num; cases den) (auto simp: ratio_def bindR_Ok_iff split: if_splits)

lemma snapshot_inv:
  assumes "build_portfolio_snapshot isof broker ids ps cb t = Ok s"
  shows "cash_total ids cb = Ok (s_cash s)"
    and "invested_total ps (s_cash s) = Ok (s_invested_value s)"
    and "total_value ps (s_invested_value s) (s_cash s) = Ok (s_total_value s)"
    and "s_snapshot_id s = snapshot_id broker (isof t)"
    and "weighted_positions (s_snapshot_id s) ps (s_total_value s) = Ok (s_positions s)"
    and "s_account_ids s = ids"
  using assms by (auto simp: build_portfolio_snapshot_def bindR_Ok_iff Let_def)

lemma weighted_position_frame:
  assumes "weighted_position sid tot p = Ok q"
  shows "q = p\<lparr>p_position_id := sid @ '':'' @ p_account_id p @ '':'' @ p_ticker p,
             p_portfolio_weight := p_portfolio_weight q\<rparr>"
    and "ratio (p_market_value p) tot = Ok (p_portfolio_weight q)"
  using assms by (auto simp: weighted_position_def position_weight_def bindR_Ok_iff)

lemma total_value_Some:
  assumes "total_value ps invested cash = Ok tot"
  shows "tot \<noteq> None \<longleftrightarrow> invested \<noteq> None \<and> cash \<noteq> None \<and> valuation_complete ps"
  using assms by (auto simp: total_value_def bindR_Ok_iff split: option.splits if_splits)

lemma cash_total_money:
  assumes "\<forall>v \<in> set (map snd cb). money v" and "cash_total ids cb = Ok cash"
  shows "money cash"
proof (cases cash)
  case None
  then show ?thesis by (simp add: money_def)
next
  case (Some c)
  let ?xs = "map fin_val (priced_values (map snd cb))"
  from Some assms(2) d_sum_money [OF assms(1)] have c: "c = Fin (rsum ?xs)"
    by (auto simp: cash_total_def split: if_splits)
  have "0 \<le> rsum ?xs" using money_list_Fin(2) [OF assms(1)] by (intro rsum_nonneg) simp
  with c Some rsum_fixed show ?thesis by (simp add: money_def)
qed

section \<open>Properties\<close>

text \<open>
  C35.  In a snapshot of long-only positions and non-negative balances, every position weight that
  is computed lies between 0 and 1: the total it is divided by is at least the market value of
  every position, in spite of the rounding of each addition and of the division.
\<close>

theorem portfolio_weights_unit:
  assumes build: "build_portfolio_snapshot isof broker ids ps cb t = Ok s"
    and vals: "\<forall>p \<in> set ps. money (p_market_value p)"
    and balances: "\<forall>v \<in> set (map snd cb). money v"
    and q: "q \<in> set (s_positions s)" and w: "p_portfolio_weight q = Some w"
  shows "\<exists>x. w = Fin x \<and> 0 \<le> x \<and> x \<le> 1"
proof -
  note inv = snapshot_inv [OF build]
  from mapR_Ok_set [OF inv(5) [unfolded weighted_positions_def] q]
  obtain p where p: "p \<in> set ps" and wp: "weighted_position (s_snapshot_id s) (s_total_value s) p = Ok q"
    by blast
  from weighted_position_frame(2) [OF wp] w
  obtain d v where d: "s_total_value s = Some d" "\<not> d_eq d d_zero" and v: "p_market_value p = Some v"
    and div: "d_div v d = Ok w"
    by (cases "p_market_value p"; cases "s_total_value s")
      (auto simp: ratio_def bindR_Ok_iff split: if_splits)
  from vals p v obtain x where x: "v = Fin x" "0 \<le> x" by (auto simp: money_def)
  from inv(2) p obtain n m where mv: "portfolio_market_value (map p_market_value ps) = Ok (s_invested_value s, n, m)"
    by (cases ps) (auto simp: invested_total_def bindR_Ok_iff)
  have "\<forall>u \<in> set (map p_market_value ps). money u" using vals by auto
  from market_value_money [OF this mv] p v x obtain i where i: "s_invested_value s = Some (Fin i)" "x \<le> i"
    "0 \<le> i" "rnd i = i"
    by (force simp: money_def)
  from d(1) total_value_Some [OF inv(3)] obtain c' where c': "s_cash s = Some c'" by auto
  with cash_total_money [OF balances inv(1)] obtain c where c: "c' = Fin c" "0 \<le> c"
    by (auto simp: money_def)
  have dt: "d = Fin (rnd (i + c))"
    using inv(3) d(1) i(1) c' c(1) by (auto simp: total_value_def bindR_Ok_iff dec_simps split: if_splits)
  have "x \<le> rnd (i + c)" using i(2) rnd.r_add_ge [OF i(4) c(2)] by linarith
  moreover have "rnd (i + c) \<noteq> 0" using d(2) dt by (simp add: d_zero_def)
  ultimately show ?thesis
    using div x dt rnd.quotient_unit_interval [of x "rnd (i + c)"] by (auto simp: dec_simps)
qed

definition sample_position :: "string \<Rightarrow> decimal \<Rightarrow> decimal option \<Rightarrow> position" where
  "sample_position tick quantity value =
     \<lparr>p_position_id = ''raw'', p_account_id = ''acct'', p_security_id = None, p_entity_id = None,
      p_ticker = tick, p_quantity = quantity, p_average_cost = None, p_market_price = None,
      p_market_value = value, p_unrealized_gain = None, p_unrealized_gain_pct = None,
      p_portfolio_weight = None, p_source = ''broker'', p_retrieved_at = 0, p_price_type = None,
      p_quote_retrieved_at = None, p_asset_type = ''equity''\<rparr>"

lemma rnd_small_int: "rnd 30 = 30" "rnd 40 = 40" "rnd 10 = 10" "rnd (3 / 4) = 3 / 4"
  using rnd_decimal [of 30 0] rnd_decimal [of 40 0] rnd_decimal [of 10 0] rnd_decimal [of 75 2]
  by simp_all

declare d_result_small [simp]

text \<open>Witness: one position worth 30 and 10 in cash has weight 3/4.\<close>

theorem portfolio_weights_unit_witness:
  "\<exists>s q. build_portfolio_snapshot (\<lambda>_. ''now'') ''b'' [''acct'']
            [sample_position ''AAA'' (Fin 3) (Some (Fin 30))] [(''acct'', Some (Fin 10))] 0 = Ok s
       \<and> q \<in> set (s_positions s) \<and> p_portfolio_weight q = Some (Fin (3 / 4))
       \<and> (\<exists>x. Fin (3 / 4) = Fin x \<and> 0 \<le> x \<and> x \<le> 1)"
proof -
  let ?p = "sample_position ''AAA'' (Fin 3) (Some (Fin 30))"
  define r where "r = build_portfolio_snapshot (\<lambda>_. ''now'') ''b'' [''acct''] [?p] [(''acct'', Some (Fin 10))] 0"
  have "\<exists>s q. r = Ok s \<and> s_positions s = [q] \<and> p_portfolio_weight q = Some (Fin (3 / 4))"
    by (simp add: r_def build_portfolio_snapshot_def invested_total_def cash_total_def priced_values_def d_zero_def
        portfolio_market_value_def total_value_def valuation_complete_def weighted_positions_def
        weighted_position_def position_weight_def ratio_def sample_position_def rnd_small_int Let_def)
  then obtain s q where s: "r = Ok s" and q: "s_positions s = [q]"
    and w: "p_portfolio_weight q = Some (Fin (3 / 4))" by blast
  have "q \<in> set (s_positions s)" using q by simp
  moreover have "\<exists>x. Fin (3 / 4) = Fin x \<and> 0 \<le> x \<and> x \<le> 1"
    by (rule portfolio_weights_unit [OF s [unfolded r_def] _ _ calculation w])
      (auto simp: money_def sample_position_def rnd_small_int)
  ultimately show ?thesis using s w unfolding r_def by blast
qed

text \<open>
  A snapshot has a total value exactly when its valuation is complete: the cash of every
  account is known, every position with a non-zero quantity is valued, and there is something to
  sum.  A partial sum is never reported as the total.
\<close>

theorem snapshot_total_complete:
  assumes "build_portfolio_snapshot isof broker ids ps cb t = Ok s"
  shows "s_total_value s \<noteq> None \<longleftrightarrow>
    s_cash s \<noteq> None
    \<and> (\<forall>p \<in> set ps. p_market_value p = None \<longrightarrow> d_eq (p_quantity p) (Fin 0))
    \<and> (ps = [] \<or> (\<exists>p \<in> set ps. p_market_value p \<noteq> None))"
proof -
  note inv = snapshot_inv [OF assms]
  have "s_invested_value s \<noteq> None \<longleftrightarrow> (ps = [] \<or> (\<exists>p \<in> set ps. p_market_value p \<noteq> None))" if "s_cash s \<noteq> None"
    using inv(2) that
    by (cases "ps = []"; cases "s_invested_value s")
      (auto simp: invested_total_def portfolio_market_value_def Let_def bindR_Ok_iff priced_values_Nil_iff split: if_splits)
  with total_value_Some [OF inv(3)] show ?thesis
    by (auto simp: valuation_complete_def list_all_iff)
qed

theorem snapshot_total_complete_witness:
  "\<exists>s. build_portfolio_snapshot (\<lambda>_. ''now'') ''b'' [''acct'']
          [sample_position ''AAA'' (Fin 3) None] [(''acct'', Some (Fin 10))] 0 = Ok s
       \<and> s_cash s \<noteq> None \<and> s_total_value s = None"
proof -
  let ?p = "sample_position ''AAA'' (Fin 3) None"
  define r where "r = build_portfolio_snapshot (\<lambda>_. ''now'') ''b'' [''acct''] [?p] [(''acct'', Some (Fin 10))] 0"
  have "\<exists>s. r = Ok s \<and> s_cash s \<noteq> None"
    by (simp add: r_def build_portfolio_snapshot_def invested_total_def cash_total_def priced_values_def
        portfolio_market_value_def total_value_def valuation_complete_def weighted_positions_def
        weighted_position_def position_weight_def ratio_def sample_position_def Let_def)
  then obtain s where s: "r = Ok s" "s_cash s \<noteq> None" by blast
  from snapshot_total_complete [OF s(1) [unfolded r_def]] have "s_total_value s = None"
    by (auto simp: sample_position_def)
  with s show ?thesis unfolding r_def by blast
qed

text \<open>
  Assembly keeps the positions in order and changes nothing in them but the derived id and the
  weight, and a weight is missing exactly when the value is missing or the total is missing or zero.
\<close>

theorem snapshot_positions_frame:
  assumes build: "build_portfolio_snapshot isof broker ids ps cb t = Ok s"
  shows "length (s_positions s) = length ps
    \<and> (\<forall>i < length ps.
        s_positions s ! i = (ps ! i)\<lparr>p_position_id := s_snapshot_id s @ '':'' @ p_account_id (ps ! i)
            @ '':'' @ p_ticker (ps ! i), p_portfolio_weight := p_portfolio_weight (s_positions s ! i)\<rparr>
        \<and> (p_portfolio_weight (s_positions s ! i) = None \<longleftrightarrow>
             p_market_value (ps ! i) = None
             \<or> (\<forall>d. s_total_value s = Some d \<longrightarrow> d_eq d d_zero)))"
proof -
  have wp: "mapR (weighted_position (s_snapshot_id s) (s_total_value s)) ps = Ok (s_positions s)"
    using snapshot_inv(5) [OF build] by (simp only: weighted_positions_def)
  show ?thesis
    using mapR_Ok_length [OF wp] weighted_position_frame [OF mapR_Ok_nth [OF wp]] ratio_None_iff
    by blast
qed

theorem snapshot_positions_frame_witness:
  "\<exists>s. build_portfolio_snapshot (\<lambda>_. ''now'') ''b'' [''acct'']
          [sample_position ''AAA'' (Fin 3) None] [] 0 = Ok s
       \<and> length (s_positions s) = 1 \<and> p_portfolio_weight (s_positions s ! 0) = None"
proof -
  let ?p = "sample_position ''AAA'' (Fin 3) None"
  define r where "r = build_portfolio_snapshot (\<lambda>_. ''now'') ''b'' [''acct''] [?p] [] 0"
  have "\<exists>s. r = Ok s"
    by (simp add: r_def build_portfolio_snapshot_def invested_total_def cash_total_def priced_values_def
        portfolio_market_value_def total_value_def valuation_complete_def weighted_positions_def
        weighted_position_def position_weight_def ratio_def sample_position_def Let_def)
  then obtain s where s: "r = Ok s" by blast
  from snapshot_positions_frame [OF s [unfolded r_def]]
  have "length (s_positions s) = 1 \<and> p_portfolio_weight (s_positions s ! 0) = None"
    by (simp add: sample_position_def)
  with s show ?thesis unfolding r_def by blast
qed

end
