(* ===== verification/Mandate.thy ===== *)
theory Mandate
  imports Portfolio
begin

text \<open>
  The mandate model and its parser (\<open>app/domain/risk/mandate.py\<close>): the validation of a parsed
  JSON payload into risk limits and prohibited assets.
\<close>

section \<open>Data\<close>

definition supported_metrics :: "string list" where
  "supported_metrics = [''single_position_weight'', ''minimum_cash'', ''sector_exposure'']"

definition supported_operators :: "string list" where
  "supported_operators = [''<='', ''>='']"

definition supported_severities :: "string list" where
  "supported_severities = [''warning'', ''critical'']"

definition supported_units :: "string list" where
  "supported_units = [''ratio'', ''dollars'']"

record risk_limit =
  rl_metric :: string
  rl_operator :: string
  rl_threshold :: decimal
  rl_target :: "string option"
  rl_severity :: string
  rl_unit :: string

record mandate =
  m_limits :: "risk_limit list"
  m_prohibited_assets :: "string list"

section \<open>Parsing\<close>

definition decimal_threshold :: "pyobj \<Rightarrow> decimal res" where
  "decimal_threshold value =
     (case dec_of_obj value of
        None \<Rightarrow> Err (ValueError ''threshold must be a positive number'')
      | Some t \<Rightarrow> bindR (d_le t (Fin 0)) (\<lambda>bad.
          if bad then Err (ValueError ''threshold must be a positive number'') else Ok t))"

definition limit_root :: "pyobj \<Rightarrow> pyobj list res" where
  "limit_root data =
     (case data of
        PDict d \<Rightarrow>
          (case obj_get d ''limits'' of
             PNone \<Rightarrow> Err (ValueError ''limits is required and must be a list'')
           | PList xs \<Rightarrow> Ok xs
           | _ \<Rightarrow> Err (ValueError ''limits must be a list''))
      | _ \<Rightarrow> Err (ValueError ''root must be a JSON object''))"

definition limit_vocab ::
    "(string, pyobj) dict \<Rightarrow> (string \<times> string \<times> string \<times> string) res" where
  "limit_vocab entry =
     (let metric = obj_get entry ''metric'';
          operator = obj_get entry ''operator'';
          unit = dget_default entry ''unit'' (PStr ''ratio'');
          severity = dget_default entry ''severity'' (PStr ''warning'')
      in bindR (checkR (in_vocab metric supported_metrics) (ValueError ''unknown metric'')) (\<lambda>_.
         bindR (checkR (in_vocab operator supported_operators) (ValueError ''unknown operator'')) (\<lambda>_.
         bindR (checkR (in_vocab unit supported_units) (ValueError ''unknown unit'')) (\<lambda>_.
         bindR (checkR (in_vocab severity supported_severities) (ValueError ''unknown severity'')) (\<lambda>_.
         Ok (str_of metric, str_of operator, str_of unit, str_of severity))))))"

definition limit_threshold ::
    "(string, pyobj) dict \<Rightarrow> string \<Rightarrow> string \<Rightarrow> decimal res" where
  "limit_threshold entry metric unit =
     (case dget entry ''threshold'' of
        None \<Rightarrow> Err (ValueError ''missing threshold'')
      | Some v \<Rightarrow>
          bindR (decimal_threshold v) (\<lambda>t.
          if metric \<in> set [''single_position_weight'', ''sector_exposure''] \<and> unit \<noteq> ''ratio''
          then Err (ValueError ''metric requires unit ratio'')
          else if unit = ''ratio''
          then bindR (d_gt t (Fin 1)) (\<lambda>big.
                 if big then Err (ValueError ''threshold must be at most 1 for ratio units'') else Ok t)
          else Ok t))"

definition limit_target :: "(string, pyobj) dict \<Rightarrow> string \<Rightarrow> string option res" where
  "limit_target entry metric =
     (let target = (case obj_get entry ''target'' of PStr s \<Rightarrow> PStr (strip s) | v \<Rightarrow> v)
      in if metric = ''sector_exposure'' \<and> \<not> (is_str target \<and> strip (str_of target) \<noteq> [])
         then Err (ValueError ''sector_exposure requires a non-empty target sector'')
         else case target of
             PNone \<Rightarrow> Ok None
           | PStr s \<Rightarrow> Ok (Some s)
           | _ \<Rightarrow> Err (AssertionError []))"

definition parse_limit :: "pyobj \<Rightarrow> risk_limit res" where
  "parse_limit entry =
     (case entry of
        PDict d \<Rightarrow>
          bindR (limit_vocab d) (\<lambda>(metric, operator, unit, severity).
          bindR (limit_threshold d metric unit) (\<lambda>threshold.
          bindR (limit_target d metric) (\<lambda>target.
          Ok \<lparr>rl_metric = metric, rl_operator = operator, rl_threshold = threshold,
              rl_target = target, rl_severity = severity, rl_unit = unit\<rparr>)))
      | _ \<Rightarrow> Err (ValueError ''must be an object''))"

definition prohibited_assets :: "(string, pyobj) dict \<Rightarrow> string list res" where
  "prohibited_assets data =
     (case dget_default data ''prohibited_assets'' (PList []) of
        PList items \<Rightarrow>
          if list_all (\<lambda>v. is_str v \<and> strip (str_of v) \<noteq> []) items
          then Ok (map (strip \<circ> str_of) items)
          else Err (ValueError ''prohibited_assets must be a list of non-empty strings'')
      | _ \<Rightarrow> Err (ValueError ''prohibited_assets must be a list of non-empty strings''))"

definition parse_mandate :: "pyobj \<Rightarrow> mandate res" where
  "parse_mandate data =
     bindR (limit_root data) (\<lambda>raw_limits.
     bindR (mapR parse_limit raw_limits) (\<lambda>limits.
     bindR (prohibited_assets (case data of PDict d \<Rightarrow> d | _ \<Rightarrow> [])) (\<lambda>prohibited.
     Ok \<lparr>m_limits = limits, m_prohibited_assets = prohibited\<rparr>)))"

section \<open>Well-formed mandates\<close>

definition wf_threshold :: "string \<Rightarrow> decimal \<Rightarrow> bool" where
  "wf_threshold unit t = (case t of
       Fin x \<Rightarrow> 0 < x \<and> (unit = ''ratio'' \<longrightarrow> x \<le> 1)
     | PInf \<Rightarrow> unit \<noteq> ''ratio''
     | _ \<Rightarrow> False)"

definition wf_limit :: "risk_limit \<Rightarrow> bool" where
  "wf_limit l \<longleftrightarrow>
     rl_metric l \<in> set supported_metrics \<and> rl_operator l \<in> set supported_operators
     \<and> rl_severity l \<in> set supported_severities \<and> rl_unit l \<in> set supported_units
     \<and> wf_threshold (rl_unit l) (rl_threshold l)
     \<and> (rl_metric l \<noteq> ''minimum_cash'' \<longrightarrow> rl_unit l = ''ratio'')
     \<and> (case rl_target l of None \<Rightarrow> rl_metric l \<noteq> ''sector_exposure''
        | Some s \<Rightarrow> strip s = s \<and> (rl_metric l = ''sector_exposure'' \<longrightarrow> s \<noteq> []))"

definition wf_mandate :: "mandate \<Rightarrow> bool" where
  "wf_mandate m \<longleftrightarrow> list_all wf_limit (m_limits m)
     \<and> list_all (\<lambda>s. s \<noteq> [] \<and> strip s = s) (m_prohibited_assets m)"

lemma decimal_threshold_Ok:
  "decimal_threshold v = Ok t \<longleftrightarrow>
     dec_of_obj v = Some t \<and> (t = PInf \<or> (\<exists>x. t = Fin x \<and> 0 < x))"
proof (cases "dec_of_obj v")
  case None
  then show ?thesis by (simp add: decimal_threshold_def)
next
  case (Some d)
  then show ?thesis
    by (cases d) (auto simp: decimal_threshold_def d_le_def)
qed

lemma limit_vocab_Ok:
  assumes "limit_vocab d = Ok (metric, operator, unit, severity)"
  shows "metric \<in> set supported_metrics" and "operator \<in> set supported_operators"
    and "unit \<in> set supported_units" and "severity \<in> set supported_severities"
  using assms by (auto simp: limit_vocab_def Let_def bindR_Ok_iff in_vocab_iff)

lemma limit_threshold_Ok:
  assumes "limit_threshold d metric unit = Ok t" and "metric \<in> set supported_metrics"
  shows "wf_threshold unit t" and "metric \<noteq> ''minimum_cash'' \<longrightarrow> unit = ''ratio''"
proof -
  from assms(1) obtain v where t: "decimal_threshold v = Ok t"
    and side: "metric \<in> set [''single_position_weight'', ''sector_exposure''] \<longrightarrow> unit = ''ratio''"
    and big: "unit = ''ratio'' \<longrightarrow> d_gt t (Fin 1) = Ok False"
    by (auto simp: limit_threshold_def bindR_Ok_iff split: option.splits if_splits)
  from t big show "wf_threshold unit t"
    by (auto simp: decimal_threshold_Ok wf_threshold_def d_gt_def)
  from side assms(2) show "metric \<noteq> ''minimum_cash'' \<longrightarrow> unit = ''ratio''"
    by (auto simp: supported_metrics_def)
qed

lemma limit_target_Ok:
  assumes "limit_target d metric = Ok t"
  shows "case t of None \<Rightarrow> metric \<noteq> ''sector_exposure''
    | Some s \<Rightarrow> strip s = s \<and> (metric = ''sector_exposure'' \<longrightarrow> s \<noteq> [])"
  using assms by (cases "obj_get d ''target''") (auto simp: limit_target_def split: if_splits)

lemma parse_limit_wf:
  assumes "parse_limit e = Ok l"
  shows "wf_limit l"
proof -
  from assms obtain d where e: "e = PDict d" by (cases e) (auto simp: parse_limit_def)
  from assms have vocab: "limit_vocab d = Ok (rl_metric l, rl_operator l, rl_unit l, rl_severity l)"
    and threshold: "limit_threshold d (rl_metric l) (rl_unit l) = Ok (rl_threshold l)"
    and tgt: "limit_target d (rl_metric l) = Ok (rl_target l)"
    by (auto simp: parse_limit_def e bindR_Ok_iff)
  show ?thesis
    using limit_vocab_Ok [OF vocab] limit_threshold_Ok [OF threshold] limit_target_Ok [OF tgt]
    by (simp add: wf_limit_def)
qed

text \<open>
  The exceptions of the parser: everything it rejects is a \<open>ValueError\<close>, but for two inputs
  that reach an unguarded operation: a NaN threshold (compared with 0) and a target that is
  neither text nor null on a metric other than \<open>sector_exposure\<close>.
\<close>

definition nan_threshold :: "pyobj \<Rightarrow> bool" where
  "nan_threshold e = (case e of
       PDict d \<Rightarrow> (case dget d ''threshold'' of Some v \<Rightarrow> dec_of_obj v = Some NaN | None \<Rightarrow> False)
     | _ \<Rightarrow> False)"

definition odd_target :: "pyobj \<Rightarrow> bool" where
  "odd_target e = (case e of
       PDict d \<Rightarrow> (case obj_get d ''target'' of PNone \<Rightarrow> False | PStr s \<Rightarrow> False | _ \<Rightarrow> True)
     | _ \<Rightarrow> False)"

definition is_value_error :: "py_error \<Rightarrow> bool" where
  "is_value_error e = (case e of ValueError _ \<Rightarrow> True | _ \<Rightarrow> False)"

lemma is_value_error_ValueError [simp]: "is_value_error (ValueError s)"
  by (simp add: is_value_error_def)

lemma decimal_threshold_Err:
  "decimal_threshold v = Err e \<Longrightarrow> is_value_error e \<or> e = d_nan_cmp \<and> dec_of_obj v = Some NaN"
  by (cases "dec_of_obj v"; cases "the (dec_of_obj v)")
    (auto simp: decimal_threshold_def d_le_def dec_simps split: if_splits)

lemma limit_vocab_Err: "limit_vocab d = Err e \<Longrightarrow> is_value_error e"
  by (auto simp: limit_vocab_def Let_def bindR_Err_iff)

lemma limit_threshold_Err:
  assumes "limit_threshold d metric unit = Err e"
  shows "is_value_error e \<or> e = d_nan_cmp \<and> nan_threshold (PDict d)"
proof (cases "dget d ''threshold''")
  case None
  with assms show ?thesis by (auto simp: limit_threshold_def)
next
  case (Some v)
  show ?thesis
  proof (cases "decimal_threshold v")
    case (Inl e')
    with assms Some have "e' = e" by (simp add: limit_threshold_def)
    with decimal_threshold_Err [of v e] Inl Some show ?thesis by (auto simp: nan_threshold_def)
  next
    case (Inr t)
    then have "t \<noteq> NaN" by (auto simp: decimal_threshold_Ok)
    then obtain b where "d_gt t (Fin 1) = Ok b" by (cases t) (auto simp: d_gt_def)
    with assms Some Inr show ?thesis by (auto simp: limit_threshold_def split: if_splits)
  qed
qed

lemma limit_target_Err:
  "limit_target d metric = Err e \<Longrightarrow> is_value_error e \<or> e = AssertionError [] \<and> odd_target (PDict d)"
  by (cases "obj_get d ''target''") (auto simp: limit_target_def odd_target_def split: if_splits)

lemma parse_limit_Err:
  assumes "parse_limit x = Err e"
  shows "is_value_error e \<or> e = d_nan_cmp \<and> nan_threshold x \<or> e = AssertionError [] \<and> odd_target x"
proof (cases x)
  case (PDict d)
  from assms PDict show ?thesis
    by (auto simp: parse_limit_def bindR_Err_iff dest: limit_vocab_Err limit_threshold_Err limit_target_Err)
qed (use assms in \<open>auto simp: parse_limit_def\<close>)

lemma mapR_Err: "mapR f xs = Err e \<Longrightarrow> \<exists>x \<in> set xs. f x = Err e"
  by (induction xs) (auto simp: bindR_Err_iff)

section \<open>Rendering\<close>

text \<open>The JSON entry that states a limit, and the payload that states a mandate.\<close>

definition limit_entry :: "risk_limit \<Rightarrow> pyobj" where
  "limit_entry l = PDict ([(''metric'', PStr (rl_metric l)), (''operator'', PStr (rl_operator l)),
      (''threshold'', PFloat (rl_threshold l))]
    @ (case rl_target l of None \<Rightarrow> [] | Some s \<Rightarrow> [(''target'', PStr s)])
    @ [(''severity'', PStr (rl_severity l)), (''unit'', PStr (rl_unit l))])"

definition mandate_payload :: "mandate \<Rightarrow> pyobj" where
  "mandate_payload m = PDict [(''limits'', PList (map limit_entry (m_limits m))),
     (''prohibited_assets'', PList (map PStr (m_prohibited_assets m)))]"

lemma limit_entry_fields:
  "limit_entry l = PDict d \<Longrightarrow> obj_get d ''metric'' = PStr (rl_metric l)
     \<and> obj_get d ''operator'' = PStr (rl_operator l)
     \<and> dget d ''threshold'' = Some (PFloat (rl_threshold l))
     \<and> obj_get d ''target'' = (case rl_target l of None \<Rightarrow> PNone | Some s \<Rightarrow> PStr s)
     \<and> dget_default d ''severity'' v = PStr (rl_severity l)
     \<and> dget_default d ''unit'' v = PStr (rl_unit l)"
  by (auto simp: limit_entry_def obj_get_def dget_default_def split: option.splits)

lemma limit_vocab_entry:
  assumes "wf_limit l" and "limit_entry l = PDict d"
  shows "limit_vocab d = Ok (rl_metric l, rl_operator l, rl_unit l, rl_severity l)"
  using assms limit_entry_fields [OF assms(2)]
  by (simp add: limit_vocab_def in_vocab_def wf_limit_def Let_def)

lemma limit_threshold_entry:
  assumes "wf_limit l" and "limit_entry l = PDict d"
  shows "limit_threshold d (rl_metric l) (rl_unit l) = Ok (rl_threshold l)"
proof -
  from assms(1) have unit: "rl_metric l \<noteq> ''minimum_cash'' \<longrightarrow> rl_unit l = ''ratio''"
    and wf: "wf_threshold (rl_unit l) (rl_threshold l)" by (simp_all add: wf_limit_def)
  from wf have t: "decimal_threshold (PFloat (rl_threshold l)) = Ok (rl_threshold l)"
    by (cases "rl_threshold l") (auto simp: decimal_threshold_Ok wf_threshold_def)
  from wf have "rl_unit l = ''ratio'' \<longrightarrow> d_gt (rl_threshold l) (Fin 1) = Ok False"
    by (cases "rl_threshold l") (auto simp: wf_threshold_def d_gt_def)
  with unit t limit_entry_fields [OF assms(2)] show ?thesis
    by (auto simp: limit_threshold_def)
qed

lemma limit_target_entry:
  assumes "wf_limit l" and "limit_entry l = PDict d"
  shows "limit_target d (rl_metric l) = Ok (rl_target l)"
  using assms(1) limit_entry_fields [OF assms(2)]
  by (cases "rl_target l") (auto simp: limit_target_def wf_limit_def)

lemma parse_limit_entry:
  assumes "wf_limit l"
  shows "parse_limit (limit_entry l) = Ok l"
proof -
  obtain d where d: "limit_entry l = PDict d" by (simp add: limit_entry_def)
  from limit_vocab_entry [OF assms d] limit_threshold_entry [OF assms d] limit_target_entry [OF assms d]
  show ?thesis by (simp add: parse_limit_def d)
qed

section \<open>Properties\<close>

lemma mandate_payload_root: "limit_root (mandate_payload m) = Ok (map limit_entry (m_limits m))"
  by (simp add: limit_root_def mandate_payload_def obj_get_def dget_default_def)

lemma prohibited_assets_payload:
  "list_all (\<lambda>s. s \<noteq> [] \<and> strip s = s) xs \<Longrightarrow>
    prohibited_assets [(''limits'', v), (''prohibited_assets'', PList (map PStr xs))] = Ok xs"
  by (induction xs) (simp_all add: prohibited_assets_def dget_default_def list_all_iff split: if_splits)

lemma prohibited_assets_wf:
  "prohibited_assets d = Ok xs \<Longrightarrow> list_all (\<lambda>s. s \<noteq> [] \<and> strip s = s) xs"
  by (cases "dget_default d ''prohibited_assets'' (PList [])")
    (fastforce simp: prohibited_assets_def list_all_iff split: if_splits)+

lemma prohibited_assets_Err: "prohibited_assets d = Err e \<Longrightarrow> is_value_error e"
  by (cases "dget_default d ''prohibited_assets'' (PList [])")
    (auto simp: prohibited_assets_def split: if_splits)

definition limit_entries :: "pyobj \<Rightarrow> pyobj list" where
  "limit_entries data = (case limit_root data of Inr xs \<Rightarrow> xs | Inl _ \<Rightarrow> [])"

definition demo_limit :: risk_limit where
  "demo_limit = \<lparr>rl_metric = ''minimum_cash'', rl_operator = ''>='', rl_threshold = PInf,
     rl_target = None, rl_severity = ''critical'', rl_unit = ''dollars''\<rparr>"

definition demo_mandate :: mandate where
  "demo_mandate = \<lparr>m_limits = [demo_limit], m_prohibited_assets = [''GME'']\<rparr>"

lemma demo_mandate_wf: "wf_mandate demo_mandate"
  by (simp add: demo_mandate_def demo_limit_def wf_mandate_def wf_limit_def supported_metrics_def
      supported_operators_def supported_severities_def supported_units_def wf_threshold_def strip_def is_space_def)

text \<open>
  C36.  The parser establishes the mandate invariant: every limit it accepts has a supported metric,
  operator, severity and unit, a positive threshold (at most 1 as a ratio), a ratio unit unless it
  limits cash, a stripped target that is present for a sector limit; prohibited assets are
  stripped and not empty.
\<close>

theorem parse_mandate_wf:
  assumes "parse_mandate data = Ok m"
  shows "wf_mandate m"
proof -
  from assms obtain xs where limits: "mapR parse_limit xs = Ok (m_limits m)"
    and prohibited: "prohibited_assets (case data of PDict d \<Rightarrow> d | _ \<Rightarrow> []) = Ok (m_prohibited_assets m)"
    by (auto simp: parse_mandate_def bindR_Ok_iff)
  from mapR_Ok_set [OF limits] have "list_all wf_limit (m_limits m)"
    by (auto simp: list_all_iff intro: parse_limit_wf)
  with prohibited_assets_wf [OF prohibited] show ?thesis by (simp add: wf_mandate_def)
qed

theorem parse_mandate_wf_witness:
  "\<exists>m. parse_mandate (PDict [(''limits'', PList []), (''prohibited_assets'', PList [PStr ''  GME ''])]) = Ok m
     \<and> m_prohibited_assets m = [''GME''] \<and> wf_mandate m"
proof -
  let ?m = "\<lparr>m_limits = [], m_prohibited_assets = [''GME'']\<rparr>"
  have "parse_mandate (PDict [(''limits'', PList []), (''prohibited_assets'', PList [PStr ''  GME ''])]) = Ok ?m"
    by (simp add: parse_mandate_def limit_root_def prohibited_assets_def obj_get_def dget_default_def
        strip_def is_space_def)
  from parse_mandate_wf [OF this] this show ?thesis by auto
qed

text \<open>
  C37.  Whatever the parser rejects is a \<open>ValueError\<close>, with two exceptions: an entry whose
  threshold reads as a NaN raises \<open>InvalidOperation\<close>, and one whose target is neither text nor
  null can raise \<open>AssertionError\<close>.
\<close>

theorem parse_mandate_errors:
  assumes "parse_mandate data = Err e"
  shows "is_value_error e
    \<or> e = d_nan_cmp \<and> (\<exists>x \<in> set (limit_entries data). nan_threshold x)
    \<or> e = AssertionError [] \<and> (\<exists>x \<in> set (limit_entries data). odd_target x)"
proof (cases "limit_root data")
  case (Inl e')
  have "is_value_error e'" using Inl by (auto simp: limit_root_def split: pyobj.splits)
  with Inl assms show ?thesis by (simp add: parse_mandate_def)
next
  case (Inr xs)
  show ?thesis
  proof (cases "mapR parse_limit xs")
    case (Inl e')
    with Inr assms have "e' = e" by (simp add: parse_mandate_def)
    from mapR_Err [OF Inl] obtain x where "x \<in> set xs" "parse_limit x = Err e'" by blast
    with parse_limit_Err [of x e'] Inr \<open>e' = e\<close> show ?thesis by (auto simp: limit_entries_def)
  next
    case (Inr ls)
    with assms \<open>limit_root data = Inr xs\<close> show ?thesis
      by (auto simp: parse_mandate_def bindR_Err_iff dest: prohibited_assets_Err)
  qed
qed

definition nan_mandate :: pyobj where
  "nan_mandate = PDict [(''limits'', PList [PDict [(''metric'', PStr ''minimum_cash''),
     (''operator'', PStr ''>=''), (''threshold'', PFloat NaN)]])]"

theorem parse_mandate_errors_witness:
  "parse_mandate nan_mandate = Err d_nan_cmp
     \<and> (\<exists>x \<in> set (limit_entries nan_mandate). nan_threshold x)"
proof -
  have "parse_mandate nan_mandate = Err d_nan_cmp"
    by (simp add: nan_mandate_def parse_mandate_def limit_root_def obj_get_def dget_default_def
        parse_limit_def limit_vocab_def in_vocab_def supported_metrics_def supported_operators_def
        supported_severities_def supported_units_def limit_threshold_def decimal_threshold_def d_le_def Let_def)
  with parse_mandate_errors [OF this] show ?thesis
    by (auto simp: d_nan_cmp_def is_value_error_def)
qed

text \<open>
  Round trip: the JSON payload that states a well-formed mandate parses back to it.
\<close>

theorem parse_mandate_roundtrip:
  assumes "wf_mandate m"
  shows "parse_mandate (mandate_payload m) = Ok m"
proof -
  from assms have "mapR parse_limit (map limit_entry (m_limits m)) = Ok (m_limits m)"
    by (intro mapR_roundtrip) (auto simp: wf_mandate_def list_all_iff parse_limit_entry)
  moreover have "prohibited_assets (case mandate_payload m of PDict d \<Rightarrow> d | _ \<Rightarrow> []) = Ok (m_prohibited_assets m)"
    using assms by (simp add: mandate_payload_def wf_mandate_def prohibited_assets_payload)
  ultimately show ?thesis by (simp add: parse_mandate_def mandate_payload_root)
qed

theorem parse_mandate_roundtrip_witness:
  "parse_mandate (mandate_payload demo_mandate) = Ok demo_mandate"
  by (rule parse_mandate_roundtrip [OF demo_mandate_wf])

end
