(* ===== verification/Risk.thy ===== *)
theory Risk
  imports Mandate
begin

text \<open>
  Mandate evaluation (\<open>app/domain/risk/evaluation.py\<close>, \<open>breaches.py\<close>).  The code
  appends to two lists, breaches and issues; each arm is a function from the pair of lists to the
  extended pair, or the exception a decimal operation raises.  A declarative reference of the
  verdict follows, with the proof that the loop computes it.
\<close>

section \<open>Data\<close>

text \<open>The fields typed \<open>Decimal | str | None\<close>.\<close>

datatype amount = ADec decimal | AStr string | ANone

record risk_breach =
  rb_metric :: string
  rb_target :: "string option"
  rb_severity :: string
  rb_actual :: amount
  rb_limit :: amount
  rb_excess :: "decimal option"
  rb_note :: "string option"
  rb_unit :: "string option"

record evaluation_issue =
  ei_code :: string
  ei_metric :: string
  ei_target :: "string option"
  ei_position_id :: "string option"
  ei_ticker :: "string option"

record risk_evaluation =
  re_breaches :: "risk_breach list"
  re_sector_exposures :: "(string, decimal) dict"
  re_issues :: "evaluation_issue list"
  re_snapshot_id :: string
  re_created_at :: instant

type_synonym findings = "risk_breach list \<times> evaluation_issue list"

section \<open>The evaluator\<close>

definition unknown_sector :: string where
  "unknown_sector = ''unknown_sector''"

definition op_holds :: "string \<Rightarrow> decimal \<Rightarrow> decimal \<Rightarrow> bool res" where
  "op_holds operator actual threshold =
     (if operator = ''<='' then d_le actual threshold
      else if operator = ''>='' then d_ge actual threshold
      else Err (KeyError operator))"

definition excess :: "string \<Rightarrow> decimal \<Rightarrow> decimal \<Rightarrow> decimal res" where
  "excess operator actual threshold =
     (if operator = ''<='' then d_sub actual threshold else d_sub threshold actual)"

definition sector_amounts :: "risk_limit \<Rightarrow> (string, decimal) dict \<Rightarrow> decimal \<times> decimal" where
  "sector_amounts limit exposures =
     (let known = dget_default exposures (case rl_target limit of Some t \<Rightarrow> t | None \<Rightarrow> []) (Fin 0)
      in if rl_target limit = Some unknown_sector then (known, Fin 0)
         else (known, dget_default exposures unknown_sector (Fin 0)))"

definition sector_breach :: "risk_limit \<Rightarrow> decimal \<Rightarrow> risk_breach res" where
  "sector_breach limit known =
     bindR (excess (rl_operator limit) known (rl_threshold limit)) (\<lambda>e.
     Ok \<lparr>rb_metric = ''sector_exposure'', rb_target = rl_target limit,
         rb_severity = rl_severity limit, rb_actual = ADec known,
         rb_limit = ADec (rl_threshold limit), rb_excess = Some e, rb_note = None,
         rb_unit = Some (rl_unit limit)\<rparr>)"

definition sector_issue :: "risk_limit \<Rightarrow> evaluation_issue" where
  "sector_issue limit = \<lparr>ei_code = ''unknown_sector_exposure'', ei_metric = ''sector_exposure'',
     ei_target = rl_target limit, ei_position_id = None, ei_ticker = None\<rparr>"

definition evaluate_sector_cap ::
    "risk_limit \<Rightarrow> decimal \<Rightarrow> decimal \<Rightarrow> findings \<Rightarrow> findings res" where
  "evaluate_sector_cap limit known unknown = (\<lambda>(breaches, issues).
     bindR (d_gt known (rl_threshold limit)) (\<lambda>over.
     if over then bindR (sector_breach limit known) (\<lambda>b. Ok (breaches @ [b], issues))
     else bindR (d_gt unknown (Fin 0)) (\<lambda>some.
          if some then Ok (breaches, issues @ [sector_issue limit]) else Ok (breaches, issues))))"

definition evaluate_sector_floor ::
    "risk_limit \<Rightarrow> decimal \<Rightarrow> decimal \<Rightarrow> findings \<Rightarrow> findings res" where
  "evaluate_sector_floor limit known unknown = (\<lambda>(breaches, issues).
     bindR (d_ge known (rl_threshold limit)) (\<lambda>met.
     if met then Ok (breaches, issues)
     else bindR (d_gt unknown (Fin 0)) (\<lambda>some.
          if some then Ok (breaches, issues @ [sector_issue limit])
          else bindR (sector_breach limit known) (\<lambda>b. Ok (breaches @ [b], issues)))))"

definition evaluate_sector_limit ::
    "risk_limit \<Rightarrow> (string, decimal) dict \<Rightarrow> findings \<Rightarrow> findings res" where
  "evaluate_sector_limit limit exposures fs =
     (let (known, unknown) = sector_amounts limit exposures
      in if rl_operator limit = ''<='' then evaluate_sector_cap limit known unknown fs
         else evaluate_sector_floor limit known unknown fs)"

definition weight_issue :: "string \<Rightarrow> position \<Rightarrow> evaluation_issue" where
  "weight_issue metric p = \<lparr>ei_code = ''position_weight_unavailable'', ei_metric = metric,
     ei_target = None, ei_position_id = Some (p_position_id p), ei_ticker = Some (p_ticker p)\<rparr>"

definition weight_breach :: "risk_limit \<Rightarrow> position \<Rightarrow> decimal \<Rightarrow> risk_breach res" where
  "weight_breach limit p w =
     bindR (excess (rl_operator limit) w (rl_threshold limit)) (\<lambda>e.
     Ok \<lparr>rb_metric = ''single_position_weight'', rb_target = None,
         rb_severity = rl_severity limit, rb_actual = ADec w,
         rb_limit = ADec (rl_threshold limit), rb_excess = Some e,
         rb_note = Some (p_ticker p @ '' ('' @ p_position_id p @ '')''),
         rb_unit = Some (rl_unit limit)\<rparr>)"

fun evaluate_weight_limit :: "risk_limit \<Rightarrow> position list \<Rightarrow> findings \<Rightarrow> findings res" where
  "evaluate_weight_limit limit [] fs = Ok fs"
| "evaluate_weight_limit limit (p # ps) (breaches, issues) =
     (case p_portfolio_weight p of
        None \<Rightarrow> evaluate_weight_limit limit ps
                  (breaches, issues @ [weight_issue ''single_position_weight'' p])
      | Some w \<Rightarrow> bindR (op_holds (rl_operator limit) w (rl_threshold limit)) (\<lambda>holds.
          if holds then evaluate_weight_limit limit ps (breaches, issues)
          else bindR (weight_breach limit p w) (\<lambda>b.
               evaluate_weight_limit limit ps (breaches @ [b], issues))))"

definition cash_issue :: "string \<Rightarrow> evaluation_issue" where
  "cash_issue code = \<lparr>ei_code = code, ei_metric = ''minimum_cash'', ei_target = None,
     ei_position_id = None, ei_ticker = None\<rparr>"

definition cash_actual ::
    "risk_limit \<Rightarrow> snapshot \<Rightarrow> evaluation_issue list \<Rightarrow> (decimal option \<times> evaluation_issue list) res"
    where
  "cash_actual limit s issues =
     (if rl_unit limit = ''dollars'' then Ok (s_cash s, issues)
      else case s_cash s of
          None \<Rightarrow> Ok (None, issues @ [cash_issue ''cash_unavailable''])
        | Some c \<Rightarrow> (case s_total_value s of
              None \<Rightarrow> Ok (None, issues @ [cash_issue ''total_value_unavailable''])
            | Some t \<Rightarrow>
                if d_eq t (Fin 0) then Ok (None, issues @ [cash_issue ''total_value_zero''])
                else bindR (d_div c t) (\<lambda>r. Ok (Some r, issues))))"

definition cash_breach :: "risk_limit \<Rightarrow> decimal \<Rightarrow> risk_breach res" where
  "cash_breach limit actual =
     bindR (excess (rl_operator limit) actual (rl_threshold limit)) (\<lambda>e.
     Ok \<lparr>rb_metric = ''minimum_cash'', rb_target = None, rb_severity = rl_severity limit,
         rb_actual = ADec actual, rb_limit = ADec (rl_threshold limit), rb_excess = Some e,
         rb_note = None, rb_unit = Some (rl_unit limit)\<rparr>)"

definition evaluate_cash_limit :: "risk_limit \<Rightarrow> snapshot \<Rightarrow> findings \<Rightarrow> findings res" where
  "evaluate_cash_limit limit s = (\<lambda>(breaches, issues).
     bindR (cash_actual limit s issues) (\<lambda>(actual, issues).
     case actual of
       None \<Rightarrow> Ok (breaches, if rl_unit limit = ''dollars''
                             then issues @ [cash_issue ''cash_unavailable''] else issues)
     | Some a \<Rightarrow> bindR (op_holds (rl_operator limit) a (rl_threshold limit)) (\<lambda>holds.
         if holds then Ok (breaches, issues)
         else bindR (cash_breach limit a) (\<lambda>b. Ok (breaches @ [b], issues)))))"

definition evaluate_limit ::
    "snapshot \<Rightarrow> (string, decimal) dict \<Rightarrow> risk_limit \<Rightarrow> findings \<Rightarrow> findings res" where
  "evaluate_limit s exposures limit fs =
     (if rl_metric limit = ''sector_exposure'' then evaluate_sector_limit limit exposures fs
      else if rl_metric limit = ''single_position_weight''
      then evaluate_weight_limit limit (s_positions s) fs
      else if rl_metric limit = ''minimum_cash'' then evaluate_cash_limit limit s fs
      else Ok fs)"

fun evaluate_limits ::
    "snapshot \<Rightarrow> (string, decimal) dict \<Rightarrow> risk_limit list \<Rightarrow> findings \<Rightarrow> findings res" where
  "evaluate_limits s exposures [] fs = Ok fs"
| "evaluate_limits s exposures (l # ls) fs =
     bindR (evaluate_limit s exposures l fs) (evaluate_limits s exposures ls)"

definition sector_of :: "(string, string) dict \<Rightarrow> position \<Rightarrow> string" where
  "sector_of sector_map p =
     (case p_entity_id p of
        None \<Rightarrow> unknown_sector
      | Some e \<Rightarrow> (case dget sector_map e of None \<Rightarrow> unknown_sector | Some sec \<Rightarrow> sec))"

fun sector_exposures ::
    "(string, string) dict \<Rightarrow> position list \<Rightarrow> (string, decimal) dict \<Rightarrow> evaluation_issue list \<Rightarrow>
      ((string, decimal) dict \<times> evaluation_issue list) res" where
  "sector_exposures sector_map [] exposures issues = Ok (exposures, issues)"
| "sector_exposures sector_map (p # ps) exposures issues =
     (case p_portfolio_weight p of
        None \<Rightarrow> sector_exposures sector_map ps exposures (issues @ [weight_issue ''sector_exposure'' p])
      | Some w \<Rightarrow>
          (let sector = sector_of sector_map p
           in bindR (d_add (dget_default exposures sector (Fin 0)) w) (\<lambda>v.
              sector_exposures sector_map ps (dset sector v exposures) issues)))"

definition prohibited_match :: "string \<Rightarrow> position \<Rightarrow> bool" where
  "prohibited_match entry p \<longleftrightarrow> upper (p_ticker p) = upper entry \<or> p_entity_id p = Some entry"

definition prohibited_breach :: "string \<Rightarrow> position \<Rightarrow> risk_breach" where
  "prohibited_breach entry p =
     \<lparr>rb_metric = ''prohibited_assets'', rb_target = Some entry, rb_severity = ''warning'',
      rb_actual = AStr (p_ticker p), rb_limit = AStr entry, rb_excess = None,
      rb_note = Some (''position '' @ p_ticker p @ '' ('' @ p_position_id p @ '')''),
      rb_unit = None\<rparr>"

definition prohibited_breaches :: "mandate \<Rightarrow> snapshot \<Rightarrow> risk_breach list" where
  "prohibited_breaches m s =
     concat (map (\<lambda>entry. map (prohibited_breach entry) (filter (prohibited_match entry) (s_positions s)))
       (m_prohibited_assets m))"

definition needs_sector_exposure :: "mandate \<Rightarrow> bool" where
  "needs_sector_exposure m \<longleftrightarrow> list_ex (\<lambda>l. rl_metric l = ''sector_exposure'') (m_limits m)"

text \<open>\<open>sector_map or {}\<close> is the empty dictionary for \<open>None\<close>.\<close>

definition evaluate_mandate ::
    "snapshot \<Rightarrow> mandate \<Rightarrow> (string, string) dict option \<Rightarrow> risk_evaluation res" where
  "evaluate_mandate s m sector_map_arg =
     (let sector_map = (case sector_map_arg of None \<Rightarrow> [] | Some d \<Rightarrow> d)
      in bindR (if needs_sector_exposure m then sector_exposures sector_map (s_positions s) [] []
                else Ok ([], [])) (\<lambda>(exposures, issues0).
         bindR (evaluate_limits s exposures (m_limits m) ([], issues0)) (\<lambda>(breaches, issues).
         Ok \<lparr>re_breaches = breaches @ prohibited_breaches m s,
             re_sector_exposures = exposures,
             re_issues = dedup issues,
             re_snapshot_id = s_snapshot_id s,
             re_created_at = s_created_at s\<rparr>)))"

section \<open>The reference verdict\<close>

text \<open>
  What the evaluation is meant to compute, without the accumulators and without the evaluator's own
  operations: comparisons and excesses on the numbers, the exposure of a sector as the rounded sum of
  its positions' weights, then the breaches and the issues of one limit.
\<close>

definition violates :: "risk_limit \<Rightarrow> decimal \<Rightarrow> bool" where
  "violates l actual = (case (actual, rl_threshold l) of
       (Fin x, Fin t) \<Rightarrow> if rl_operator l = ''<='' then t < x else x < t
     | (Fin x, PInf) \<Rightarrow> rl_operator l \<noteq> ''<=''
     | _ \<Rightarrow> False)"

definition excess_of :: "risk_limit \<Rightarrow> decimal \<Rightarrow> decimal" where
  "excess_of l actual = (case (actual, rl_threshold l) of
       (Fin x, Fin t) \<Rightarrow> Fin (rnd (if rl_operator l = ''<='' then x - t else t - x))
     | (Fin x, PInf) \<Rightarrow> if rl_operator l = ''<='' then NInf else PInf
     | _ \<Rightarrow> NaN)"

definition numeric_breach :: "risk_limit \<Rightarrow> string option \<Rightarrow> decimal \<Rightarrow> string option \<Rightarrow> risk_breach" where
  "numeric_breach l tgt actual note =
     \<lparr>rb_metric = rl_metric l, rb_target = tgt, rb_severity = rl_severity l, rb_actual = ADec actual,
      rb_limit = ADec (rl_threshold l), rb_excess = Some (excess_of l actual), rb_note = note,
      rb_unit = Some (rl_unit l)\<rparr>"

definition measured_weight :: "risk_limit \<Rightarrow> position \<Rightarrow> risk_breach list" where
  "measured_weight l p = (case p_portfolio_weight p of
       Some w \<Rightarrow> if violates l w
                 then [numeric_breach l None w (Some (p_ticker p @ '' ('' @ p_position_id p @ '')''))] else []
     | None \<Rightarrow> [])"

definition unmeasured :: "string \<Rightarrow> position list \<Rightarrow> evaluation_issue list" where
  "unmeasured metric ps = map (weight_issue metric) (filter (\<lambda>p. p_portfolio_weight p = None) ps)"

definition cash_measure :: "risk_limit \<Rightarrow> snapshot \<Rightarrow> decimal option" where
  "cash_measure l s =
     (if rl_unit l = ''dollars'' then s_cash s
      else case (s_cash s, s_total_value s) of
          (Some (Fin c), Some (Fin t)) \<Rightarrow> if t = 0 then None else Some (Fin (rnd (c / t)))
        | _ \<Rightarrow> None)"

definition cash_issue_code :: "risk_limit \<Rightarrow> snapshot \<Rightarrow> string" where
  "cash_issue_code l s =
     (if s_cash s = None then ''cash_unavailable''
      else if s_total_value s = None then ''total_value_unavailable'' else ''total_value_zero'')"

definition sector_open :: "risk_limit \<Rightarrow> decimal \<Rightarrow> decimal \<Rightarrow> bool" where
  "sector_open l known unknown \<longleftrightarrow>
     d_gt unknown (Fin 0) = Ok True \<and> (violates l known \<longleftrightarrow> rl_operator l \<noteq> ''<='')"

definition limit_breaches :: "snapshot \<Rightarrow> (string, decimal) dict \<Rightarrow> risk_limit \<Rightarrow> risk_breach list" where
  "limit_breaches s exposures l =
     (if rl_metric l = ''sector_exposure'' then
        (let (known, unknown) = sector_amounts l exposures
         in if violates l known \<and> \<not> sector_open l known unknown
            then [numeric_breach l (rl_target l) known None] else [])
      else if rl_metric l = ''single_position_weight'' then concat (map (measured_weight l) (s_positions s))
      else (case cash_measure l s of
              Some a \<Rightarrow> if violates l a then [numeric_breach l None a None] else []
            | None \<Rightarrow> []))"

definition limit_issues :: "snapshot \<Rightarrow> (string, decimal) dict \<Rightarrow> risk_limit \<Rightarrow> evaluation_issue list" where
  "limit_issues s exposures l =
     (if rl_metric l = ''sector_exposure'' then
        (let (known, unknown) = sector_amounts l exposures
         in if sector_open l known unknown then [sector_issue l] else [])
      else if rl_metric l = ''single_position_weight'' then unmeasured ''single_position_weight'' (s_positions s)
      else if cash_measure l s = None then [cash_issue (cash_issue_code l s)] else [])"

definition sector_weights :: "(string, string) dict \<Rightarrow> position list \<Rightarrow> string \<Rightarrow> rat list" where
  "sector_weights sm ps k = map (\<lambda>p. fin_val (the (p_portfolio_weight p)))
     (filter (\<lambda>p. p_portfolio_weight p \<noteq> None \<and> sector_of sm p = k) ps)"

definition weighted_sectors :: "(string, string) dict \<Rightarrow> position list \<Rightarrow> string list" where
  "weighted_sectors sm ps = map (sector_of sm) (filter (\<lambda>p. p_portfolio_weight p \<noteq> None) ps)"

definition reference_exposures ::
    "(string, string) dict \<Rightarrow> snapshot \<Rightarrow> mandate \<Rightarrow> (string, decimal) dict" where
  "reference_exposures sm s m =
     (if needs_sector_exposure m
      then map (\<lambda>k. (k, Fin (rsum (sector_weights sm (s_positions s) k))))
             (remdups (weighted_sectors sm (s_positions s)))
      else [])"

text \<open>
  The amounts a run computes that its decimal context can hold: the partial sums of every sector, the
  cash ratio, and the excess of every reported breach.  \<open>moderate\<close> is a crude sufficient bound.
\<close>

definition excess_fits :: "risk_limit \<Rightarrow> decimal \<Rightarrow> bool" where
  "excess_fits l actual = (case (actual, rl_threshold l) of
       (Fin x, Fin t) \<Rightarrow> \<not> overflows (x - t) | _ \<Rightarrow> True)"

definition breach_fits :: "risk_limit \<Rightarrow> decimal \<Rightarrow> bool" where
  "breach_fits l actual \<longleftrightarrow> violates l actual \<longrightarrow> excess_fits l actual"

definition weight_fits :: "risk_limit \<Rightarrow> position \<Rightarrow> bool" where
  "weight_fits l p = (case p_portfolio_weight p of None \<Rightarrow> True | Some w \<Rightarrow> breach_fits l w)"

definition ratio_fits :: "risk_limit \<Rightarrow> snapshot \<Rightarrow> bool" where
  "ratio_fits l s = (rl_unit l = ''dollars'' \<or> (case (s_cash s, s_total_value s) of
       (Some (Fin c), Some (Fin t)) \<Rightarrow> t = 0 \<or> \<not> overflows (c / t) | _ \<Rightarrow> True))"

definition cash_fits :: "risk_limit \<Rightarrow> snapshot \<Rightarrow> bool" where
  "cash_fits l s \<longleftrightarrow> ratio_fits l s
     \<and> (case cash_measure l s of None \<Rightarrow> True | Some a \<Rightarrow> breach_fits l a)"

definition limit_fits :: "snapshot \<Rightarrow> (string, decimal) dict \<Rightarrow> risk_limit \<Rightarrow> bool" where
  "limit_fits s exposures l =
     (if rl_metric l = ''sector_exposure'' then
        (let (known, unknown) = sector_amounts l exposures
         in sector_open l known unknown \<or> breach_fits l known)
      else if rl_metric l = ''single_position_weight'' then list_all (weight_fits l) (s_positions s)
      else cash_fits l s)"

definition exposures_fit :: "(string, string) dict \<Rightarrow> snapshot \<Rightarrow> bool" where
  "exposures_fit sm s \<longleftrightarrow>
     list_all (\<lambda>k. sum_fits 0 (sector_weights sm (s_positions s) k)) (weighted_sectors sm (s_positions s))"

definition evaluation_fits :: "(string, string) dict \<Rightarrow> snapshot \<Rightarrow> mandate \<Rightarrow> bool" where
  "evaluation_fits sm s m \<longleftrightarrow> (needs_sector_exposure m \<longrightarrow> exposures_fit sm s)
     \<and> list_all (limit_fits s (reference_exposures sm s m)) (m_limits m)"

definition within_pow :: "int \<Rightarrow> decimal option \<Rightarrow> bool" where
  "within_pow e v = (case v of Some (Fin x) \<Rightarrow> \<bar>x\<bar> \<le> pow10 e | _ \<Rightarrow> True)"

definition moderate :: "snapshot \<Rightarrow> mandate \<Rightarrow> bool" where
  "moderate s m \<longleftrightarrow> length (s_positions s) \<le> 100000
     \<and> list_all (\<lambda>p. within_pow 100000 (p_portfolio_weight p)) (s_positions s)
     \<and> list_all (\<lambda>l. within_pow 100000 (Some (rl_threshold l))) (m_limits m)
     \<and> within_pow 100000 (s_cash s)
     \<and> (case s_total_value s of Some (Fin t) \<Rightarrow> t = 0 \<or> pow10 (- 100000) \<le> \<bar>t\<bar> | _ \<Rightarrow> True)"

section \<open>The evaluator computes the reference\<close>

text \<open>A step that computes \<open>v\<close>, unless the amounts it works on overflow the context.\<close>

definition gives :: "bool \<Rightarrow> 'a \<Rightarrow> 'a res" where
  "gives b v = (if b then Ok v else Err decimal_overflow)"

lemma gives_simps [simp]:
  "gives True v = Ok v" "gives False v = Err decimal_overflow"
  by (simp_all add: gives_def)

lemma gives_bind: "bindR (gives b v) f = (if b then f v else Err decimal_overflow)"
  by (simp add: gives_def)

lemma gives_Ok [simp]: "gives b v = Inr w \<longleftrightarrow> b \<and> w = v"
  by (auto simp: gives_def)

definition fin_opt :: "decimal option \<Rightarrow> bool" where
  "fin_opt v = (case v of None \<Rightarrow> True | Some (Fin _) \<Rightarrow> True | _ \<Rightarrow> False)"

lemma fin_opt_iff: "fin_opt v \<longleftrightarrow> v = None \<or> (\<exists>x. v = Some (Fin x))"
  by (auto simp: fin_opt_def split: option.splits decimal.splits)

definition finite_snapshot :: "snapshot \<Rightarrow> bool" where
  "finite_snapshot s \<longleftrightarrow> fin_opt (s_cash s) \<and> fin_opt (s_total_value s)
     \<and> list_all (\<lambda>p. fin_opt (p_portfolio_weight p)) (s_positions s)"

definition finite_exposures :: "(string, decimal) dict \<Rightarrow> bool" where
  "finite_exposures ex \<longleftrightarrow> (\<forall>k. fin_opt (dget ex k))"

lemma finite_exposures_default: "finite_exposures ex \<Longrightarrow> \<exists>x. dget_default ex k (Fin 0) = Fin x"
  unfolding finite_exposures_def dget_default_def
  by (drule spec [of _ k]) (auto simp: fin_opt_iff split: option.splits)

lemma wf_limit_cases:
  assumes "wf_limit l"
  shows "rl_operator l = ''<='' \<or> rl_operator l = ''>=''"
    and "rl_threshold l = PInf \<or> (\<exists>t. rl_threshold l = Fin t \<and> 0 < t)"
    and "rl_metric l = ''sector_exposure'' \<or> rl_metric l = ''single_position_weight'' \<or> rl_metric l = ''minimum_cash''"
    and "rl_unit l = ''ratio'' \<or> rl_unit l = ''dollars''"
  using assms
  by (auto simp: wf_limit_def supported_operators_def supported_metrics_def supported_units_def
      wf_threshold_def split: decimal.splits)

text \<open>On a finite amount and a parsed limit the comparison is defined and so is a fitting excess.\<close>

lemma compare_finite:
  assumes "wf_limit l"
  shows "op_holds (rl_operator l) (Fin x) (rl_threshold l) = Ok (\<not> violates l (Fin x))"
    and "excess (rl_operator l) (Fin x) (rl_threshold l) = gives (excess_fits l (Fin x)) (excess_of l (Fin x))"
  using wf_limit_cases(1,2) [OF assms] overflows_minus [of "_ - _"]
  by (auto simp: op_holds_def violates_def excess_of_def excess_def excess_fits_def dec_simps d_ge_def d_le_def
      d_sub_def d_result_def)

lemma violates_op:
  "wf_limit l \<Longrightarrow> violates l (Fin x) \<longleftrightarrow> op_holds (rl_operator l) (Fin x) (rl_threshold l) = Ok False"
  by (simp add: compare_finite(1))

lemma violates_excess_nonneg:
  assumes "wf_limit l" and "violates l (Fin x)"
  shows "excess_of l (Fin x) = PInf \<or> (\<exists>e. excess_of l (Fin x) = Fin e \<and> 0 \<le> e)"
  using wf_limit_cases(1,2) [OF assms(1)] assms(2)
  by (auto simp: violates_def excess_of_def intro!: rnd_nonneg)

lemma breach_finite:
  assumes "wf_limit l"
  shows "rl_metric l = ''sector_exposure'' \<Longrightarrow>
      sector_breach l (Fin x) = gives (excess_fits l (Fin x)) (numeric_breach l (rl_target l) (Fin x) None)"
    and "rl_metric l = ''single_position_weight'' \<Longrightarrow>
      weight_breach l p (Fin x) = gives (excess_fits l (Fin x))
        (numeric_breach l None (Fin x) (Some (p_ticker p @ '' ('' @ p_position_id p @ '')'')))"
    and "rl_metric l = ''minimum_cash'' \<Longrightarrow>
      cash_breach l (Fin x) = gives (excess_fits l (Fin x)) (numeric_breach l None (Fin x) None)"
  by (simp_all add: sector_breach_def weight_breach_def cash_breach_def numeric_breach_def
      compare_finite [OF assms] gives_def)

lemma weight_arm:
  assumes "wf_limit l" and "rl_metric l = ''single_position_weight''"
    and "list_all (\<lambda>p. fin_opt (p_portfolio_weight p)) ps"
  shows "evaluate_weight_limit l ps (bs, is) = gives (list_all (weight_fits l) ps)
      (bs @ concat (map (measured_weight l) ps), is @ unmeasured ''single_position_weight'' ps)"
  using assms(3)
proof (induction ps arbitrary: bs "is")
  case Nil
  then show ?case by (simp add: unmeasured_def)
next
  case (Cons p ps)
  then show ?case
    by (auto simp: fin_opt_iff unmeasured_def measured_weight_def compare_finite [OF assms(1)]
        breach_finite(2) [OF assms(1,2)] gives_bind weight_fits_def breach_fits_def)
qed

lemma cash_arm:
  assumes "wf_limit l" and "rl_metric l = ''minimum_cash''" and "finite_snapshot s"
  shows "evaluate_cash_limit l s (bs, is) = gives (cash_fits l s)
      (bs @ (case cash_measure l s of
              Some a \<Rightarrow> if violates l a then [numeric_breach l None a None] else [] | None \<Rightarrow> []),
       is @ (if cash_measure l s = None then [cash_issue (cash_issue_code l s)] else []))"
proof -
  from assms(3) have c: "s_cash s = None \<or> (\<exists>x. s_cash s = Some (Fin x))"
    and t: "s_total_value s = None \<or> (\<exists>x. s_total_value s = Some (Fin x))"
    by (simp_all add: finite_snapshot_def fin_opt_iff)
  from c t wf_limit_cases(4) [OF assms(1)] show ?thesis
    by (elim disjE exE)
      (simp_all add: evaluate_cash_limit_def cash_actual_def cash_measure_def cash_issue_code_def
        compare_finite [OF assms(1)] breach_finite(3) [OF assms(1,2)] dec_simps d_result_def gives_bind
        cash_fits_def ratio_fits_def breach_fits_def)
qed

lemma sector_arm:
  assumes "wf_limit l" and "rl_metric l = ''sector_exposure''" and "finite_exposures ex"
    and amounts: "sector_amounts l ex = (known, unknown)"
  shows "evaluate_sector_limit l ex (bs, is)
    = gives (sector_open l known unknown \<or> breach_fits l known)
        (bs @ (if violates l known \<and> \<not> sector_open l known unknown
                then [numeric_breach l (rl_target l) known None] else []),
          is @ (if sector_open l known unknown then [sector_issue l] else []))"
proof -
  from amounts finite_exposures_default [OF assms(3)] obtain k u
    where ku: "known = Fin k" "unknown = Fin u"
    by (auto simp: sector_amounts_def Let_def split: if_splits) (metis+)
  have cmp: "d_gt (Fin k) (rl_threshold l) = Ok (violates l (Fin k))" if "rl_operator l = ''<=''"
    using that wf_limit_cases(2) [OF assms(1)] compare_finite(1) [OF assms(1), of k]
    by (auto simp: op_holds_def dec_simps d_gt_def d_le_def)
  have cmp': "d_ge (Fin k) (rl_threshold l) = Ok (\<not> violates l (Fin k))" if "rl_operator l = ''>=''"
    using that compare_finite(1) [OF assms(1), of k] by (simp add: op_holds_def)
  from wf_limit_cases(1) [OF assms(1)] show ?thesis
    by (elim disjE)
      (simp_all add: evaluate_sector_limit_def amounts ku evaluate_sector_cap_def evaluate_sector_floor_def
        cmp cmp' sector_open_def dec_simps breach_finite(1) [OF assms(1,2)] gives_bind breach_fits_def)
qed

lemma evaluate_limit_ref:
  assumes "wf_limit l" and "finite_snapshot s" and "finite_exposures ex"
  shows "evaluate_limit s ex l (bs, is)
    = gives (limit_fits s ex l) (bs @ limit_breaches s ex l, is @ limit_issues s ex l)"
proof -
  obtain known unknown where amounts: "sector_amounts l ex = (known, unknown)" by fastforce
  from assms(2) have ws: "list_all (\<lambda>p. fin_opt (p_portfolio_weight p)) (s_positions s)"
    by (simp add: finite_snapshot_def)
  from wf_limit_cases(3) [OF assms(1)] show ?thesis
    by (elim disjE)
      (simp_all add: evaluate_limit_def limit_breaches_def limit_issues_def limit_fits_def amounts
        sector_arm [OF assms(1) _ assms(3) amounts] weight_arm [OF assms(1) _ ws] cash_arm [OF assms(1) _ assms(2)])
qed

lemma evaluate_limits_ref:
  assumes "list_all wf_limit ls" and "finite_snapshot s" and "finite_exposures ex"
  shows "evaluate_limits s ex ls (bs, is) = gives (list_all (limit_fits s ex) ls)
      (bs @ concat (map (limit_breaches s ex) ls), is @ concat (map (limit_issues s ex) ls))"
  using assms(1)
  by (induction ls arbitrary: bs "is") (auto simp: evaluate_limit_ref [OF _ assms(2,3)] gives_bind)

text \<open>The verdict on one limit depends on the exposures only through their entries.\<close>

lemma exposures_cong:
  assumes "\<forall>k. dget ex k = dget ex' k"
  shows "limit_breaches s ex = limit_breaches s ex'" and "limit_issues s ex = limit_issues s ex'"
    and "limit_fits s ex = limit_fits s ex'"
proof -
  have "sector_amounts l ex = sector_amounts l ex'" for l
    using assms by (simp add: sector_amounts_def dget_default_def Let_def)
  then show "limit_breaches s ex = limit_breaches s ex'" and "limit_issues s ex = limit_issues s ex'"
    and "limit_fits s ex = limit_fits s ex'"
    by (simp_all add: fun_eq_iff limit_breaches_def limit_issues_def limit_fits_def)
qed

section \<open>Sector exposures\<close>

text \<open>
  The running dictionary holds, for each sector met so far, the rounded sum of its weights; the
  dictionary overflows when the sum of one of its sectors does.
\<close>

definition start_of :: "(string, decimal) dict \<Rightarrow> string \<Rightarrow> rat" where
  "start_of ex k = fin_val (dget_default ex k (Fin 0))"

definition exposure_sum :: "(string, string) dict \<Rightarrow> position list \<Rightarrow> (string, decimal) dict \<Rightarrow> string \<Rightarrow> rat" where
  "exposure_sum sm ps ex k = foldl (\<lambda>s x. rnd (s + x)) (start_of ex k) (sector_weights sm ps k)"

definition all_fit :: "(string, string) dict \<Rightarrow> position list \<Rightarrow> (string, decimal) dict \<Rightarrow> bool" where
  "all_fit sm ps ex \<longleftrightarrow> (\<forall>k. sum_fits (start_of ex k) (sector_weights sm ps k))"

lemma sector_weights_Cons:
  "sector_weights sm (p # ps) k = (if p_portfolio_weight p \<noteq> None \<and> sector_of sm p = k
     then fin_val (the (p_portfolio_weight p)) # sector_weights sm ps k else sector_weights sm ps k)"
  by (simp add: sector_weights_def)

lemma start_of_dset: "start_of (dset j (Fin v) ex) k = (if k = j then v else start_of ex k)"
  by (simp add: start_of_def dget_default_def)

lemma sector_exposures_ref:
  assumes "list_all (\<lambda>p. fin_opt (p_portfolio_weight p)) ps" and "finite_exposures ex"
  shows "if all_fit sm ps ex
    then \<exists>ex'. sector_exposures sm ps ex is = Ok (ex', is @ unmeasured ''sector_exposure'' ps)
      \<and> (\<forall>k. dget ex' k = (if dget ex k = None \<and> sector_weights sm ps k = [] then None
           else Some (Fin (exposure_sum sm ps ex k))))
    else sector_exposures sm ps ex is = Err decimal_overflow"
  using assms
proof (induction ps arbitrary: ex "is")
  case Nil
  have "dget ex k = Some y \<Longrightarrow> y = Fin (start_of ex k)" for k y
    using Nil.prems(2) unfolding finite_exposures_def
    by (auto simp: fin_opt_iff dget_default_def start_of_def dest!: spec [of _ k])
  then show ?case by (auto simp: unmeasured_def sector_weights_def all_fit_def exposure_sum_def)
next
  case (Cons p ps)
  show ?case
  proof (cases "p_portfolio_weight p")
    case None
    then have "sector_weights sm (p # ps) = sector_weights sm ps"
      and "unmeasured ''sector_exposure'' (p # ps)
        = weight_issue ''sector_exposure'' p # unmeasured ''sector_exposure'' ps"
      by (auto simp: fun_eq_iff unmeasured_def sector_weights_Cons)
    with Cons.IH [OF _ Cons.prems(2), of "is @ [weight_issue ''sector_exposure'' p]"] Cons.prems(1) None
    show ?thesis by (simp add: all_fit_def exposure_sum_def cong: if_cong del: not_None_eq)
  next
    case (Some w)
    with Cons.prems(1) obtain x where w: "w = Fin x" by (auto simp: fin_opt_iff)
    let ?k = "sector_of sm p"
    obtain y where y: "dget_default ex ?k (Fin 0) = Fin y"
      using finite_exposures_default [OF Cons.prems(2)] by blast
    then have start: "start_of ex ?k = y" by (simp add: start_of_def)
    have ws: "sector_weights sm (p # ps) k
        = (if k = ?k then x # sector_weights sm ps k else sector_weights sm ps k)" for k
      using Some w by (auto simp: sector_weights_Cons)
    show ?thesis
    proof (cases "overflows (y + x)")
      case True
      then have "\<not> all_fit sm (p # ps) ex" unfolding all_fit_def by (metis start sum_fits.simps(2) ws)
      with True Some w y show ?thesis by (simp add: d_result_def)
    next
      case False
      let ?ex = "dset ?k (Fin (rnd (y + x))) ex"
      have fin: "finite_exposures ?ex"
        using Cons.prems(2) by (auto simp: finite_exposures_def fin_opt_iff)
      have tail: "list_all (\<lambda>p. fin_opt (p_portfolio_weight p)) ps" using Cons.prems(1) by simp
      have step: "sector_exposures sm (p # ps) ex is = sector_exposures sm ps ?ex is"
        and unm: "unmeasured ''sector_exposure'' (p # ps) = unmeasured ''sector_exposure'' ps"
        using Some w y False by (simp_all add: d_result_def unmeasured_def)
      have fit: "all_fit sm (p # ps) ex \<longleftrightarrow> all_fit sm ps ?ex"
        using False start by (auto simp: all_fit_def ws start_of_dset)
      have sum: "exposure_sum sm (p # ps) ex k = exposure_sum sm ps ?ex k" for k
        using start by (simp add: exposure_sum_def ws start_of_dset)
      have none: "dget ?ex k = None \<and> sector_weights sm ps k = []
          \<longleftrightarrow> dget ex k = None \<and> sector_weights sm (p # ps) k = []" for k
        by (simp add: ws)
      show ?thesis
        unfolding step unm fit sum none [symmetric] by (rule Cons.IH [OF tail fin])
    qed
  qed
qed

definition run_exposures :: "(string, string) dict \<Rightarrow> snapshot \<Rightarrow> mandate \<Rightarrow> (string, decimal) dict \<Rightarrow> bool" where
  "run_exposures sm s m ex \<longleftrightarrow> (\<forall>k. dget ex k =
     (if needs_sector_exposure m \<and> sector_weights sm (s_positions s) k \<noteq> []
      then Some (Fin (rsum (sector_weights sm (s_positions s) k))) else None))"

lemma run_exposures_finite: "run_exposures sm s m ex \<Longrightarrow> finite_exposures ex"
  by (simp add: run_exposures_def finite_exposures_def fin_opt_iff)

lemma sector_weights_empty: "sector_weights sm ps k = [] \<longleftrightarrow> k \<notin> set (weighted_sectors sm ps)"
  by (auto simp: sector_weights_def weighted_sectors_def filter_empty_conv)

lemma dget_table: "dget (map (\<lambda>k. (k, f k)) ks) k = (if k \<in> set ks then Some (f k) else None)"
  by (induction ks) auto

lemma reference_run: "run_exposures sm s m (reference_exposures sm s m)"
  by (simp add: run_exposures_def reference_exposures_def dget_table sector_weights_empty)

lemma run_exposures_unique:
  "run_exposures sm s m ex \<Longrightarrow> run_exposures sm s m ex' \<Longrightarrow> \<forall>k. dget ex k = dget ex' k"
  by (simp add: run_exposures_def)

lemma all_fit_start: "all_fit sm (s_positions s) [] \<longleftrightarrow> exposures_fit sm s"
proof -
  have "sum_fits 0 (sector_weights sm (s_positions s) k)" if "k \<notin> set (weighted_sectors sm (s_positions s))" for k
    using that by (simp flip: sector_weights_empty)
  then show ?thesis
    by (auto simp: all_fit_def exposures_fit_def list_all_iff start_of_def dget_default_def)
qed

abbreviation the_map :: "(string, string) dict option \<Rightarrow> (string, string) dict" where
  "the_map sm \<equiv> case sm of None \<Rightarrow> [] | Some d \<Rightarrow> d"

lemma sector_exposures_run:
  assumes "finite_snapshot s"
  shows "if needs_sector_exposure m \<longrightarrow> exposures_fit sm s
    then \<exists>ex. (if needs_sector_exposure m then sector_exposures sm (s_positions s) [] [] else Ok ([], []))
        = Ok (ex, if needs_sector_exposure m then unmeasured ''sector_exposure'' (s_positions s) else [])
      \<and> run_exposures sm s m ex
    else sector_exposures sm (s_positions s) [] [] = Err decimal_overflow \<and> needs_sector_exposure m"
proof -
  have ws: "list_all (\<lambda>p. fin_opt (p_portfolio_weight p)) (s_positions s)"
    using assms by (simp add: finite_snapshot_def)
  have empty: "finite_exposures []" by (simp add: finite_exposures_def fin_opt_iff)
  from sector_exposures_ref [OF ws empty, of sm "[]"] show ?thesis
    by (auto simp: all_fit_start run_exposures_def rsum_def exposure_sum_def start_of_def
        dget_default_def split: if_splits)
qed

lemma evaluate_mandate_ref:
  assumes "wf_mandate m" and "finite_snapshot s"
  shows "if evaluation_fits (the_map sm) s m
    then \<exists>ev. evaluate_mandate s m sm = Ok ev
      \<and> run_exposures (the_map sm) s m (re_sector_exposures ev)
      \<and> re_breaches ev = concat (map (limit_breaches s (re_sector_exposures ev)) (m_limits m)) @ prohibited_breaches m s
      \<and> re_issues ev = dedup ((if needs_sector_exposure m then unmeasured ''sector_exposure'' (s_positions s) else [])
           @ concat (map (limit_issues s (re_sector_exposures ev)) (m_limits m)))
      \<and> re_snapshot_id ev = s_snapshot_id s \<and> re_created_at ev = s_created_at s
    else evaluate_mandate s m sm = Err decimal_overflow"
proof -
  have limits: "list_all wf_limit (m_limits m)" using assms(1) by (simp add: wf_mandate_def)
  show ?thesis
  proof (cases "needs_sector_exposure m \<longrightarrow> exposures_fit (the_map sm) s")
    case False
    with sector_exposures_run [OF assms(2), of m "the_map sm"] show ?thesis
      by (simp add: evaluation_fits_def evaluate_mandate_def)
  next
    case True
    with sector_exposures_run [OF assms(2), of m "the_map sm"] obtain ex where
      ex: "(if needs_sector_exposure m then sector_exposures (the_map sm) (s_positions s) [] [] else Ok ([], []))
         = Ok (ex, if needs_sector_exposure m then unmeasured ''sector_exposure'' (s_positions s) else [])"
      and run: "run_exposures (the_map sm) s m ex" by auto
    note same = exposures_cong(3) [OF run_exposures_unique [OF run reference_run]]
    show ?thesis
      unfolding evaluate_mandate_def Let_def ex bindR_simps prod.case
        evaluate_limits_ref [OF limits assms(2) run_exposures_finite [OF run]]
      using run True by (simp add: evaluation_fits_def same gives_bind)
  qed
qed

lemma evaluate_mandate_inv:
  assumes "wf_mandate m" and "finite_snapshot s" and "evaluate_mandate s m sm = Ok ev"
  shows "run_exposures (the_map sm) s m (re_sector_exposures ev)"
    and "re_breaches ev = concat (map (limit_breaches s (re_sector_exposures ev)) (m_limits m)) @ prohibited_breaches m s"
    and "re_issues ev = dedup ((if needs_sector_exposure m then unmeasured ''sector_exposure'' (s_positions s) else [])
         @ concat (map (limit_issues s (re_sector_exposures ev)) (m_limits m)))"
  using evaluate_mandate_ref [OF assms(1,2), of sm] assms(3) by (auto split: if_splits)

text \<open>Every numeric breach of the reference measures a violation.\<close>

lemma finite_sector_amounts:
  "finite_exposures ex \<Longrightarrow> \<exists>k u. sector_amounts l ex = (Fin k, Fin u)"
  using finite_exposures_default [of ex] by (simp add: sector_amounts_def Let_def)

lemma limit_breach_numeric:
  assumes "wf_limit l" and "finite_snapshot s" and "finite_exposures ex" and "b \<in> set (limit_breaches s ex l)"
  shows "\<exists>x tgt note. b = numeric_breach l tgt (Fin x) note \<and> violates l (Fin x)"
proof -
  from finite_sector_amounts [OF assms(3)] obtain k u where amounts: "sector_amounts l ex = (Fin k, Fin u)"
    by blast
  have fin: "fin_opt (p_portfolio_weight p)" if "p \<in> set (s_positions s)" for p
    using assms(2) that by (simp add: finite_snapshot_def list_all_iff)
  have cash: "\<exists>x. a = Fin x" if "cash_measure l s = Some a" for a
    using that assms(2) by (auto simp: cash_measure_def finite_snapshot_def fin_opt_iff dec_simps split: if_splits)
  from assms(4) amounts show ?thesis
    by (auto simp: limit_breaches_def measured_weight_def fin_opt_iff split: if_splits option.splits
        dest!: fin cash cash [OF sym]; blast)
qed

section \<open>Verdicts under missing classification\<close>

text \<open>
  A later sector map may classify positions the evaluated one leaves unknown.
\<close>

definition extends_map :: "(string, string) dict \<Rightarrow> (string, string) dict \<Rightarrow> bool" where
  "extends_map sm' sm \<longleftrightarrow> (\<forall>e sec. dget sm e = Some sec \<longrightarrow> dget sm' e = Some sec)"

definition long_only :: "snapshot \<Rightarrow> bool" where
  "long_only s \<longleftrightarrow> list_all (\<lambda>p. money (p_portfolio_weight p)) (s_positions s)"

lemma sector_of_extends:
  assumes "extends_map sm' sm" and "k \<noteq> unknown_sector"
  shows "sector_of sm p = k \<Longrightarrow> sector_of sm' p = k"
    and "sector_of sm' p = k \<Longrightarrow> sector_of sm p = k \<or> sector_of sm p = unknown_sector"
  using assms by (auto simp: sector_of_def extends_map_def split: option.splits)

lemma long_only_weight:
  assumes "long_only s" and "p \<in> set (s_positions s)" and "p_portfolio_weight p \<noteq> None"
  shows "0 \<le> fin_val (the (p_portfolio_weight p))"
    and "rnd (fin_val (the (p_portfolio_weight p))) = fin_val (the (p_portfolio_weight p))"
  using assms by (fastforce simp: long_only_def list_all_iff money_def)+

lemma sector_weights_mono:
  assumes "extends_map sm' sm" and "k \<noteq> unknown_sector" and "long_only s"
  shows "rsum (sector_weights sm (s_positions s) k) \<le> rsum (sector_weights sm' (s_positions s) k)"
  unfolding rsum_def sector_weights_def
  using sector_of_extends [OF assms(1,2)] long_only_weight [OF assms(3)]
  by (intro rnd.fold_sum_filter_mono) auto

lemma unknown_weight_le:
  assumes "long_only s" and "p \<in> set (s_positions s)" and "p_portfolio_weight p \<noteq> None" and "sector_of sm p = k"
  shows "fin_val (the (p_portfolio_weight p)) \<le> rsum (sector_weights sm (s_positions s) k)"
proof (rule rsum_member)
  show "\<forall>x \<in> set (sector_weights sm (s_positions s) k). 0 \<le> x"
    using long_only_weight(1) [OF assms(1)] by (auto simp: sector_weights_def)
  show "fin_val (the (p_portfolio_weight p)) \<in> set (sector_weights sm (s_positions s) k)"
    using assms(2-4) by (auto simp: sector_weights_def)
  show "rnd (fin_val (the (p_portfolio_weight p))) = fin_val (the (p_portfolio_weight p))"
    by (rule long_only_weight(2) [OF assms(1-3)])
qed

lemma sector_weights_closed:
  assumes "extends_map sm' sm" and "k \<noteq> unknown_sector" and "long_only s"
    and "rsum (sector_weights sm (s_positions s) unknown_sector) \<le> 0"
  shows "rsum (sector_weights sm' (s_positions s) k) = rsum (sector_weights sm (s_positions s) k)"
  unfolding rsum_def sector_weights_def
proof (rule rnd.fold_sum_filter_zero)
  show "\<forall>p \<in> set (s_positions s). p_portfolio_weight p \<noteq> None \<and> sector_of sm p = k
      \<longrightarrow> p_portfolio_weight p \<noteq> None \<and> sector_of sm' p = k"
    using sector_of_extends(1) [OF assms(1,2)] by blast
  show "\<forall>p \<in> set (s_positions s). (p_portfolio_weight p \<noteq> None \<and> sector_of sm' p = k)
      \<and> \<not> (p_portfolio_weight p \<noteq> None \<and> sector_of sm p = k) \<longrightarrow> fin_val (the (p_portfolio_weight p)) = 0"
  proof (intro ballI impI)
    fix p assume p: "p \<in> set (s_positions s)"
      and q: "(p_portfolio_weight p \<noteq> None \<and> sector_of sm' p = k)
        \<and> \<not> (p_portfolio_weight p \<noteq> None \<and> sector_of sm p = k)"
    with sector_of_extends(2) [OF assms(1,2)] have "sector_of sm p = unknown_sector" by blast
    with unknown_weight_le [OF assms(3) p _ this] long_only_weight(1) [OF assms(3) p] q assms(4)
    show "fin_val (the (p_portfolio_weight p)) = 0" by fastforce
  qed
qed simp

lemma run_exposures_default:
  "run_exposures sm s m ex \<Longrightarrow> needs_sector_exposure m \<Longrightarrow>
    dget_default ex k (Fin 0) = Fin (rsum (sector_weights sm (s_positions s) k))"
  by (auto simp: run_exposures_def dget_default_def rsum_def)

lemma violates_mono:
  assumes "wf_limit l" and "x \<le> y"
  shows "rl_operator l = ''<='' \<Longrightarrow> violates l (Fin x) \<Longrightarrow> violates l (Fin y)"
    and "rl_operator l = ''>='' \<Longrightarrow> violates l (Fin y) \<Longrightarrow> violates l (Fin x)"
  using wf_limit_cases(2) [OF assms(1)] assms(2)
  by (auto simp: violates_def op_holds_def d_ge_def d_le_def)

text \<open>The verdict on one sector limit survives any extension of the map.\<close>

lemma sector_verdict_extends:
  assumes "wf_limit l" and "rl_target l = Some k" and "k \<noteq> unknown_sector" and "long_only s"
    and "run_exposures sm s m ex" and "needs_sector_exposure m" and "extends_map sm' sm"
    and amounts: "sector_amounts l ex = (known, unknown)" and closed: "\<not> sector_open l known unknown"
  shows "violates l known \<longleftrightarrow> violates l (Fin (rsum (sector_weights sm' (s_positions s) k)))"
proof -
  let ?x = "rsum (sector_weights sm (s_positions s) k)" and ?y = "rsum (sector_weights sm' (s_positions s) k)"
  let ?u = "rsum (sector_weights sm (s_positions s) unknown_sector)"
  have ku: "known = Fin ?x" "unknown = Fin ?u"
    using amounts assms(2,3) by (simp_all add: sector_amounts_def run_exposures_default [OF assms(5,6)])
  have le: "?x \<le> ?y" by (rule sector_weights_mono [OF assms(7,3,4)])
  show ?thesis
  proof (cases "?u \<le> 0")
    case True
    then have "?y = ?x" by (rule sector_weights_closed [OF assms(7,3,4)])
    then show ?thesis by (simp add: ku)
  next
    case False
    with closed have "violates l known \<longleftrightarrow> rl_operator l = ''<=''" by (simp add: sector_open_def ku dec_simps)
    with wf_limit_cases(1) [OF assms(1)] violates_mono [OF assms(1) le] show ?thesis by (auto simp: ku)
  qed
qed

section \<open>Moderate amounts fit the context\<close>

lemma within_pow_Fin [simp]: "within_pow e (Some (Fin x)) \<longleftrightarrow> \<bar>x\<bar> \<le> pow10 e"
  by (simp add: within_pow_def)

lemma excess_bounded:
  assumes "\<bar>x\<bar> \<le> pow10 200000" and "within_pow 100000 (Some (rl_threshold l))"
  shows "excess_fits l (Fin x)"
proof (cases "rl_threshold l")
  case (Fin t)
  have up: "pow10 100000 \<le> pow10 200000" by (rule pow10_mono) simp
  with assms(2) Fin have "\<bar>- t\<bar> \<le> pow10 200000" by simp
  from sum_abs_le [OF assms(1) this] have "\<bar>x - t\<bar> \<le> pow10 200001" by simp
  then have "\<not> overflows (x - t)" by (rule not_overflows) (simp_all add: etiny_def emax_def)
  with Fin show ?thesis by (simp add: excess_fits_def)
qed (simp_all add: excess_fits_def)

lemma ratio_bounded:
  assumes "\<bar>c\<bar> \<le> pow10 100000" and "pow10 (- 100000) \<le> \<bar>t\<bar>"
  shows "\<bar>c / t\<bar> \<le> pow10 200000"
proof -
  have t: "0 < \<bar>t\<bar>" using assms(2) pow10_pos [of "- 100000"] by linarith
  have "\<bar>c\<bar> \<le> pow10 200000 * pow10 (- 100000)" using assms(1) by (simp flip: pow10_add)
  also have "\<dots> \<le> pow10 200000 * \<bar>t\<bar>" using assms(2) by (intro mult_left_mono) simp_all
  finally show ?thesis using t by (simp add: pos_divide_le_eq)
qed

lemma sector_bounded:
  assumes "moderate s m" and "finite_snapshot s"
  shows "sum_fits 0 (sector_weights sm (s_positions s) k)
    \<and> \<bar>rsum (sector_weights sm (s_positions s) k)\<bar> \<le> pow10 200000"
proof -
  let ?ws = "sector_weights sm (s_positions s) k"
  have "length ?ws \<le> length (s_positions s)" by (simp add: sector_weights_def)
  with assms(1) have len: "int (length ?ws) \<le> 100000" by (simp add: moderate_def)
  have "\<bar>fin_val (the (p_portfolio_weight p))\<bar> \<le> pow10 100000"
    if "p \<in> set (s_positions s)" "p_portfolio_weight p \<noteq> None" for p
  proof -
    have "fin_opt (p_portfolio_weight p)" "within_pow 100000 (p_portfolio_weight p)"
      using assms that by (simp_all add: finite_snapshot_def moderate_def list_all_iff)
    with that(2) show ?thesis by (auto simp: fin_opt_iff)
  qed
  then have "\<forall>x \<in> set ?ws. \<bar>x\<bar> \<le> pow10 100000" by (auto simp: sector_weights_def)
  from sum_bounded [OF this, of 0] len
  have "sum_fits 0 ?ws" and "\<bar>rsum ?ws\<bar> \<le> pow10 (100000 + int (length ?ws))"
    by (simp_all add: emax_def rsum_def)
  moreover have "pow10 (100000 + int (length ?ws)) \<le> pow10 200000" using len by (intro pow10_mono) simp
  ultimately show ?thesis by linarith
qed

lemma moderate_limit_fits:
  assumes "moderate s m" and "finite_snapshot s" and "l \<in> set (m_limits m)"
  shows "limit_fits s (reference_exposures sm s m) l"
proof -
  have bound: "excess_fits l (Fin x)" if "\<bar>x\<bar> \<le> pow10 200000" for x
    using that assms(1,3) by (intro excess_bounded) (simp_all add: moderate_def list_all_iff)
  have up: "pow10 100000 \<le> pow10 200000" by (rule pow10_mono) simp
  have "breach_fits l (fst (sector_amounts l (reference_exposures sm s m)))"
  proof -
    have "\<exists>x. dget_default (reference_exposures sm s m) k (Fin 0) = Fin x \<and> \<bar>x\<bar> \<le> pow10 200000" for k
      using sector_bounded [OF assms(1,2), of sm k] reference_run [of sm s m]
      by (auto simp: run_exposures_def dget_default_def)
    then obtain x where
      "dget_default (reference_exposures sm s m) (case rl_target l of None \<Rightarrow> [] | Some t \<Rightarrow> t) (Fin 0) = Fin x"
      and "\<bar>x\<bar> \<le> pow10 200000" by blast
    then have "fst (sector_amounts l (reference_exposures sm s m)) = Fin x" and "\<bar>x\<bar> \<le> pow10 200000"
      by (simp_all add: sector_amounts_def Let_def)
    then show ?thesis using bound by (simp add: breach_fits_def)
  qed
  moreover have "weight_fits l p" if "p \<in> set (s_positions s)" for p
  proof -
    have "fin_opt (p_portfolio_weight p)" "within_pow 100000 (p_portfolio_weight p)"
      using assms(1,2) that by (simp_all add: finite_snapshot_def moderate_def list_all_iff)
    then show ?thesis using bound up by (auto simp: fin_opt_iff weight_fits_def breach_fits_def)
  qed
  moreover have "cash_fits l s"
  proof -
    from assms(2) have c: "s_cash s = None \<or> (\<exists>x. s_cash s = Some (Fin x))"
      and t: "s_total_value s = None \<or> (\<exists>x. s_total_value s = Some (Fin x))"
      by (simp_all add: finite_snapshot_def fin_opt_iff)
    from assms(1) have mc: "within_pow 100000 (s_cash s)"
      and mt: "case s_total_value s of Some (Fin t) \<Rightarrow> t = 0 \<or> pow10 (- 100000) \<le> \<bar>t\<bar> | _ \<Rightarrow> True"
      by (simp_all add: moderate_def)
    have quot: "\<not> overflows (c / t) \<and> excess_fits l (Fin (rnd (c / t)))"
      if "\<bar>c\<bar> \<le> pow10 100000" "pow10 (- 100000) \<le> \<bar>t\<bar>" for c t
    proof -
      have q: "\<bar>c / t\<bar> \<le> pow10 200000" by (rule ratio_bounded [OF that])
      then have "\<not> overflows (c / t)" by (rule not_overflows) (simp_all add: etiny_def emax_def)
      moreover have "\<bar>rnd (c / t)\<bar> \<le> pow10 200000" using q by (intro rnd_abs_le) (simp_all add: etiny_def)
      ultimately show ?thesis using bound by blast
    qed
    from c show ?thesis
    proof
      assume "s_cash s = None"
      then show ?thesis by (auto simp: cash_fits_def ratio_fits_def cash_measure_def)
    next
      assume "\<exists>x. s_cash s = Some (Fin x)"
      then obtain x where x: "s_cash s = Some (Fin x)" ..
      with mc have x': "\<bar>x\<bar> \<le> pow10 100000" by simp
      with up have xb: "excess_fits l (Fin x)" by (intro bound) simp
      from t show ?thesis
      proof
        assume "s_total_value s = None"
        with x xb show ?thesis by (auto simp: cash_fits_def ratio_fits_def cash_measure_def breach_fits_def)
      next
        assume "\<exists>y. s_total_value s = Some (Fin y)"
        then obtain y where y: "s_total_value s = Some (Fin y)" ..
        with mt have "y = 0 \<or> pow10 (- 100000) \<le> \<bar>y\<bar>" by simp
        with x y xb quot [OF x', of y] show ?thesis
          by (auto simp: cash_fits_def ratio_fits_def cash_measure_def breach_fits_def)
      qed
    qed
  qed
  ultimately show ?thesis
    by (auto simp: limit_fits_def list_all_iff split: prod.splits)
qed

lemma moderate_fits:
  assumes "wf_mandate m" and "finite_snapshot s" and "moderate s m"
  shows "evaluation_fits sm s m"
  using sector_bounded [OF assms(3,2)] moderate_limit_fits [OF assms(3,2)]
  by (simp add: evaluation_fits_def exposures_fit_def list_all_iff)

section \<open>Properties\<close>


definition demo_weight_limit :: risk_limit where
  "demo_weight_limit = \<lparr>rl_metric = ''single_position_weight'', rl_operator = ''<='',
     rl_threshold = Fin (1 / 2), rl_target = None, rl_severity = ''warning'', rl_unit = ''ratio''\<rparr>"

definition demo_sector_limit :: risk_limit where
  "demo_sector_limit = \<lparr>rl_metric = ''sector_exposure'', rl_operator = ''<='',
     rl_threshold = Fin (1 / 2), rl_target = Some ''Technology'', rl_severity = ''critical'',
     rl_unit = ''ratio''\<rparr>"

definition demo_risk_mandate :: mandate where
  "demo_risk_mandate = \<lparr>m_limits = [demo_weight_limit, demo_sector_limit], m_prohibited_assets = []\<rparr>"

definition demo_snapshot :: snapshot where
  "demo_snapshot = \<lparr>s_snapshot_id = ''snap'', s_created_at = 0, s_broker = ''b'',
     s_account_ids = [''acct''], s_cash = Some (Fin 0), s_invested_value = Some (Fin 30),
     s_total_value = Some (Fin 30),
     s_positions = [(sample_position ''AAA'' (Fin 3) (Some (Fin 30)))\<lparr>p_entity_id := Some ''e1'',
        p_portfolio_weight := Some (Fin 1)\<rparr>]\<rparr>"

lemma demo_facts:
  "wf_mandate demo_risk_mandate" "finite_snapshot demo_snapshot" "long_only demo_snapshot"
  "needs_sector_exposure demo_risk_mandate"
  by (simp_all add: demo_risk_mandate_def demo_weight_limit_def demo_sector_limit_def wf_mandate_def wf_limit_def
      supported_metrics_def supported_operators_def supported_severities_def supported_units_def
      wf_threshold_def strip_def is_space_def demo_snapshot_def finite_snapshot_def fin_opt_iff
      long_only_def money_def rnd.r_one needs_sector_exposure_def)

definition demo_evaluation :: risk_evaluation where
  "demo_evaluation = \<lparr>re_breaches =
      [numeric_breach demo_weight_limit None (Fin 1) (Some ''AAA (raw)''),
       numeric_breach demo_sector_limit (Some ''Technology'') (Fin 1) None],
     re_sector_exposures = [(''Technology'', Fin 1)], re_issues = [], re_snapshot_id = ''snap'',
     re_created_at = 0\<rparr>"

lemma demo_evaluate:
  "evaluate_mandate demo_snapshot demo_risk_mandate (Some [(''e1'', ''Technology'')]) = Ok demo_evaluation"
proof -
  have limits: "m_limits demo_risk_mandate = [demo_weight_limit, demo_sector_limit]"
    by (simp add: demo_risk_mandate_def)
  have ex: "sector_exposures [(''e1'', ''Technology'')] (s_positions demo_snapshot) [] []
      = Ok ([(''Technology'', Fin 1)], [])"
    by (simp add: demo_snapshot_def sector_of_def dget_default_def rnd.r_one)
  have fin: "finite_exposures [(''Technology'', Fin 1)]"
    by (simp add: finite_exposures_def fin_opt_iff)
  have wf: "list_all wf_limit [demo_weight_limit, demo_sector_limit]"
    using demo_facts(1) by (simp add: wf_mandate_def limits)
  have ids: "s_snapshot_id demo_snapshot = ''snap''" "s_created_at demo_snapshot = 0"
    by (simp_all add: demo_snapshot_def)
  have w: "violates demo_weight_limit (Fin 1)" "violates demo_sector_limit (Fin 1)"
    by (simp_all add: violates_def demo_weight_limit_def demo_sector_limit_def op_holds_def dec_simps)
  have "limit_breaches demo_snapshot [(''Technology'', Fin 1)] demo_weight_limit
      = [numeric_breach demo_weight_limit None (Fin 1) (Some ''AAA (raw)'')]"
    and "limit_issues demo_snapshot [(''Technology'', Fin 1)] demo_weight_limit = []"
    using w by (simp_all add: limit_breaches_def limit_issues_def unmeasured_def measured_weight_def
        demo_snapshot_def demo_weight_limit_def sample_position_def)
  moreover have "sector_amounts demo_sector_limit [(''Technology'', Fin 1)] = (Fin 1, Fin 0)"
    by (simp add: sector_amounts_def demo_sector_limit_def dget_default_def unknown_sector_def)
  then have "limit_breaches demo_snapshot [(''Technology'', Fin 1)] demo_sector_limit
      = [numeric_breach demo_sector_limit (Some ''Technology'') (Fin 1) None]"
    and "limit_issues demo_snapshot [(''Technology'', Fin 1)] demo_sector_limit = []"
    using w by (simp_all add: limit_breaches_def limit_issues_def sector_open_def demo_sector_limit_def dec_simps)
  moreover have "limit_fits demo_snapshot [(''Technology'', Fin 1)] demo_weight_limit"
    by (simp add: limit_fits_def demo_weight_limit_def demo_snapshot_def weight_fits_def breach_fits_def
        excess_fits_def small_fits)
  moreover have "limit_fits demo_snapshot [(''Technology'', Fin 1)] demo_sector_limit"
    using \<open>sector_amounts demo_sector_limit [(''Technology'', Fin 1)] = (Fin 1, Fin 0)\<close>
    by (simp add: limit_fits_def demo_sector_limit_def breach_fits_def excess_fits_def small_fits)
  moreover have "prohibited_breaches demo_risk_mandate demo_snapshot = []"
    by (simp add: prohibited_breaches_def demo_risk_mandate_def)
  ultimately show ?thesis
    by (simp add: evaluate_mandate_def demo_facts(4) ex limits
        evaluate_limit_ref [OF _ demo_facts(2) fin] wf [simplified] ids demo_evaluation_def)
qed

lemma demo_moderate: "moderate demo_snapshot demo_risk_mandate"
  using pow10_mono [of 0 100000] pow10_mono [of "- 100000" 0]
  by (simp add: moderate_def demo_snapshot_def demo_risk_mandate_def demo_weight_limit_def demo_sector_limit_def
      pow10_def [of 0])


text \<open>
  The error branch is real: \<open>parse_mandate\<close> accepts a floor of 9E+999999, and a weight of
  -9E+999999 misses it by an amount the context cannot hold.
\<close>

definition huge_limit :: risk_limit where
  "huge_limit = demo_weight_limit\<lparr>rl_operator := ''>='', rl_threshold := Fin (9 * pow10 999999)\<rparr>"

definition huge_snapshot :: snapshot where
  "huge_snapshot = demo_snapshot\<lparr>s_positions :=
     [(sample_position ''AAA'' (Fin 3) None)\<lparr>p_portfolio_weight := Some (Fin (- 9 * pow10 999999))\<rparr>]\<rparr>"

lemma huge_overflows: "overflows (18 * pow10 999999)"
proof -
  have "representable (18 * pow10 999999)"
    unfolding representable_def by (intro exI [of _ 18] exI [of _ 999999]) (simp add: etiny_def)
  moreover have "dexp (18 * pow10 999999) = 1000000"
    using pow10_add [of 999999 1] pow10_add [of 999999 2]
    by (intro dexp_unique) (simp_all add: pow10_def [of 1] pow10_def [of 2])
  ultimately show ?thesis by (simp add: overflows_def emax_def rnd_exact abs_of_pos)
qed

lemma evaluation_overflows:
  "evaluate_mandate huge_snapshot \<lparr>m_limits = [huge_limit], m_prohibited_assets = []\<rparr> sm = Err decimal_overflow"
  using huge_overflows less_imp_le [OF pow10_pos [of 999999]]
  by (simp add: evaluate_mandate_def not_less needs_sector_exposure_def huge_limit_def demo_weight_limit_def
      evaluate_limit_def huge_snapshot_def op_holds_def dec_simps d_ge_def d_le_def weight_breach_def excess_def
      d_sub_def d_result_def)

text \<open>
  Every reported breach is real: it is a prohibited-asset match, or its actual amount violates a
  limit of the mandate with the reported threshold, metric, severity and unit, and the excess is
  not negative (infinite for an infinite cash floor).
\<close>

theorem breaches_are_violations:
  assumes "wf_mandate m" and "finite_snapshot s" and "evaluate_mandate s m sm = Ok ev"
    and "b \<in> set (re_breaches ev)"
  shows "b \<in> set (prohibited_breaches m s)
    \<or> (\<exists>l \<in> set (m_limits m). \<exists>x. rb_metric b = rl_metric l \<and> rb_severity b = rl_severity l
         \<and> rb_unit b = Some (rl_unit l) \<and> rb_limit b = ADec (rl_threshold l) \<and> rb_actual b = ADec (Fin x)
         \<and> op_holds (rl_operator l) (Fin x) (rl_threshold l) = Ok False
         \<and> (rb_excess b = Some PInf \<or> (\<exists>e. rb_excess b = Some (Fin e) \<and> 0 \<le> e)))"
proof -
  note inv = evaluate_mandate_inv [OF assms(1-3)]
  show ?thesis
  proof (cases "b \<in> set (prohibited_breaches m s)")
    case False
    with inv(2) assms(4) obtain l where l: "l \<in> set (m_limits m)"
      and b: "b \<in> set (limit_breaches s (re_sector_exposures ev) l)" by auto
    have wf: "wf_limit l" using assms(1) l by (simp add: wf_mandate_def list_all_iff)
    from limit_breach_numeric [OF wf assms(2) run_exposures_finite [OF inv(1)] b]
    obtain x tgt nt where "b = numeric_breach l tgt (Fin x) nt" and v: "violates l (Fin x)" by blast
    with l violates_excess_nonneg [OF wf v] show ?thesis
      by (intro disjI2 bexI [of _ l] exI [of _ x]) (auto simp: numeric_breach_def violates_op [OF wf])
  qed simp
qed

theorem breaches_are_violations_witness:
  "\<exists>l \<in> set (m_limits demo_risk_mandate). op_holds (rl_operator l) (Fin 1) (rl_threshold l) = Ok False"
proof -
  let ?b = "numeric_breach demo_weight_limit None (Fin 1) (Some ''AAA (raw)'')"
  have "?b \<in> set (re_breaches demo_evaluation)" by (simp add: demo_evaluation_def)
  from breaches_are_violations [OF demo_facts(1,2) demo_evaluate this] show ?thesis
    by (auto simp: prohibited_breaches_def demo_risk_mandate_def numeric_breach_def)
qed

text \<open>
  C33.  Completeness: when an evaluation reports neither a breach nor an issue, every limit was
  measured and holds: each position has a weight within every weight limit, the cash measure exists
  and is within every cash limit, each sector's known exposure is within its limit, and no position
  matches a prohibited asset.
\<close>

theorem clean_evaluation_complies:
  assumes "wf_mandate m" and "finite_snapshot s" and "evaluate_mandate s m sm = Ok ev"
    and "re_breaches ev = []" and "re_issues ev = []"
  shows "(\<forall>l \<in> set (m_limits m).
       (rl_metric l = ''single_position_weight'' \<longrightarrow> (\<forall>p \<in> set (s_positions s).
          \<exists>w. p_portfolio_weight p = Some w \<and> op_holds (rl_operator l) w (rl_threshold l) = Ok True))
     \<and> (rl_metric l = ''minimum_cash'' \<longrightarrow>
          (\<exists>a. cash_measure l s = Some a \<and> op_holds (rl_operator l) a (rl_threshold l) = Ok True))
     \<and> (rl_metric l = ''sector_exposure'' \<longrightarrow>
          op_holds (rl_operator l) (fst (sector_amounts l (re_sector_exposures ev))) (rl_threshold l) = Ok True))
     \<and> (\<forall>entry \<in> set (m_prohibited_assets m). \<forall>p \<in> set (s_positions s). \<not> prohibited_match entry p)"
proof -
  note inv = evaluate_mandate_inv [OF assms(1-3)]
  let ?ex = "re_sector_exposures ev"
  have none: "limit_breaches s ?ex l = []" "limit_issues s ?ex l = []" if "l \<in> set (m_limits m)" for l
    using inv(2,3) assms(4,5) that by (auto dest!: dedup_empty_iff [THEN iffD1, OF sym])
  have holds: "op_holds (rl_operator l) (Fin x) (rl_threshold l) = Ok True"
    if "l \<in> set (m_limits m)" and "\<not> violates l (Fin x)" for l x
    using that assms(1) compare_finite(1) [of l x] by (auto simp: wf_mandate_def list_all_iff)
  have weight: "\<exists>w. p_portfolio_weight p = Some w \<and> op_holds (rl_operator l) w (rl_threshold l) = Ok True"
    if l: "l \<in> set (m_limits m)" and metric: "rl_metric l = ''single_position_weight''"
      and p: "p \<in> set (s_positions s)" for l p
  proof -
    have "p_portfolio_weight p \<noteq> None"
      using none(2) [OF l] metric p by (auto simp: limit_issues_def unmeasured_def filter_empty_conv)
    moreover have "fin_opt (p_portfolio_weight p)"
      using assms(2) p by (simp add: finite_snapshot_def list_all_iff)
    ultimately obtain x where x: "p_portfolio_weight p = Some (Fin x)" by (auto simp: fin_opt_iff)
    with none(1) [OF l] metric p have "\<not> violates l (Fin x)"
      by (auto simp: limit_breaches_def measured_weight_def split: if_splits)
    with x holds [OF l] show ?thesis by blast
  qed
  have cash: "\<exists>a. cash_measure l s = Some a \<and> op_holds (rl_operator l) a (rl_threshold l) = Ok True"
    if l: "l \<in> set (m_limits m)" and metric: "rl_metric l = ''minimum_cash''" for l
  proof -
    from none(2) [OF l] metric obtain a where a: "cash_measure l s = Some a"
      by (auto simp: limit_issues_def split: if_splits)
    with assms(2) obtain x where "a = Fin x"
      by (auto simp: cash_measure_def finite_snapshot_def fin_opt_iff dec_simps split: if_splits)
    with a none(1) [OF l] metric holds [OF l, of x] show ?thesis
      by (auto simp: limit_breaches_def split: if_splits)
  qed
  have sector: "op_holds (rl_operator l) (fst (sector_amounts l ?ex)) (rl_threshold l) = Ok True"
    if l: "l \<in> set (m_limits m)" and metric: "rl_metric l = ''sector_exposure''" for l
  proof -
    from finite_sector_amounts [OF run_exposures_finite [OF inv(1)]] obtain k u where
      ku: "sector_amounts l ?ex = (Fin k, Fin u)" by blast
    with none [OF l] metric have "\<not> violates l (Fin k)"
      by (auto simp: limit_breaches_def limit_issues_def split: if_splits)
    with ku holds [OF l] show ?thesis by simp
  qed
  have "prohibited_breaches m s = []" using inv(2) assms(4) by simp
  then have "\<forall>entry \<in> set (m_prohibited_assets m). \<forall>p \<in> set (s_positions s). \<not> prohibited_match entry p"
    by (auto simp: prohibited_breaches_def filter_empty_conv)
  with weight cash sector show ?thesis by blast
qed

definition calm_mandate :: mandate where
  "calm_mandate = \<lparr>m_limits = [demo_weight_limit\<lparr>rl_threshold := Fin 1\<rparr>], m_prohibited_assets = [''GME'']\<rparr>"

theorem clean_evaluation_complies_witness:
  "\<exists>ev. evaluate_mandate demo_snapshot calm_mandate None = Ok ev \<and> re_breaches ev = [] \<and> re_issues ev = []
     \<and> (\<forall>p \<in> set (s_positions demo_snapshot). \<not> prohibited_match ''GME'' p)"
proof -
  have wf: "wf_mandate calm_mandate" 
    using demo_facts(1)
    by (simp add: calm_mandate_def wf_mandate_def wf_limit_def wf_threshold_def demo_risk_mandate_def
        demo_weight_limit_def strip_def is_space_def)
  have ok: "evaluate_mandate demo_snapshot calm_mandate None = Ok \<lparr>re_breaches = [], re_sector_exposures = [],
      re_issues = [], re_snapshot_id = ''snap'', re_created_at = 0\<rparr>"
    by (simp add: evaluate_mandate_def needs_sector_exposure_def calm_mandate_def demo_weight_limit_def
        evaluate_limit_def demo_snapshot_def op_holds_def dec_simps prohibited_breaches_def
        prohibited_match_def sample_position_def upper_def upper_char_def)
  show ?thesis
    using clean_evaluation_complies [OF wf demo_facts(2) ok] ok by (auto simp: calm_mandate_def)
qed

text \<open>
  When a sector limit is evaluated, the exposure reported for a sector is the 28-digit running
  sum of the weights of exactly the positions whose entity maps to it (unmapped positions sum
  under the unknown sector), and a sector without weighted positions is absent.
\<close>

theorem sector_exposures_sum:
  assumes "wf_mandate m" and "finite_snapshot s" and "needs_sector_exposure m"
    and "evaluate_mandate s m sm = Ok ev"
  shows "dget (re_sector_exposures ev) k =
    (if sector_weights (the_map sm) (s_positions s) k = [] then None
     else Some (Fin (rsum (sector_weights (the_map sm) (s_positions s) k))))"
  using evaluate_mandate_inv(1) [OF assms(1,2,4)] assms(3) by (simp add: run_exposures_def)

theorem sector_exposures_sum_witness:
  "dget (re_sector_exposures demo_evaluation) ''Energy'' = None"
  using sector_exposures_sum [OF demo_facts(1,2,4) demo_evaluate, of "''Energy''"]
  by (simp add: demo_snapshot_def sector_weights_def sector_of_def)

text \<open>
  Sector verdicts are sound under missing classification.  For a long-only snapshot and a named
  sector, a breach reported with the known map is a violation under every map that classifies more
  positions; and when neither a breach nor an issue is reported for the sector, no such map violates
  any of its limits.
\<close>

theorem sector_verdict_stable:
  assumes wf: "wf_mandate m" and fin: "finite_snapshot s" and long: "long_only s"
    and ev: "evaluate_mandate s m (Some sm) = Ok ev" and ext: "extends_map sm' sm"
    and k: "k \<noteq> unknown_sector" and l: "l \<in> set (m_limits m)"
    and metric: "rl_metric l = ''sector_exposure''" and tgt: "rl_target l = Some k"
    and quiet: "sector_issue l \<notin> set (re_issues ev)"
  shows "(\<exists>x note. numeric_breach l (Some k) x note \<in> set (limit_breaches s (re_sector_exposures ev) l))
    \<longleftrightarrow> op_holds (rl_operator l) (Fin (rsum (sector_weights sm' (s_positions s) k))) (rl_threshold l) = Ok False"
proof -
  note inv = evaluate_mandate_inv [OF wf fin ev, simplified]
  have wfl: "wf_limit l" using wf l by (simp add: wf_mandate_def list_all_iff)
  have needs: "needs_sector_exposure m" using l metric by (auto simp: needs_sector_exposure_def list_ex_iff)
  obtain known unknown where amounts: "sector_amounts l (re_sector_exposures ev) = (known, unknown)"
    by fastforce
  have "limit_issues s (re_sector_exposures ev) l = (if sector_open l known unknown then [sector_issue l] else [])"
    using metric amounts by (simp add: limit_issues_def)
  with inv(3) l quiet have closed: "\<not> sector_open l known unknown" by (auto split: if_splits)
  have "limit_breaches s (re_sector_exposures ev) l
      = (if violates l known then [numeric_breach l (Some k) known None] else [])"
    using metric amounts closed tgt by (simp add: limit_breaches_def)
  moreover have "violates l known \<longleftrightarrow>
      op_holds (rl_operator l) (Fin (rsum (sector_weights sm' (s_positions s) k))) (rl_threshold l) = Ok False"
    by (simp only: sector_verdict_extends [OF wfl tgt k long inv(1) needs ext amounts closed] violates_op [OF wfl])
  ultimately show ?thesis by auto
qed

theorem sector_verdict_stable_witness:
  "op_holds ''<='' (Fin (rsum (sector_weights [(''e1'', ''Technology''), (''e2'', ''Energy'')]
      (s_positions demo_snapshot) ''Technology''))) (Fin (1 / 2)) = Ok False"
proof -
  have l: "demo_sector_limit \<in> set (m_limits demo_risk_mandate)" by (simp add: demo_risk_mandate_def)
  have "\<exists>x note. numeric_breach demo_sector_limit (Some ''Technology'') x note
      \<in> set (limit_breaches demo_snapshot (re_sector_exposures demo_evaluation) demo_sector_limit)"
    by (intro exI [of _ "Fin 1"] exI [of _ None])
      (simp add: limit_breaches_def demo_evaluation_def sector_amounts_def demo_sector_limit_def
        dget_default_def unknown_sector_def violates_def op_holds_def sector_open_def dec_simps)
  with sector_verdict_stable [OF demo_facts(1-3) demo_evaluate _ _ l,
      of "[(''e1'', ''Technology''), (''e2'', ''Energy'')]" "''Technology''"]
  show ?thesis
    by (auto simp: demo_sector_limit_def extends_map_def unknown_sector_def demo_evaluation_def)
qed

end
