(* ===== verification/Identity.thy ===== *)
theory Identity
  imports Portfolio "HOL-Library.Product_Lexorder"
begin

text \<open>
  Security identity (\<open>app/domain/market\<close>): the derived ids of \<open>ids.py\<close> and the
  point-in-time resolution of a ticker of \<open>identity.py\<close>.  Instants count from
  \<open>datetime.min\<close> in UTC, so \<open>_NEVER\<close> is 0; \<open>fromiso\<close> is
  \<open>datetime.fromisoformat\<close> and nothing is assumed of it.  The result record is the
  \<open>security_resolution\<close> of theory Portfolio.
\<close>

section \<open>Integer text\<close>

text \<open>
  \<open>int(text)\<close>: white space and a sign are accepted, and single underscores between digits.
\<close>

fun int_body :: "string \<Rightarrow> bool" where
  "int_body [] = False"
| "int_body [c] = is_digit_char c"
| "int_body (c # d # cs) =
     (is_digit_char c \<and> (if d = CHR ''_'' then int_body cs else int_body (d # cs)))"

definition py_int :: "string \<Rightarrow> int option" where
  "py_int s =
     (let (neg, body) = split_sign (strip s)
      in if int_body body
         then (let n = digits_val (filter (\<lambda>c. c \<noteq> CHR ''_'') body) in Some (if neg then - n else n))
         else None)"

text \<open>The format specification \<open>010d\<close>.\<close>

definition zeros :: "nat \<Rightarrow> string" where
  "zeros k = replicate k (CHR ''0'')"

definition pad10 :: "int \<Rightarrow> string" where
  "pad10 n = (let s = nat_str (nat \<bar>n\<bar>)
     in if n < 0 then CHR ''-'' # zeros (9 - length s) @ s else zeros (10 - length s) @ s)"

lemma digits_val_append:
  "digits_val (a @ b) = digits_val a * 10 ^ length b + digits_val b"
proof -
  have gen: "foldl (\<lambda>a c. 10 * a + (of_char c - 48)) x b
      = x * 10 ^ length b + foldl (\<lambda>a c. 10 * a + (of_char c - 48)) 0 b" for x :: int
  proof (induction b arbitrary: x)
    case (Cons c b)
    show ?case
      using Cons.IH [of "10 * x + (of_char c - 48)"] Cons.IH [of "of_char c - 48"]
      by (simp add: algebra_simps)
  qed simp
  show ?thesis unfolding digits_val_def foldl_append by (rule gen)
qed

lemma digits_val_zeros [simp]: "digits_val (zeros k) = 0"
  unfolding zeros_def by (induction k) (simp_all add: digits_val_def)

lemma digits_val_nat_str: "digits_val (nat_str n) = int n"
proof (induction n rule: nat_str.induct)
  case (1 n)
  have one: "digits_val [char_of (48 + d)] = int d" if "d < 10" for d :: nat
  proof -
    have "(of_char (char_of (48 + d)) :: int) = int (of_char (char_of (48 + d)))"
      by (simp only: of_nat_of_char)
    also have "\<dots> = int (48 + d)" using that by (simp only: of_char_of) simp
    finally show ?thesis by (simp add: digits_val_def)
  qed
  show ?case
  proof (cases "n < 10")
    case True
    then show ?thesis by (subst nat_str.simps) (simp add: one)
  next
    case False
    then have str: "nat_str n = nat_str (n div 10) @ [char_of (48 + n mod 10)]"
      by (subst nat_str.simps) (simp only: if_False)
    have "digits_val (nat_str n) = int (n div 10) * 10 + int (n mod 10)"
      unfolding str digits_val_append 1 [OF False] by (subst one) simp_all
    also have "\<dots> = int (n div 10 * 10 + n mod 10)" by (simp only: of_nat_add of_nat_mult of_nat_numeral)
    finally show ?thesis by (simp only: div_mult_mod_eq)
  qed
qed

lemma is_digit_zero [simp]: "is_digit_char (CHR ''0'')"
  by (simp add: is_digit_char_def)

lemma int_body_digits: "s \<noteq> [] \<Longrightarrow> list_all is_digit_char s \<Longrightarrow> int_body s"
proof (induction s rule: int_body.induct)
  case (3 c d cs)
  then have "d \<noteq> CHR ''_''" by (auto simp: is_digit_char_def)
  with 3 show ?case by simp
qed simp_all

lemma digit_not:
  assumes "is_digit_char c"
  shows "\<not> is_space c" and "c \<noteq> CHR ''-''" and "c \<noteq> CHR ''+''" and "c \<noteq> CHR ''_''"
  using assms by (auto simp: is_digit_char_def is_space_def Let_def)

lemma strip_ends: "s \<noteq> [] \<Longrightarrow> \<not> is_space (hd s) \<Longrightarrow> \<not> is_space (last s) \<Longrightarrow> strip s = s"
proof -
  have no_drop: "dropWhile is_space xs = xs" if "xs \<noteq> []" "\<not> is_space (hd xs)" for xs
    using that by (cases xs) auto
  assume "s \<noteq> []" "\<not> is_space (hd s)" "\<not> is_space (last s)"
  then show ?thesis by (simp add: strip_def no_drop hd_rev)
qed

lemma nat_str_nonempty [simp]: "nat_str n \<noteq> []"
  by (subst nat_str.simps) simp

lemma py_int_digits:
  assumes "s \<noteq> []" and "list_all is_digit_char s"
  shows "py_int s = Some (digits_val s)" and "py_int (CHR ''-'' # s) = Some (- digits_val s)"
proof -
  have ends: "is_digit_char (hd s)" "is_digit_char (last s)"
    using assms by (simp_all add: list_all_iff)
  have keep: "filter (\<lambda>c. c \<noteq> CHR ''_'') s = s"
    using assms(2) by (auto simp: filter_id_conv list_all_iff dest: digit_not(4))
  have "split_sign s = (False, s)"
    using assms(1) digit_not(2,3) [OF ends(1)] by (cases s) (simp_all add: split_sign_def)
  moreover have "strip s = s"
    by (rule strip_ends [OF assms(1) digit_not(1) [OF ends(1)] digit_not(1) [OF ends(2)]])
  ultimately show "py_int s = Some (digits_val s)"
    using keep int_body_digits [OF assms] by (simp add: py_int_def)
  have "strip (CHR ''-'' # s) = CHR ''-'' # s"
    using assms(1) digit_not(1) [OF ends(2)] by (intro strip_ends) (simp_all add: is_space_def)
  then show "py_int (CHR ''-'' # s) = Some (- digits_val s)"
    using keep int_body_digits [OF assms] by (simp add: py_int_def split_sign_def)
qed

lemma zeros_digits: "list_all is_digit_char (zeros k @ nat_str n)"
  by (auto simp: zeros_def list_all_iff dest: nat_str_digits)

lemma py_int_pad10 [simp]: "py_int (pad10 n) = Some n"
  using py_int_digits [OF _ zeros_digits]
  by (simp add: pad10_def Let_def digits_val_append digits_val_nat_str)

section \<open>Derived ids\<close>

definition sec_entity_id :: "int \<Rightarrow> string" where
  "sec_entity_id cik = ''sec:cik:'' @ pad10 cik"

definition sec_security_id :: "int \<Rightarrow> string" where
  "sec_security_id cik = ''sec:equity:'' @ pad10 cik"

definition finra_entity_id :: "string \<Rightarrow> string" where
  "finra_entity_id symbol = ''finra:symbol:'' @ upper (strip symbol)"

definition sec_doc_id :: "string \<Rightarrow> string \<Rightarrow> string \<Rightarrow> string" where
  "sec_doc_id kind key content_hash = ''sec:doc:'' @ kind @ '':'' @ key @ '':'' @ take 16 content_hash"

section \<open>Resolution\<close>

record ticker_alias =
  ta_alias_type :: string
  ta_alias_value :: string
  ta_entity_id :: string
  ta_security_id :: "string option"
  ta_source :: string
  ta_valid_from :: "string option"
  ta_valid_to :: "string option"
  ta_known_at :: "string option"
  ta_retrieved_at :: "string option"

definition never :: instant where
  "never = 0"

definition parse_iso :: "iso_parser \<Rightarrow> string option \<Rightarrow> instant option res" where
  "parse_iso fromiso v = (case v of
      None \<Rightarrow> Ok None
    | Some s \<Rightarrow> (case fromiso s of
          None \<Rightarrow> Err (ValueError ''Invalid isoformat string'')
        | Some d \<Rightarrow> Ok (Some (to_utc d))))"

definition or_never :: "instant option \<Rightarrow> instant" where
  "or_never t = (case t of None \<Rightarrow> never | Some u \<Rightarrow> u)"

definition alias_instant :: "iso_parser \<Rightarrow> ticker_alias \<Rightarrow> (instant \<times> instant) res" where
  "alias_instant fromiso a =
     bindR (parse_iso fromiso (ta_known_at a)) (\<lambda>k.
     bindR (parse_iso fromiso (ta_retrieved_at a)) (\<lambda>r. Ok (or_never k, or_never r)))"

definition resolved_security_id :: "ticker_alias \<Rightarrow> string option res" where
  "resolved_security_id a = (case ta_security_id a of
      Some s \<Rightarrow> Ok (Some s)
    | None \<Rightarrow>
        if prefix ''sec:cik:'' (ta_entity_id a) then
          (case py_int (drop (length ''sec:cik:'') (ta_entity_id a)) of
             None \<Rightarrow> Err (ValueError ''invalid literal for int()'')
           | Some n \<Rightarrow> Ok (Some (sec_security_id n)))
        else Ok None)"

text \<open>The argument is any object; \<open>None\<close> stands for one that is no \<open>datetime\<close>.\<close>

definition check_as_of :: "pydatetime option \<Rightarrow> instant res" where
  "check_as_of as_of = (case as_of of
      None \<Rightarrow> Err (TypeError ''as_of must be a timezone-aware datetime'')
    | Some (Naive t) \<Rightarrow> Err (ValueError ''as_of must be timezone-aware'')
    | Some (Aware t) \<Rightarrow> Ok t)"

text \<open>The conditions are evaluated in order, and a bound is parsed only when it is reached.\<close>

definition alias_visible :: "iso_parser \<Rightarrow> instant \<Rightarrow> ticker_alias \<Rightarrow> bool res" where
  "alias_visible fromiso as_of a =
     bindR (parse_iso fromiso (ta_known_at a)) (\<lambda>known.
     case known of
       None \<Rightarrow> Ok False
     | Some k \<Rightarrow>
         if \<not> k \<le> as_of then Ok False
         else bindR (parse_iso fromiso (ta_valid_from a)) (\<lambda>from.
              if \<not> (case from of None \<Rightarrow> True | Some f \<Rightarrow> f \<le> as_of) then Ok False
              else bindR (parse_iso fromiso (ta_valid_to a)) (\<lambda>to.
                   Ok (case to of None \<Rightarrow> True | Some t \<Rightarrow> as_of < t))))"

definition visible_aliases :: "iso_parser \<Rightarrow> instant \<Rightarrow> ticker_alias list \<Rightarrow> ticker_alias list res" where
  "visible_aliases fromiso as_of aliases = filterR (alias_visible fromiso as_of) aliases"

definition distinct_entities :: "ticker_alias list \<Rightarrow> string list" where
  "distinct_entities visible = dedup (map ta_entity_id visible)"

text \<open>\<open>max\<close> of a non-empty sequence of pairs, compared lexicographically.\<close>

definition newest_aliases :: "iso_parser \<Rightarrow> ticker_alias list \<Rightarrow> ticker_alias list res" where
  "newest_aliases fromiso visible =
     bindR (mapR (alias_instant fromiso) visible) (\<lambda>keys.
     let newest_key = fold max (tl keys) (hd keys)
     in Ok (map fst (filter (\<lambda>(a, k). k = newest_key) (zip visible keys))))"

text \<open>The three shapes of the answer.\<close>

definition unresolved :: "string \<Rightarrow> security_resolution" where
  "unresolved t = \<lparr>sr_security_id = None, sr_entity_id = None, sr_ticker = t, sr_resolved = False,
     sr_method = ''unresolved''\<rparr>"

definition ambiguous :: "string \<Rightarrow> string option \<Rightarrow> security_resolution" where
  "ambiguous t e = \<lparr>sr_security_id = None, sr_entity_id = e, sr_ticker = t, sr_resolved = False,
     sr_method = ''ambiguous''\<rparr>"

definition resolved :: "string \<Rightarrow> string option \<Rightarrow> string \<Rightarrow> security_resolution" where
  "resolved t sec e = \<lparr>sr_security_id = sec, sr_entity_id = Some e, sr_ticker = t, sr_resolved = True,
     sr_method = ''entity_alias''\<rparr>"

definition resolve_newest :: "ticker_alias list \<Rightarrow> string \<Rightarrow> string \<Rightarrow> security_resolution res" where
  "resolve_newest newest entity_id ticker =
     bindR (mapR resolved_security_id newest) (\<lambda>ids.
     if length (dedup ids) > 1 then Ok (ambiguous ticker (Some entity_id))
     else Ok (resolved ticker (hd ids) (ta_entity_id (hd newest))))"

definition resolve_ticker_aliases ::
    "iso_parser \<Rightarrow> string \<Rightarrow> ticker_alias list \<Rightarrow> pydatetime option \<Rightarrow> security_resolution res" where
  "resolve_ticker_aliases fromiso ticker aliases as_of =
     bindR (check_as_of as_of) (\<lambda>moment.
     bindR (visible_aliases fromiso moment aliases) (\<lambda>visible.
     if visible = [] then Ok (unresolved ticker)
     else (let entities = distinct_entities visible
           in if length entities > 1 then Ok (ambiguous ticker None)
              else bindR (newest_aliases fromiso visible) (\<lambda>newest.
                   resolve_newest newest (hd entities) ticker))))"

section \<open>Point-in-time visibility\<close>

definition known_by :: "iso_parser \<Rightarrow> instant \<Rightarrow> ticker_alias \<Rightarrow> bool" where
  "known_by fromiso c a \<longleftrightarrow> (case parse_iso fromiso (ta_known_at a) of Inr (Some k) \<Rightarrow> k \<le> c | _ \<Rightarrow> False)"

interpretation alias_gate: pit_gate "known_by fromiso" for fromiso
  by unfold_locales (auto simp: known_by_def split: sum.splits option.splits)

definition dated :: "iso_parser \<Rightarrow> ticker_alias \<Rightarrow> bool" where
  "dated fromiso a \<longleftrightarrow> is_ok (parse_iso fromiso (ta_known_at a))"

lemma unknown_invisible: "dated fromiso a \<Longrightarrow> \<not> known_by fromiso c a \<Longrightarrow> alias_visible fromiso c a = Ok False"
  by (auto simp: dated_def known_by_def alias_visible_def is_ok_iff split: option.splits)

lemma visible_known: "alias_visible fromiso c a = Ok True \<Longrightarrow> known_by fromiso c a"
  by (auto simp: alias_visible_def known_by_def bindR_Ok_iff split: option.splits if_splits)

lemma visible_aliases_cut:
  "list_all (dated fromiso) as \<Longrightarrow>
    visible_aliases fromiso c (filter (known_by fromiso c) as) = visible_aliases fromiso c as"
  unfolding visible_aliases_def by (rule filterR_filter) (simp add: unknown_invisible list_all_iff)

section \<open>The answer as a function of the visible set\<close>

definition effective_id :: "ticker_alias \<Rightarrow> string option" where
  "effective_id a = projr (resolved_security_id a)"

definition instant_key :: "iso_parser \<Rightarrow> ticker_alias \<Rightarrow> instant \<times> instant" where
  "instant_key fromiso a = projr (alias_instant fromiso a)"

lemma filter_zip_map: "map fst (filter (\<lambda>(a, k). P k) (zip xs (map f xs))) = filter (\<lambda>a. P (f a)) xs"
  by (induction xs) auto

lemma newest_aliases_Ok_iff:
  assumes "vs \<noteq> []"
  shows "newest_aliases fromiso vs = Ok ns \<longleftrightarrow> (\<forall>a \<in> set vs. is_ok (alias_instant fromiso a))
    \<and> ns = filter (\<lambda>a. instant_key fromiso a = Max (instant_key fromiso ` set vs)) vs"
proof -
  obtain v vs' where vs: "vs = v # vs'" using assms by (cases vs) auto
  let ?ks = "map (instant_key fromiso) vs"
  have max: "fold max (tl ?ks) (hd ?ks) = Max (instant_key fromiso ` set vs)"
    by (simp only: vs Max.set_eq_fold [symmetric] list.set_map [symmetric] list.map list.sel)
  have keys: "mapR (alias_instant fromiso) vs = Ok ks \<longleftrightarrow> (\<forall>a \<in> set vs. is_ok (alias_instant fromiso a)) \<and> ks = ?ks" for ks
    by (simp add: mapR_Ok_iff instant_key_def [abs_def])
  show ?thesis
    unfolding newest_aliases_def bindR_Ok_iff keys
    by (auto simp only: max Let_def filter_zip_map sum.inject)
qed

lemma arg_max_iff:
  fixes f :: "'a \<Rightarrow> 'k::linorder"
  assumes "finite A" and "a \<in> A"
  shows "f a = Max (f ` A) \<longleftrightarrow> (\<forall>b \<in> A. f b \<le> f a)"
proof
  assume "f a = Max (f ` A)"
  with assms(1) show "\<forall>b \<in> A. f b \<le> f a" by simp
next
  assume "\<forall>b \<in> A. f b \<le> f a"
  with assms show "f a = Max (f ` A)" by (intro Max_eqI [symmetric]) auto
qed

lemma newest_nonempty:
  assumes "vs \<noteq> []" and "newest_aliases fromiso vs = Ok ns"
  shows "ns \<noteq> []"
proof -
  have "Max (instant_key fromiso ` set vs) \<in> instant_key fromiso ` set vs" using assms(1) by simp
  with assms(2) show ?thesis
    by (auto simp: newest_aliases_Ok_iff [OF assms(1)] filter_empty_conv)
qed

definition conflicting :: "ticker_alias set \<Rightarrow> bool" where
  "conflicting A \<longleftrightarrow> (\<exists>a \<in> A. \<exists>b \<in> A. effective_id a \<noteq> effective_id b)"

lemma resolve_newest_Ok_iff:
  assumes "ns \<noteq> []"
  shows "resolve_newest ns e t = Ok r \<longleftrightarrow> (\<forall>a \<in> set ns. is_ok (resolved_security_id a))
    \<and> r = (if conflicting (set ns) then ambiguous t (Some e)
            else resolved t (effective_id (hd ns)) (ta_entity_id (hd ns)))"
proof -
  have ids: "mapR resolved_security_id ns = Ok xs \<longleftrightarrow>
      (\<forall>a \<in> set ns. is_ok (resolved_security_id a)) \<and> xs = map effective_id ns" for xs
    by (simp add: mapR_Ok_iff effective_id_def [abs_def])
  have agree: "length (dedup (map effective_id ns)) > 1
      \<longleftrightarrow> conflicting (set ns)"
    by (simp add: conflicting_def length_dedup not_le [symmetric] card_le_Suc0_iff_eq)
  show ?thesis
  proof (cases "\<forall>a \<in> set ns. is_ok (resolved_security_id a)")
    case True
    then have "mapR resolved_security_id ns = Ok (map effective_id ns)" using ids by blast
    then have "resolve_newest ns e t
      = (if conflicting (set ns) then Ok (ambiguous t (Some e))
         else Ok (resolved t (effective_id (hd ns)) (ta_entity_id (hd ns))))"
      by (simp only: resolve_newest_def bindR_simps agree hd_map [OF assms])
    with True show ?thesis by (auto simp only: sum.inject split: if_splits)
  next
    case False
    then have "mapR resolved_security_id ns \<noteq> Ok xs" for xs using ids by blast
    with False show ?thesis by (auto simp only: resolve_newest_def bindR_Ok_iff)
  qed
qed

lemma resolve_newest_set:
  assumes "set ns = set ms" and "ns \<noteq> []" and "\<forall>a \<in> set ns. ta_entity_id a = e"
    and "resolve_newest ns e t = Ok r"
  shows "resolve_newest ms e t = Ok r"
proof -
  have ms: "ms \<noteq> []" using assms(1,2) by (metis set_empty)
  have hds: "hd ns \<in> set ns" "hd ms \<in> set ns"
    by (rule hd_in_set [OF assms(2)]) (unfold assms(1), rule hd_in_set [OF ms])
  show ?thesis
  proof (cases "conflicting (set ns)")
    case True
    with assms(1,4) show ?thesis
      by (simp add: resolve_newest_Ok_iff [OF assms(2)] resolve_newest_Ok_iff [OF ms])
  next
    case False
    then have "effective_id (hd ns) = effective_id (hd ms)" using hds unfolding conflicting_def by blast
    moreover have "ta_entity_id (hd ms) = ta_entity_id (hd ns)" using assms(3) hds by simp
    ultimately show ?thesis
      using False assms(1,4)
      by (simp add: resolve_newest_Ok_iff [OF assms(2)] resolve_newest_Ok_iff [OF ms])
  qed
qed

lemma one_entity:
  assumes "vs \<noteq> []" and "\<not> length (distinct_entities vs) > 1"
  shows "\<forall>a \<in> set vs. ta_entity_id a = hd (distinct_entities vs)"
  using assms length_dedup_le_1_iff [of "map ta_entity_id vs"] by (simp add: distinct_entities_def)

lemma resolve_visible_set:
  assumes "set vs = set us" and "vs \<noteq> []" and "\<not> length (distinct_entities vs) > 1"
    and "bindR (newest_aliases fromiso vs) (\<lambda>ns. resolve_newest ns (hd (distinct_entities vs)) t) = Ok r"
  shows "bindR (newest_aliases fromiso us) (\<lambda>ns. resolve_newest ns (hd (distinct_entities us)) t) = Ok r"
proof -
  have us: "us \<noteq> []" using assms(1,2) by auto
  let ?e = "hd (distinct_entities vs)"
  have "length (distinct_entities us) = length (distinct_entities vs)"
    using assms(1) by (simp add: distinct_entities_def length_dedup)
  with one_entity [OF us] one_entity [OF assms(2,3)] assms(1,2,3) have e: "hd (distinct_entities us) = ?e"
    by (metis last_in_set)
  from assms(4) obtain ns where ns: "newest_aliases fromiso vs = Ok ns" and r: "resolve_newest ns ?e t = Ok r"
    by (auto simp: bindR_Ok_iff)
  then have ms: "newest_aliases fromiso us = Ok (filter (\<lambda>a. instant_key fromiso a = Max (instant_key fromiso ` set us)) us)"
    (is "_ = Ok ?ms") using assms(1) by (simp add: newest_aliases_Ok_iff [OF assms(2)] newest_aliases_Ok_iff [OF us])
  have "set ns = set ?ms" using ns assms(1) by (simp add: newest_aliases_Ok_iff [OF assms(2)])
  moreover have "\<forall>a \<in> set ns. ta_entity_id a = ?e"
    using ns one_entity [OF assms(2,3)] by (simp add: newest_aliases_Ok_iff [OF assms(2)])
  ultimately have "resolve_newest ?ms ?e t = Ok r"
    using resolve_newest_set newest_nonempty [OF assms(2) ns] r by blast
  with ms e show ?thesis by simp
qed

section \<open>Properties\<close>

text \<open>
  C31.  The answer depends only on the set of alias rows: whatever their order or repetition, a
  resolution that succeeds gives the same result.
\<close>

theorem ticker_resolution_order_free:
  assumes "set as = set bs" and "resolve_ticker_aliases fromiso t as c = Ok r"
  shows "resolve_ticker_aliases fromiso t bs c = Ok r"
proof -
  from assms(2) obtain m vs where m: "check_as_of c = Ok m" and vs: "visible_aliases fromiso m as = Ok vs"
    by (auto simp: resolve_ticker_aliases_def bindR_Ok_iff)
  have us: "visible_aliases fromiso m bs = Ok (filter (\<lambda>a. alias_visible fromiso m a = Ok True) bs)"
    (is "_ = Ok ?us") using vs assms(1) by (simp add: visible_aliases_def filterR_Ok_iff)
  have set: "set vs = set ?us" using vs assms(1) by (simp add: visible_aliases_def filterR_Ok_iff)
  then have len: "length (distinct_entities ?us) = length (distinct_entities vs)"
    by (simp add: distinct_entities_def length_dedup)
  have empty: "?us = [] \<longleftrightarrow> vs = []" using set by (metis set_empty)
  show ?thesis
  proof (cases "vs = [] \<or> length (distinct_entities vs) > 1")
    case True
    with assms(2) empty len show ?thesis
      by (auto simp: resolve_ticker_aliases_def m vs us Let_def split: if_splits)
  next
    case False
    with assms(2) have "bindR (newest_aliases fromiso vs)
        (\<lambda>ns. resolve_newest ns (hd (distinct_entities vs)) t) = Ok r"
      by (simp add: resolve_ticker_aliases_def m vs Let_def)
    from resolve_visible_set [OF set _ _ this] False empty len show ?thesis
      by (simp add: resolve_ticker_aliases_def m us Let_def)
  qed
qed

definition demo_iso :: iso_parser where
  "demo_iso s = (if s = ''2024-01-01'' then Some (Naive 100) else if s = ''2025-01-01'' then Some (Naive 200) else None)"

definition demo_alias :: "int \<Rightarrow> string \<Rightarrow> ticker_alias" where
  "demo_alias cik known = \<lparr>ta_alias_type = ''ticker'', ta_alias_value = ''AAPL'', ta_entity_id = sec_entity_id cik,
     ta_security_id = Some ''sec:x'', ta_source = ''sec'', ta_valid_from = None, ta_valid_to = None,
     ta_known_at = Some known, ta_retrieved_at = None\<rparr>"

lemma demo_resolution:
  "resolve_ticker_aliases demo_iso ''AAPL'' [demo_alias 1 ''2024-01-01'', demo_alias 2 ''2025-01-01''] (Some (Aware 150))
    = Ok (resolved ''AAPL'' (Some ''sec:x'') (sec_entity_id 1))"
  by (simp add: resolve_ticker_aliases_def check_as_of_def visible_aliases_def alias_visible_def parse_iso_def
      demo_alias_def demo_iso_def distinct_entities_def newest_aliases_def alias_instant_def resolve_newest_def
      resolved_security_id_def resolved_def)

theorem ticker_resolution_order_free_witness:
  "resolve_ticker_aliases demo_iso ''AAPL''
      [demo_alias 2 ''2025-01-01'', demo_alias 1 ''2024-01-01'', demo_alias 1 ''2024-01-01''] (Some (Aware 150))
    = Ok (resolved ''AAPL'' (Some ''sec:x'') (sec_entity_id 1))"
  by (rule ticker_resolution_order_free [OF _ demo_resolution]) auto

text \<open>
  C32.  No look-ahead: resolving as of an instant from an archive cut at that instant or any later
  one gives the same result (or error) as resolving from the whole archive, so rows learnt later
  never change a historical answer.
\<close>

theorem ticker_resolution_replayable:
  assumes "list_all (dated fromiso) as" and "c \<le> c'"
  shows "resolve_ticker_aliases fromiso t (filter (known_by fromiso c') as) (Some (Aware c))
    = resolve_ticker_aliases fromiso t as (Some (Aware c))"
proof -
  have cut: "list_all (dated fromiso) (filter (known_by fromiso c') as)"
    using assms(1) by (simp add: list_all_iff)
  have "visible_aliases fromiso c (filter (known_by fromiso c') as) = visible_aliases fromiso c as"
    using visible_aliases_cut [OF cut, of c] visible_aliases_cut [OF assms(1), of c]
      alias_gate.filter_later [OF assms(2), of fromiso as] by simp
  then show ?thesis by (simp add: resolve_ticker_aliases_def check_as_of_def)
qed

theorem ticker_resolution_replayable_witness:
  "resolve_ticker_aliases demo_iso ''AAPL'' [demo_alias 1 ''2024-01-01''] (Some (Aware 150))
    = Ok (resolved ''AAPL'' (Some ''sec:x'') (sec_entity_id 1))"
proof -
  have "list_all (dated demo_iso) [demo_alias 1 ''2024-01-01'', demo_alias 2 ''2025-01-01'']"
    by (simp add: dated_def parse_iso_def demo_alias_def demo_iso_def)
  from ticker_resolution_replayable [OF this, of 150 160 "''AAPL''"] demo_resolution show ?thesis
    by (simp add: known_by_def parse_iso_def demo_alias_def demo_iso_def)
qed

text \<open>
  What an answer means.  It is unresolved exactly when no row is visible; ambiguous when the
  visible rows name two entities, or when the rows at the newest instant disagree on the effective
  security id; otherwise it names the one visible entity and the security id all newest rows share.
\<close>

theorem ticker_resolution_meaning:
  fixes fromiso as c
  defines "vis \<equiv> {a \<in> set as. alias_visible fromiso c a = Ok True}"
  defines "newest \<equiv> {a \<in> vis. \<forall>b \<in> vis. instant_key fromiso b \<le> instant_key fromiso a}"
  assumes "resolve_ticker_aliases fromiso t as (Some (Aware c)) = Ok r"
  shows "(vis = {} \<longrightarrow> r = unresolved t)
    \<and> (\<forall>a \<in> vis. \<forall>b \<in> vis. ta_entity_id a \<noteq> ta_entity_id b \<longrightarrow> r = ambiguous t None)
    \<and> (vis \<noteq> {} \<and> (\<forall>a \<in> vis. \<forall>b \<in> vis. ta_entity_id a = ta_entity_id b) \<longrightarrow>
        newest \<noteq> {}
        \<and> (\<forall>a \<in> newest. \<forall>b \<in> newest. resolved_security_id a \<noteq> resolved_security_id b
             \<longrightarrow> r = ambiguous t (Some (ta_entity_id a)))
        \<and> ((\<forall>a \<in> newest. \<forall>b \<in> newest. resolved_security_id a = resolved_security_id b) \<longrightarrow>
             (\<forall>a \<in> newest. \<exists>s. resolved_security_id a = Ok s \<and> r = resolved t s (ta_entity_id a))))"
proof -
  obtain vs where vs: "visible_aliases fromiso c as = Ok vs"
    using assms(3) by (auto simp: resolve_ticker_aliases_def check_as_of_def bindR_Ok_iff)
  then have set: "set vs = vis" by (auto simp: vis_def visible_aliases_def filterR_Ok_iff)
  have run: "(if vs = [] then Ok (unresolved t)
      else if length (distinct_entities vs) > 1 then Ok (ambiguous t None)
      else bindR (newest_aliases fromiso vs) (\<lambda>newest. resolve_newest newest (hd (distinct_entities vs)) t)) = Ok r"
    using assms(3) by (simp only: resolve_ticker_aliases_def check_as_of_def bindR_simps option.case pydatetime.case vs Let_def)
  show ?thesis
  proof (cases "vs = [] \<or> length (distinct_entities vs) > 1")
    case True
    have iff: "length (distinct_entities vs) > 1 \<longleftrightarrow> (\<exists>a \<in> vis. \<exists>b \<in> vis. ta_entity_id a \<noteq> ta_entity_id b)"
      by (simp add: distinct_entities_def length_dedup not_le [symmetric] card_le_Suc0_iff_eq set [symmetric])
    show ?thesis
    proof (cases "vs = []")
      case True
      then have "r = unresolved t" using run by simp
      moreover have "vis = {}" unfolding set [symmetric] True by (rule list.set(1))
      ultimately show ?thesis by blast
    next
      case nonempty: False
      with True have many: "length (distinct_entities vs) > 1" by blast
      with run nonempty have "r = ambiguous t None" by (simp add: Let_def)
      moreover have "vis \<noteq> {}" using set nonempty by auto
      ultimately show ?thesis using iff many by blast
    qed
  next
    case False
    then have ne: "vs \<noteq> []" and one: "\<not> length (distinct_entities vs) > 1" by simp_all
    let ?e = "hd (distinct_entities vs)"
    from run False obtain ns where ns: "newest_aliases fromiso vs = Ok ns" and r: "resolve_newest ns ?e t = Ok r"
      by (auto simp: Let_def bindR_Ok_iff)
    have ent: "\<forall>a \<in> vis. ta_entity_id a = ?e" using one_entity [OF ne one] set by simp
    have new: "set ns = newest"
      using ns arg_max_iff [of "set vs" _ "instant_key fromiso"]
      unfolding newest_aliases_Ok_iff [OF ne] newest_def set [symmetric] by auto
    have nne: "ns \<noteq> []" by (rule newest_nonempty [OF ne ns])
    have hd: "hd ns \<in> newest" using nne new by auto
    have hd_ent: "ta_entity_id (hd ns) = ?e" using ent hd by (simp add: newest_def)
    from r have ok: "\<forall>a \<in> newest. is_ok (resolved_security_id a)"
      and res: "r = (if conflicting newest then ambiguous t (Some ?e)
            else resolved t (effective_id (hd ns)) ?e)"
      by (simp_all add: resolve_newest_Ok_iff [OF nne] new hd_ent)
    have eff: "resolved_security_id a = Ok (effective_id a)" if "a \<in> newest" for a
      using ok that by (auto simp: effective_id_def is_ok_iff)
    have vis_ne: "vis \<noteq> {}" using hd unfolding newest_def by blast
    have conflict: "r = ambiguous t (Some (ta_entity_id a))"
      if "a \<in> newest" "b \<in> newest" "resolved_security_id a \<noteq> resolved_security_id b" for a b
    proof -
      have "effective_id a \<noteq> effective_id b" using that eff by metis
      then have "conflicting newest" using that(1,2) unfolding conflicting_def by blast
      moreover have "ta_entity_id a = ?e" using ent that(1) by (simp add: newest_def)
      ultimately show ?thesis using res by simp
    qed
    have agreed: "\<exists>s. resolved_security_id a = Ok s \<and> r = resolved t s (ta_entity_id a)"
      if a: "a \<in> newest" and same: "\<forall>a \<in> newest. \<forall>b \<in> newest. resolved_security_id a = resolved_security_id b" for a
    proof -
      have eq: "effective_id b = effective_id a" if "b \<in> newest" for b
        using bspec [OF bspec [OF same that] a] unfolding effective_id_def by (rule arg_cong)
      then have "\<not> conflicting newest" unfolding conflicting_def by metis
      with res eq [OF hd] have "r = resolved t (effective_id a) ?e" by simp
      moreover have "ta_entity_id a = ?e" using ent a by (simp add: newest_def)
      ultimately show ?thesis using eff [OF a] by simp
    qed
    show ?thesis
    proof (intro conjI impI ballI)
      show "vis = {} \<Longrightarrow> r = unresolved t" using vis_ne by (rule notE)
      show "r = ambiguous t None" if "a \<in> vis" "b \<in> vis" "ta_entity_id a \<noteq> ta_entity_id b" for a b
        using that ent by metis
      show "newest \<noteq> {}" using hd by blast
    qed (erule conflict agreed; assumption)+
  qed
qed

theorem ticker_resolution_meaning_witness:
  "\<exists>a \<in> set [demo_alias 1 ''2024-01-01'', demo_alias 2 ''2025-01-01'']. alias_visible demo_iso 150 a = Ok True"
proof -
  have "resolved ''AAPL'' (Some ''sec:x'') (sec_entity_id 1) \<noteq> unresolved ''AAPL''"
    by (simp add: resolved_def unresolved_def)
  with ticker_resolution_meaning [OF demo_resolution] show ?thesis by blast
qed

text \<open>
  The derived ids are consistent: a row of an SEC entity without a security id gets the
  common-equity id of the same CIK, and two CIKs share an entity id or a security id only if they
  are equal.
\<close>

theorem derived_ids_consistent:
  "resolved_security_id (a\<lparr>ta_entity_id := sec_entity_id n, ta_security_id := None\<rparr>) = Ok (Some (sec_security_id n))
   \<and> (sec_entity_id m = sec_entity_id n \<longleftrightarrow> m = n) \<and> (sec_security_id m = sec_security_id n \<longleftrightarrow> m = n)"
proof -
  have inj: "pad10 m = pad10 n \<longleftrightarrow> m = n" by (metis option.inject py_int_pad10)
  have "resolved_security_id b = Ok (Some (sec_security_id n))"
    if "ta_security_id b = None" "ta_entity_id b = sec_entity_id n" for b
  proof -
    have "prefix ''sec:cik:'' (sec_entity_id n)" "drop (length ''sec:cik:'') (sec_entity_id n) = pad10 n"
      by (simp_all add: sec_entity_id_def)
    then show ?thesis by (simp only: that resolved_security_id_def option.case if_True py_int_pad10)
  qed
  then have "resolved_security_id (a\<lparr>ta_entity_id := sec_entity_id n, ta_security_id := None\<rparr>)
      = Ok (Some (sec_security_id n))" by simp
  with inj show ?thesis by (simp add: sec_entity_id_def sec_security_id_def)
qed

end
