(* ===== verification/Relationships.thy ===== *)
theory Relationships
  imports PyValue
begin

text \<open>
  The relationship evidence workflow (\<open>app/domain/evidence/relationships.py\<close>): a mutable
  relationship with an append-only revision log, evidence and counterevidence, and the conservative
  promotion rule.  An operation maps the relationship to the one it leaves behind paired with its
  result, so that what a raised exception leaves behind is visible.  Text arguments are ASCII, where
  \<open>unicodedata.normalize\<close> is the identity; \<open>now\<close> is the reading of the clock and
  \<open>fresh\<close> the random part of a new id.  Confidences are floats (see theory PyValue).
\<close>

section \<open>Vocabulary\<close>

definition statuses :: "string list" where
  "statuses = [''observed'', ''candidate'', ''verified'', ''rejected'', ''expired'', ''superseded'', ''unknown'']"

definition actors :: "string list" where
  "actors = [''deterministic'', ''extractor'', ''human'', ''evaluation'']"

definition auto_verify_min_confidence :: decimal where
  "auto_verify_min_confidence = Fin (95 / 100)"

definition deterministic_types :: "string list" where
  "deterministic_types = [''beneficial_owner'', ''insider_owner'', ''holding_manager'',
     ''transaction_party'', ''offering_party'']"

text \<open>Float comparison: false on a NaN.\<close>

definition f_lt :: "decimal \<Rightarrow> decimal \<Rightarrow> bool" where
  "f_lt x y \<longleftrightarrow> d_lt x y = Ok True"

text \<open>\<open>a or b\<close> on optional text: the empty string is false.\<close>

definition or_str :: "string option \<Rightarrow> string option \<Rightarrow> string option" where
  "or_str a b = (case a of Some s \<Rightarrow> if s = [] then b else a | None \<Rightarrow> b)"

definition text_or_empty :: "string option \<Rightarrow> string" where
  "text_or_empty a = (case a of Some s \<Rightarrow> s | None \<Rightarrow> [])"

definition falsy :: "string option \<Rightarrow> bool" where
  "falsy a \<longleftrightarrow> text_or_empty a = []"

section \<open>Label normalisation\<close>

text \<open>
  \<open>sub_runs keep s\<close> replaces every maximal run of characters outside \<open>keep\<close> by one
  underscore, as \<open>re.sub\<close> with a plus does.
\<close>

function sub_runs :: "(char \<Rightarrow> bool) \<Rightarrow> string \<Rightarrow> string" where
  "sub_runs keep [] = []"
| "sub_runs keep (c # cs) =
     (if keep c then c # sub_runs keep cs
      else CHR ''_'' # sub_runs keep (dropWhile (\<lambda>d. \<not> keep d) cs))"
  by pat_completeness auto
termination
  by (relation "measure (\<lambda>(keep, s). length s)") (auto simp: le_imp_less_Suc length_dropWhile_le)

definition label_char :: "char \<Rightarrow> bool" where
  "label_char c = (let n = (of_char c :: nat) in (97 \<le> n \<and> n \<le> 122) \<or> (48 \<le> n \<and> n \<le> 57))"

definition strip_underscores :: "string \<Rightarrow> string" where
  "strip_underscores s = rev (dropWhile (\<lambda>c. c = CHR ''_'') (rev (dropWhile (\<lambda>c. c = CHR ''_'') s)))"

definition normalize_label :: "string option \<Rightarrow> string" where
  "normalize_label raw =
     (let s = strip_underscores (sub_runs label_char (lower (text_or_empty raw)));
          t = sub_runs (\<lambda>c. c \<noteq> CHR ''_'') s
      in if t = [] then ''unknown'' else t)"

section \<open>State\<close>

record rel_evidence =
  ev_id :: string
  ev_relationship_id :: string
  ev_accession :: "string option"
  ev_document_name :: "string option"
  ev_source_span :: "string option"
  ev_extraction_method :: "string option"
  ev_confidence :: decimal
  ev_is_counter :: bool
  ev_known_at :: "string option"
  ev_relationship_type :: "string option"
  ev_from :: "string option"
  ev_to :: "string option"

record rel_revision =
  rv_id :: string
  rv_relationship_id :: string
  rv_previous_status :: "string option"
  rv_new_status :: string
  rv_actor :: string
  rv_reason :: string
  rv_recorded_at :: string
  rv_superseded :: "string option"
  rv_known_at :: "string option"

record relationship =
  rel_id :: string
  rel_type :: string
  rel_raw_label :: "string option"
  rel_from :: "string option"
  rel_to :: "string option"
  rel_status :: string
  rel_known_at :: "string option"
  rel_current :: "string option"
  rel_evidence :: "rel_evidence list"
  rel_counterevidence :: "rel_evidence list"
  rel_revisions :: "rel_revision list"

definition opt_obj :: "string option \<Rightarrow> pyobj" where
  "opt_obj v = (case v of None \<Rightarrow> PNone | Some s \<Rightarrow> PStr s)"

definition evidence_to_dict :: "rel_evidence \<Rightarrow> pyobj" where
  "evidence_to_dict e = PDict [
     (''evidence_id'', PStr (ev_id e)), (''relationship_id'', PStr (ev_relationship_id e)),
     (''relationship_type'', opt_obj (ev_relationship_type e)),
     (''from_entity_id'', opt_obj (ev_from e)), (''to_entity_id'', opt_obj (ev_to e)),
     (''accession'', opt_obj (ev_accession e)), (''document_name'', opt_obj (ev_document_name e)),
     (''source_span'', opt_obj (ev_source_span e)),
     (''extraction_method'', opt_obj (ev_extraction_method e)),
     (''confidence'', PFloat (ev_confidence e)), (''is_counterevidence'', PBool (ev_is_counter e)),
     (''known_at'', opt_obj (ev_known_at e))]"

definition revision_to_dict :: "rel_revision \<Rightarrow> pyobj" where
  "revision_to_dict r = PDict [
     (''revision_id'', PStr (rv_id r)), (''relationship_id'', PStr (rv_relationship_id r)),
     (''previous_status'', opt_obj (rv_previous_status r)), (''new_status'', PStr (rv_new_status r)),
     (''actor'', PStr (rv_actor r)), (''reason'', PStr (rv_reason r)),
     (''recorded_at'', PStr (rv_recorded_at r)),
     (''superseded_revision_id'', opt_obj (rv_superseded r)), (''known_at'', opt_obj (rv_known_at r))]"

definition supporting :: "relationship \<Rightarrow> rel_evidence list" where
  "supporting rel = filter (\<lambda>e. \<not> ev_is_counter e) (rel_evidence rel)"

definition new_id :: "string \<Rightarrow> string \<Rightarrow> string" where
  "new_id pre fresh = pre @ '':'' @ fresh"

definition numbered_id :: "string \<Rightarrow> string \<Rightarrow> nat \<Rightarrow> string" where
  "numbered_id rid tag n = rid @ tag @ nat_str n"

definition record_revision ::
    "string \<Rightarrow> relationship \<Rightarrow> string option \<Rightarrow> string \<Rightarrow> string \<Rightarrow> string \<Rightarrow> string option \<Rightarrow>
      string option \<Rightarrow> relationship \<times> rel_revision res" where
  "record_revision now rel prev new actor reason known_at superseded =
     (if actor \<notin> set actors then (rel, Err (ValueError ''actor must be one of''))
      else if new \<notin> set statuses then (rel, Err (ValueError ''status must be one of''))
      else (let rev = \<lparr>rv_id = numbered_id (rel_id rel) '':r'' (length (rel_revisions rel) + 1),
                       rv_relationship_id = rel_id rel, rv_previous_status = prev, rv_new_status = new,
                       rv_actor = actor, rv_reason = reason, rv_recorded_at = now,
                       rv_superseded = (case superseded of Some s \<Rightarrow> Some s
                          | None \<Rightarrow> if prev \<noteq> Some new then rel_current rel else None),
                       rv_known_at = or_str known_at (rel_known_at rel)\<rparr>
            in (rel\<lparr>rel_status := new, rel_current := Some (rv_id rev),
                    rel_revisions := rel_revisions rel @ [rev]\<rparr>, Ok rev)))"

section \<open>Validation\<close>

text \<open>The codes, with the interpolated value as an argument.\<close>

datatype rel_code =
    UnresolvedEndpoint
  | InvalidDirection
  | EmptySpan string
  | PitUnsafeEvidence
  | EndpointConflict string
  | MissingProvenance string
  | NeedsTwoSources
  | EndpointUnverified string
  | NoSupportingEvidence
  | MinConfidenceBelow decimal
  | UnresolvedCounterevidence

text \<open>
  The pattern of \<open>_check_as_of\<close>; the dollar sign also matches before a final newline.
\<close>

definition date_shape :: "string \<Rightarrow> bool" where
  "date_shape s \<longleftrightarrow>
     (let d = take 10 s
      in length d = 10 \<and> drop 10 s \<in> set [[], [CHR 0x0A]]
         \<and> list_all is_digit_char (take 4 d) \<and> d ! 4 = CHR ''-''
         \<and> list_all is_digit_char (take 2 (drop 5 d)) \<and> d ! 7 = CHR ''-''
         \<and> list_all is_digit_char (drop 8 d))"

definition check_rel_as_of :: "string option \<Rightarrow> string option res" where
  "check_rel_as_of as_of = (case as_of of
      None \<Rightarrow> Ok None
    | Some s \<Rightarrow> if date_shape s then Ok (Some s) else Err (ValueError ''as_of must be YYYY-MM-DD''))"

definition endpoint_errors :: "relationship \<Rightarrow> rel_code list" where
  "endpoint_errors rel =
     (if falsy (rel_from rel) \<or> falsy (rel_to rel) then [UnresolvedEndpoint]
      else if rel_from rel = rel_to rel then [InvalidDirection] else [])"

text \<open>The loops return at the first offending item.\<close>

definition first_error :: "('a \<Rightarrow> bool) \<Rightarrow> ('a \<Rightarrow> rel_code) \<Rightarrow> 'a list \<Rightarrow> rel_code list" where
  "first_error bad code xs = (case List.find bad xs of None \<Rightarrow> [] | Some x \<Rightarrow> [code x])"

definition span_errors :: "relationship \<Rightarrow> rel_code list" where
  "span_errors rel =
     first_error (\<lambda>e. strip (text_or_empty (ev_source_span e)) = []) (\<lambda>e. EmptySpan (ev_id e)) (supporting rel)"

definition pit_unsafe :: "string \<Rightarrow> rel_evidence \<Rightarrow> bool" where
  "pit_unsafe as_of e \<longleftrightarrow> falsy (ev_known_at e) \<or> as_of < take 10 (text_or_empty (ev_known_at e))"

definition pit_errors :: "relationship \<Rightarrow> string \<Rightarrow> rel_code list" where
  "pit_errors rel as_of = first_error (pit_unsafe as_of) (\<lambda>_. PitUnsafeEvidence) (supporting rel)"

definition endpoints :: "relationship \<Rightarrow> string list" where
  "endpoints rel = map the (filter (\<lambda>v. v \<noteq> None) [rel_from rel, rel_to rel])"

definition conflict_errors :: "relationship \<Rightarrow> (string, bool) dict \<Rightarrow> rel_code list" where
  "conflict_errors rel verified =
     first_error (\<lambda>eid. dget verified eid = Some False) EndpointConflict (endpoints rel)"

definition provenance_errors :: "relationship \<Rightarrow> rel_code list" where
  "provenance_errors rel =
     first_error (\<lambda>e. falsy (ev_accession e) \<or> falsy (ev_document_name e)) (\<lambda>e. MissingProvenance (ev_id e))
       (supporting rel)"

definition sources_of :: "relationship \<Rightarrow> (string option \<times> string option) list" where
  "sources_of rel = dedup (map (\<lambda>e. (ev_accession e, ev_document_name e))
     (filter (\<lambda>e. \<not> falsy (ev_accession e) \<and> \<not> falsy (ev_document_name e)) (supporting rel)))"

definition endpoint_rule_errors :: "relationship \<Rightarrow> (string, bool) dict option \<Rightarrow> rel_code list" where
  "endpoint_rule_errors rel verified =
     map EndpointUnverified (filter (\<lambda>eid. case verified of None \<Rightarrow> True | Some d \<Rightarrow> dget d eid \<noteq> Some True)
       (endpoints rel))"

text \<open>\<open>min\<close> keeps its current value unless the next one compares below it.\<close>

definition f_min :: "decimal list \<Rightarrow> decimal" where
  "f_min xs = foldl (\<lambda>m x. if f_lt x m then x else m) (hd xs) (tl xs)"

definition confidence_error :: "relationship \<Rightarrow> rel_code list" where
  "confidence_error rel =
     (if supporting rel = [] then [NoSupportingEvidence]
      else (let floor = f_min (map ev_confidence (supporting rel))
            in if f_lt floor auto_verify_min_confidence then [MinConfidenceBelow floor] else []))"

definition validate_relationship ::
    "relationship \<Rightarrow> string option \<Rightarrow> (string, bool) dict option \<Rightarrow> rel_code list" where
  "validate_relationship rel as_of verified =
     endpoint_errors rel @ span_errors rel
     @ (case as_of of None \<Rightarrow> [] | Some d \<Rightarrow> pit_errors rel d)
     @ (case verified of None \<Rightarrow> [] | Some v \<Rightarrow> conflict_errors rel v)
     @ (if rel_type rel \<in> set deterministic_types then provenance_errors rel else [])"

definition auto_verify_errors ::
    "relationship \<Rightarrow> string option \<Rightarrow> (string, bool) dict option \<Rightarrow> rel_code list" where
  "auto_verify_errors rel as_of verified =
     validate_relationship rel as_of verified
     @ (if length (sources_of rel) < 2 then [NeedsTwoSources] else [])
     @ endpoint_rule_errors rel verified
     @ confidence_error rel
     @ (if rel_counterevidence rel \<noteq> [] then [UnresolvedCounterevidence] else [])"

section \<open>Operations\<close>

definition new_relationship ::
    "string \<Rightarrow> string \<Rightarrow> string option \<Rightarrow> string option \<Rightarrow> string option \<Rightarrow> string option \<Rightarrow> string option \<Rightarrow>
      relationship" where
  "new_relationship now fresh from_id to_id raw_label known_at rid =
     \<lparr>rel_id = text_or_empty (or_str rid (Some (new_id ''rel'' fresh))), rel_type = normalize_label raw_label,
      rel_raw_label = Some (text_or_empty raw_label), rel_from = from_id, rel_to = to_id,
      rel_status = ''unknown'', rel_known_at = or_str known_at (Some now), rel_current = None,
      rel_evidence = [], rel_counterevidence = [], rel_revisions = []\<rparr>"

record attach_args =
  at_span :: "string option"
  at_accession :: "string option"
  at_document :: "string option"
  at_method :: "string option"
  at_confidence :: decimal
  at_known_at :: "string option"
  at_actor :: string
  at_reason :: string
  at_initial_status :: "string option"
  at_evidence_id :: "string option"

definition make_evidence :: "string \<Rightarrow> relationship \<Rightarrow> attach_args \<Rightarrow> bool \<Rightarrow> rel_evidence" where
  "make_evidence now rel a counter =
     \<lparr>ev_id = text_or_empty (or_str (at_evidence_id a)
        (Some (numbered_id (rel_id rel) '':e'' (length (rel_evidence rel) + 1)))),
      ev_relationship_id = rel_id rel, ev_accession = at_accession a, ev_document_name = at_document a,
      ev_source_span = (if falsy (at_span a) then None else at_span a),
      ev_extraction_method = at_method a, ev_confidence = at_confidence a, ev_is_counter = counter,
      ev_known_at = or_str (at_known_at a) (Some now), ev_relationship_type = Some (rel_type rel),
      ev_from = rel_from rel, ev_to = rel_to rel\<rparr>"

definition attach_evidence :: "string \<Rightarrow> attach_args \<Rightarrow> relationship \<Rightarrow> relationship \<times> rel_evidence res" where
  "attach_evidence now a rel =
     (let ev = make_evidence now rel a False;
          rel1 = rel\<lparr>rel_evidence := rel_evidence rel @ [ev]\<rparr>;
          prev = rel_status rel1;
          new = text_or_empty (or_str (at_initial_status a) (Some prev));
          (rel2, r) = record_revision now rel1 (Some prev) new (at_actor a) (at_reason a) (ev_known_at ev) None
      in (rel2, bindR r (\<lambda>_. Ok ev)))"

text \<open>
  The counterevidence call takes a confidence but builds the record without it, so the field keeps
  its default 0.0; it has no \<open>initial_status\<close> and no \<open>evidence_id\<close>.
\<close>

definition attach_counterevidence ::
    "string \<Rightarrow> attach_args \<Rightarrow> relationship \<Rightarrow> relationship \<times> rel_evidence res" where
  "attach_counterevidence now a rel =
     (let ev = make_evidence now rel (a\<lparr>at_confidence := Fin 0, at_evidence_id := None\<rparr>) True;
          rel1 = rel\<lparr>rel_evidence := rel_evidence rel @ [ev],
                     rel_counterevidence := rel_counterevidence rel @ [ev]\<rparr>;
          (rel2, r) = record_revision now rel1 (Some (rel_status rel1)) (rel_status rel1) (at_actor a)
                        (at_reason a) (ev_known_at ev) None
      in (rel2, bindR r (\<lambda>_. Ok ev)))"

definition check_deterministic :: "relationship \<Rightarrow> bool \<Rightarrow> unit res" where
  "check_deterministic rel deterministic =
     checkR (\<not> (deterministic \<and> rel_type rel \<notin> set deterministic_types))
       (ValueError ''deterministic verification needs a source-encoded role'')"

definition propose_target :: "bool \<Rightarrow> string \<times> string" where
  "propose_target deterministic =
     (if deterministic then (''verified'', ''deterministic'') else (''candidate'', ''extractor''))"

record mention_args =
  mn_span :: "string option"
  mn_accession :: "string option"
  mn_document :: "string option"
  mn_method :: "string option"
  mn_confidence :: decimal
  mn_known_at :: "string option"

definition seed_proposal :: "string \<Rightarrow> string \<Rightarrow> string \<Rightarrow> bool \<Rightarrow> mention_args \<Rightarrow> relationship \<Rightarrow> relationship res" where
  "seed_proposal now target actor deterministic a rel =
     (if mn_span a \<noteq> None \<or> mn_accession a \<noteq> None \<or> deterministic then
        (let (rel', r) = attach_evidence now
               \<lparr>at_span = Some (text_or_empty (mn_span a)), at_accession = mn_accession a,
                at_document = mn_document a, at_method = or_str (mn_method a) (Some ''structured''),
                at_confidence = mn_confidence a, at_known_at = mn_known_at a, at_actor = actor,
                at_reason = (if deterministic then ''deterministic source role''
                             else ''structured extraction proposed''),
                at_initial_status = Some target, at_evidence_id = None\<rparr> rel
         in bindR r (\<lambda>_. Ok rel'))
      else (let (rel', r) = record_revision now rel None target actor ''extraction proposed'' (mn_known_at a) None
            in bindR r (\<lambda>_. Ok rel')))"

definition observe_relationship ::
    "string \<Rightarrow> string \<Rightarrow> string option \<Rightarrow> string option \<Rightarrow> string option \<Rightarrow> mention_args \<Rightarrow> string option \<Rightarrow>
      relationship res" where
  "observe_relationship now fresh from_id to_id raw_label a rid =
     (let rel = new_relationship now fresh from_id to_id raw_label (mn_known_at a) rid
      in if mn_span a \<noteq> None \<or> mn_accession a \<noteq> None then
           (let (rel', r) = attach_evidence now
                  \<lparr>at_span = Some (text_or_empty (mn_span a)), at_accession = mn_accession a,
                   at_document = mn_document a, at_method = Some ''mention'', at_confidence = Fin 0,
                   at_known_at = mn_known_at a, at_actor = ''extractor'', at_reason = ''raw mention observed'',
                   at_initial_status = Some ''observed'', at_evidence_id = None\<rparr> rel
            in bindR r (\<lambda>_. Ok rel'))
         else (let (rel', r) = record_revision now rel None ''observed'' ''extractor'' ''raw mention observed''
                      (mn_known_at a) None
               in bindR r (\<lambda>_. Ok rel')))"

definition propose_relationship ::
    "string \<Rightarrow> string \<Rightarrow> string option \<Rightarrow> string option \<Rightarrow> string option \<Rightarrow> mention_args \<Rightarrow> bool \<Rightarrow>
      string option \<Rightarrow> relationship res" where
  "propose_relationship now fresh from_id to_id raw_label a deterministic rid =
     (let rel = new_relationship now fresh from_id to_id raw_label (mn_known_at a) rid
      in bindR (check_deterministic rel deterministic) (\<lambda>_.
         let (target, actor) = propose_target deterministic
         in seed_proposal now target actor deterministic a rel))"

datatype decision = Verified | Rejected | NoChange

definition verify_reason :: "relationship \<Rightarrow> string \<Rightarrow> string" where
  "verify_reason rel cite = strip (''conservative auto-verify over '' @ nat_str (length (supporting rel))
     @ '' evidence items window '' @ cite)"

definition evaluate_relationship ::
    "string \<Rightarrow> string option \<Rightarrow> (string, bool) dict option \<Rightarrow> string option \<Rightarrow> relationship \<Rightarrow>
      relationship \<times> (decision \<times> rel_code list) res" where
  "evaluate_relationship now as_of_arg verified known_at rel =
     (case check_rel_as_of as_of_arg of
        Inl e \<Rightarrow> (rel, Err e)
      | Inr as_of \<Rightarrow>
          if rel_counterevidence rel \<noteq> [] then
            (let (rel', r) = record_revision now rel (Some (rel_status rel)) ''rejected'' ''evaluation''
                   ''unresolved counterevidence rejects'' known_at None
             in (rel', bindR r (\<lambda>_. Ok (Rejected, [UnresolvedCounterevidence]))))
          else (let reasons = auto_verify_errors rel as_of verified
            in if reasons = [] then
                 (let cite = text_or_empty (or_str as_of
                        (Some (take 10 (text_or_empty (or_str known_at (rel_known_at rel))))));
                      (rel', r) = record_revision now rel (Some (rel_status rel)) ''verified'' ''evaluation''
                        (verify_reason rel cite) known_at None
                  in (rel', bindR r (\<lambda>_. Ok (Verified, []))))
               else (rel, Ok (NoChange, reasons))))"

definition revise_status ::
    "string \<Rightarrow> string \<Rightarrow> string \<Rightarrow> string \<Rightarrow> string option \<Rightarrow> relationship \<Rightarrow> relationship \<times> rel_revision res" where
  "revise_status now new_status actor reason known_at rel =
     (if strip reason = [] then (rel, Err (ValueError ''revision reason is required''))
      else record_revision now rel (Some (rel_status rel)) new_status actor (strip reason) known_at None)"

definition cites_evidence :: "string \<Rightarrow> bool" where
  "cites_evidence reason \<longleftrightarrow> sublist '':e'' reason \<or> sublist ''evidence'' (lower reason)"

definition check_supersede_reason :: "string \<Rightarrow> rel_evidence list \<Rightarrow> unit res" where
  "check_supersede_reason reason evidence =
     bindR (checkR (strip reason \<noteq> []) (ValueError ''supersession reason is required'')) (\<lambda>_.
     checkR (evidence \<noteq> [] \<or> cites_evidence reason) (ValueError ''supersession must cite the new evidence''))"

definition merge_one_evidence :: "rel_evidence \<Rightarrow> relationship \<times> string set \<Rightarrow> relationship \<times> string set" where
  "merge_one_evidence ev = (\<lambda>(rel, seen).
     if ev_id ev \<in> seen then (rel, seen)
     else (let rel1 = rel\<lparr>rel_evidence := rel_evidence rel @ [ev]\<rparr>
           in (if ev_is_counter ev \<and> ev \<notin> set (rel_counterevidence rel1)
               then rel1\<lparr>rel_counterevidence := rel_counterevidence rel1 @ [ev]\<rparr> else rel1,
               insert (ev_id ev) seen)))"

definition merge_supersede_evidence :: "rel_evidence list \<Rightarrow> relationship \<Rightarrow> relationship" where
  "merge_supersede_evidence evidence rel =
     fst (fold merge_one_evidence evidence (rel, set (map ev_id (rel_evidence rel))))"

definition supersede_reason :: "string option \<Rightarrow> string \<Rightarrow> string" where
  "supersede_reason prev_current reason =
     ''supersedes '' @ (case prev_current of None \<Rightarrow> ''None'' | Some s \<Rightarrow> s) @ '': '' @ strip reason"

definition supersede_relationship ::
    "string \<Rightarrow> string \<Rightarrow> rel_evidence list \<Rightarrow> string \<Rightarrow> string \<Rightarrow> string option \<Rightarrow> relationship \<Rightarrow>
      relationship \<times> rel_revision res" where
  "supersede_relationship now new_status evidence actor reason known_at rel =
     (case check_supersede_reason reason evidence of
        Inl e \<Rightarrow> (rel, Err e)
      | Inr _ \<Rightarrow>
          (let rel1 = merge_supersede_evidence evidence rel
           in record_revision now rel1 (Some (rel_status rel1)) new_status actor
                (supersede_reason (rel_current rel1) reason) known_at (rel_current rel1)))"

section \<open>Labels\<close>

abbreviation us :: char where "us \<equiv> CHR ''_''"

definition nodouble :: "char \<Rightarrow> char \<Rightarrow> bool" where
  "nodouble a b \<longleftrightarrow> \<not> (a = us \<and> b = us)"

definition is_label :: "string \<Rightarrow> bool" where
  "is_label t \<longleftrightarrow> t \<noteq> [] \<and> list_all (\<lambda>c. label_char c \<or> c = us) t \<and> successively nodouble t
     \<and> hd t \<noteq> us \<and> last t \<noteq> us"

lemma sub_runs_chars: "c \<in> set (sub_runs keep s) \<Longrightarrow> keep c \<or> c = us"
  by (induction keep s rule: sub_runs.induct) (auto split: if_splits)

lemma sub_runs_hd: "s \<noteq> [] \<Longrightarrow> hd (sub_runs keep s) = (if keep (hd s) then hd s else us)"
  by (cases s) auto

lemma sub_runs_Nil_iff [simp]: "sub_runs keep s = [] \<longleftrightarrow> s = []"
  by (cases s) auto

lemma sub_runs_nodouble: "\<not> keep us \<Longrightarrow> successively nodouble (sub_runs keep s)"
proof (induction keep s rule: sub_runs.induct)
  case (2 keep c cs)
  let ?rest = "dropWhile (\<lambda>d. \<not> keep d) cs"
  show ?case
  proof (cases "keep c")
    case True
    with 2 show ?thesis by (auto simp: successively_Cons nodouble_def)
  next
    case False
    have "hd (sub_runs keep ?rest) \<noteq> us" if "?rest \<noteq> []"
      using that sub_runs_hd [OF that, of keep] hd_dropWhile [OF that] "2.prems" by auto
    with 2 False show ?thesis by (auto simp: successively_Cons nodouble_def)
  qed
qed simp

lemma sub_runs_id:
  "list_all (\<lambda>c. keep c \<or> c = us) s \<Longrightarrow> successively nodouble s \<Longrightarrow> sub_runs keep s = s"
proof (induction keep s rule: sub_runs.induct)
  case (2 keep c cs)
  show ?case
  proof (cases "keep c")
    case True
    with 2 show ?thesis by (cases "cs = []") (auto simp: successively_Cons)
  next
    case False
    with "2.prems" have c: "c = us" by simp
    have "dropWhile (\<lambda>d. \<not> keep d) cs = cs"
      using "2.prems" c by (cases cs) (auto simp: nodouble_def)
    with 2 False c show ?thesis by (cases "cs = []") (auto simp: successively_Cons)
  qed
qed simp

lemma strip_underscores_sublist: "sublist (strip_underscores s) s"
proof -
  have drop: "suffix (dropWhile P xs) xs" for P and xs :: string by (rule suffix_dropWhile)
  let ?t = "dropWhile (\<lambda>c. c = us) s"
  have "prefix (strip_underscores s) ?t"
    using drop [of "\<lambda>c. c = us" "rev ?t"] by (simp add: strip_underscores_def suffix_to_prefix)
  then show ?thesis using drop [of "\<lambda>c. c = us" s]
    by (auto simp: prefix_def suffix_def sublist_def; blast)
qed

lemma strip_underscores_ends:
  assumes "strip_underscores s \<noteq> []"
  shows "hd (strip_underscores s) \<noteq> us" and "last (strip_underscores s) \<noteq> us"
proof -
  let ?t = "dropWhile (\<lambda>c. c = us) s"
  let ?e = "dropWhile (\<lambda>c. c = us) (rev ?t)"
  have e: "?e \<noteq> []" using assms by (simp add: strip_underscores_def)
  then have t: "?t \<noteq> []" by (metis dropWhile.simps(1) rev.simps(1))
  have "hd (strip_underscores s) = last ?e" using e by (simp add: strip_underscores_def hd_rev)
  also have "\<dots> = hd ?t" using dropWhile_last [OF e] t by (simp add: last_rev)
  finally show "hd (strip_underscores s) \<noteq> us" using hd_dropWhile [OF t] by simp
  have "last (strip_underscores s) = hd ?e" using e by (simp add: strip_underscores_def last_rev)
  then show "last (strip_underscores s) \<noteq> us" using hd_dropWhile [OF e] by simp
qed

lemma successively_sublist: "sublist xs ys \<Longrightarrow> successively P ys \<Longrightarrow> successively P xs"
  by (auto simp: sublist_def successively_append_iff)

lemma label_char_us [simp]: "\<not> label_char us"
  by (simp add: label_char_def)

lemma normalize_label_eq:
  "normalize_label raw = (let s = strip_underscores (sub_runs label_char (lower (text_or_empty raw)))
     in if s = [] then ''unknown'' else s)"
proof -
  let ?s = "strip_underscores (sub_runs label_char (lower (text_or_empty raw)))"
  have "successively nodouble ?s"
    using successively_sublist [OF strip_underscores_sublist sub_runs_nodouble] by simp
  then have "sub_runs (\<lambda>c. c \<noteq> us) ?s = ?s" by (intro sub_runs_id) (simp_all add: list_all_iff)
  then show ?thesis by (simp add: normalize_label_def Let_def)
qed

lemma normalize_label_is_label: "is_label (normalize_label raw)"
proof -
  let ?r = "sub_runs label_char (lower (text_or_empty raw))"
  let ?s = "strip_underscores ?r"
  have sub: "sublist ?s ?r" by (rule strip_underscores_sublist)
  have "is_label ?s" if "?s \<noteq> []"
    using that strip_underscores_ends [OF that] successively_sublist [OF sub sub_runs_nodouble]
      set_mono_sublist [OF sub] sub_runs_chars [of _ label_char]
    by (auto simp: is_label_def list_all_iff)
  moreover have "is_label ''unknown''"
    by (simp add: is_label_def label_char_def nodouble_def)
  ultimately show ?thesis by (simp add: normalize_label_eq Let_def)
qed

lemma lower_label: "list_all (\<lambda>c. label_char c \<or> c = us) t \<Longrightarrow> lower t = t"
  by (induction t) (auto simp: lower_def lower_char_def label_char_def Let_def)

lemma strip_underscores_id: "t \<noteq> [] \<Longrightarrow> hd t \<noteq> us \<Longrightarrow> last t \<noteq> us \<Longrightarrow> strip_underscores t = t"
proof -
  have no_drop: "dropWhile (\<lambda>c. c = us) xs = xs" if "xs \<noteq> []" "hd xs \<noteq> us" for xs
    using that by (cases xs) auto
  assume "t \<noteq> []" "hd t \<noteq> us" "last t \<noteq> us"
  then show ?thesis by (simp add: strip_underscores_def no_drop hd_rev)
qed

lemma normalize_label_id: "is_label t \<Longrightarrow> normalize_label (Some t) = t"
  using lower_label [of t] sub_runs_id [of label_char t] strip_underscores_id [of t]
  by (simp add: normalize_label_eq is_label_def text_or_empty_def)

section \<open>Lifetimes\<close>

text \<open>
  One call of the workflow on an existing relationship, whether it returns or raises, and the
  relationships a sequence of calls can produce.
\<close>

inductive rel_step :: "relationship \<Rightarrow> relationship \<Rightarrow> bool" where
  step_attach: "rel_step rel (fst (attach_evidence now a rel))"
| step_counter: "rel_step rel (fst (attach_counterevidence now a rel))"
| step_evaluate: "rel_step rel (fst (evaluate_relationship now as_of verified known_at rel))"
| step_revise: "rel_step rel (fst (revise_status now new_status actor reason known_at rel))"
| step_supersede: "rel_step rel (fst (supersede_relationship now new_status evidence actor reason known_at rel))"

inductive rel_born :: "relationship \<Rightarrow> bool" where
  born_observe: "observe_relationship now fresh f t label a rid = Ok rel \<Longrightarrow> rel_born rel"
| born_propose: "propose_relationship now fresh f t label a det rid = Ok rel \<Longrightarrow> rel_born rel"

text \<open>What one record does: nothing when it raises, else one revision.\<close>

definition rev_no :: "rel_revision \<Rightarrow> nat" where
  "rev_no r = str_nat (drop (length (rv_relationship_id r) + 2) (rv_id r))"

lemma record_cases:
  assumes "record_revision now rel prev new actor reason known superseded = (rel', r)"
  obtains e where "rel' = rel" and "r = Err e" and "actor \<notin> set actors \<or> new \<notin> set statuses"
  | rev where "r = Ok rev" and "rel' = rel\<lparr>rel_status := new, rel_current := Some (rv_id rev),
        rel_revisions := rel_revisions rel @ [rev]\<rparr>"
      and "rv_id rev = numbered_id (rel_id rel) '':r'' (length (rel_revisions rel) + 1)"
      and "rv_relationship_id rev = rel_id rel" and "rv_previous_status rev = prev" and "rv_new_status rev = new"
      and "rv_actor rev = actor" and "rv_reason rev = reason"
      and "actor \<in> set actors" and "new \<in> set statuses"
      and "rv_superseded rev = (case superseded of Some s \<Rightarrow> Some s
             | None \<Rightarrow> if prev \<noteq> Some new then rel_current rel else None)"
  using assms
  by (cases "actor \<in> set actors \<and> new \<in> set statuses") (auto simp: record_revision_def Let_def split: if_splits)

lemma rev_no_numbered: "rv_id r = numbered_id rid '':r'' n \<Longrightarrow> rv_relationship_id r = rid \<Longrightarrow> rev_no r = n"
  by (simp add: rev_no_def numbered_id_def str_nat_nat_str)

definition audited_revision :: "relationship \<Rightarrow> nat \<Rightarrow> bool" where
  "audited_revision rel i \<longleftrightarrow> (let r = rel_revisions rel ! i in
     rv_relationship_id r = rel_id rel \<and> rv_id r = numbered_id (rel_id rel) '':r'' (Suc i)
     \<and> rv_actor r \<in> set actors \<and> rv_new_status r \<in> set statuses
     \<and> (0 < i \<longrightarrow> rv_previous_status r = Some (rv_new_status (rel_revisions rel ! (i - 1)))))"

definition audited :: "relationship \<Rightarrow> bool" where
  "audited rel \<longleftrightarrow> (\<forall>i < length (rel_revisions rel). audited_revision rel i)
     \<and> rel_status rel = (if rel_revisions rel = [] then ''unknown'' else rv_new_status (last (rel_revisions rel)))
     \<and> rel_current rel = (if rel_revisions rel = [] then None else Some (rv_id (last (rel_revisions rel))))
     \<and> rel_counterevidence rel = filter ev_is_counter (rel_evidence rel)"

lemma audited_record:
  assumes "audited rel" and "record_revision now rel prev new actor reason known superseded = (rel', r)"
    and "rel_revisions rel \<noteq> [] \<longrightarrow> prev = Some (rel_status rel)"
  shows "audited rel'"
  using assms(2)
proof (cases rule: record_cases)
  case (2 rev)
  have "audited_revision rel' i" if "i < length (rel_revisions rel')" for i
  proof (cases "i < length (rel_revisions rel)")
    case True
    with assms(1) 2 show ?thesis
      by (auto simp: audited_def audited_revision_def nth_append)
  next
    case False
    with that 2 have i: "i = length (rel_revisions rel)" by simp
    with assms 2 show ?thesis
      by (auto simp: audited_def audited_revision_def nth_append last_conv_nth)
  qed
  with assms(1) 2 show ?thesis by (simp add: audited_def)
qed (use assms(1) in simp)

lemma audited_evidence:
  "audited rel \<Longrightarrow> \<not> ev_is_counter ev \<Longrightarrow> audited (rel\<lparr>rel_evidence := rel_evidence rel @ [ev]\<rparr>)"
  "audited rel \<Longrightarrow> ev_is_counter ev \<Longrightarrow> audited (rel\<lparr>rel_evidence := rel_evidence rel @ [ev],
     rel_counterevidence := rel_counterevidence rel @ [ev]\<rparr>)"
  by (simp_all add: audited_def audited_revision_def)

lemma make_evidence_counter [simp]: "ev_is_counter (make_evidence now rel a c) = c"
  by (simp add: make_evidence_def)

text \<open>Merging only appends unseen evidence.\<close>

lemma merge_frame:
  assumes "fold merge_one_evidence evidence (rel, seen) = (rel', seen')"
    and "seen = set (map ev_id (rel_evidence rel))"
    and "rel_counterevidence rel = filter ev_is_counter (rel_evidence rel)"
  shows "rel' = rel\<lparr>rel_evidence := rel_evidence rel', rel_counterevidence := rel_counterevidence rel'\<rparr>
    \<and> prefix (rel_evidence rel) (rel_evidence rel')
    \<and> rel_counterevidence rel' = filter ev_is_counter (rel_evidence rel')
    \<and> set (map ev_id (rel_evidence rel')) = set (map ev_id (rel_evidence rel)) \<union> set (map ev_id evidence)
    \<and> (distinct (map ev_id (rel_evidence rel)) \<longrightarrow> distinct (map ev_id (rel_evidence rel')))"
  using assms
proof (induction evidence arbitrary: rel seen)
  case Nil
  then show ?case by simp
next
  case (Cons ev evs)
  show ?case
  proof (cases "ev_id ev \<in> seen")
    case True
    then have step: "merge_one_evidence ev (rel, seen) = (rel, seen)" by (simp add: merge_one_evidence_def)
    with Cons.prems(1) have "fold merge_one_evidence evs (rel, seen) = (rel', seen')" by simp
    from Cons.IH [OF this Cons.prems(2,3)] True Cons.prems(2) show ?thesis by auto
  next
    case False
    define rel1 where "rel1 = rel\<lparr>rel_evidence := rel_evidence rel @ [ev],
      rel_counterevidence := rel_counterevidence rel @ (if ev_is_counter ev then [ev] else [])\<rparr>"
    have "ev \<notin> set (rel_counterevidence rel)" using False Cons.prems(2,3) by auto
    with False have step: "merge_one_evidence ev (rel, seen) = (rel1, insert (ev_id ev) seen)"
      by (simp add: merge_one_evidence_def rel1_def)
    with Cons.prems(1) have run: "fold merge_one_evidence evs (rel1, insert (ev_id ev) seen) = (rel', seen')"
      by simp
    have seen1: "insert (ev_id ev) seen = set (map ev_id (rel_evidence rel1))"
      and counter1: "rel_counterevidence rel1 = filter ev_is_counter (rel_evidence rel1)"
      using Cons.prems(2,3) by (simp_all add: rel1_def)
    have one: "prefix (rel_evidence rel) (rel_evidence rel1)"
      "distinct (map ev_id (rel_evidence rel)) \<longrightarrow> distinct (map ev_id (rel_evidence rel1))"
      using False Cons.prems(2) by (auto simp: rel1_def)
    have frame: "rel1\<lparr>rel_evidence := x, rel_counterevidence := y\<rparr> = rel\<lparr>rel_evidence := x, rel_counterevidence := y\<rparr>"
      for x y by (simp add: rel1_def)
    from Cons.IH [OF run seen1 counter1] one seen1 Cons.prems(2) show ?thesis
      unfolding frame by (auto intro: prefix_order.trans)
  qed
qed

lemma merge_supersede_frame:
  assumes "rel_counterevidence rel = filter ev_is_counter (rel_evidence rel)"
    and "rel' = merge_supersede_evidence evidence rel"
  shows "rel' = rel\<lparr>rel_evidence := rel_evidence rel', rel_counterevidence := rel_counterevidence rel'\<rparr>"
    and "prefix (rel_evidence rel) (rel_evidence rel')"
    and "rel_counterevidence rel' = filter ev_is_counter (rel_evidence rel')"
    and "set (map ev_id (rel_evidence rel')) = set (map ev_id (rel_evidence rel)) \<union> set (map ev_id evidence)"
    and "distinct (map ev_id (rel_evidence rel)) \<Longrightarrow> distinct (map ev_id (rel_evidence rel'))"
  using merge_frame [OF _ refl assms(1), of evidence] assms(2)
  by (cases "fold merge_one_evidence evidence (rel, set (map ev_id (rel_evidence rel)))";
      simp add: merge_supersede_evidence_def)+

text \<open>Every operation keeps the id and extends the three lists.\<close>

definition extends_rel :: "relationship \<Rightarrow> relationship \<Rightarrow> bool" where
  "extends_rel s t \<longleftrightarrow> rel_id t = rel_id s \<and> prefix (rel_evidence s) (rel_evidence t)
     \<and> prefix (rel_counterevidence s) (rel_counterevidence t)
     \<and> (rel_revisions t = rel_revisions s \<or> (\<exists>r. rel_revisions t = rel_revisions s @ [r]
          \<and> rv_id r = numbered_id (rel_id s) '':r'' (length (rel_revisions s) + 1) \<and> rv_relationship_id r = rel_id s))"

lemma extends_refl [simp]: "extends_rel s s"
  by (simp add: extends_rel_def)

lemma record_extends: "extends_rel rel (fst (record_revision now rel prev new actor reason known superseded))"
  by (simp add: record_revision_def extends_rel_def Let_def)

lemma record_fields [simp]:
  "rel_evidence (fst (record_revision now rel prev new actor reason known superseded)) = rel_evidence rel"
  "rel_counterevidence (fst (record_revision now rel prev new actor reason known superseded))
    = rel_counterevidence rel"
  "rel_id (fst (record_revision now rel prev new actor reason known superseded)) = rel_id rel"
  by (simp_all add: record_revision_def Let_def)

lemma merge_fields:
  "rel' = rel\<lparr>rel_evidence := x, rel_counterevidence := y\<rparr> \<Longrightarrow> rel_id rel' = rel_id rel
    \<and> rel_revisions rel' = rel_revisions rel \<and> rel_status rel' = rel_status rel \<and> rel_current rel' = rel_current rel"
  by simp

lemma merge_extends:
  "fst (fold merge_one_evidence evidence (rel, seen)) = rel' \<Longrightarrow>
    rel' = rel\<lparr>rel_evidence := rel_evidence rel', rel_counterevidence := rel_counterevidence rel'\<rparr>
    \<and> prefix (rel_evidence rel) (rel_evidence rel') \<and> prefix (rel_counterevidence rel) (rel_counterevidence rel')"
proof (induction evidence arbitrary: rel seen)
  case (Cons ev evs)
  obtain rel1 seen1 where one: "merge_one_evidence ev (rel, seen) = (rel1, seen1)" by fastforce
  then have "rel1 = rel\<lparr>rel_evidence := rel_evidence rel1, rel_counterevidence := rel_counterevidence rel1\<rparr>
    \<and> prefix (rel_evidence rel) (rel_evidence rel1) \<and> prefix (rel_counterevidence rel) (rel_counterevidence rel1)"
    by (auto simp: merge_one_evidence_def Let_def split: if_splits)
  moreover have "rel' = rel1\<lparr>rel_evidence := rel_evidence rel', rel_counterevidence := rel_counterevidence rel'\<rparr>
    \<and> prefix (rel_evidence rel1) (rel_evidence rel') \<and> prefix (rel_counterevidence rel1) (rel_counterevidence rel')"
    using Cons.IH [of rel1 seen1] Cons.prems one by simp
  ultimately have chain: "rel1 = rel\<lparr>rel_evidence := rel_evidence rel1, rel_counterevidence := rel_counterevidence rel1\<rparr>"
      "rel' = rel1\<lparr>rel_evidence := rel_evidence rel', rel_counterevidence := rel_counterevidence rel'\<rparr>"
    and pre: "prefix (rel_evidence rel) (rel_evidence rel1)" "prefix (rel_evidence rel1) (rel_evidence rel')"
      "prefix (rel_counterevidence rel) (rel_counterevidence rel1)"
      "prefix (rel_counterevidence rel1) (rel_counterevidence rel')"
    by blast+
  from chain have "rel' = rel\<lparr>rel_evidence := rel_evidence rel', rel_counterevidence := rel_counterevidence rel'\<rparr>"
    by (cases rel1; cases rel; cases rel') simp
  then show ?case using prefix_order.trans [OF pre(1,2)] prefix_order.trans [OF pre(3,4)] by blast
qed simp

lemma fst_case_pair [simp]: "fst (case p of (a, b) \<Rightarrow> (a, f b)) = fst p"
  by (cases p) simp

lemma attach_extends: "extends_rel rel (fst (attach_evidence now a rel))"
  using record_extends [of "rel\<lparr>rel_evidence := rel_evidence rel @ [make_evidence now rel a False]\<rparr>"]
  by (auto simp: attach_evidence_def Let_def extends_rel_def)

lemma counter_extends: "extends_rel rel (fst (attach_counterevidence now a rel))"
  using record_extends [of "rel\<lparr>rel_evidence := rel_evidence rel @ [make_evidence now rel
      (a\<lparr>at_confidence := Fin 0, at_evidence_id := None\<rparr>) True],
    rel_counterevidence := rel_counterevidence rel @ [make_evidence now rel
      (a\<lparr>at_confidence := Fin 0, at_evidence_id := None\<rparr>) True]\<rparr>"]
  by (auto simp: attach_counterevidence_def Let_def extends_rel_def)

lemma evaluate_extends: "extends_rel rel (fst (evaluate_relationship now as_of verified known_at rel))"
  by (auto simp: evaluate_relationship_def Let_def record_extends split: sum.split)

lemma supersede_extends:
  "extends_rel rel (fst (supersede_relationship now new_status evidence actor reason known_at rel))"
proof (cases "check_supersede_reason reason evidence")
  case (Inr u)
  let ?rel1 = "merge_supersede_evidence evidence rel"
  have frame: "?rel1 = rel\<lparr>rel_evidence := rel_evidence ?rel1, rel_counterevidence := rel_counterevidence ?rel1\<rparr>
    \<and> prefix (rel_evidence rel) (rel_evidence ?rel1) \<and> prefix (rel_counterevidence rel) (rel_counterevidence ?rel1)"
    by (rule merge_extends) (simp add: merge_supersede_evidence_def)
  then have "rel_id ?rel1 = rel_id rel" "rel_revisions ?rel1 = rel_revisions rel"
    using merge_fields by blast+
  with frame Inr record_extends [of ?rel1] show ?thesis
    unfolding supersede_relationship_def Let_def extends_rel_def by (auto intro: prefix_order.trans)
qed (simp add: supersede_relationship_def)

lemma rel_step_extends: "rel_step s t \<Longrightarrow> extends_rel s t"
  by (induction rule: rel_step.induct)
    (auto simp: attach_extends counter_extends evaluate_extends supersede_extends revise_status_def record_extends)

interpretation revision_log: numbered_log rel_revisions rel_step rev_no
proof
  fix s t
  assume "rel_step s t"
  then have ext: "extends_rel s t" by (rule rel_step_extends)
  then show "prefix (rel_revisions s) (rel_revisions t)" by (auto simp: extends_rel_def)
  assume "numbered rev_no (rel_revisions s)"
  with ext rev_no_numbered show "numbered rev_no (rel_revisions t)"
    by (auto simp: extends_rel_def numbered_snoc)
qed

interpretation evidence_log: append_log rel_evidence rel_step
  by unfold_locales (auto dest: rel_step_extends simp: extends_rel_def)

interpretation counter_log: append_log rel_counterevidence rel_step
  by unfold_locales (auto dest: rel_step_extends simp: extends_rel_def)

text \<open>The audit invariant.\<close>

lemma audited_attach: "audited rel \<Longrightarrow> audited (fst (attach_evidence now a rel))"
  unfolding attach_evidence_def Let_def fst_case_pair
  by (rule audited_record [OF audited_evidence(1) prod.collapse [symmetric]]) simp_all

lemma audited_counter: "audited rel \<Longrightarrow> audited (fst (attach_counterevidence now a rel))"
  unfolding attach_counterevidence_def Let_def fst_case_pair
  by (rule audited_record [OF audited_evidence(2) prod.collapse [symmetric]]) simp_all

lemma audited_evaluate: "audited rel \<Longrightarrow> audited (fst (evaluate_relationship now as_of verified known_at rel))"
  by (auto simp: evaluate_relationship_def Let_def split: sum.split
      intro: audited_record [OF _ prod.collapse [symmetric]])

lemma audited_revise: "audited rel \<Longrightarrow> audited (fst (revise_status now new_status actor reason known_at rel))"
  by (auto simp: revise_status_def intro: audited_record [OF _ prod.collapse [symmetric]])

lemma audited_supersede:
  assumes "audited rel"
  shows "audited (fst (supersede_relationship now new_status evidence actor reason known_at rel))"
proof (cases "check_supersede_reason reason evidence")
  case (Inr u)
  let ?rel1 = "merge_supersede_evidence evidence rel"
  have counter: "rel_counterevidence rel = filter ev_is_counter (rel_evidence rel)"
    using assms by (simp add: audited_def)
  note frame = merge_supersede_frame [OF counter refl, of evidence]
  from frame(1) have "rel_id ?rel1 = rel_id rel" "rel_revisions ?rel1 = rel_revisions rel"
    "rel_status ?rel1 = rel_status rel" "rel_current ?rel1 = rel_current rel"
    using merge_fields by blast+
  with assms frame(3) have "audited ?rel1" by (simp add: audited_def audited_revision_def)
  then show ?thesis
    using Inr by (auto simp: supersede_relationship_def Let_def intro: audited_record [OF _ prod.collapse [symmetric]])
qed (use assms in \<open>simp add: supersede_relationship_def\<close>)

lemma audited_step: "rel_step s t \<Longrightarrow> audited s \<Longrightarrow> audited t"
  by (induction rule: rel_step.induct)
    (auto intro: audited_attach audited_counter audited_evaluate audited_revise audited_supersede)

lemma audited_run: "rel_step\<^sup>*\<^sup>* s t \<Longrightarrow> audited s \<Longrightarrow> audited t"
  by (induction rule: rtranclp_induct) (auto intro: audited_step)

lemma audited_new: "audited (new_relationship now fresh f t label known rid)"
  by (simp add: audited_def new_relationship_def)

lemma pair_result: "(case p of (a, r) \<Rightarrow> bindR r (\<lambda>_. Ok a)) = Ok x \<Longrightarrow> x = fst p"
  by (cases p) (auto simp: bindR_Ok_iff)

lemma new_relationship_empty [simp]: "rel_revisions (new_relationship now fresh f t label known rid) = []"
  by (simp add: new_relationship_def)

lemma audited_seed:
  assumes "seed_proposal now tgt act det a rel = Ok rel'" and "audited rel" and "rel_revisions rel = []"
  shows "audited rel'"
  using assms
  by (auto simp: seed_proposal_def Let_def dest!: pair_result split: if_splits
      intro!: audited_attach audited_record [OF _ prod.collapse [symmetric]])

lemma audited_born: "rel_born rel \<Longrightarrow> audited rel"
proof (induction rule: rel_born.induct)
  case (born_observe now fresh f t label a rid rel)
  then show ?case
    by (auto simp: observe_relationship_def Let_def dest!: pair_result split: if_splits
        intro!: audited_attach audited_new audited_record [OF _ prod.collapse [symmetric]])
next
  case (born_propose now fresh f t label a det rid rel)
  then obtain tgt act where "seed_proposal now tgt act det a (new_relationship now fresh f t label (mn_known_at a) rid) = Ok rel"
    by (auto simp: propose_relationship_def Let_def bindR_Ok_iff split: prod.splits)
  then show ?case by (rule audited_seed) (simp_all add: audited_new)
qed

section \<open>The conservative rule\<close>

lemma first_error_Nil_iff: "first_error bad code xs = [] \<longleftrightarrow> (\<forall>x \<in> set xs. \<not> bad x)"
  by (auto simp: first_error_def find_None_iff find_Some_iff split: option.splits)

lemma f_lt_trans_not:
  "x \<noteq> NaN \<Longrightarrow> r \<noteq> NaN \<Longrightarrow> t \<noteq> NaN \<Longrightarrow> \<not> f_lt x r \<Longrightarrow> \<not> f_lt r t \<Longrightarrow> \<not> f_lt x t"
  by (cases x; cases r; cases t) (auto simp: f_lt_def)

lemma f_lt_asym: "f_lt x m \<Longrightarrow> \<not> f_lt m x"
  by (cases x; cases m) (auto simp: f_lt_def)

lemma f_lt_irrefl [simp]: "\<not> f_lt x x"
  by (cases x) (auto simp: f_lt_def)

lemma f_min_fold_le:
  assumes "m \<noteq> NaN" and "\<forall>x \<in> set xs. x \<noteq> NaN"
  defines "r \<equiv> foldl (\<lambda>m x. if f_lt x m then x else m) m xs"
  shows "r \<noteq> NaN \<and> \<not> f_lt m r \<and> (\<forall>x \<in> set xs. \<not> f_lt x r)"
  using assms(1,2) unfolding r_def
proof (induction xs arbitrary: m)
  case Nil
  then show ?case by simp
next
  case (Cons x xs)
  show ?case
  proof (cases "f_lt x m")
    case True
    with Cons.IH [of x] Cons.prems show ?thesis by (auto dest: f_lt_asym f_lt_trans_not)
  next
    case False
    with Cons.IH [of m] Cons.prems show ?thesis by (auto dest: f_lt_trans_not)
  qed
qed

lemma f_min_le:
  assumes "xs \<noteq> []" and "\<forall>x \<in> set xs. x \<noteq> NaN" and "t \<noteq> NaN" and "\<not> f_lt (f_min xs) t"
  shows "\<forall>x \<in> set xs. \<not> f_lt x t"
proof -
  have "f_min xs \<noteq> NaN \<and> (\<forall>x \<in> set xs. \<not> f_lt x (f_min xs))"
    using assms(1,2) f_min_fold_le [of "hd xs" "tl xs"] by (cases xs) (auto simp: f_min_def)
  with assms(2-4) f_lt_trans_not show ?thesis by blast
qed

lemma endpoint_rules_Nil:
  assumes "endpoint_errors rel = []" and "endpoint_rule_errors rel verified = []"
  shows "\<exists>f t d. rel_from rel = Some f \<and> rel_to rel = Some t \<and> f \<noteq> [] \<and> t \<noteq> [] \<and> f \<noteq> t
    \<and> verified = Some d \<and> dget d f = Some True \<and> dget d t = Some True"
  using assms
  by (cases "rel_from rel"; cases "rel_to rel"; cases verified)
    (auto simp: endpoint_errors_def endpoint_rule_errors_def endpoints_def falsy_def text_or_empty_def split: if_splits)

lemma evaluate_Verified:
  assumes "evaluate_relationship now as_of verified known_at rel = (rel', Ok (Verified, cs))"
  shows "rel_counterevidence rel = [] \<and> check_rel_as_of as_of = Ok as_of \<and> auto_verify_errors rel as_of verified = []
    \<and> rel_status rel' = ''verified'' \<and> rel_evidence rel' = rel_evidence rel"
proof -
  obtain d where d: "check_rel_as_of as_of = Ok d"
    using assms by (cases "check_rel_as_of as_of") (auto simp: evaluate_relationship_def)
  then have "d = as_of" by (auto simp: check_rel_as_of_def split: option.splits if_splits)
  with assms d show ?thesis
    by (auto simp: evaluate_relationship_def record_revision_def Let_def actors_def statuses_def bindR_Ok_iff split: if_splits)
qed

section \<open>Properties\<close>

definition demo_attach :: "string \<Rightarrow> decimal \<Rightarrow> string \<Rightarrow> attach_args" where
  "demo_attach accession confidence actor = \<lparr>at_span = Some ''span'', at_accession = Some accession,
     at_document = Some ''doc'', at_method = None, at_confidence = confidence, at_known_at = Some ''2024-01-01'',
     at_actor = actor, at_reason = ''evidence attached'', at_initial_status = None, at_evidence_id = None\<rparr>"

definition demo_mention :: mention_args where
  "demo_mention = \<lparr>mn_span = None, mn_accession = None, mn_document = None, mn_method = None,
     mn_confidence = Fin 0, mn_known_at = None\<rparr>"

definition demo_born :: "relationship res" where
  "demo_born = observe_relationship ''now'' ''f'' (Some ''a'') (Some ''b'') (Some ''Owner'') demo_mention (Some ''rel:1'')"

definition demo_rel :: relationship where
  "demo_rel = projr demo_born"

lemma demo_rel_born: "rel_born demo_rel"
proof -
  have "is_ok demo_born"
    by (simp add: demo_born_def observe_relationship_def demo_mention_def record_revision_def actors_def statuses_def Let_def)
  then obtain r where "demo_born = Ok r" unfolding is_ok_iff by blast
  then have "demo_born = Ok demo_rel" unfolding demo_rel_def by (metis sum.sel(2))
  then show ?thesis unfolding demo_born_def by (rule born_observe)
qed

definition demo_attached :: "decimal \<Rightarrow> decimal \<Rightarrow> relationship" where
  "demo_attached c d = fst (attach_evidence ''now'' (demo_attach ''acc2'' d ''extractor'')
     (fst (attach_evidence ''now'' (demo_attach ''acc1'' c ''extractor'') demo_rel)))"

lemma demo_attached_run: "rel_step\<^sup>*\<^sup>* demo_rel (demo_attached c d)"
  unfolding demo_attached_def
  by (rule rtranclp.rtrancl_into_rtrancl [OF r_into_rtranclp]) (rule step_attach)+

text \<open>
  C17.  Audit trail: in every relationship that observation or proposal creates and any sequence of
  calls (even failing ones) changes, the revisions are numbered without gaps, each belongs to the
  relationship, names a known actor and status and starts from the status its predecessor set; the
  current status and the current-revision pointer are those of the last revision, and the
  counterevidence list is exactly the flagged evidence.
\<close>

theorem relationship_history_audited:
  assumes "rel_born s" and "rel_step\<^sup>*\<^sup>* s t"
  shows "audited t \<and> numbered rev_no (rel_revisions t)"
proof -
  have t: "audited t" by (rule audited_run [OF assms(2) audited_born [OF assms(1)]])
  have "rev_no (rel_revisions t ! i) = Suc i" if "i < length (rel_revisions t)" for i
    using t that rev_no_numbered by (simp add: audited_def audited_revision_def Let_def)
  then have "numbered rev_no (rel_revisions t)"
    unfolding numbered_def by (intro nth_equalityI) (simp_all del: upt_Suc)
  with t show ?thesis by blast
qed

theorem relationship_history_audited_witness:
  "audited (demo_attached (Fin 1) (Fin 1)) \<and> numbered rev_no (rel_revisions (demo_attached (Fin 1) (Fin 1)))"
  by (rule relationship_history_audited [OF demo_rel_born demo_attached_run])

text \<open>
  Append-only: no sequence of calls ever changes or removes a revision, a piece of evidence or
  a piece of counterevidence, or the relationship's id.
\<close>

theorem relationship_append_only:
  assumes "rel_step\<^sup>*\<^sup>* s t"
  shows "prefix (rel_revisions s) (rel_revisions t) \<and> prefix (rel_evidence s) (rel_evidence t)
    \<and> prefix (rel_counterevidence s) (rel_counterevidence t) \<and> rel_id t = rel_id s"
proof -
  have "rel_id t = rel_id s"
    using assms by (induction rule: rtranclp_induct) (auto dest: rel_step_extends simp: extends_rel_def)
  with revision_log.run_extends [OF assms] evidence_log.run_extends [OF assms] counter_log.run_extends [OF assms]
  show ?thesis by blast
qed

theorem relationship_append_only_witness:
  "prefix (rel_revisions demo_rel) (rel_revisions (demo_attached (Fin 1) (Fin 1)))"
  using relationship_append_only [OF demo_attached_run] by blast

text \<open>
  C30.  Conservative promotion: automatic evaluation verifies a relationship only without
  counterevidence, between two distinct endpoints that are both marked verified, on evidence from at
  least two distinct (accession, document) sources, with a non-blank span in every supporting item,
  no supporting item later than the window, and, unless a confidence is a NaN, every confidence at
  least 0.95.
\<close>

theorem auto_verify_conservative:
  assumes "evaluate_relationship now as_of verified known_at rel = (rel', Ok (Verified, cs))"
  shows "rel_counterevidence rel = []
    \<and> (\<exists>f t d. rel_from rel = Some f \<and> rel_to rel = Some t \<and> f \<noteq> [] \<and> t \<noteq> [] \<and> f \<noteq> t
         \<and> verified = Some d \<and> dget d f = Some True \<and> dget d t = Some True)
    \<and> 2 \<le> card {(ev_accession e, ev_document_name e) | e. e \<in> set (supporting rel)
         \<and> \<not> falsy (ev_accession e) \<and> \<not> falsy (ev_document_name e)}
    \<and> (\<forall>e \<in> set (supporting rel). strip (text_or_empty (ev_source_span e)) \<noteq> []
         \<and> (\<forall>d. as_of = Some d \<longrightarrow> \<not> pit_unsafe d e))
    \<and> ((\<forall>e \<in> set (supporting rel). ev_confidence e \<noteq> NaN) \<longrightarrow>
         (\<forall>e \<in> set (supporting rel). \<not> f_lt (ev_confidence e) (Fin (95 / 100))))
    \<and> rel_status rel' = ''verified'' \<and> rel_evidence rel' = rel_evidence rel"
proof -
  note ev = evaluate_Verified [OF assms]
  then have errs: "endpoint_errors rel = []" "span_errors rel = []" "endpoint_rule_errors rel verified = []"
    "confidence_error rel = []" "\<not> length (sources_of rel) < 2"
    and pit: "\<And>d. as_of = Some d \<Longrightarrow> pit_errors rel d = []"
    by (auto simp: auto_verify_errors_def validate_relationship_def split: if_splits option.splits)
  have "set (sources_of rel) = {(ev_accession e, ev_document_name e) | e. e \<in> set (supporting rel)
         \<and> \<not> falsy (ev_accession e) \<and> \<not> falsy (ev_document_name e)}" by (auto simp: sources_of_def)
  moreover have "card (set (sources_of rel)) = length (sources_of rel)"
    unfolding sources_of_def by (rule distinct_card) simp
  moreover have "\<not> f_lt (ev_confidence e) (Fin (95 / 100))"
    if "\<forall>e \<in> set (supporting rel). ev_confidence e \<noteq> NaN" "e \<in> set (supporting rel)" for e
    using that errs(4) f_min_le [of "map ev_confidence (supporting rel)" "Fin (95 / 100)"]
    by (auto simp: confidence_error_def auto_verify_min_confidence_def Let_def split: if_splits)
  moreover have "strip (text_or_empty (ev_source_span e)) \<noteq> []" "as_of = Some d \<Longrightarrow> \<not> pit_unsafe d e"
    if "e \<in> set (supporting rel)" for e d
    using that errs(2) pit by (auto simp: span_errors_def pit_errors_def first_error_Nil_iff)
  ultimately show ?thesis
    using ev errs(5) endpoint_rules_Nil [OF errs(1,3)] by auto
qed

lemma demo_evaluates:
  assumes "\<not> f_lt d c" and "\<not> f_lt c (Fin (95 / 100))"
  shows "\<exists>rel'. evaluate_relationship ''now'' (Some ''2024-06-30'') (Some [(''a'', True), (''b'', True)]) None
    (demo_attached c d) = (rel', Ok (Verified, []))"
  using assms
  by (simp add: demo_attached_def demo_rel_def demo_born_def observe_relationship_def demo_mention_def
      record_revision_def actors_def statuses_def Let_def new_relationship_def attach_evidence_def demo_attach_def
      make_evidence_def text_or_empty_def or_str_def falsy_def evaluate_relationship_def check_rel_as_of_def date_shape_def
      is_digit_char_def auto_verify_errors_def validate_relationship_def endpoint_errors_def span_errors_def
      first_error_def supporting_def pit_errors_def pit_unsafe_def conflict_errors_def provenance_errors_def
      endpoints_def sources_of_def endpoint_rule_errors_def confidence_error_def f_min_def strip_def is_space_def
      auto_verify_min_confidence_def)

text \<open>Witness: two items from two filings, both of confidence 1, are promoted.\<close>

theorem auto_verify_conservative_witness:
  "\<exists>rel'. evaluate_relationship ''now'' (Some ''2024-06-30'') (Some [(''a'', True), (''b'', True)]) None
        (demo_attached (Fin 1) (Fin 1)) = (rel', Ok (Verified, []))
    \<and> rel_status rel' = ''verified''
    \<and> 2 \<le> card {(ev_accession e, ev_document_name e) | e. e \<in> set (supporting (demo_attached (Fin 1) (Fin 1)))
         \<and> \<not> falsy (ev_accession e) \<and> \<not> falsy (ev_document_name e)}
    \<and> (\<exists>f t. rel_from (demo_attached (Fin 1) (Fin 1)) = Some f \<and> rel_to (demo_attached (Fin 1) (Fin 1)) = Some t \<and> f \<noteq> t)"
proof -
  have "\<not> f_lt (Fin 1) (Fin (95 / 100))" by (simp add: f_lt_def)
  from demo_evaluates [OF _ this, of "Fin 1"] obtain rel' where
    run: "evaluate_relationship ''now'' (Some ''2024-06-30'') (Some [(''a'', True), (''b'', True)]) None
      (demo_attached (Fin 1) (Fin 1)) = (rel', Ok (Verified, []))" by auto
  show ?thesis
    by (rule exI [of _ rel'], intro conjI) (use run auto_verify_conservative [OF run] in blast)+
qed

text \<open>
  A NaN confidence defeats the floor: with a NaN first, the float minimum is the NaN, which is not
  below 0.95, and evidence of confidence 0 is verified.
\<close>

lemma nan_confidence_verifies:
  "\<exists>rel'. evaluate_relationship ''now'' (Some ''2024-06-30'') (Some [(''a'', True), (''b'', True)]) None
     (demo_attached NaN (Fin 0)) = (rel', Ok (Verified, []))"
  by (rule demo_evaluates) (simp_all add: f_lt_def)

text \<open>
  Counterevidence blocks for good: once a relationship has counterevidence, every later
  automatic evaluation with a valid window, after any calls, rejects it.
\<close>

theorem counterevidence_blocks:
  assumes "rel_counterevidence s \<noteq> []" and "rel_step\<^sup>*\<^sup>* s t" and "check_rel_as_of as_of = Ok d"
  shows "\<exists>t'. evaluate_relationship now as_of verified known_at t = (t', Ok (Rejected, [UnresolvedCounterevidence]))
    \<and> rel_status t' = ''rejected''"
proof -
  from counter_log.run_extends [OF assms(2)] assms(1) have "rel_counterevidence t \<noteq> []" by auto
  with assms(3) show ?thesis
    by (simp add: evaluate_relationship_def record_revision_def Let_def actors_def statuses_def)
qed

theorem counterevidence_blocks_witness:
  "\<exists>t'. evaluate_relationship ''now'' None None None
      (fst (attach_counterevidence ''now'' (demo_attach ''acc'' (Fin 1) ''human'') demo_rel))
    = (t', Ok (Rejected, [UnresolvedCounterevidence])) \<and> rel_status t' = ''rejected''"
proof (rule counterevidence_blocks)
  let ?t = "fst (attach_counterevidence ''now'' (demo_attach ''acc'' (Fin 1) ''human'') demo_rel)"
  show "rel_counterevidence ?t \<noteq> []" by (simp add: attach_counterevidence_def Let_def)
  show "rel_step\<^sup>*\<^sup>* ?t ?t" by simp
  show "check_rel_as_of None = Ok None" by (simp add: check_rel_as_of_def)
qed

text \<open>
  Supersession: it succeeds only with evidence or a reason that cites some, its revision names
  the revision it supersedes and sets the requested status, the passed evidence is in the record by
  id, nothing earlier is lost, and no evidence id becomes duplicated.
\<close>

theorem supersession_cites:
  assumes "audited rel"
    and "supersede_relationship now new_status evidence actor reason known_at rel = (rel', Ok rv)"
  shows "(evidence \<noteq> [] \<or> cites_evidence reason) \<and> rv_superseded rv = rel_current rel
    \<and> rv_new_status rv = new_status \<and> rel_status rel' = new_status \<and> rel_current rel' = Some (rv_id rv)
    \<and> prefix (rel_evidence rel) (rel_evidence rel')
    \<and> set (map ev_id evidence) \<subseteq> set (map ev_id (rel_evidence rel'))
    \<and> (distinct (map ev_id (rel_evidence rel)) \<longrightarrow> distinct (map ev_id (rel_evidence rel')))"
proof -
  let ?rel1 = "merge_supersede_evidence evidence rel"
  have counter: "rel_counterevidence rel = filter ev_is_counter (rel_evidence rel)"
    using assms(1) by (simp add: audited_def)
  note frame = merge_supersede_frame [OF counter refl, of evidence]
  have fields: "rel_current ?rel1 = rel_current rel" "rel_status ?rel1 = rel_status rel"
    using merge_fields [OF frame(1)] by blast+
  from assms(2) obtain u where chk: "check_supersede_reason reason evidence = Ok u"
    and rec: "record_revision now ?rel1 (Some (rel_status rel)) new_status actor
        (supersede_reason (rel_current rel) reason) known_at (rel_current rel) = (rel', Ok rv)"
    by (auto simp: supersede_relationship_def Let_def fields split: sum.splits)
  have cites: "evidence \<noteq> [] \<or> cites_evidence reason"
    using chk by (auto simp: check_supersede_reason_def bindR_Ok_iff)
  from rec show ?thesis
  proof (cases rule: record_cases)
    case (2 rv')
    then have "rv' = rv" "rel_evidence rel' = rel_evidence ?rel1" by simp_all
    moreover have "rv_superseded rv' = rel_current rel"
      using 2 fields by (cases "rel_current rel") simp_all
    ultimately show ?thesis using 2 cites frame(2,4,5) by auto
  qed simp
qed

lemma demo_audited: "audited (demo_attached (Fin 1) (Fin 1))"
  by (rule audited_run [OF demo_attached_run audited_born [OF demo_rel_born]])

theorem supersession_cites_witness:
  "\<exists>rel' rv. supersede_relationship ''now'' ''expired'' [] ''human'' ''new evidence filed'' None
      (demo_attached (Fin 1) (Fin 1)) = (rel', Ok rv)
    \<and> rv_superseded rv = rel_current (demo_attached (Fin 1) (Fin 1)) \<and> rel_status rel' = ''expired''"
proof -
  have "check_supersede_reason ''new evidence filed'' [] = Ok ()"
    by (simp add: check_supersede_reason_def cites_evidence_def lower_def lower_char_def strip_def is_space_def
        sublist_Cons_right)
  then have "\<exists>rel' rv. supersede_relationship ''now'' ''expired'' [] ''human'' ''new evidence filed'' None
      (demo_attached (Fin 1) (Fin 1)) = (rel', Ok rv)"
    by (simp add: supersede_relationship_def record_revision_def actors_def statuses_def Let_def)
  then obtain rel' rv where run: "supersede_relationship ''now'' ''expired'' [] ''human'' ''new evidence filed'' None
      (demo_attached (Fin 1) (Fin 1)) = (rel', Ok rv)" by blast
  from supersession_cites [OF demo_audited run] run show ?thesis by blast
qed

text \<open>
  What a raised exception leaves behind: a failed evaluation or revision changes nothing, but
  attaching evidence with an actor outside the vocabulary raises after the evidence is in the list, so
  the relationship keeps evidence that no revision records.
\<close>

theorem failed_calls_frame:
  "(evaluate_relationship now as_of verified known_at rel = (rel', Err e) \<longrightarrow> rel' = rel)
   \<and> (revise_status now new_status actor reason known_at rel = (rel', Err e) \<longrightarrow> rel' = rel)
   \<and> (at_actor a \<notin> set actors \<longrightarrow>
        attach_evidence now a rel = (rel\<lparr>rel_evidence := rel_evidence rel @ [make_evidence now rel a False]\<rparr>,
          Err (ValueError ''actor must be one of'')))"
  by (auto simp: evaluate_relationship_def revise_status_def record_revision_def attach_evidence_def Let_def
      statuses_def actors_def split: sum.splits if_splits)

theorem failed_calls_frame_witness:
  "attach_evidence ''now'' (demo_attach ''acc'' (Fin 1) ''robot'') demo_rel
    = (demo_rel\<lparr>rel_evidence := rel_evidence demo_rel @ [make_evidence ''now'' demo_rel (demo_attach ''acc'' (Fin 1) ''robot'') False]\<rparr>,
       Err (ValueError ''actor must be one of''))"
  using failed_calls_frame [of "''now''" None None None demo_rel demo_rel "ValueError []" "[]" "[]" "[]"
      "demo_attach ''acc'' (Fin 1) ''robot''"]
  by (simp add: demo_attach_def actors_def)

text \<open>
  Labels are canonical: the normalised label is non-empty lowercase snake case (letters, digits
  and single inner underscores), and normalising it again changes nothing.
\<close>

theorem normalize_label_canonical:
  "is_label (normalize_label raw) \<and> normalize_label (Some (normalize_label raw)) = normalize_label raw"
  using normalize_label_is_label normalize_label_id by blast

end
