(* ===== verification/Regex.thy ===== *)
theory Regex
  imports PyValue
begin

text \<open>
  The part of Python's \<open>re\<close> the security code uses, on ASCII text: a backtracking matcher that
  lists the ends of the matches at a position in the order the engine tries them (greedy
  repetitions of a character class, options, alternatives, word boundaries and the one-character
  look-around of the patterns), the leftmost scan of \<open>finditer\<close> and the replacement of
  \<open>sub\<close>.  The head of the list is the match Python reports.
\<close>

section \<open>Patterns\<close>

datatype re =
    RChar "char \<Rightarrow> bool"
  | RSeq re re
  | RAlt re re
  | ROpt re
  | RRun "char \<Rightarrow> bool" nat "nat option"
  | RBound
  | RStart
  | RNotAfterWord
  | RNotBeforeWord

definition is_lower_char :: "char \<Rightarrow> bool" where
  "is_lower_char c = (let n = (of_char c :: nat) in 97 \<le> n \<and> n \<le> 122)"

definition is_upper_char :: "char \<Rightarrow> bool" where
  "is_upper_char c = (let n = (of_char c :: nat) in 65 \<le> n \<and> n \<le> 90)"

definition is_alnum :: "char \<Rightarrow> bool" where
  "is_alnum c \<longleftrightarrow> is_lower_char c \<or> is_upper_char c \<or> is_digit_char c"

definition is_word :: "char \<Rightarrow> bool" where
  "is_word c \<longleftrightarrow> is_alnum c \<or> c = CHR ''_''"

text \<open>Is there a word character just before or at a position?\<close>

definition word_before :: "string \<Rightarrow> nat \<Rightarrow> bool" where
  "word_before s i \<longleftrightarrow> 0 < i \<and> i \<le> length s \<and> is_word (s ! (i - 1))"

definition word_at :: "string \<Rightarrow> nat \<Rightarrow> bool" where
  "word_at s i \<longleftrightarrow> i < length s \<and> is_word (s ! i)"

fun ends :: "re \<Rightarrow> string \<Rightarrow> nat \<Rightarrow> nat list" where
  "ends (RChar p) s i = (if i < length s \<and> p (s ! i) then [Suc i] else [])"
| "ends (RSeq a b) s i = concat (map (ends b s) (ends a s i))"
| "ends (RAlt a b) s i = ends a s i @ ends b s i"
| "ends (ROpt a) s i = ends a s i @ [i]"
| "ends (RRun p lo hi) s i =
     (let k = length (takeWhile p (drop i s));
          m = (case hi of None \<Rightarrow> k | Some h \<Rightarrow> min k h)
      in map (\<lambda>j. i + j) (rev [lo..<Suc m]))"
| "ends RBound s i = (if word_before s i \<noteq> word_at s i then [i] else [])"
| "ends RStart s i = (if i = 0 then [i] else [])"
| "ends RNotAfterWord s i = (if word_before s i then [] else [i])"
| "ends RNotBeforeWord s i = (if word_at s i then [] else [i])"

fun rseq :: "re list \<Rightarrow> re" where
  "rseq [r] = r"
| "rseq (r # rs) = RSeq r (rseq rs)"
| "rseq [] = RRun (\<lambda>_. False) 0 None"

definition rlit :: "string \<Rightarrow> re" where
  "rlit s = rseq (map (\<lambda>c. RChar (\<lambda>d. d = c)) s)"

text \<open>Under \<open>re.IGNORECASE\<close>.\<close>

definition rlit_ci :: "string \<Rightarrow> re" where
  "rlit_ci s = rseq (map (\<lambda>c. RChar (\<lambda>d. lower_char d = lower_char c)) s)"

lemma ends_bounds: "e \<in> set (ends r s i) \<Longrightarrow> i \<le> length s \<Longrightarrow> i \<le> e \<and> e \<le> length s"
proof (induction r arbitrary: i e)
  case (RSeq a b)
  then show ?case by fastforce
next
  case (RRun p lo hi)
  have "length (takeWhile p (drop i s)) \<le> length s - i"
    using length_takeWhile_le [of p "drop i s"] by simp
  with RRun show ?case by (auto simp: Let_def split: option.splits)
qed (auto split: if_splits)

section \<open>Search and replacement\<close>

definition found :: "re \<Rightarrow> string \<Rightarrow> bool" where
  "found r s = list_ex (\<lambda>i. ends r s i \<noteq> []) [0..<Suc (length s)]"

lemma found_iff: "found r s \<longleftrightarrow> (\<exists>i \<le> length s. ends r s i \<noteq> [])"
  by (auto simp: found_def list_ex_iff less_Suc_eq_le simp del: upt_Suc; blast)

text \<open>A text shorter than every match of a pattern has none.\<close>

fun min_len :: "re \<Rightarrow> nat" where
  "min_len (RChar p) = 1"
| "min_len (RSeq a b) = min_len a + min_len b"
| "min_len (RAlt a b) = min (min_len a) (min_len b)"
| "min_len (RRun p lo hi) = lo"
| "min_len r = 0"

lemma ends_min_len: "e \<in> set (ends r s i) \<Longrightarrow> i + min_len r \<le> e"
proof (induction r arbitrary: i e)
  case (RSeq a b)
  then obtain d where "d \<in> set (ends a s i)" "e \<in> set (ends b s d)" by auto
  with RSeq.IH(1) [of d i] RSeq.IH(2) [of e d] show ?case by simp
next
  case (RAlt a b)
  then have "e \<in> set (ends a s i) \<or> e \<in> set (ends b s i)" by simp
  then show ?case using RAlt.IH(1) [of e i] RAlt.IH(2) [of e i] by auto
next
  case (ROpt a)
  then show ?case by (auto dest: ROpt.IH)
qed (auto simp: Let_def split: if_splits)

lemma found_min_len:
  assumes "found r s"
  shows "min_len r \<le> length s"
proof -
  from assms obtain i where i: "i \<le> length s" "ends r s i \<noteq> []" by (auto simp: found_iff)
  then obtain e where "e \<in> set (ends r s i)" by (cases "ends r s i") auto
  then show ?thesis using i(1) ends_bounds [of e r s i] ends_min_len [of e r s i] by simp
qed

text \<open>
  A matcher gives the end of group 1 and the end of the match; \<open>whole\<close> is a pattern without
  groups and \<open>grouped a b\<close> the pattern \<open>(a)(b)\<close>.
\<close>

type_synonym matcher = "string \<Rightarrow> nat \<Rightarrow> (nat \<times> nat) option"

definition whole :: "re \<Rightarrow> matcher" where
  "whole r s i = (case ends r s i of [] \<Rightarrow> None | e # _ \<Rightarrow> Some (e, e))"

definition grouped :: "re \<Rightarrow> re \<Rightarrow> matcher" where
  "grouped a b s i =
     (case concat (map (\<lambda>j. map (Pair j) (ends b s j)) (ends a s i)) of [] \<Rightarrow> None | p # _ \<Rightarrow> Some p)"

function scan :: "matcher \<Rightarrow> string \<Rightarrow> nat \<Rightarrow> (nat \<times> nat \<times> nat) list" where
  "scan m s i =
     (if length s < i then []
      else case m s i of
          None \<Rightarrow> scan m s (Suc i)
        | Some (j, e) \<Rightarrow> (i, j, e) # scan m s (if i < e then e else Suc i))"
  by pat_completeness auto
termination
  by (relation "measure (\<lambda>(m, s, i). Suc (length s) - i)") auto

declare scan.simps [simp del]

definition finditer :: "matcher \<Rightarrow> string \<Rightarrow> string list" where
  "finditer m s = map (\<lambda>(i, j, e). take (e - i) (drop i s)) (scan m s 0)"

fun splice :: "(string \<Rightarrow> string) \<Rightarrow> string \<Rightarrow> nat \<Rightarrow> (nat \<times> nat \<times> nat) list \<Rightarrow> string" where
  "splice rep s pos [] = drop pos s"
| "splice rep s pos ((i, j, e) # ms) =
     take (i - pos) (drop pos s) @ rep (take (j - i) (drop i s)) @ splice rep s e ms"

text \<open>\<open>rep\<close> maps the text of group 1 to the replacement.\<close>

definition re_sub :: "matcher \<Rightarrow> (string \<Rightarrow> string) \<Rightarrow> string \<Rightarrow> string" where
  "re_sub m rep s = splice rep s 0 (scan m s 0)"

lemma found_finditer: "found r s \<longleftrightarrow> finditer (whole r) s \<noteq> []"
proof -
  have "(\<exists>k. i \<le> k \<and> k \<le> length s \<and> ends r s k \<noteq> []) \<longleftrightarrow> scan (whole r) s i \<noteq> []" for i
  proof (induction "Suc (length s) - i" arbitrary: i)
    case 0
    then show ?case by (subst scan.simps) auto
  next
    case (Suc n)
    show ?case
    proof (cases "ends r s i")
      case Nil
      have "scan (whole r) s i = scan (whole r) s (Suc i)"
        using Nil Suc.hyps(2) by (subst scan.simps) (auto simp: whole_def)
      moreover have "(\<exists>k. i \<le> k \<and> k \<le> length s \<and> ends r s k \<noteq> [])
          \<longleftrightarrow> (\<exists>k. Suc i \<le> k \<and> k \<le> length s \<and> ends r s k \<noteq> [])"
        using Nil by (metis Suc_leD le_antisym not_less_eq_eq)
      moreover have "(\<exists>k. Suc i \<le> k \<and> k \<le> length s \<and> ends r s k \<noteq> []) \<longleftrightarrow> scan (whole r) s (Suc i) \<noteq> []"
        by (rule Suc.hyps(1)) (use Suc.hyps(2) in simp)
      ultimately show ?thesis by simp
    next
      case (Cons e es)
      have "scan (whole r) s i \<noteq> []"
        using Cons Suc.hyps(2) by (subst scan.simps) (auto simp: whole_def)
      with Cons Suc.hyps(2) show ?thesis by force
    qed
  qed
  from this [of 0] show ?thesis by (simp add: found_iff finditer_def)
qed

lemma scan_Nil: "\<not> found r s \<Longrightarrow> scan (whole r) s 0 = []"
  using found_finditer [of r s] by (simp add: finditer_def)

lemma re_sub_unfound: "\<not> found r s \<Longrightarrow> re_sub (whole r) rep s = s"
  by (simp add: re_sub_def scan_Nil)

text \<open>Literals match where the text is there.\<close>

lemma rseq_Cons: "rs \<noteq> [] \<Longrightarrow> rseq (r # rs) = RSeq r (rseq rs)"
  by (cases rs) auto

lemma ends_rseq_chars:
  "ps \<noteq> [] \<Longrightarrow> i + length ps \<le> length s \<Longrightarrow> (\<forall>k < length ps. (ps ! k) (s ! (i + k))) \<Longrightarrow>
    ends (rseq (map RChar ps)) s i = [i + length ps]"
proof (induction ps arbitrary: i)
  case (Cons p ps)
  have p: "p (s ! i)" using Cons.prems(3) by force
  show ?case
  proof (cases "ps = []")
    case True
    with Cons.prems p show ?thesis by simp
  next
    case False
    have "\<forall>k < length ps. (ps ! k) (s ! (Suc i + k))" using Cons.prems(3) by force
    with Cons.IH [OF False, of "Suc i"] Cons.prems(2) False p show ?thesis
      by (simp add: rseq_Cons)
  qed
qed simp

lemma ends_rlit_ci:
  assumes "p \<noteq> []" and "s = a @ q @ b" and "lower q = lower p"
  shows "ends (rlit_ci p) s (length a) = [length a + length p]"
proof -
  have len: "length q = length p" using assms(3) by (metis length_map lower_def)
  have at: "s ! (length a + k) = q ! k" if "k < length p" for k
    using assms(2) that len by (simp add: nth_append)
  have same: "lower_char (q ! k) = lower_char (p ! k)" if "k < length p" for k
    using assms(3) that len by (metis lower_def nth_map)
  have "rlit_ci p = rseq (map RChar (map (\<lambda>c d. lower_char d = lower_char c) p))"
    by (simp add: rlit_ci_def o_def)
  then show ?thesis
    using ends_rseq_chars [of "map (\<lambda>c d. lower_char d = lower_char c) p" "length a" s] assms(1,2) len at same
    by simp
qed

end
