(* ===== verification/Redact.thy ===== *)
theory Redact
  imports Regex
begin

text \<open>
  Redaction of observability records (\<open>app/redact.py\<close>) and of final answers
  (\<open>app/security/response_guard.py\<close>), with the four secret patterns the other security
  modules share.  The SHA-256 digest of a stripped span is the argument \<open>H\<close>.
\<close>

section \<open>Patterns\<close>

definition token_char :: "char \<Rightarrow> bool" where
  "token_char c \<longleftrightarrow> is_alnum c \<or> c \<in> set ''._~+/=-''"

definition bearer_re :: re where
  "bearer_re = rseq [RBound, rlit ''Bearer'', RRun is_space 1 None, RRun token_char 1 None]"

definition key_char :: "char \<Rightarrow> bool" where
  "key_char c \<longleftrightarrow> is_alnum c \<or> c \<in> set ''_-''"

definition sk_or_v1_re :: re where
  "sk_or_v1_re = rseq [RBound, rlit ''sk-or-v1-'', RRun key_char 8 None]"

definition jwt_re :: re where
  "jwt_re = rseq [RBound, rlit ''eyJ'', RRun key_char 10 None, RChar (\<lambda>c. c = CHR ''.''),
     RRun key_char 10 None, RChar (\<lambda>c. c = CHR ''.''), RRun key_char 10 None]"

definition account_label_re :: re where
  "account_label_re = rseq [RBound, rlit_ci ''account'',
     ROpt (RSeq (RRun (\<lambda>c. c = CHR ''_'' \<or> is_space c \<or> c = CHR ''-'') 0 None)
       (RAlt (rlit_ci ''number'') (RAlt (rlit_ci ''id'')
          (RSeq (rlit_ci ''no'') (ROpt (RChar (\<lambda>c. c = CHR ''.''))))))),
     RBound, RRun (\<lambda>c. \<not> is_digit_char c) 0 (Some 20)]"

definition digits6_re :: re where
  "digits6_re = RRun is_digit_char 6 None"

definition account_id_re :: re where
  "account_id_re = RSeq account_label_re digits6_re"

section \<open>Redaction\<close>

definition sensitive_key_norms :: "string list" where
  "sensitive_key_norms = [''accesstoken'', ''refreshtoken'', ''token'', ''authorization'', ''auth'',
     ''clientsecret'', ''clientid'', ''secret'', ''password'', ''apikey'', ''cookie'', ''crumb'',
     ''accountnumber'', ''accountid'']"

definition redacted :: string where
  "redacted = ''[REDACTED]''"

definition norm_key :: "string \<Rightarrow> string" where
  "norm_key key = filter (\<lambda>c. is_lower_char c \<or> is_digit_char c) (lower key)"

definition sensitive_key :: "string \<Rightarrow> bool" where
  "sensitive_key key \<longleftrightarrow> norm_key key \<in> set sensitive_key_norms"

definition redact_text :: "string \<Rightarrow> string" where
  "redact_text text =
     re_sub (grouped account_label_re digits6_re) (\<lambda>g. g @ redacted)
       (re_sub (whole jwt_re) (\<lambda>_. ''eyJ[REDACTED JWT]'')
         (re_sub (whole sk_or_v1_re) (\<lambda>_. ''sk-or-v1-[REDACTED]'')
           (re_sub (whole bearer_re) (\<lambda>_. ''Bearer [REDACTED]'') text)))"

fun redact_value :: "pyobj \<Rightarrow> pyobj" where
  "redact_value (PDict d) =
     PDict (map (\<lambda>(k, v). (k, if sensitive_key k then PStr redacted else redact_value v)) d)"
| "redact_value (PList xs) = PList (map redact_value xs)"
| "redact_value (PStr s) = PStr (redact_text s)"
| "redact_value v = v"

text \<open>
  \<open>redact_json\<close>: \<open>loads\<close> and \<open>dumps\<close> give the value or the exception; \<open>TypeError\<close>
  and \<open>ValueError\<close> (of which \<open>JSONDecodeError\<close> is one) are caught, any other goes through.
\<close>

definition redact_json :: "(string \<Rightarrow> pyobj res) \<Rightarrow> (pyobj \<Rightarrow> string res) \<Rightarrow> string \<Rightarrow> string res" where
  "redact_json loads dumps text =
     (case bindR (loads text) (\<lambda>v. dumps (redact_value v)) of
        Ok t \<Rightarrow> Ok t
      | Err (TypeError _) \<Rightarrow> Ok (redact_text text)
      | Err (ValueError _) \<Rightarrow> Ok (redact_text text)
      | Err (JsonDecodeError _) \<Rightarrow> Ok (redact_text text)
      | Err e \<Rightarrow> Err e)"

section \<open>Response guard\<close>

definition env_path_re :: re where
  "env_path_re = rseq [RAlt RStart (RChar is_space), rlit ''.env'', RAlt RBound (RChar (\<lambda>c. c = CHR ''/''))]"

definition always_strip :: "(string \<times> re) list" where
  "always_strip = [(''bearer'', bearer_re), (''sk_or_v1'', sk_or_v1_re), (''jwt'', jwt_re),
     (''env_path'', env_path_re)]"

definition fallback_response :: string where
  "fallback_response = ''I couldn'' @ [CHR 0x27] @ ''t generate a response that meets safety checks.''"

definition find_spans :: "bool \<Rightarrow> string \<Rightarrow> (string \<times> string) list" where
  "find_spans portfolio_read text =
     concat (map (\<lambda>(name, r). map (Pair name) (finditer (whole r) text)) always_strip)
     @ (if portfolio_read then [] else map (Pair ''account_id'') (finditer (whole account_id_re) text))"

text \<open>\<open>str.replace(pat, "")\<close>.\<close>

function remove_all :: "string \<Rightarrow> string \<Rightarrow> string" where
  "remove_all pat [] = []"
| "remove_all pat (c # cs) =
     (if pat \<noteq> [] \<and> prefix pat (c # cs) then remove_all pat (drop (length pat) (c # cs))
      else c # remove_all pat cs)"
  by pat_completeness auto
termination
  by (relation "measure (\<lambda>(pat, s). length s)") auto

record strip_event =
  se_sha256 :: string
  se_rule :: string
  se_span_length :: nat

text \<open>The answer, and the events a recorder receives.\<close>

definition guard_response :: "(string \<Rightarrow> string) \<Rightarrow> bool \<Rightarrow> string \<Rightarrow> string \<times> strip_event list" where
  "guard_response H portfolio_read text =
     (if strip text = [] then (text, [])
      else (let spans = find_spans portfolio_read text
            in if spans = [] then (text, [])
               else (let cleaned = re_sub (whole (RRun (\<lambda>c. c = CHR '' '' \<or> c = CHR 0x09) 2 None)) (\<lambda>_. '' '')
                           (fold (\<lambda>(name, span) t. remove_all span t) spans text);
                         final = (if strip cleaned = [] then fallback_response else cleaned)
                     in (final, map (\<lambda>(name, span). \<lparr>se_sha256 = H span, se_rule = name,
                            se_span_length = length span\<rparr>) spans))))"

section \<open>Properties\<close>

text \<open>No value under a sensitive key survives, at any depth.\<close>

fun hidden :: "pyobj \<Rightarrow> bool" where
  "hidden (PDict d) = list_all (\<lambda>(k, v). if sensitive_key k then v = PStr redacted else hidden v) d"
| "hidden (PList xs) = list_all hidden xs"
| "hidden v = True"

text \<open>The skeleton of a value: keys, list lengths and the scalars that are not text.\<close>

fun same_shape :: "pyobj \<Rightarrow> pyobj \<Rightarrow> bool" where
  "same_shape (PDict d) w = (case w of PDict e \<Rightarrow>
       list_all2 (\<lambda>(k, v) (k', v'). k = k' \<and> (sensitive_key k \<or> same_shape v v')) d e | _ \<Rightarrow> False)"
| "same_shape (PList xs) w = (case w of PList ys \<Rightarrow> list_all2 same_shape xs ys | _ \<Rightarrow> False)"
| "same_shape (PStr s) w = is_str w"
| "same_shape v w = (w = v)"

text \<open>
  Redaction removes the value under every sensitive key, however deep and however the key is
  spelt, and keeps the structure: the same keys in the same order, the same list lengths, text
  where there was text and every other scalar unchanged.
\<close>

theorem redact_value_hides:
  "hidden (redact_value v) \<and> same_shape v (redact_value v)"
proof (induction v rule: redact_value.induct)
  case (1 d)
  then show ?case
    by (auto simp: list_all_iff list_all2_conv_all_nth split: prod.splits) (metis nth_mem)+
next
  case (2 xs)
  then show ?case by (auto simp: list_all_iff list_all2_conv_all_nth)
qed simp_all

lemma fallback_nonblank: "strip fallback_response \<noteq> []"
  by code_simp

text \<open>
  The response guard: an answer without a flagged span is returned as it is and nothing is
  recorded; otherwise each flagged span gives one event that carries its rule, digest and length
  only, and the answer that is returned is never blank.
\<close>

theorem guard_response_meets:
  assumes "strip text \<noteq> []"
  shows "strip (fst (guard_response H portfolio_read text)) \<noteq> []
    \<and> snd (guard_response H portfolio_read text)
        = map (\<lambda>(name, span). \<lparr>se_sha256 = H span, se_rule = name, se_span_length = length span\<rparr>)
            (find_spans portfolio_read text)
    \<and> (find_spans portfolio_read text = [] \<longrightarrow> fst (guard_response H portfolio_read text) = text)"
  using assms fallback_nonblank by (auto simp: guard_response_def Let_def)

theorem guard_response_meets_witness:
  "strip (fst (guard_response (\<lambda>s. s) False ''see Bearer abc'')) \<noteq> []
    \<and> map se_rule (snd (guard_response (\<lambda>s. s) False ''see Bearer abc'')) = [''bearer'']"
proof -
  have ne: "strip ''see Bearer abc'' \<noteq> []" by code_simp
  have "find_spans False ''see Bearer abc'' = [(''bearer'', ''Bearer abc'')]" by code_simp
  with guard_response_meets [OF ne, of "\<lambda>s. s" False] show ?thesis by auto
qed

text \<open>
  One pass of removals can put a flagged span together: stripping the first path of this answer
  leaves the second one, which the guard would strip.
\<close>

lemma guard_leaves_env_path:
  "fst (guard_response (\<lambda>s. s) False ''see  .env.env'') = ''see .env'' \<and> found env_path_re ''see .env''"
  by code_simp

end
