(* ===== verification/Firewall.thy ===== *)
theory Firewall
  imports Redact Injection
begin

text \<open>
  Who may call what and what may leave or enter: the context labels and the session grant
  (\<open>app/security/context.py\<close>), the action firewall and egress policy
  (\<open>action_policy.py\<close>), the application capabilities (\<open>app/policy.py\<close> and the
  registry of \<open>app/tools.py\<close>), the labels of tool results and the ingress decision
  (\<open>context_gateway.py\<close>) and the read-only broker registry
  (\<open>app/robinhood/capabilities.py\<close>).  Reasons keep the constant part of the message.
\<close>

section \<open>Labels\<close>

datatype instruction_authority = AuthSystem | AuthUser | AuthNone
datatype sensitivity = PUBLIC | PRIVATE | SECRET
datatype integrity = CANONICAL | AUTHENTICATED | HIGH_TRUST_REPORTED | PRIMARY_EXTERNAL | EXTERNAL | DERIVED
datatype security_status = Pending | Allowed | Quarantined | Blocked
datatype source_type = User | System | ToolResult | Mcp | Filing | Web | Database | Calculation

record context_envelope =
  ce_content :: pyobj
  ce_source :: string
  ce_source_type :: source_type
  ce_authority :: instruction_authority
  ce_sensitivity :: sensitivity
  ce_integrity :: integrity
  ce_external :: bool
  ce_retrieved_at :: "string option"
  ce_status :: security_status

text \<open>
  The run's security context; the session grant \<open>SessionAuthorization\<close> is its one flag, and
  \<open>source_policy\<close> is any object (\<open>PNone\<close> is no policy).
\<close>

record run_security =
  rs_request :: string
  rs_permitted_domains :: "string list"
  rs_portfolio_read :: bool
  rs_data_labels :: "string list"
  rs_quarantined_items :: nat
  rs_source_policy :: pyobj

definition classify_intent :: "string list \<Rightarrow> string \<times> string list" where
  "classify_intent turns =
     (if turns = [] then [] else last turns, [''financial_research'', ''public_web_research'', ''thesis_read''])"

section \<open>Tool registries\<close>

definition tool_domains :: "(string, string) dict" where
  "tool_domains = [
     (''get_fundamentals'', ''financial_research''),
     (''list_sec_filings'', ''financial_research''),
     (''find_sec_entities'', ''financial_research''),
     (''search_sec_filings'', ''financial_research''),
     (''search_sec_relationships'', ''financial_research''),
     (''get_sec_search_coverage'', ''financial_research''),
     (''get_sec_filing'', ''financial_research''),
     (''list_sec_documents'', ''financial_research''),
     (''get_sec_document'', ''financial_research''),
     (''diff_sec_filings'', ''financial_research''),
     (''get_material_events'', ''financial_research''),
     (''get_beneficial_ownership'', ''financial_research''),
     (''get_ownership_changes'', ''financial_research''),
     (''get_insider_activity'', ''financial_research''),
     (''get_planned_insider_sales'', ''financial_research''),
     (''get_offering_history'', ''financial_research''),
     (''get_dilution_profile'', ''financial_research''),
     (''get_governance_events'', ''financial_research''),
     (''get_transaction_status'', ''financial_research''),
     (''get_short_pressure_profile'', ''financial_research''),
     (''search_tools'', ''financial_research''), (''list_tool_domains'', ''financial_research''),
     (''describe_tool'', ''financial_research''), (''browse_tools'', ''financial_research''),
     (''call_tool'', ''financial_research''),
     (''get_recent_ownership_filings'', ''financial_research''),
     (''diff_risk_factors'', ''financial_research''),
     (''get_financial_statements'', ''financial_research''),
     (''get_xbrl_facts'', ''financial_research''), (''get_obligations'', ''financial_research''),
     (''get_valuation_metrics'', ''financial_research''),
     (''list_finra_datasets'', ''financial_research''),
     (''describe_finra_dataset'', ''financial_research''),
     (''get_finra_datapoints'', ''financial_research''),
     (''query_finra'', ''financial_research''), (''get_short_interest'', ''financial_research''),
     (''get_short_interest_leaderboard'', ''financial_research''),
     (''get_reg_sho_volume'', ''financial_research''),
     (''get_threshold_securities'', ''financial_research''),
     (''get_analyst_estimates'', ''financial_research''),
     (''get_sp500_weight'', ''financial_research''),
     (''get_market_snapshot'', ''financial_research''),
     (''get_option_chain'', ''financial_research''),
     (''analyze_option_contract'', ''financial_research''),
     (''compare_options'', ''financial_research''),
     (''get_scanner_filter_specs'', ''financial_research''),
     (''search_web'', ''public_web_research''),
     (''find_alternative_signals'', ''financial_research''),
     (''get_trend_evidence'', ''financial_research''),
     (''investigate_social_arbitrage_candidate'', ''financial_research''),
     (''get_macro_context'', ''financial_research''),
     (''search_company_patents'', ''financial_research''),
     (''thesis_create'', ''financial_research''), (''thesis_show'', ''financial_research''),
     (''thesis_refine'', ''financial_research''), (''thesis_watch'', ''financial_research''),
     (''thesis_journal'', ''financial_research''), (''thesis_status'', ''financial_research''),
     (''research_start'', ''financial_research''), (''research_resume'', ''financial_research''),
     (''research_status'', ''financial_research''),
     (''research_cancel'', ''financial_research''), (''research_read'', ''financial_research''),
     (''research_read_search'', ''financial_research''),
     (''research_add_evidence'', ''financial_research''),
     (''research_submit_source_result'', ''financial_research''),
     (''research_add_analysis'', ''financial_research''),
     (''research_finalize'', ''financial_research''), (''evaluate_mandate'', ''portfolio_read''),
     (''get_portfolio_snapshot'', ''portfolio_read''), (''get_scans'', ''portfolio_read''),
     (''run_scan'', ''portfolio_read'')]"

datatype capability = CAP_RESEARCH | CAP_BROKER_MARKET_READ | CAP_PORTFOLIO_READ

definition tool_capabilities :: "(string, capability) dict" where
  "tool_capabilities = [
     (''evaluate_mandate'', CAP_PORTFOLIO_READ), (''get_fundamentals'', CAP_RESEARCH),
     (''find_sec_entities'', CAP_RESEARCH), (''search_sec_filings'', CAP_RESEARCH),
     (''search_sec_relationships'', CAP_RESEARCH), (''get_sec_search_coverage'', CAP_RESEARCH),
     (''list_sec_filings'', CAP_RESEARCH), (''get_sec_filing'', CAP_RESEARCH),
     (''list_sec_documents'', CAP_RESEARCH), (''get_sec_document'', CAP_RESEARCH),
     (''diff_sec_filings'', CAP_RESEARCH), (''get_material_events'', CAP_RESEARCH),
     (''get_beneficial_ownership'', CAP_RESEARCH), (''get_ownership_changes'', CAP_RESEARCH),
     (''get_insider_activity'', CAP_RESEARCH), (''get_planned_insider_sales'', CAP_RESEARCH),
     (''get_offering_history'', CAP_RESEARCH), (''get_dilution_profile'', CAP_RESEARCH),
     (''get_governance_events'', CAP_RESEARCH), (''get_transaction_status'', CAP_RESEARCH),
     (''get_short_pressure_profile'', CAP_RESEARCH), (''search_tools'', CAP_RESEARCH),
     (''list_tool_domains'', CAP_RESEARCH), (''describe_tool'', CAP_RESEARCH),
     (''browse_tools'', CAP_RESEARCH), (''call_tool'', CAP_RESEARCH),
     (''get_recent_ownership_filings'', CAP_RESEARCH), (''diff_risk_factors'', CAP_RESEARCH),
     (''get_financial_statements'', CAP_RESEARCH), (''get_xbrl_facts'', CAP_RESEARCH),
     (''get_short_interest'', CAP_RESEARCH), (''get_short_interest_leaderboard'', CAP_RESEARCH),
     (''get_reg_sho_volume'', CAP_RESEARCH), (''get_threshold_securities'', CAP_RESEARCH),
     (''get_analyst_estimates'', CAP_RESEARCH), (''get_sp500_weight'', CAP_RESEARCH),
     (''get_obligations'', CAP_RESEARCH), (''get_valuation_metrics'', CAP_RESEARCH),
     (''search_web'', CAP_RESEARCH), (''find_alternative_signals'', CAP_RESEARCH),
     (''get_trend_evidence'', CAP_RESEARCH),
     (''investigate_social_arbitrage_candidate'', CAP_RESEARCH),
     (''get_macro_context'', CAP_RESEARCH), (''search_company_patents'', CAP_RESEARCH),
     (''list_finra_datasets'', CAP_RESEARCH), (''describe_finra_dataset'', CAP_RESEARCH),
     (''get_finra_datapoints'', CAP_RESEARCH), (''query_finra'', CAP_RESEARCH),
     (''thesis_create'', CAP_RESEARCH), (''thesis_show'', CAP_RESEARCH),
     (''thesis_refine'', CAP_RESEARCH), (''thesis_watch'', CAP_RESEARCH),
     (''thesis_journal'', CAP_RESEARCH), (''thesis_status'', CAP_RESEARCH),
     (''research_start'', CAP_RESEARCH), (''research_resume'', CAP_RESEARCH),
     (''research_status'', CAP_RESEARCH), (''research_cancel'', CAP_RESEARCH),
     (''research_read'', CAP_RESEARCH), (''research_read_search'', CAP_RESEARCH),
     (''research_add_evidence'', CAP_RESEARCH),
     (''research_submit_source_result'', CAP_RESEARCH),
     (''research_add_analysis'', CAP_RESEARCH), (''research_finalize'', CAP_RESEARCH),
     (''get_market_snapshot'', CAP_BROKER_MARKET_READ),
     (''get_option_chain'', CAP_BROKER_MARKET_READ),
     (''analyze_option_contract'', CAP_BROKER_MARKET_READ),
     (''compare_options'', CAP_BROKER_MARKET_READ),
     (''get_scanner_filter_specs'', CAP_BROKER_MARKET_READ),
     (''get_portfolio_snapshot'', CAP_PORTFOLIO_READ), (''get_scans'', CAP_PORTFOLIO_READ),
     (''run_scan'', CAP_PORTFOLIO_READ)]"

definition sec_tools :: "string list" where
  "sec_tools = [
     ''browse_tools'', ''search_tools'', ''describe_tool'', ''list_tool_domains'', ''call_tool'',
     ''find_sec_entities'', ''list_sec_filings'', ''get_sec_filing'', ''list_sec_documents'',
     ''get_sec_document'', ''search_sec_filings'', ''search_sec_relationships'',
     ''get_sec_search_coverage'', ''diff_sec_filings'', ''get_material_events'',
     ''get_beneficial_ownership'', ''get_ownership_changes'', ''get_insider_activity'',
     ''get_planned_insider_sales'', ''get_offering_history'', ''get_dilution_profile'',
     ''get_governance_events'', ''get_transaction_status'', ''get_financial_statements'',
     ''get_xbrl_facts'', ''get_obligations'', ''get_valuation_metrics'', ''get_fundamentals'',
     ''diff_risk_factors'', ''get_recent_ownership_filings'']"

definition envelope :: "string \<Rightarrow> source_type \<Rightarrow> sensitivity \<Rightarrow> integrity \<Rightarrow> bool \<Rightarrow> context_envelope" where
  "envelope source source_type sensitivity integrity external =
     \<lparr>ce_content = PNone, ce_source = source, ce_source_type = source_type, ce_authority = AuthNone,
      ce_sensitivity = sensitivity, ce_integrity = integrity, ce_external = external,
      ce_retrieved_at = None, ce_status = Pending\<rparr>"

definition tool_envelopes :: "(string, context_envelope) dict" where
  "tool_envelopes = [
     (''get_fundamentals'', envelope ''sec'' ToolResult PUBLIC CANONICAL False),
     (''list_sec_filings'', envelope ''sec'' Filing PUBLIC CANONICAL False),
     (''find_sec_entities'', envelope ''sec'' ToolResult PUBLIC CANONICAL False),
     (''search_sec_filings'', envelope ''sec'' Filing PUBLIC CANONICAL False),
     (''search_sec_relationships'', envelope ''sec'' ToolResult PUBLIC CANONICAL False),
     (''get_sec_search_coverage'', envelope ''sec'' ToolResult PUBLIC CANONICAL False),
     (''get_sec_filing'', envelope ''sec'' Filing PUBLIC CANONICAL False),
     (''list_sec_documents'', envelope ''sec'' Filing PUBLIC CANONICAL False),
     (''get_sec_document'', envelope ''sec'' Filing PUBLIC CANONICAL False),
     (''diff_sec_filings'', envelope ''sec'' Filing PUBLIC CANONICAL False),
     (''get_material_events'', envelope ''sec'' ToolResult PUBLIC CANONICAL False),
     (''get_beneficial_ownership'', envelope ''sec'' ToolResult PUBLIC CANONICAL False),
     (''get_ownership_changes'', envelope ''sec'' ToolResult PUBLIC CANONICAL False),
     (''get_insider_activity'', envelope ''sec'' ToolResult PUBLIC CANONICAL False),
     (''get_planned_insider_sales'', envelope ''sec'' ToolResult PUBLIC CANONICAL False),
     (''get_offering_history'', envelope ''sec'' ToolResult PUBLIC CANONICAL False),
     (''get_dilution_profile'', envelope ''sec'' ToolResult PUBLIC CANONICAL False),
     (''get_governance_events'', envelope ''sec'' ToolResult PUBLIC CANONICAL False),
     (''get_transaction_status'', envelope ''sec'' ToolResult PUBLIC CANONICAL False),
     (''get_short_pressure_profile'', envelope ''sec'' ToolResult PUBLIC CANONICAL False),
     (''search_tools'', envelope ''sec'' ToolResult PUBLIC CANONICAL False),
     (''list_tool_domains'', envelope ''sec'' ToolResult PUBLIC CANONICAL False),
     (''describe_tool'', envelope ''sec'' ToolResult PUBLIC CANONICAL False),
     (''browse_tools'', envelope ''sec'' ToolResult PUBLIC CANONICAL False),
     (''call_tool'', envelope ''sec'' ToolResult PUBLIC CANONICAL False),
     (''get_recent_ownership_filings'', envelope ''sec'' Filing PUBLIC CANONICAL False),
     (''diff_risk_factors'', envelope ''sec'' Filing PUBLIC CANONICAL False),
     (''get_financial_statements'', envelope ''sec'' ToolResult PUBLIC CANONICAL False),
     (''get_xbrl_facts'', envelope ''sec'' ToolResult PUBLIC CANONICAL False),
     (''get_obligations'', envelope ''sec'' ToolResult PUBLIC CANONICAL False),
     (''get_valuation_metrics'', envelope ''sec'' ToolResult PUBLIC DERIVED False),
     (''list_finra_datasets'', envelope ''finra'' ToolResult PUBLIC CANONICAL False),
     (''describe_finra_dataset'', envelope ''finra'' ToolResult PUBLIC CANONICAL False),
     (''get_finra_datapoints'', envelope ''finra'' ToolResult PUBLIC CANONICAL False),
     (''query_finra'', envelope ''finra'' ToolResult PUBLIC CANONICAL False),
     (''get_short_interest'', envelope ''finra'' ToolResult PUBLIC CANONICAL False),
     (''get_short_interest_leaderboard'', envelope ''finra'' ToolResult PUBLIC CANONICAL False),
     (''get_reg_sho_volume'', envelope ''finra'' ToolResult PUBLIC CANONICAL False),
     (''get_threshold_securities'', envelope ''finra'' ToolResult PUBLIC CANONICAL False),
     (''get_analyst_estimates'', envelope ''analyst'' ToolResult PUBLIC EXTERNAL False),
     (''get_sp500_weight'', envelope ''analyst'' ToolResult PUBLIC EXTERNAL False),
     (''search_web'', envelope ''exa'' Web PUBLIC EXTERNAL True),
     (''find_alternative_signals'', envelope ''google'' ToolResult PUBLIC EXTERNAL True),
     (''get_trend_evidence'', envelope ''google'' ToolResult PUBLIC EXTERNAL True),
     (''investigate_social_arbitrage_candidate'', envelope ''google'' ToolResult PUBLIC EXTERNAL True),
     (''get_macro_context'', envelope ''google'' ToolResult PUBLIC EXTERNAL True),
     (''search_company_patents'', envelope ''google'' ToolResult PUBLIC EXTERNAL True),
     (''thesis_create'', envelope ''thesis'' ToolResult PUBLIC DERIVED False),
     (''thesis_show'', envelope ''thesis'' ToolResult PUBLIC DERIVED False),
     (''thesis_refine'', envelope ''thesis'' ToolResult PUBLIC DERIVED False),
     (''thesis_watch'', envelope ''thesis'' ToolResult PUBLIC DERIVED False),
     (''thesis_journal'', envelope ''thesis'' ToolResult PUBLIC DERIVED False),
     (''thesis_status'', envelope ''thesis'' ToolResult PUBLIC DERIVED False),
     (''research_start'', envelope ''research'' ToolResult PUBLIC DERIVED False),
     (''research_resume'', envelope ''research'' ToolResult PUBLIC DERIVED False),
     (''research_status'', envelope ''research'' ToolResult PUBLIC DERIVED False),
     (''research_cancel'', envelope ''research'' ToolResult PUBLIC DERIVED False),
     (''research_read'', envelope ''research'' ToolResult PUBLIC DERIVED False),
     (''research_read_search'', envelope ''research'' ToolResult PUBLIC DERIVED False),
     (''research_add_evidence'', envelope ''research'' ToolResult PUBLIC DERIVED False),
     (''research_submit_source_result'', envelope ''research'' ToolResult PUBLIC DERIVED False),
     (''research_add_analysis'', envelope ''research'' ToolResult PUBLIC DERIVED False),
     (''research_finalize'', envelope ''research'' ToolResult PUBLIC DERIVED False),
     (''get_market_snapshot'', envelope ''robinhood'' Mcp PUBLIC AUTHENTICATED False),
     (''get_option_chain'', envelope ''robinhood'' Mcp PUBLIC AUTHENTICATED False),
     (''analyze_option_contract'', envelope ''robinhood'' Mcp PUBLIC AUTHENTICATED False),
     (''compare_options'', envelope ''robinhood'' Mcp PUBLIC AUTHENTICATED False),
     (''get_scanner_filter_specs'', envelope ''robinhood'' Mcp PUBLIC AUTHENTICATED False),
     (''evaluate_mandate'', envelope ''mandate'' ToolResult PRIVATE DERIVED False),
     (''get_portfolio_snapshot'', envelope ''robinhood'' Mcp PRIVATE AUTHENTICATED False),
     (''get_scans'', envelope ''robinhood'' Mcp PRIVATE AUTHENTICATED False),
     (''run_scan'', envelope ''robinhood'' Mcp PRIVATE AUTHENTICATED False)]"

section \<open>Source policy\<close>

datatype denial = DeniedBySourcePolicy | OutsideAllowlist | PolicyNotMapping | UnknownPolicyMode

definition source_policy_mode :: "(string, pyobj) dict \<Rightarrow> string option" where
  "source_policy_mode policy =
     (let mode = (case dget_default policy ''mode'' (PStr ''all'') of PStr s \<Rightarrow> lower (strip s) | _ \<Rightarrow> ''all'')
      in if mode \<in> set [''all'', ''allowlist''] then Some mode else None)"

definition text_entries :: "pyobj list \<Rightarrow> string list" where
  "text_entries xs = map (\<lambda>v. lower (strip (str_of v))) (filter is_str xs)"

definition denied_set :: "pyobj \<Rightarrow> string list" where
  "denied_set raw = (case raw of PList xs \<Rightarrow> text_entries xs | _ \<Rightarrow> [])"

definition covers :: "string list \<Rightarrow> string \<Rightarrow> bool" where
  "covers entries name \<longleftrightarrow> list_ex (\<lambda>d. d \<noteq> [] \<and> sublist d (lower (strip name))) entries"

definition source_denied_hit :: "string \<Rightarrow> pyobj \<Rightarrow> denial option" where
  "source_denied_hit name raw = (if covers (denied_set raw) name then Some DeniedBySourcePolicy else None)"

definition allowlist_set :: "pyobj \<Rightarrow> string list option" where
  "allowlist_set raw = (case raw of PList xs \<Rightarrow> Some (text_entries xs) | _ \<Rightarrow> None)"

definition is_sec_tool_name :: "string \<Rightarrow> bool" where
  "is_sec_tool_name name \<longleftrightarrow> strip name \<noteq> [] \<and> name \<in> set sec_tools
     \<and> dget tool_domains name \<noteq> Some ''portfolio_read''"

definition allowlist_match :: "string \<Rightarrow> string list \<Rightarrow> bool" where
  "allowlist_match name allowed \<longleftrightarrow>
     ''sec'' \<in> set allowed \<and> is_sec_tool_name name \<or> covers (filter (\<lambda>a. a \<noteq> ''sec'') allowed) name"

definition allowlist_verdict :: "string \<Rightarrow> pyobj \<Rightarrow> denial option" where
  "allowlist_verdict name raw = (case allowlist_set raw of
       None \<Rightarrow> Some OutsideAllowlist
     | Some allowed \<Rightarrow> if allowlist_match name allowed then None else Some OutsideAllowlist)"

definition source_denied_reason :: "string \<Rightarrow> pyobj \<Rightarrow> denial option" where
  "source_denied_reason name policy = (case policy of
       PNone \<Rightarrow> None
     | PDict d \<Rightarrow>
         (case source_policy_mode d of
            None \<Rightarrow> Some UnknownPolicyMode
          | Some mode \<Rightarrow>
              (case source_denied_hit name (dget_default d ''denied'' (PList [])) of
                 Some hit \<Rightarrow> Some hit
               | None \<Rightarrow> if mode = ''all'' then None
                         else allowlist_verdict name (dget_default d ''allowed'' (PList []))))
     | _ \<Rightarrow> Some PolicyNotMapping)"

definition filter_allowed_tools :: "string list \<Rightarrow> pyobj \<Rightarrow> string list" where
  "filter_allowed_tools names policy = filter (\<lambda>n. source_denied_reason n policy = None) names"

section \<open>Tool calls\<close>

definition call_tool_inner :: "pyobj \<Rightarrow> string option" where
  "call_tool_inner arguments = (case arguments of
       PDict d \<Rightarrow> (case obj_get d ''name'' of
           PStr s \<Rightarrow> if strip s \<noteq> [] then Some (strip s) else None
         | _ \<Rightarrow> None)
     | _ \<Rightarrow> None)"

datatype refusal = SourceDenied denial | PortfolioNotAuthorized | ExceedsIntent

text \<open>\<open>(True, "")\<close> is \<open>None\<close>, a refusal carries its reason.\<close>

definition authorize_tool_call :: "string \<Rightarrow> pyobj \<Rightarrow> run_security \<Rightarrow> refusal option" where
  "authorize_tool_call name arguments rs =
     (case source_denied_reason name (rs_source_policy rs) of
        Some d \<Rightarrow> Some (SourceDenied d)
      | None \<Rightarrow>
          (case (if name = ''call_tool''
                 then (case call_tool_inner arguments of
                         None \<Rightarrow> None | Some inner \<Rightarrow> source_denied_reason inner (rs_source_policy rs))
                 else None) of
             Some d \<Rightarrow> Some (SourceDenied d)
           | None \<Rightarrow>
               (case dget tool_domains name of
                  None \<Rightarrow> Some ExceedsIntent
                | Some domain \<Rightarrow>
                    if domain = ''portfolio_read''
                    then (if rs_portfolio_read rs then None else Some PortfolioNotAuthorized)
                    else if domain \<in> set (rs_permitted_domains rs) then None else Some ExceedsIntent)))"

section \<open>Egress\<close>

definition ci_words :: "string list \<Rightarrow> re" where
  "ci_words ws = foldr (\<lambda>w r. RAlt (rlit_ci w) r) (butlast ws) (rlit_ci (last ws))"

definition possessive_own_re :: re where
  "possessive_own_re = rseq [RBound, ci_words [''my'', ''i'', ''you'', ''user'', ''we''], RRun is_space 1 None,
     RAlt (RSeq (rlit_ci ''own'') (RRun is_word 0 None))
       (RAlt (RSeq (rlit_ci ''have'') (RRun is_word 0 None))
         (RAlt (RSeq (rlit_ci ''hold'') (RRun is_word 0 None)) (rlit_ci ''held''))), RBound]"

definition portfolio_noun_re :: re where
  "portfolio_noun_re = rseq [RBound,
     ci_words [''portfolio'', ''position'', ''holdings'', ''balance'', ''account''], RBound]"

definition amount_token_re :: re where
  "amount_token_re = RAlt
     (rseq [RChar (\<lambda>c. c = CHR ''$''), ROpt (RChar is_space), RChar is_digit_char,
        RRun (\<lambda>c. is_digit_char c \<or> c = CHR '','') 0 None,
        ROpt (RSeq (RChar (\<lambda>c. c = CHR ''.'')) (RRun is_digit_char 1 None))])
     (rseq [RBound, RRun is_digit_char 4 None, RBound])"

definition egress_token_window :: int where
  "egress_token_window = 12"

text \<open>\<open>str.split()\<close>.\<close>

function split_words :: "string \<Rightarrow> string list" where
  "split_words [] = []"
| "split_words (c # cs) =
     (if is_space c then split_words cs
      else (c # takeWhile (\<lambda>d. \<not> is_space d) cs) # split_words (dropWhile (\<lambda>d. \<not> is_space d) cs))"
  by pat_completeness auto
termination
  by (relation "measure length") (auto simp: le_imp_less_Suc length_dropWhile_le)

definition indices :: "re \<Rightarrow> string list \<Rightarrow> int list" where
  "indices r tokens = map (\<lambda>(i, _). int i) (filter (\<lambda>(_, t). found r t) (enumerate 0 tokens))"

definition portfolio_context :: "string \<Rightarrow> bool" where
  "portfolio_context query =
     (found possessive_own_re query
      \<or> (let tokens = split_words query;
             nouns = indices portfolio_noun_re tokens;
             amounts = indices amount_token_re tokens
         in list_ex (\<lambda>i. list_ex (\<lambda>j. \<bar>i - j\<bar> \<le> egress_token_window) amounts) nouns))"

definition credential_patterns :: "re list" where
  "credential_patterns = [bearer_re, sk_or_v1_re, jwt_re, account_id_re]"

datatype egress_reason = Credential | EgressIntent | EgressAfterPrivate | UnknownDestination | MalformedPayload

definition private_pattern_hit :: "string \<Rightarrow> egress_reason option" where
  "private_pattern_hit t =
     (if list_ex (\<lambda>r. found r t) credential_patterns then Some Credential
      else if portfolio_context t then Some EgressIntent else None)"

text \<open>
  \<open>dumps\<close> is \<open>json.dumps(..., sort_keys=True)\<close>; nothing is assumed of it.  The result is
  \<open>None\<close> when the egress is allowed.
\<close>

definition authorize_egress :: "(pyobj \<Rightarrow> string) \<Rightarrow> string \<Rightarrow> pyobj \<Rightarrow> run_security \<Rightarrow> egress_reason option" where
  "authorize_egress dumps destination payload rs =
     (if destination \<noteq> ''exa'' then Some UnknownDestination
      else case payload of
          PDict d \<Rightarrow>
            if \<not> is_str (obj_get d ''query'') then Some MalformedPayload
            else if ''private'' \<in> set (rs_data_labels rs) then Some EgressAfterPrivate
            else private_pattern_hit (dumps payload)
        | _ \<Rightarrow> Some MalformedPayload)"

section \<open>Application capabilities\<close>

record run_limits =
  li_max_tool_calls :: "int option"
  li_max_runtime :: "decimal option"
  li_max_tool_result_bytes :: int
  li_max_evidence_tokens :: "int option"

record tool_policy =
  tp_allowed_tools :: "string list option"
  tp_max_arguments_bytes :: int
  tp_deny_unpermitted :: bool

record request_context =
  rc_principal_id :: string
  rc_capabilities :: "capability list"
  rc_tool_policy :: tool_policy
  rc_data_root :: string
  rc_as_of :: "string option"
  rc_run_limits :: run_limits
  rc_source_policy :: pyobj
  rc_research_session_id :: "string option"

definition default_run_limits :: run_limits where
  "default_run_limits = \<lparr>li_max_tool_calls = None, li_max_runtime = None,
     li_max_tool_result_bytes = 64 * 1024, li_max_evidence_tokens = Some 48000\<rparr>"

definition default_tool_policy :: tool_policy where
  "default_tool_policy = \<lparr>tp_allowed_tools = None, tp_max_arguments_bytes = 8 * 1024, tp_deny_unpermitted = True\<rparr>"

definition scoped_context :: "request_context \<Rightarrow> pyobj \<Rightarrow> request_context" where
  "scoped_context c policy = c\<lparr>rc_source_policy := (case policy of PDict d \<Rightarrow> PDict d | _ \<Rightarrow> PNone)\<rparr>"

definition tool_capability_of :: "string \<Rightarrow> capability option" where
  "tool_capability_of name = dget tool_capabilities name"

definition context_allows_tool :: "request_context \<Rightarrow> string \<Rightarrow> bool" where
  "context_allows_tool c name =
     (case tool_capability_of name of
        None \<Rightarrow> False
      | Some cap \<Rightarrow>
          if cap \<notin> set (rc_capabilities c) then False
          else (case tp_allowed_tools (rc_tool_policy c) of
                  Some allowed \<Rightarrow>
                    if name \<notin> set allowed then \<not> tp_deny_unpermitted (rc_tool_policy c)
                    else source_denied_reason name (rc_source_policy c) = None
                | None \<Rightarrow> source_denied_reason name (rc_source_policy c) = None))"

definition tool_is_permitted :: "string \<Rightarrow> request_context \<Rightarrow> bool" where
  "tool_is_permitted name c = (case dget tool_capabilities name of
      None \<Rightarrow> False | Some cap \<Rightarrow> cap \<in> set (rc_capabilities c))"

definition local_context :: "string \<Rightarrow> request_context" where
  "local_context data_root = \<lparr>rc_principal_id = ''local'', rc_capabilities = [CAP_RESEARCH],
     rc_tool_policy = default_tool_policy, rc_data_root = data_root, rc_as_of = None,
     rc_run_limits = default_run_limits, rc_source_policy = PNone, rc_research_session_id = None\<rparr>"

section \<open>Ingress\<close>

definition secret_patterns :: "(string \<times> re) list" where
  "secret_patterns = [(''bearer'', bearer_re), (''sk_or_v1'', sk_or_v1_re), (''jwt'', jwt_re)]"

record quarantined =
  qc_envelope :: context_envelope
  qc_verdict :: verdict
  qc_score :: int
  qc_reasons :: "string list"
  qc_rules :: "string list"

datatype ingress = Safe context_envelope string | Held quarantined

definition fallback_envelope :: context_envelope where
  "fallback_envelope = envelope ''unknown'' ToolResult PUBLIC EXTERNAL False"

definition first_text :: "(string, pyobj) dict \<Rightarrow> string list \<Rightarrow> string option" where
  "first_text d keys = map_option (\<lambda>k. str_of (obj_get d k)) (List.find (\<lambda>k. is_str (obj_get d k)) keys)"

definition envelope_for_tool :: "string \<Rightarrow> pyobj \<Rightarrow> context_envelope" where
  "envelope_for_tool name result =
     (case dget tool_envelopes name of None \<Rightarrow> fallback_envelope | Some e \<Rightarrow> e)
       \<lparr>ce_content := result,
        ce_retrieved_at := (case result of
           PDict d \<Rightarrow> first_text d [''retrieved_at'', ''as_of'', ''as_of_date''] | _ \<Rightarrow> None)\<rparr>"

definition secret_pattern_hits :: "string \<Rightarrow> string list" where
  "secret_pattern_hits t = map fst (filter (\<lambda>(_, r). found r t) secret_patterns)"

definition prepare_context :: "decoders \<Rightarrow> context_envelope \<Rightarrow> string \<Rightarrow> ingress" where
  "prepare_context dc env rendered =
     (if ce_sensitivity env = SECRET
      then Held \<lparr>qc_envelope = env, qc_verdict = BLOCK, qc_score = 100,
             qc_reasons = [''secret data never enters model context''], qc_rules = [''secret_envelope'']\<rparr>
      else (let hits = secret_pattern_hits rendered
            in if hits \<noteq> []
               then Held \<lparr>qc_envelope = env, qc_verdict = BLOCK, qc_score = 100,
                      qc_reasons = [''credential pattern: '' @ join '', '' hits],
                      qc_rules = map (\<lambda>h. ''credential_pattern:'' @ h) hits\<rparr>
               else (let a = assess dc rendered
                     in if as_verdict a \<noteq> ALLOW
                        then Held \<lparr>qc_envelope = env, qc_verdict = as_verdict a, qc_score = as_score a,
                               qc_reasons = as_reasons a, qc_rules = as_rules a\<rparr>
                        else Safe (env\<lparr>ce_status := Allowed\<rparr>) rendered)))"

section \<open>Broker registry\<close>

datatype robinhood_capability = MARKET_READ | ACCOUNT_READ

definition market_read_tools :: "string list" where
  "market_read_tools = [''get_equity_quotes'', ''get_equity_fundamentals'', ''get_option_chains'',
     ''get_option_instruments'', ''get_option_quotes'', ''get_option_historicals'', ''get_scanner_filter_specs'']"

definition account_read_tools :: "string list" where
  "account_read_tools = [''get_accounts'', ''get_portfolio'', ''get_equity_positions'', ''get_scans'', ''run_scan'']"

definition blocked_keywords :: "string list" where
  "blocked_keywords = [''order'', ''trade'', ''place'', ''submit'', ''cancel'', ''replace'', ''modify'',
     ''exercise'', ''withdraw'', ''deposit'', ''transfer'']"

definition blocked_tools :: "string list" where
  "blocked_tools = [''review_equity_order'', ''place_equity_order'', ''cancel_equity_order'',
     ''replace_equity_order'', ''place_option_order'', ''withdraw'', ''deposit'', ''transfer'']"

definition is_blocked :: "string \<Rightarrow> bool" where
  "is_blocked name \<longleftrightarrow> lower name \<in> set blocked_tools \<or> list_ex (\<lambda>k. sublist k (lower name)) blocked_keywords"

definition robinhood_tool_capability :: "string \<Rightarrow> robinhood_capability option" where
  "robinhood_tool_capability name =
     (if name = [] \<or> is_blocked name then None
      else if name \<in> set market_read_tools then Some MARKET_READ
      else if name \<in> set account_read_tools then Some ACCOUNT_READ else None)"

definition configured_subset :: "string list option \<Rightarrow> string list \<Rightarrow> string list \<Rightarrow> string list res" where
  "configured_subset supplied canonical fallback =
     (case supplied of
        None \<Rightarrow> Ok fallback
      | Some configured \<Rightarrow>
          if list_all (\<lambda>n. n \<in> set canonical) configured
          then Ok (filter (\<lambda>n. n \<in> set canonical) configured)
          else Err (ValueError ''Unknown tool configuration''))"

definition allowed_read_tools :: "string list option \<Rightarrow> string list option \<Rightarrow> string list res" where
  "allowed_read_tools market account =
     bindR (configured_subset market market_read_tools market_read_tools) (\<lambda>ms.
     bindR (configured_subset account account_read_tools []) (\<lambda>as. Ok (ms @ as)))"

section \<open>Properties\<close>

definition portfolio_tools :: "string list" where
  "portfolio_tools = [''evaluate_mandate'', ''get_portfolio_snapshot'', ''get_scans'', ''run_scan'']"

text \<open>The registries list the same names in a different order of sections.\<close>

definition section_names :: "nat \<times> nat \<Rightarrow> string list" where
  "section_names ij = take (snd ij - fst ij) (drop (fst ij) (map fst tool_domains))"

definition domain_sections :: "(nat \<times> nat) list" where
  "domain_sections = [(0, 1), (1, 2), (2, 6), (6, 29), (29, 31), (31, 35), (35, 41), (41, 46), (46, 52), (52, 68),
     (68, 69), (69, 72)]"

definition capability_sections :: "(nat \<times> nat) list" where
  "capability_sections = [(68, 69), (0, 1), (2, 6), (1, 2), (6, 29), (35, 41), (29, 31), (46, 52), (31, 35), (52, 68),
     (41, 46), (69, 72)]"

definition envelope_sections :: "(nat \<times> nat) list" where
  "envelope_sections = [(0, 1), (1, 2), (2, 6), (6, 29), (29, 31), (31, 35), (35, 41), (46, 52), (52, 68), (41, 46),
     (68, 69), (69, 72)]"

lemma registry_sections:
  "map fst tool_domains = concat (map section_names domain_sections)"
  "map fst tool_capabilities = concat (map section_names capability_sections)"
  "map fst tool_envelopes = concat (map section_names envelope_sections)"
  by code_simp+

lemma registry_names:
  "set (map fst tool_capabilities) = set (map fst tool_domains)"
  "set (map fst tool_envelopes) = set (map fst tool_domains)"
proof -
  have "set capability_sections = set domain_sections" "set envelope_sections = set domain_sections"
    by (auto simp: capability_sections_def domain_sections_def envelope_sections_def)
  then show "set (map fst tool_capabilities) = set (map fst tool_domains)"
    and "set (map fst tool_envelopes) = set (map fst tool_domains)"
    unfolding registry_sections(2,3) by (subst registry_sections(1), simp only: set_concat list.set_map)+
qed

lemma portfolio_entries:
  "map fst (filter (\<lambda>(_, d). d = ''portfolio_read'') tool_domains) = portfolio_tools"
  "set (map fst (filter (\<lambda>(_, c). c = CAP_PORTFOLIO_READ) tool_capabilities)) = set portfolio_tools"
  "map fst (filter (\<lambda>(_, e). ce_sensitivity e = PRIVATE) tool_envelopes) = portfolio_tools"
  by code_simp+

lemma portfolio_lookups:
  "list_all (\<lambda>n. dget tool_domains n = Some ''portfolio_read'' \<and> dget tool_capabilities n = Some CAP_PORTFOLIO_READ
     \<and> map_option ce_sensitivity (dget tool_envelopes n) = Some PRIVATE) portfolio_tools"
  by code_simp

lemma envelope_labels:
  "list_all (\<lambda>(_, e). ce_sensitivity e \<noteq> SECRET \<and> ce_authority e = AuthNone \<and> ce_status e = Pending) tool_envelopes"
  by code_simp

lemma sec_tool_lookups:
  "list_all (\<lambda>n. is_sec_tool_name n \<and> dget tool_domains n = Some ''financial_research'') sec_tools"
  by code_simp

lemma lookup_filter: "dget t n = Some v \<Longrightarrow> P v \<Longrightarrow> n \<in> set (map fst (filter (\<lambda>(_, w). P w) t))"
  using map_of_SomeD [of t n v] by force

text \<open>
  The tool registries agree on every name: a tool has a domain, a capability and a label for its
  results or none of them; the tools of the portfolio domain are exactly those that need the
  portfolio capability and exactly those whose results are labelled private; and no label is secret,
  carries instruction authority or is already cleared.
\<close>

theorem registries_agree:
  "(dget tool_capabilities n = None \<longleftrightarrow> dget tool_domains n = None)
   \<and> (dget tool_envelopes n = None \<longleftrightarrow> dget tool_domains n = None)
   \<and> (dget tool_domains n = Some ''portfolio_read'' \<longleftrightarrow> n \<in> set portfolio_tools)
   \<and> (dget tool_capabilities n = Some CAP_PORTFOLIO_READ \<longleftrightarrow> n \<in> set portfolio_tools)
   \<and> (map_option ce_sensitivity (dget tool_envelopes n) = Some PRIVATE \<longleftrightarrow> n \<in> set portfolio_tools)
   \<and> (case dget tool_envelopes n of None \<Rightarrow> True
      | Some e \<Rightarrow> ce_sensitivity e \<noteq> SECRET \<and> ce_authority e = AuthNone \<and> ce_status e = Pending)"
proof (intro conjI)
  show "dget tool_capabilities n = None \<longleftrightarrow> dget tool_domains n = None"
    and "dget tool_envelopes n = None \<longleftrightarrow> dget tool_domains n = None"
    unfolding map_of_eq_None_iff list.set_map [symmetric] registry_names by (rule refl)+
  show "dget tool_domains n = Some ''portfolio_read'' \<longleftrightarrow> n \<in> set portfolio_tools"
    using lookup_filter [of tool_domains n _ "\<lambda>d. d = ''portfolio_read''"] portfolio_entries(1) portfolio_lookups
    by (auto simp: list_all_iff)
  show "dget tool_capabilities n = Some CAP_PORTFOLIO_READ \<longleftrightarrow> n \<in> set portfolio_tools"
    using lookup_filter [of tool_capabilities n _ "\<lambda>c. c = CAP_PORTFOLIO_READ"] portfolio_entries(2) portfolio_lookups
    by (auto simp: list_all_iff)
  show "map_option ce_sensitivity (dget tool_envelopes n) = Some PRIVATE \<longleftrightarrow> n \<in> set portfolio_tools"
    using lookup_filter [of tool_envelopes n _ "\<lambda>e. ce_sensitivity e = PRIVATE"] portfolio_entries(3) portfolio_lookups
    by (auto simp: list_all_iff)
  show "case dget tool_envelopes n of None \<Rightarrow> True
      | Some e \<Rightarrow> ce_sensitivity e \<noteq> SECRET \<and> ce_authority e = AuthNone \<and> ce_status e = Pending"
    using envelope_labels by (auto simp: list_all_iff dest!: map_of_SomeD split: option.split)
qed

lemma envelope_for_tool_labels:
  "ce_sensitivity (envelope_for_tool n result) = PRIVATE \<longleftrightarrow> n \<in> set portfolio_tools"
  "ce_authority (envelope_for_tool n result) = AuthNone"
proof -
  have "map_option ce_sensitivity (dget tool_envelopes n) = Some PRIVATE \<longleftrightarrow> n \<in> set portfolio_tools"
    using lookup_filter [of tool_envelopes n _ "\<lambda>e. ce_sensitivity e = PRIVATE"] portfolio_entries(3) portfolio_lookups
    by (auto simp: list_all_iff)
  then show "ce_sensitivity (envelope_for_tool n result) = PRIVATE \<longleftrightarrow> n \<in> set portfolio_tools"
    by (auto simp: envelope_for_tool_def fallback_envelope_def envelope_def split: option.split)
  show "ce_authority (envelope_for_tool n result) = AuthNone"
    using envelope_labels
    by (auto simp: list_all_iff envelope_for_tool_def fallback_envelope_def envelope_def
        dest!: map_of_SomeD split: option.split)
qed


definition demo_run_security :: "bool \<Rightarrow> string list \<Rightarrow> run_security" where
  "demo_run_security grant labels = \<lparr>rs_request = [], rs_permitted_domains = snd (classify_intent []),
     rs_portfolio_read = grant, rs_data_labels = labels, rs_quarantined_items = 0, rs_source_policy = PNone\<rparr>"


text \<open>
  Source policy: a tool that passes a policy is covered by none of its denied entries, and in
  allowlist mode it is an SEC tool under the SEC entry or contains one of the other allowed entries;
  an unreadable policy or mode denies every tool.
\<close>

theorem source_policy_sound:
  assumes "source_denied_reason name policy = None" and "policy \<noteq> PNone"
  shows "\<exists>d mode. policy = PDict d \<and> source_policy_mode d = Some mode
    \<and> \<not> covers (denied_set (dget_default d ''denied'' (PList []))) name
    \<and> (mode \<noteq> ''all'' \<longrightarrow> (\<exists>allowed. allowlist_set (dget_default d ''allowed'' (PList [])) = Some allowed
         \<and> (''sec'' \<in> set allowed \<and> is_sec_tool_name name \<or> covers (filter (\<lambda>a. a \<noteq> ''sec'') allowed) name)))"
  using assms
  by (auto simp: source_denied_reason_def source_denied_hit_def allowlist_verdict_def allowlist_match_def
      split: pyobj.splits option.splits if_splits)

definition sec_only_policy :: pyobj where
  "sec_only_policy = PDict [(''mode'', PStr ''allowlist''), (''allowed'', PList [PStr ''finra''])]"

theorem source_policy_sound_witness:
  "source_denied_reason ''query_finra'' sec_only_policy = None
    \<and> covers [''finra''] ''query_finra''"
proof -
  have ok: "source_denied_reason ''query_finra'' sec_only_policy = None" by code_simp
  have "sec_only_policy \<noteq> PNone" by (simp add: sec_only_policy_def)
  from source_policy_sound [OF ok this] ok show ?thesis
    by (auto simp: sec_only_policy_def source_policy_mode_def dget_default_def allowlist_set_def text_entries_def
        lower_def lower_char_def strip_def is_space_def split: if_splits)
qed

text \<open>
  C20.  Egress: what leaves to the search provider is a query payload, sent before any private result
  entered the run, whose serialised form matches no credential pattern and no portfolio-context
  pattern.
\<close>

theorem egress_sound:
  assumes "authorize_egress dumps destination payload rs = None"
  shows "destination = ''exa'' \<and> (\<exists>d q. payload = PDict d \<and> obj_get d ''query'' = PStr q)
    \<and> ''private'' \<notin> set (rs_data_labels rs)
    \<and> (\<forall>r \<in> {bearer_re, sk_or_v1_re, jwt_re, account_id_re, possessive_own_re}. \<not> found r (dumps payload))
    \<and> \<not> portfolio_context (dumps payload)"
proof -
  from assms obtain d where d: "payload = PDict d" "is_str (obj_get d ''query'')"
    by (auto simp: authorize_egress_def split: pyobj.splits if_splits)
  then obtain q where "obj_get d ''query'' = PStr q" by (cases "obj_get d ''query''") auto
  with assms d show ?thesis
    by (auto simp: authorize_egress_def private_pattern_hit_def credential_patterns_def portfolio_context_def
        split: if_splits)
qed

theorem egress_sound_witness:
  "authorize_egress (\<lambda>_. ''apple revenue'') ''exa'' (PDict [(''query'', PStr ''apple revenue'')]) (demo_run_security False [])
     = None \<and> \<not> portfolio_context ''apple revenue''"
proof -
  have ok: "authorize_egress (\<lambda>_. ''apple revenue'') ''exa'' (PDict [(''query'', PStr ''apple revenue'')])
      (demo_run_security False []) = None" by code_simp
  from egress_sound [OF ok] ok show ?thesis by blast
qed

text \<open>
  C26.  Ingress: a result enters model context only unchanged, not secret, free of the three credential
  patterns and allowed by the injection scanner; and whatever fails one of these is held back with a blocking or quarantining verdict.
\<close>

theorem ingress_sound:
  "case prepare_context dc env t of
     Safe env' t' \<Rightarrow> t' = t \<and> env' = env\<lparr>ce_status := Allowed\<rparr> \<and> ce_sensitivity env \<noteq> SECRET
       \<and> \<not> found bearer_re t \<and> \<not> found sk_or_v1_re t \<and> \<not> found jwt_re t \<and> as_verdict (assess dc t) = ALLOW
   | Held q \<Rightarrow> qc_envelope q = env \<and> qc_verdict q \<noteq> ALLOW
       \<and> \<not> (ce_sensitivity env \<noteq> SECRET \<and> \<not> found bearer_re t \<and> \<not> found sk_or_v1_re t
          \<and> \<not> found jwt_re t \<and> as_verdict (assess dc t) = ALLOW)"
  by (auto simp: prepare_context_def secret_pattern_hits_def secret_patterns_def Let_def split: if_splits)

lemma canonical_read_only:
  "list_all (\<lambda>n. robinhood_tool_capability n = Some MARKET_READ \<and> \<not> is_blocked n) market_read_tools"
  "list_all (\<lambda>n. robinhood_tool_capability n = Some ACCOUNT_READ \<and> \<not> is_blocked n) account_read_tools"
  by code_simp+

lemma configured_subset_sound:
  "configured_subset supplied canonical fallback = Ok ns \<Longrightarrow> set fallback \<subseteq> set canonical \<Longrightarrow> set ns \<subseteq> set canonical"
  by (auto simp: configured_subset_def split: option.splits if_splits)

text \<open>
  The broker registry is read-only: whatever the configuration, the allowed tools are tools of
  the canonical registries, each classified as a read, and none of them matches a blocked keyword or a
  blocked tool; and a configuration that names anything else is refused.
\<close>

theorem broker_read_only:
  assumes "allowed_read_tools market account = Ok ns" and "n \<in> set ns"
  shows "\<not> is_blocked n \<and> robinhood_tool_capability n \<noteq> None \<and> (n \<in> set market_read_tools \<or> n \<in> set account_read_tools)
    \<and> (account = None \<longrightarrow> robinhood_tool_capability n = Some MARKET_READ)"
proof -
  from assms(1) obtain ms as where ms: "configured_subset market market_read_tools market_read_tools = Ok ms"
    and as: "configured_subset account account_read_tools [] = Ok as" and ns: "ns = ms @ as"
    by (auto simp: allowed_read_tools_def bindR_Ok_iff)
  have "set ms \<subseteq> set market_read_tools" "set as \<subseteq> set account_read_tools" "account = None \<longrightarrow> as = []"
    using configured_subset_sound [OF ms] configured_subset_sound [OF as] as by (auto simp: configured_subset_def)
  with assms(2) ns canonical_read_only show ?thesis by (auto simp: list_all_iff)
qed

theorem broker_read_only_witness:
  "\<not> is_blocked ''get_scans'' \<and> robinhood_tool_capability ''get_scans'' \<noteq> None"
proof -
  have "allowed_read_tools None (Some [''get_scans'']) = Ok (market_read_tools @ [''get_scans''])"
    by (simp add: allowed_read_tools_def configured_subset_def account_read_tools_def)
  from broker_read_only [OF this, of "''get_scans''"] show ?thesis by simp
qed

text \<open>
  With \<open>deny_unpermitted\<close> off, a tool outside the tool policy's list is allowed without a look at
  the source policy, although the gate is documented as one where a denied source wins.
\<close>

lemma undenied_tool_skips_source_policy:
  "context_allows_tool ((local_context [])\<lparr>rc_tool_policy := default_tool_policy\<lparr>tp_allowed_tools := Some [],
       tp_deny_unpermitted := False\<rparr>, rc_source_policy := PDict [(''denied'', PList [PStr ''finra''])]\<rparr>) ''query_finra''
   \<and> source_denied_reason ''query_finra'' (PDict [(''denied'', PList [PStr ''finra''])]) \<noteq> None"
  by code_simp

end
