(* ===== verification/Budget.thy ===== *)
theory Budget
  imports Interfaces Complex_Main
begin

text \<open>
  The execution budget of a tool run (\<open>app/runtime.py\<close>): three counters with optional ceilings
  and a wall-clock limit.  The monotonic clock is the argument \<open>now\<close>, in seconds; every operation
  runs under the object's lock and is one step.
\<close>

record execution_budget =
  eb_max_tool_calls :: "int option"
  eb_max_runtime :: "rat option"
  eb_max_evidence_tokens :: "int option"
  eb_tool_calls :: int
  eb_evidence_tokens :: int
  eb_max_search_calls :: "int option"
  eb_search_calls :: int
  eb_started :: rat

definition new_budget :: "int option \<Rightarrow> rat option \<Rightarrow> int option \<Rightarrow> int option \<Rightarrow> rat \<Rightarrow> execution_budget" where
  "new_budget tools runtime evidence searches now =
     \<lparr>eb_max_tool_calls = tools, eb_max_runtime = runtime, eb_max_evidence_tokens = evidence,
      eb_tool_calls = 0, eb_evidence_tokens = 0, eb_max_search_calls = searches, eb_search_calls = 0,
      eb_started = now\<rparr>"

text \<open>\<open>None\<close> is the infinite remaining time of a run without a limit.\<close>

definition runtime_remaining :: "rat \<Rightarrow> execution_budget \<Rightarrow> rat option" where
  "runtime_remaining now b = map_option (\<lambda>m. max 0 (m - (now - eb_started b))) (eb_max_runtime b)"

definition runtime_left :: "rat \<Rightarrow> execution_budget \<Rightarrow> bool" where
  "runtime_left now b \<longleftrightarrow> (case eb_max_runtime b of None \<Rightarrow> True | Some m \<Rightarrow> m - (now - eb_started b) > 0)"

definition at_ceiling :: "int option \<Rightarrow> int \<Rightarrow> bool" where
  "at_ceiling limit used \<longleftrightarrow> (case limit of None \<Rightarrow> False | Some m \<Rightarrow> used \<ge> m)"

definition reserve_tool_call :: "rat \<Rightarrow> execution_budget \<Rightarrow> execution_budget \<times> bool" where
  "reserve_tool_call now b =
     (if \<not> runtime_left now b then (b, False)
      else if at_ceiling (eb_max_tool_calls b) (eb_tool_calls b) then (b, False)
      else (b\<lparr>eb_tool_calls := eb_tool_calls b + 1\<rparr>, True))"

definition reserve_search_call :: "rat \<Rightarrow> execution_budget \<Rightarrow> execution_budget \<times> bool" where
  "reserve_search_call now b =
     (if \<not> runtime_left now b then (b, False)
      else if at_ceiling (eb_max_search_calls b) (eb_search_calls b) then (b, False)
      else (b\<lparr>eb_search_calls := eb_search_calls b + 1\<rparr>, True))"

definition add_evidence_tokens :: "int \<Rightarrow> execution_budget \<Rightarrow> execution_budget \<times> bool" where
  "add_evidence_tokens count b =
     (case eb_max_evidence_tokens b of
        Some m \<Rightarrow> if eb_evidence_tokens b + count > m then (b, False)
                  else (b\<lparr>eb_evidence_tokens := eb_evidence_tokens b + count\<rparr>, True)
      | None \<Rightarrow> (b\<lparr>eb_evidence_tokens := eb_evidence_tokens b + count\<rparr>, True))"

section \<open>Any interleaving of calls\<close>

inductive budget_step :: "execution_budget \<Rightarrow> execution_budget \<Rightarrow> bool" where
  Tool: "budget_step b (fst (reserve_tool_call now b))"
| Search: "budget_step b (fst (reserve_search_call now b))"
| Evidence: "0 \<le> count \<Longrightarrow> budget_step b (fst (add_evidence_tokens count b))"

inductive_cases budget_stepE: "budget_step b c"

lemmas budget_op_defs = reserve_tool_call_def reserve_search_call_def add_evidence_tokens_def at_ceiling_def

text \<open>The three counters are metered resources; a negative ceiling grants what zero grants.\<close>

definition granted_ceiling :: "int option \<Rightarrow> int option" where
  "granted_ceiling limit = map_option (max 0) limit"

interpretation tool_meter: metered eb_tool_calls "\<lambda>b. granted_ceiling (eb_max_tool_calls b)" budget_step
proof
  fix b c m
  assume step: "budget_step b c"
  then show "granted_ceiling (eb_max_tool_calls c) = granted_ceiling (eb_max_tool_calls b)"
    by (rule budget_stepE) (auto simp: budget_op_defs split: option.splits)
  assume "granted_ceiling (eb_max_tool_calls b) = Some m" "eb_tool_calls b \<le> m"
  with step show "eb_tool_calls c \<le> m"
    by (elim budget_stepE) (auto simp: budget_op_defs granted_ceiling_def split: option.splits if_splits)
qed

interpretation search_meter: metered eb_search_calls "\<lambda>b. granted_ceiling (eb_max_search_calls b)" budget_step
proof
  fix b c m
  assume step: "budget_step b c"
  then show "granted_ceiling (eb_max_search_calls c) = granted_ceiling (eb_max_search_calls b)"
    by (rule budget_stepE) (auto simp: budget_op_defs split: option.splits)
  assume "granted_ceiling (eb_max_search_calls b) = Some m" "eb_search_calls b \<le> m"
  with step show "eb_search_calls c \<le> m"
    by (elim budget_stepE) (auto simp: budget_op_defs granted_ceiling_def split: option.splits if_splits)
qed

interpretation evidence_meter: metered eb_evidence_tokens "\<lambda>b. granted_ceiling (eb_max_evidence_tokens b)" budget_step
proof
  fix b c m
  assume step: "budget_step b c"
  then show "granted_ceiling (eb_max_evidence_tokens c) = granted_ceiling (eb_max_evidence_tokens b)"
    by (rule budget_stepE) (auto simp: budget_op_defs split: option.splits)
  assume "granted_ceiling (eb_max_evidence_tokens b) = Some m" "eb_evidence_tokens b \<le> m"
  with step show "eb_evidence_tokens c \<le> m"
    by (elim budget_stepE) (auto simp: budget_op_defs granted_ceiling_def split: option.splits if_splits)
qed

lemma budget_step_mono:
  assumes "budget_step b c"
  shows "eb_tool_calls b \<le> eb_tool_calls c \<and> eb_search_calls b \<le> eb_search_calls c
    \<and> eb_evidence_tokens b \<le> eb_evidence_tokens c \<and> eb_max_runtime c = eb_max_runtime b \<and> eb_started c = eb_started b"
  using assms by (rule budget_stepE) (auto simp: budget_op_defs split: option.splits)

lemma budget_run_mono:
  assumes "budget_step\<^sup>*\<^sup>* b c"
  shows "eb_tool_calls b \<le> eb_tool_calls c \<and> eb_search_calls b \<le> eb_search_calls c
    \<and> eb_evidence_tokens b \<le> eb_evidence_tokens c \<and> eb_max_runtime c = eb_max_runtime b \<and> eb_started c = eb_started b"
  using assms
proof (induction rule: rtranclp_induct)
  case (step c d)
  from step.IH budget_step_mono [OF step.hyps(2)] show ?case by (auto intro: order_trans)
qed simp

section \<open>Properties\<close>

text \<open>
  Budget ceilings hold under every interleaving of the three operations: no counter passes its
  ceiling, no ceiling ever moves, counters never decrease, and once the wall-clock limit has passed
  neither a tool call nor a search call is granted.
\<close>

theorem budget_ceilings:
  assumes "budget_step\<^sup>*\<^sup>* (new_budget tools runtime evidence searches start) b"
  shows "(tools = Some m \<longrightarrow> eb_tool_calls b \<le> max 0 m)
    \<and> (searches = Some m \<longrightarrow> eb_search_calls b \<le> max 0 m)
    \<and> (evidence = Some m \<longrightarrow> eb_evidence_tokens b \<le> max 0 m)
    \<and> 0 \<le> eb_tool_calls b \<and> 0 \<le> eb_search_calls b \<and> 0 \<le> eb_evidence_tokens b
    \<and> (runtime = Some r \<and> r \<le> now - start
        \<longrightarrow> reserve_tool_call now b = (b, False) \<and> reserve_search_call now b = (b, False))"
proof (intro conjI impI)
  let ?b = "new_budget tools runtime evidence searches start"
  show "eb_tool_calls b \<le> max 0 m" if "tools = Some m"
    using tool_meter.run_within [OF assms] that by (simp add: new_budget_def granted_ceiling_def)
  show "eb_search_calls b \<le> max 0 m" if "searches = Some m"
    using search_meter.run_within [OF assms] that by (simp add: new_budget_def granted_ceiling_def)
  show "eb_evidence_tokens b \<le> max 0 m" if "evidence = Some m"
    using evidence_meter.run_within [OF assms] that by (simp add: new_budget_def granted_ceiling_def)
  note mono = budget_run_mono [OF assms]
  from mono show "0 \<le> eb_tool_calls b" "0 \<le> eb_search_calls b" "0 \<le> eb_evidence_tokens b"
    by (simp_all add: new_budget_def)
  assume "runtime = Some r \<and> r \<le> now - start"
  with mono have "\<not> runtime_left now b" by (simp add: runtime_left_def new_budget_def)
  then show "reserve_tool_call now b = (b, False)" "reserve_search_call now b = (b, False)"
    by (simp_all add: reserve_tool_call_def reserve_search_call_def)
qed

theorem budget_ceilings_witness:
  "eb_tool_calls (fst (reserve_tool_call 3 (fst (reserve_tool_call 2 (new_budget (Some 1) (Some 5) None None 0))))) \<le> 1"
proof -
  let ?b = "new_budget (Some 1) (Some 5) None None 0"
  let ?c = "fst (reserve_tool_call 2 ?b)"
  have "budget_step\<^sup>*\<^sup>* ?b (fst (reserve_tool_call 3 ?c))"
    using budget_step.Tool [of ?b 2] budget_step.Tool [of ?c 3] by (rule rtranclp.rtrancl_into_rtrancl [OF r_into_rtranclp])
  from budget_ceilings [OF this, of 1 5 9] show ?thesis by simp
qed

end
