(* ===== verification/Calendar.thy ===== *)
theory Calendar
  imports PyValue Regex
begin

text \<open>
  The calendar arithmetic of \<open>datetime\<close> the code uses: an instant counts microseconds from
  \<open>datetime.min\<close> (1 January of year 1, UTC); \<open>civil\<close> is \<open>date.fromordinal\<close>,
  \<open>day_number\<close> its inverse, \<open>iso_of\<close> is \<open>isoformat()\<close> of an aware UTC datetime.
\<close>

section \<open>Dates\<close>

definition is_leap :: "int \<Rightarrow> bool" where
  "is_leap y \<longleftrightarrow> y mod 4 = 0 \<and> (y mod 100 \<noteq> 0 \<or> y mod 400 = 0)"

definition month_lengths :: "int \<Rightarrow> int list" where
  "month_lengths y = [31, if is_leap y then 29 else 28, 31, 30, 31, 30, 31, 31, 30, 31, 30, 31]"

definition month_length :: "int \<Rightarrow> int \<Rightarrow> int" where
  "month_length y m = (if 1 \<le> m \<and> m \<le> 12 then month_lengths y ! nat (m - 1) else 0)"

definition days_before_year :: "int \<Rightarrow> int" where
  "days_before_year y = (y - 1) * 365 + (y - 1) div 4 - (y - 1) div 100 + (y - 1) div 400"

definition days_before_month :: "int \<Rightarrow> int \<Rightarrow> int" where
  "days_before_month y m = sum_list (take (nat (m - 1)) (month_lengths y))"

type_synonym date = "int \<times> int \<times> int"

definition valid_date :: "date \<Rightarrow> bool" where
  "valid_date d = (case d of (y, m, k) \<Rightarrow> 1 \<le> y \<and> y \<le> 9999 \<and> 1 \<le> m \<and> m \<le> 12 \<and> 1 \<le> k \<and> k \<le> month_length y m)"

text \<open>Days from 1 January of year 1.\<close>

definition day_number :: "date \<Rightarrow> int" where
  "day_number d = (case d of (y, m, k) \<Rightarrow> days_before_year y + days_before_month y m + (k - 1))"

fun split_months :: "int list \<Rightarrow> int \<Rightarrow> int \<Rightarrow> int \<times> int" where
  "split_months [] m n = (m, n + 1)"
| "split_months (k # ks) m n = (if n < k \<or> ks = [] then (m, n + 1) else split_months ks (m + 1) (n - k))"

definition civil_year :: "int \<Rightarrow> int" where
  "civil_year n =
     (let c400 = n div 146097; r400 = n mod 146097;
          c100 = min 3 (r400 div 36524); r100 = r400 - c100 * 36524;
          c4 = r100 div 1461; r4 = r100 mod 1461;
          c1 = min 3 (r4 div 365)
      in 400 * c400 + 100 * c100 + 4 * c4 + c1 + 1)"

definition civil :: "int \<Rightarrow> date" where
  "civil n = (let y = civil_year n; (m, k) = split_months (month_lengths y) 1 (n - days_before_year y)
     in (y, m, k))"

lemma split_months_dates:
  assumes "0 \<le> n" and "n < sum_list ks" and "list_all (\<lambda>k. 0 < k) ks"
  shows "case split_months ks m n of (m', k) \<Rightarrow>
    m \<le> m' \<and> m' < m + int (length ks) \<and> 1 \<le> k \<and> k \<le> ks ! nat (m' - m)
    \<and> n = sum_list (take (nat (m' - m)) ks) + (k - 1)"
  using assms
proof (induction ks m n rule: split_months.induct)
  case (2 k ks m n)
  show ?case
  proof (cases "n < k \<or> ks = []")
    case True
    with 2 show ?thesis by auto
  next
    case False
    with 2 have IH: "case split_months ks (m + 1) (n - k) of (m', j) \<Rightarrow>
      m + 1 \<le> m' \<and> m' < m + 1 + int (length ks) \<and> 1 \<le> j \<and> j \<le> ks ! nat (m' - (m + 1))
      \<and> n - k = sum_list (take (nat (m' - (m + 1))) ks) + (j - 1)" by simp
    obtain m' j where mj: "split_months ks (m + 1) (n - k) = (m', j)" by fastforce
    with IH have le: "m + 1 \<le> m'" by simp
    then have "nat (m' - m) = Suc (nat (m' - (m + 1)))" by simp
    with False IH mj show ?thesis by simp
  qed
qed simp

lemma month_lengths_sum: "sum_list (month_lengths y) = (if is_leap y then 366 else 365)"
  by (simp add: month_lengths_def)

lemma div_pred:
  assumes "(0::int) < k"
  shows "(y - 1) div k = y div k - (if y mod k = 0 then 1 else 0)"
proof (cases "y mod k = 0")
  case True
  then have "y - 1 = k * (y div k - 1) + (k - 1)" by (simp add: algebra_simps) (metis mult_div_mod_eq add.right_neutral)
  with assms True show ?thesis by (intro int_div_pos_eq [where r = "k - 1"]) auto
next
  case False
  have "y - 1 = k * (y div k) + (y mod k - 1)" by (metis mult_div_mod_eq add_diff_eq)
  moreover have "0 \<le> y mod k - 1" "y mod k - 1 < k"
    using False assms pos_mod_sign [of k y] pos_mod_bound [of k y] by linarith+
  ultimately have "(y - 1) div k = y div k" by (rule int_div_pos_eq)
  with False show ?thesis by simp
qed

lemma multiple_mods: "(y::int) mod 400 = 0 \<Longrightarrow> y mod 100 = 0" "y mod 100 = 0 \<Longrightarrow> y mod 4 = 0"
  by presburger+

lemma year_start: "days_before_year (y + 1) = days_before_year y + sum_list (month_lengths y)"
  using multiple_mods [of y]
  by (auto simp: days_before_year_def month_lengths_sum is_leap_def div_pred)

text \<open>The year a day lies in, from its 400, 100, 4 and 1 year cycles.\<close>

lemma civil_year_bounds:
  "days_before_year (civil_year n) \<le> n \<and> n < days_before_year (civil_year n + 1)"
proof -
  define a r400 where "a = n div 146097" and "r400 = n mod 146097"
  define b r100 where "b = min 3 (r400 div 36524)" and "r100 = r400 - b * 36524"
  define c r4 where "c = r100 div 1461" and "r4 = r100 mod 1461"
  define d where "d = min 3 (r4 div 365)"
  have n: "n = 146097 * a + r400" "0 \<le> r400" "r400 < 146097" by (simp_all add: a_def r400_def)
  have b: "0 \<le> b" "b \<le> 3" "0 \<le> r100" "r100 < 36524 \<or> b = 3 \<and> r100 = 36524"
    using n(2,3) unfolding b_def r100_def by linarith+
  have c: "r100 = 1461 * c + r4" "0 \<le> r4" "r4 < 1461" by (simp_all add: c_def r4_def)
  have c': "0 \<le> c" "c \<le> 24" using b c by linarith+
  have d: "0 \<le> d" "d \<le> 3" "0 \<le> r4 - 365 * d" "r4 - 365 * d < 365 \<or> d = 3 \<and> r4 = 1460"
    using c(2,3) unfolding d_def by linarith+
  have y: "civil_year n = 400 * a + 100 * b + 4 * c + d + 1"
    by (simp only: civil_year_def Let_def a_def r400_def b_def r100_def c_def r4_def d_def)
  have divs: "(400 * a + 100 * b + 4 * c + d) div 4 = 100 * a + 25 * b + c"
    "(400 * a + 100 * b + 4 * c + d) div 100 = 4 * a + b" "(400 * a + 100 * b + 4 * c + d) div 400 = a"
    using int_div_pos_eq [of "400 * a + 100 * b + 4 * c + d" 4 "100 * a + 25 * b + c" d]
      int_div_pos_eq [of "400 * a + 100 * b + 4 * c + d" 100 "4 * a + b" "4 * c + d"]
      int_div_pos_eq [of "400 * a + 100 * b + 4 * c + d" 400 a "100 * b + 4 * c + d"] b(1,2) c' d(1,2) by auto
  have start: "days_before_year (civil_year n) = 146097 * a + 36524 * b + 1461 * c + 365 * d"
    unfolding y days_before_year_def by (simp add: divs)
  have "is_leap (civil_year n)" if "d = 3" "r4 = 1460"
  proof -
    have full: "c = 24 \<Longrightarrow> b = 3" using that b c by linarith
    show ?thesis
    proof (cases "c = 24")
      case True
      with full that have "civil_year n = 400 * (a + 1)" unfolding y by simp
      then show ?thesis by (simp add: is_leap_def mult.assoc [symmetric] mod_mult_left_eq)
    next
      case False
      have "civil_year n = 4 * (100 * a + 25 * b + c + 1)" using that unfolding y by simp
      then have "civil_year n mod 4 = 0" by (simp only: mod_mult_self1_is_0)
      moreover have "civil_year n mod 100 = 4 * c + 4"
        by (rule int_mod_pos_eq [where q = "4 * a + b"]) (use that False c' in \<open>auto simp: y\<close>)
      ultimately show ?thesis using c' by (simp add: is_leap_def)
    qed
  qed
  with d have "n < days_before_year (civil_year n) + sum_list (month_lengths (civil_year n))"
    unfolding start month_lengths_sum using n b c r100_def by auto
  moreover have "days_before_year (civil_year n) \<le> n" unfolding start using n b c d by (simp add: r100_def)
  ultimately show ?thesis unfolding year_start by simp
qed

text \<open>The date of a day names the day.\<close>

lemma month_lengths_pos: "list_all (\<lambda>k. 0 < k) (month_lengths y)"
  by (simp add: month_lengths_def)

lemma day_number_civil: "day_number (civil n) = n"
proof -
  define y r where "y = civil_year n" and "r = n - days_before_year (civil_year n)"
  obtain m k where mk: "split_months (month_lengths y) 1 r = (m, k)" by fastforce
  have "0 \<le> r" "r < sum_list (month_lengths y)"
    using civil_year_bounds [of n] unfolding r_def y_def year_start by linarith+
  from split_months_dates [OF this month_lengths_pos, of 1] mk
  have "r = sum_list (take (nat (m - 1)) (month_lengths y)) + (k - 1)" by simp
  with mk show ?thesis by (simp add: civil_def day_number_def days_before_month_def y_def r_def Let_def)
qed

lemma civil_valid:
  assumes "0 \<le> n" and "n < days_before_year 10000"
  shows "valid_date (civil n)"
proof -
  define y r where "y = civil_year n" and "r = n - days_before_year (civil_year n)"
  obtain m k where mk: "split_months (month_lengths y) 1 r = (m, k)" by fastforce
  have "0 \<le> r" "r < sum_list (month_lengths y)"
    using civil_year_bounds [of n] unfolding r_def y_def year_start by linarith+
  from split_months_dates [OF this month_lengths_pos, of 1] mk
  have "1 \<le> m" "m < 13" "1 \<le> k" "k \<le> month_lengths y ! nat (m - 1)"
    by (simp_all add: month_lengths_def)
  moreover have "1 \<le> y \<and> y \<le> 9999"
  proof -
    have mono: "days_before_year p \<le> days_before_year q" if "p \<le> q" for p q
      using that by (induction rule: int_ge_induct) (auto simp: year_start month_lengths_sum)
    have "days_before_year 1 = 0" by (simp add: days_before_year_def)
    then show ?thesis
      using civil_year_bounds [of n] assms mono [of "y + 1" 1] mono [of 10000 y] unfolding y_def by linarith
  qed
  ultimately show ?thesis using mk
    by (simp add: civil_def valid_date_def month_length_def y_def r_def Let_def)
qed

section \<open>Text\<close>

text \<open>\<open>f"{n:0kd}"\<close> of a non-negative number.\<close>

definition pad :: "nat \<Rightarrow> int \<Rightarrow> string" where
  "pad k n = (let s = nat_str (nat n) in replicate (k - length s) (CHR ''0'') @ s)"

definition date_text :: "date \<Rightarrow> string" where
  "date_text d = (case d of (y, m, k) \<Rightarrow> pad 4 y @ ''-'' @ pad 2 m @ ''-'' @ pad 2 k)"

definition second_us :: int where "second_us = 1000000"
definition day_us :: int where "day_us = 86400 * second_us"

definition date_of :: "instant \<Rightarrow> date" where
  "date_of t = civil (t div day_us)"

definition iso_of :: "instant \<Rightarrow> string" where
  "iso_of t =
     (let s = t mod day_us div second_us; us = t mod second_us
      in date_text (date_of t) @ ''T'' @ pad 2 (s div 3600) @ '':'' @ pad 2 (s mod 3600 div 60) @ '':'' @ pad 2 (s mod 60)
         @ (if us = 0 then [] else ''.'' @ pad 6 us) @ ''+00:00'')"

text \<open>
  \<open>date.fromisoformat\<close> on text of the shape \<open>dddd-dd-dd\<close>, the only shape the code
  passes to it.
\<close>

definition date_of_text :: "string \<Rightarrow> date option" where
  "date_of_text s =
     (let d = (digits_val (take 4 s), digits_val (take 2 (drop 5 s)), digits_val (take 2 (drop 8 s)))
      in if valid_date d then Some d else None)"

text \<open>\<open>moment.replace(year=y)\<close>: \<open>None\<close> where it raises \<open>ValueError\<close>.\<close>

definition replace_date :: "instant \<Rightarrow> date \<Rightarrow> instant option" where
  "replace_date t d = (if valid_date d then Some (day_number d * day_us + t mod day_us) else None)"

lemma replace_date_date: "replace_date t (date_of t) = Some t'\<Longrightarrow> t' = t"
  by (auto simp: replace_date_def date_of_def day_number_civil split: if_splits)

end
