(* ===== verification/Kernel.thy ===== *)
theory Kernel
  imports Calendar
begin

text \<open>
  The validation layer of the research kernel (first half of \<open>app/research/models.py\<close>): JSON
  values, typed field readers, time coercion and the point-in-time predicates, the budgets and the
  source policy with the decision on a job's source domain.  Messages keep the constant part and
  drop the \<open>where\<close> prefix.
\<close>

section \<open>JSON\<close>

text \<open>
  \<open>validate_json_value\<close> copies a value and refuses a float that is not finite; the keys of a
  \<open>PDict\<close> are strings, so the key check of \<open>_json_dict\<close> cannot fail here.
\<close>

lemma mapR_cong [fundef_cong]:
  "xs = ys \<Longrightarrow> (\<And>x. x \<in> set ys \<Longrightarrow> f x = g x) \<Longrightarrow> mapR f xs = mapR g ys"
  by (induction xs arbitrary: ys) auto

fun json_scalars :: "pyobj \<Rightarrow> pyobj option res" where
  "json_scalars (PFloat d) = (case d of Fin _ \<Rightarrow> Ok (Some (PFloat d))
     | _ \<Rightarrow> Err (ValueError ''non-finite float not allowed''))"
| "json_scalars (PList xs) = Ok None"
| "json_scalars (PDict d) = Ok None"
| "json_scalars v = Ok (Some v)"

fun validate_json_value :: "pyobj \<Rightarrow> pyobj res" where
  "validate_json_value (PList xs) = bindR (mapR validate_json_value xs) (\<lambda>ys. Ok (PList ys))"
| "validate_json_value (PDict d) =
     bindR (mapR (\<lambda>(k, v). bindR (validate_json_value v) (\<lambda>w. Ok (k, w))) d) (\<lambda>e. Ok (PDict e))"
| "validate_json_value v = bindR (json_scalars v)
     (\<lambda>s. case s of Some w \<Rightarrow> Ok w | None \<Rightarrow> Err (ValueError ''not a JSON value''))"

definition validate_json_mapping :: "pyobj \<Rightarrow> (string, pyobj) dict res" where
  "validate_json_mapping v = bindR (validate_json_value v)
     (\<lambda>w. case w of PDict d \<Rightarrow> Ok d | _ \<Rightarrow> Err (ValueError ''must be a mapping''))"

text \<open>What validation accepts, it returns unchanged.\<close>

fun finite_json :: "pyobj \<Rightarrow> bool" where
  "finite_json (PFloat d) = (case d of Fin _ \<Rightarrow> True | _ \<Rightarrow> False)"
| "finite_json (PList xs) = list_all finite_json xs"
| "finite_json (PDict d) = list_all (\<lambda>(k, v). finite_json v) d"
| "finite_json v = True"

lemma validate_json_value_eq:
  "validate_json_value v =
     (if finite_json v then Ok v else Err (ValueError ''non-finite float not allowed''))"
proof (induction v rule: validate_json_value.induct)
  case (1 xs)
  then have "mapR validate_json_value xs
      = (if list_all finite_json xs then Ok xs else Err (ValueError ''non-finite float not allowed''))"
    by (induction xs) auto
  then show ?case by simp
next
  case (2 d)
  have "validate_json_value v = (if finite_json v then Ok v else Err (ValueError ''non-finite float not allowed''))"
    if "(k, v) \<in> set d" for k v using 2 [OF that refl] .
  then have "mapR (\<lambda>(k, v). bindR (validate_json_value v) (\<lambda>w. Ok (k, w))) d
      = (if list_all (\<lambda>(k, v). finite_json v) d then Ok d else Err (ValueError ''non-finite float not allowed''))"
  proof (induction d)
    case (Cons e d)
    obtain k v where "e = (k, v)" by (cases e)
    moreover have "(a, b) \<in> set d \<Longrightarrow> validate_json_value b
        = (if finite_json b then Ok b else Err (ValueError ''non-finite float not allowed''))" for a b
      by (rule Cons.prems [of a]) simp
    note Cons.IH [OF this]
    ultimately show ?case using Cons.prems [of k v] by simp
  qed simp
  then show ?case by simp
qed (auto split: decimal.splits)

lemma validate_json_mapping_Ok [simp]:
  "validate_json_mapping (PDict d) = Ok d \<longleftrightarrow> finite_json (PDict d)"
  by (simp add: validate_json_mapping_def validate_json_value_eq)

lemma validate_json_mapping_iff:
  "validate_json_mapping v = Ok d \<longleftrightarrow> v = PDict d \<and> finite_json v"
  by (cases v) (auto simp: validate_json_mapping_def validate_json_value_eq split: if_splits)

section \<open>Field readers\<close>

definition py_values :: "string list \<Rightarrow> pyobj" where
  "py_values ss = PList (map PStr ss)"

definition opt_obj :: "('a \<Rightarrow> pyobj) \<Rightarrow> 'a option \<Rightarrow> pyobj" where
  "opt_obj f x = (case x of None \<Rightarrow> PNone | Some y \<Rightarrow> f y)"

definition req_str :: "(string, pyobj) dict \<Rightarrow> string \<Rightarrow> string res" where
  "req_str d key = (case obj_get d key of
       PStr s \<Rightarrow> if s \<noteq> [] then Ok s else Err (ValueError ''must be a non-empty string'')
     | _ \<Rightarrow> Err (ValueError ''must be a non-empty string''))"

definition opt_str :: "pyobj \<Rightarrow> string option res" where
  "opt_str v = (case v of PNone \<Rightarrow> Ok None | PStr s \<Rightarrow> Ok (Some s)
     | _ \<Rightarrow> Err (ValueError ''must be a string or null''))"

definition opt_int :: "pyobj \<Rightarrow> int option res" where
  "opt_int v = (case v of PNone \<Rightarrow> Ok None | PInt n \<Rightarrow> Ok (Some n)
     | _ \<Rightarrow> Err (ValueError ''must be an int or null''))"

definition coerce_enum :: "string list \<Rightarrow> pyobj \<Rightarrow> string res" where
  "coerce_enum allowed v = (case v of
       PStr s \<Rightarrow> if s \<in> set allowed then Ok s else Err (ValueError ''must be one of'')
     | _ \<Rightarrow> Err (ValueError ''must be one of''))"

definition req_list_str :: "(string, pyobj) dict \<Rightarrow> string \<Rightarrow> string list res" where
  "req_list_str d key = (case dget_default d key (PList []) of
       PList xs \<Rightarrow> if list_all is_str xs then Ok (map str_of xs)
                   else Err (ValueError ''must be a list of strings'')
     | _ \<Rightarrow> Err (ValueError ''must be a list of strings''))"

lemma strs_roundtrip [simp]:
  "list_all is_str (map PStr ss)" "map str_of (map PStr ss) = ss" "map (str_of \<circ> PStr) ss = ss"
  by (induction ss) auto

section \<open>Time\<close>

text \<open>
  A time argument: absent, a \<open>datetime\<close>, text, or anything else.
\<close>

datatype time_arg = TNone | TStamp pydatetime | TText string | TOther

fun time_arg_of :: "pyobj \<Rightarrow> time_arg" where
  "time_arg_of PNone = TNone"
| "time_arg_of (PStr s) = TText s"
| "time_arg_of v = TOther"

text \<open>A naive datetime is relabelled as UTC, an aware one keeps its instant.\<close>

definition normalize_time :: "pydatetime \<Rightarrow> instant" where
  "normalize_time v = (case v of Naive t \<Rightarrow> t | Aware t \<Rightarrow> t)"

definition parse_time_str :: "iso_parser \<Rightarrow> string \<Rightarrow> instant res" where
  "parse_time_str fromiso v = (case fromiso (strip v) of
       None \<Rightarrow> Err (ValueError ''must be ISO-8601'') | Some t \<Rightarrow> Ok (normalize_time t))"

fun coerce_time :: "iso_parser \<Rightarrow> time_arg \<Rightarrow> instant option res" where
  "coerce_time fromiso TNone = Ok None"
| "coerce_time fromiso (TStamp v) = Ok (Some (normalize_time v))"
| "coerce_time fromiso (TText s) =
     (if strip s \<noteq> [] then bindR (parse_time_str fromiso s) (\<lambda>t. Ok (Some t))
      else Err (ValueError ''must be an ISO-8601 string, datetime, or null''))"
| "coerce_time fromiso TOther = Err (ValueError ''must be an ISO-8601 string, datetime, or null'')"

definition get_time :: "iso_parser \<Rightarrow> (string, pyobj) dict \<Rightarrow> string \<Rightarrow> instant option res" where
  "get_time fromiso d key = coerce_time fromiso (time_arg_of (obj_get d key))"

definition req_time :: "iso_parser \<Rightarrow> (string, pyobj) dict \<Rightarrow> string \<Rightarrow> instant res" where
  "req_time fromiso d key = bindR (get_time fromiso d key)
     (\<lambda>t. case t of None \<Rightarrow> Err (ValueError ''must be a timestamp, got null'') | Some x \<Rightarrow> Ok x)"

text \<open>\<open>fromiso\<close> reads back what \<open>isoformat\<close> prints of the given instants.\<close>

definition reads_time :: "iso_parser \<Rightarrow> instant \<Rightarrow> bool" where
  "reads_time fromiso t \<longleftrightarrow> strip (iso_of t) \<noteq> [] \<and> fromiso (strip (iso_of t)) = Some (Aware t)"

definition reads_back :: "iso_parser \<Rightarrow> instant list \<Rightarrow> bool" where
  "reads_back fromiso ts \<longleftrightarrow> list_all (reads_time fromiso) ts"

lemma reads_back_simps [simp]:
  "reads_back fromiso []" "reads_back fromiso (t # ts) \<longleftrightarrow> reads_time fromiso t \<and> reads_back fromiso ts"
  by (simp_all add: reads_back_def)

lemma coerce_iso: "reads_time fromiso t \<Longrightarrow> coerce_time fromiso (TText (iso_of t)) = Ok (Some t)"
  by (simp add: reads_time_def parse_time_str_def normalize_time_def)

definition iso_obj :: "instant \<Rightarrow> pyobj" where
  "iso_obj t = PStr (iso_of t)"

text \<open>A naive \<open>datetime\<close> prints without the UTC offset.\<close>

definition datetime_text :: "pydatetime \<Rightarrow> string" where
  "datetime_text v = (case v of Aware t \<Rightarrow> iso_of t
     | Naive t \<Rightarrow> take (length (iso_of t) - length ''+00:00'') (iso_of t))"

section \<open>Point-in-time predicates\<close>

definition no_cutoff_as_of :: "string list" where
  "no_cutoff_as_of = [''unbounded'']"

definition unbounded_text :: "time_arg \<Rightarrow> bool" where
  "unbounded_text a = (case a of TText s \<Rightarrow> lower (strip s) \<in> set no_cutoff_as_of | _ \<Rightarrow> False)"

definition pit_violated :: "iso_parser \<Rightarrow> time_arg \<Rightarrow> time_arg \<Rightarrow> bool res" where
  "pit_violated fromiso as_of known_at =
     (if unbounded_text as_of then Ok False
      else bindR (coerce_time fromiso as_of) (\<lambda>start.
           bindR (coerce_time fromiso known_at) (\<lambda>known.
           Ok (case (start, known) of (Some s, Some k) \<Rightarrow> k > s | _ \<Rightarrow> False))))"

definition as_of_bounded :: "time_arg \<Rightarrow> bool" where
  "as_of_bounded as_of = (case as_of of
       TNone \<Rightarrow> False
     | TText s \<Rightarrow> lower (strip s) \<noteq> [] \<and> lower (strip s) \<notin> set no_cutoff_as_of
     | TStamp _ \<Rightarrow> True
     | TOther \<Rightarrow> False)"

definition pit_unverified :: "time_arg \<Rightarrow> time_arg \<Rightarrow> bool" where
  "pit_unverified as_of known_at = (if known_at \<noteq> TNone then False else as_of_bounded as_of)"

section \<open>Vocabularies and budgets\<close>

definition session_statuses :: "string list" where
  "session_statuses = [''created'', ''planning'', ''researching'', ''freezing'', ''analyzing'',
     ''targeted_research'', ''synthesizing'', ''completed'', ''failed'', ''cancelled'']"

definition job_types :: "string list" where
  "job_types = [''source_agent'', ''scout'', ''stockbot'', ''bullbot'', ''bearbot'', ''synthesis'']"

definition job_statuses :: "string list" where
  "job_statuses = [''queued'', ''running'', ''completed'', ''failed'', ''cancelled'', ''timed_out'']"

definition failure_categories :: "string list" where
  "failure_categories = [''timeout'', ''token_budget_exhausted'', ''tool_budget_exhausted'',
     ''job_budget_exhausted'', ''wave_budget_exhausted'', ''parallelism_exceeded'', ''depth_exceeded'',
     ''policy_denied'', ''tool_error'', ''model_error'', ''model_output_failure'', ''no_evidence'',
     ''pit_violation'', ''freeze_mismatch'', ''committee_deadlock'', ''synthesis_failed'',
     ''context_capacity_exceeded'', ''response_too_large'', ''deadline_exceeded'', ''provider_error'',
     ''tool_output_limit'', ''storage_error'', ''policy_rejection'', ''duplicate_research_action'',
     ''research_loop_detected'']"

definition research_budget :: "(string, pyobj) dict" where
  "research_budget = [(''max_runtime'', PNone), (''max_total_jobs'', PNone), (''max_parallel'', PInt 6),
     (''max_waves'', PNone), (''max_tool_calls'', PNone)]"

definition default_budgets :: "(string, pyobj) dict" where
  "default_budgets = [(''research'', PDict research_budget),
     (''source'', PDict [(''max_children'', PNone), (''max_tool'', PNone)]),
     (''scout'', PDict [(''max_children'', PInt 0), (''max_tool'', PNone), (''max_runtime'', PNone)]),
     (''committee'', PDict [(''max_parallel'', PInt 3)])]"

definition default_policy :: "(string, pyobj) dict" where
  "default_policy = default_budgets"

definition default_budget :: "(string, pyobj) dict" where
  "default_budget = dset ''total_cost_budget'' PNone (dset ''total_token_budget'' PNone
     (dset ''total_tool_budget'' PNone (dset ''deadline_seconds'' PNone research_budget)))"

section \<open>Source policy\<close>

definition source_policy_modes :: "string list" where
  "source_policy_modes = [''all'', ''allowlist'']"

definition default_source_policy :: "(string, pyobj) dict" where
  "default_source_policy = [(''allowed'', PList [PStr ''SEC'']), (''denied'', PList []), (''mode'', PStr ''allowlist'')]"

definition policy_dict :: "string list \<Rightarrow> string list \<Rightarrow> string \<Rightarrow> (string, pyobj) dict" where
  "policy_dict allowed denied mode =
     [(''allowed'', py_values allowed), (''denied'', py_values denied), (''mode'', PStr mode)]"

definition source_norm_mode :: "(string, pyobj) dict \<Rightarrow> string res" where
  "source_norm_mode raw = (case dget_default raw ''mode'' (PStr ''all'') of
       PStr m \<Rightarrow> if lower (strip m) \<in> set source_policy_modes then Ok (lower (strip m))
                 else Err (ValueError ''mode must be one of'')
     | _ \<Rightarrow> Err (ValueError ''mode must be one of''))"

definition validate_source_policy :: "pyobj \<Rightarrow> (string, pyobj) dict res" where
  "validate_source_policy v = (case v of
       PDict d \<Rightarrow>
         bindR (source_norm_mode d) (\<lambda>mode.
         bindR (req_list_str d ''allowed'') (\<lambda>allowed.
         bindR (req_list_str d ''denied'') (\<lambda>denied. Ok (policy_dict allowed denied mode))))
     | _ \<Rightarrow> Err (ValueError ''source_policy must be a mapping''))"

definition source_container :: "(string, pyobj) dict \<Rightarrow> pyobj" where
  "source_container policy = (let nested = obj_get policy ''research_sources''
     in if nested \<noteq> PNone then nested
        else if dget policy ''mode'' \<noteq> None then PDict policy else PNone)"

definition source_cleaned_sources :: "(string, pyobj) dict \<Rightarrow> string \<Rightarrow> string list res" where
  "source_cleaned_sources raw mode = (case dget_default raw ''sources'' (PList []) of
       PList xs \<Rightarrow>
         if list_ex (\<lambda>s. \<not> is_str s \<or> strip (str_of s) = []) xs
         then Err (ValueError ''sources must be a list of non-empty strings'')
         else (let cleaned = map (\<lambda>s. strip (str_of s)) xs
               in if mode = ''allowlist'' \<and> cleaned = []
                  then Err (ValueError ''sources must be non-empty for allowlist mode'') else Ok cleaned)
     | _ \<Rightarrow> Err (ValueError ''sources must be a list of non-empty strings''))"

definition resolve_source_policy :: "pyobj \<Rightarrow> (string, pyobj) dict res" where
  "resolve_source_policy policy = (case policy of
       PNone \<Rightarrow> Ok default_source_policy
     | PDict p \<Rightarrow>
         (case source_container p of
            PNone \<Rightarrow> Ok default_source_policy
          | PDict raw \<Rightarrow>
              bindR (source_norm_mode raw) (\<lambda>mode.
              bindR (source_cleaned_sources raw mode) (\<lambda>cleaned. Ok (policy_dict cleaned [] mode)))
          | _ \<Rightarrow> Err (ValueError ''research_sources must be a mapping''))
     | _ \<Rightarrow> Err (ValueError ''policy must be a mapping''))"

definition policy_domain_set :: "(string, pyobj) dict \<Rightarrow> string \<Rightarrow> string list" where
  "policy_domain_set checked key = (case dget_default checked key (PList []) of
       PList xs \<Rightarrow> map (\<lambda>s. lower (strip (str_of s))) (filter is_str xs) | _ \<Rightarrow> [])"

definition source_domain_allowed :: "(string, pyobj) dict option \<Rightarrow> string option \<Rightarrow> bool res" where
  "source_domain_allowed policy domain = (case domain of
       None \<Rightarrow> Ok True
     | Some s \<Rightarrow>
         if strip s = [] then Err (ValueError ''source_domain must be a non-empty string or null'')
         else bindR (validate_source_policy (PDict (case policy of None \<Rightarrow> default_source_policy | Some p \<Rightarrow> p)))
           (\<lambda>checked. let want = lower (strip s)
              in Ok (if want \<in> set (policy_domain_set checked ''denied'') then False
                     else if dget checked ''mode'' = Some (PStr ''all'') then True
                     else want \<in> set (policy_domain_set checked ''allowed''))))"

text \<open>The abstract content of a policy: who is denied, who is allowed, and whether the rest is.\<close>

definition domain_key :: "string \<Rightarrow> string" where
  "domain_key s = lower (strip s)"

lemma norm_mode_mem: "source_norm_mode d = Ok m \<Longrightarrow> m = ''all'' \<or> m = ''allowlist''"
  by (auto simp: source_norm_mode_def source_policy_modes_def split: pyobj.splits if_splits)

lemma policy_dict_domains [simp]:
  "policy_domain_set (policy_dict a d m) ''denied'' = map domain_key d"
  "policy_domain_set (policy_dict a d m) ''allowed'' = map domain_key a"
  "dget (policy_dict a d m) ''mode'' = Some (PStr m)"
  by (simp_all add: policy_domain_set_def policy_dict_def dget_default_def py_values_def domain_key_def filter_map o_def)

lemma mode_canonical: "m = ''all'' \<or> m = ''allowlist'' \<Longrightarrow> lower (strip m) = m"
  by (elim disjE; hypsubst; code_simp)

lemma validate_policy_dict:
  assumes "m = ''all'' \<or> m = ''allowlist''"
  shows "validate_source_policy (PDict (policy_dict a d m)) = Ok (policy_dict a d m)"
  using mode_canonical [OF assms] assms
  by (auto simp: validate_source_policy_def policy_dict_def source_norm_mode_def req_list_str_def
      dget_default_def py_values_def source_policy_modes_def)

lemma default_policy_dict: "default_source_policy = policy_dict [''SEC''] [] ''allowlist''"
  by (simp add: default_source_policy_def policy_dict_def py_values_def)

lemma allowed_by_policy_dict:
  assumes "m = ''all'' \<or> m = ''allowlist''" and "strip s \<noteq> []"
  shows "source_domain_allowed (Some (policy_dict a d m)) (Some s)
    = Ok (domain_key s \<notin> set (map domain_key d) \<and> (m = ''all'' \<or> domain_key s \<in> set (map domain_key a)))"
  using assms(2) by (simp add: source_domain_allowed_def validate_policy_dict [OF assms(1)] Let_def domain_key_def [symmetric])

lemma validated_policy_shape:
  assumes "validate_source_policy v = Ok p"
  obtains a d m where "p = policy_dict a d m" and "m = ''all'' \<or> m = ''allowlist''"
  using assms norm_mode_mem by (auto simp: validate_source_policy_def bindR_Ok_iff split: pyobj.splits)

lemma resolved_policy_shape:
  assumes "resolve_source_policy v = Ok p"
  obtains a m where "p = policy_dict a [] m" and "m = ''all'' \<or> m = ''allowlist'' \<and> a \<noteq> []"
proof -
  have cleaned: "a \<noteq> []" if "source_cleaned_sources raw m = Ok a" "m = ''allowlist''" for raw m a
    using that by (auto simp: source_cleaned_sources_def Let_def split: pyobj.splits if_splits)
  from assms norm_mode_mem cleaned that show ?thesis
    by (fastforce simp: resolve_source_policy_def bindR_Ok_iff default_policy_dict split: pyobj.splits)
qed

end
