(* ===== verification/Temporal.thy ===== *)
theory Temporal
  imports Kernel
begin

text \<open>
  The temporal scope of a research session (\<open>resolve_temporal_scope\<close> of
  \<open>app/research/models.py\<close>): natural-language time in the request decides the mode and the
  bounds, an explicit cutoff counts when no wording matches, and the current time otherwise.
  Groups of a match are the positions between the parts of its expression.
\<close>

section \<open>Matches with groups\<close>

fun paths :: "re list \<Rightarrow> string \<Rightarrow> nat \<Rightarrow> nat list list" where
  "paths [] s i = [[]]"
| "paths (r # rs) s i = concat (map (\<lambda>e. map ((#) e) (paths rs s e)) (ends r s i))"

text \<open>The first match of the parts in order: its start and the end of each part.\<close>

definition search_parts :: "re list \<Rightarrow> string \<Rightarrow> nat list option" where
  "search_parts rs s =
     map_option (\<lambda>i. i # hd (paths rs s i)) (List.find (\<lambda>i. paths rs s i \<noteq> []) [0..<Suc (length s)])"

definition slice :: "string \<Rightarrow> nat \<Rightarrow> nat \<Rightarrow> string" where
  "slice s i j = take (j - i) (drop i s)"

section \<open>Wording\<close>

definition spaces :: re where
  "spaces = RRun is_space 1 None"

fun spaced :: "string list \<Rightarrow> re" where
  "spaced [] = rseq []"
| "spaced [w] = rlit_ci w"
| "spaced (w # ws) = RSeq (rlit_ci w) (RSeq spaces (spaced ws))"

definition worded :: "re \<Rightarrow> re" where
  "worded r = rseq [RBound, r, RBound]"

definition day_re :: re where
  "day_re = rseq [RRun is_digit_char 4 (Some 4), rlit ''-'', RRun is_digit_char 2 (Some 2), rlit ''-'',
     RRun is_digit_char 2 (Some 2)]"

definition unbounded_re :: re where
  "unbounded_re = worded (RAlt (rlit_ci ''unbounded'') (RAlt (spaced [''all'', ''history''])
     (RAlt (spaced [''entire'', ''history''])
       (RAlt (rseq [rlit_ci ''no'', spaces, ROpt (RSeq (rlit_ci ''time'') spaces), rlit_ci ''cut'', ROpt (rlit ''-''), rlit_ci ''off''])
         (spaced [''without'', ''time'', ''limit''])))))"

definition earnings_re :: re where
  "earnings_re = worded (spaced [''before'', ''earnings''])"

definition between_parts :: "re list" where
  "between_parts = [rseq [RBound, rlit_ci ''between'', spaces], day_re,
     rseq [spaces, rlit_ci ''and'', spaces], day_re, RBound]"

definition as_of_parts :: "re list" where
  "as_of_parts = [rseq [RBound, rlit_ci ''as'', spaces, rlit_ci ''of'', spaces], day_re, RBound]"

definition last_n_parts :: "re list" where
  "last_n_parts = [rseq [RBound, rlit_ci ''last'', spaces], RRun is_digit_char 1 None,
     rseq [spaces, rlit_ci ''year'', ROpt (rlit_ci ''s''), RBound]]"

definition last_year_re :: re where
  "last_year_re = worded (spaced [''last'', ''year''])"

definition quarter_re :: re where
  "quarter_re = worded (spaced [''this'', ''quarter''])"

definition latest_re :: re where
  "latest_re = worded (rseq [rlit_ci ''latest'', RRun (\<lambda>c. is_space c \<or> c = CHR ''-'') 0 None, rlit_ci ''available''])"

definition now_re :: re where
  "now_re = worded (RAlt (rlit_ci ''today'') (RAlt (spaced [''right'', ''now'']) (RAlt (spaced [''as'', ''of'', ''now''])
     (RAlt (spaced [''most'', ''recent'']) (RAlt (rlit_ci ''current'') (rlit_ci ''latest''))))))"

section \<open>Scopes\<close>

record scope =
  sc_as_of :: "string option"
  sc_start :: "string option"
  sc_end :: "string option"
  sc_mode :: string
  sc_raw :: "string option"

definition scope_dict :: "scope \<Rightarrow> (string, pyobj) dict" where
  "scope_dict s = [(''as_of'', opt_obj PStr (sc_as_of s)), (''start'', opt_obj PStr (sc_start s)),
     (''end'', opt_obj PStr (sc_end s)), (''mode'', PStr (sc_mode s)), (''raw'', opt_obj PStr (sc_raw s))]"

definition default_temporal_scope :: "(string, pyobj) dict" where
  "default_temporal_scope = scope_dict \<lparr>sc_as_of = None, sc_start = None, sc_end = None,
     sc_mode = ''latest-available'', sc_raw = None\<rparr>"

definition temporal_day :: "string \<Rightarrow> string res" where
  "temporal_day s = (case date_of_text s of None \<Rightarrow> Err (ValueError ''invalid calendar date'') | Some d \<Rightarrow> Ok (date_text d))"

text \<open>
  29 February becomes 28 February; a year out of range fails again in the handler, and one beyond a C
  \<open>int\<close> raises \<open>OverflowError\<close>, which the handler does not catch.
\<close>

definition shift_years :: "instant \<Rightarrow> int \<Rightarrow> instant res" where
  "shift_years moment years = (case date_of moment of (y, m, k) \<Rightarrow>
     if y - years < - (2 ^ 31) then Err (OverflowError ''signed integer is less than minimum'')
     else (case replace_date moment (y - years, m, k) of
        Some t \<Rightarrow> Ok t
      | None \<Rightarrow> (case replace_date moment (y - years, m, 28) of
           Some t \<Rightarrow> Ok t | None \<Rightarrow> Err (ValueError ''year is out of range''))))"

definition last_year_range :: "instant \<Rightarrow> string option \<Rightarrow> scope" where
  "last_year_range moment raw = (let prev = nat_str (nat (fst (date_of moment) - 1))
     in \<lparr>sc_as_of = Some (prev @ ''-12-31''), sc_start = Some (prev @ ''-01-01''), sc_end = Some (prev @ ''-12-31''),
         sc_mode = ''range'', sc_raw = raw\<rparr>)"

definition quarter_range :: "instant \<Rightarrow> string option \<Rightarrow> scope" where
  "quarter_range moment raw = (case date_of moment of (y, m, k) \<Rightarrow>
     \<lparr>sc_as_of = Some (iso_of moment), sc_start = Some (date_text (y, 3 * ((m - 1) div 3) + 1, 1)),
      sc_end = Some (iso_of moment), sc_mode = ''range'', sc_raw = raw\<rparr>)"

definition moment_asof :: "instant \<Rightarrow> string option \<Rightarrow> string \<Rightarrow> scope" where
  "moment_asof moment raw mode = \<lparr>sc_as_of = Some (iso_of moment), sc_start = None, sc_end = None,
     sc_mode = mode, sc_raw = raw\<rparr>"

definition last_n_range :: "instant \<Rightarrow> string option \<Rightarrow> string \<Rightarrow> scope res" where
  "last_n_range moment raw digits = bindR (shift_years moment (max (digits_val digits) 1)) (\<lambda>start.
     Ok \<lparr>sc_as_of = Some (iso_of moment), sc_start = Some (iso_of start), sc_end = Some (iso_of moment),
         sc_mode = ''range'', sc_raw = raw\<rparr>)"

text \<open>The table of simple patterns, in its order.\<close>

definition temporal_simple :: "string \<Rightarrow> instant \<Rightarrow> string option \<Rightarrow> scope option res" where
  "temporal_simple text moment raw =
     (case search_parts last_n_parts text of
        Some p \<Rightarrow> bindR (last_n_range moment raw (slice text (p ! 1) (p ! 2))) (\<lambda>s. Ok (Some s))
      | None \<Rightarrow>
          Ok (if found last_year_re text then Some (last_year_range moment raw)
              else if found quarter_re text then Some (quarter_range moment raw)
              else if found earnings_re text then Some (moment_asof moment raw ''as_of'')
              else if found latest_re text then Some (moment_asof moment raw ''latest-available'')
              else if found now_re text then Some (moment_asof moment raw ''as_of'')
              else None))"

definition temporal_match :: "string \<Rightarrow> instant \<Rightarrow> string option \<Rightarrow> scope option res" where
  "temporal_match text moment raw =
     (if found unbounded_re text
      then Ok (Some \<lparr>sc_as_of = None, sc_start = None, sc_end = None, sc_mode = ''unbounded'', sc_raw = raw\<rparr>)
      else case search_parts between_parts text of
        Some p \<Rightarrow>
          bindR (temporal_day (slice text (p ! 1) (p ! 2))) (\<lambda>start.
          bindR (temporal_day (slice text (p ! 3) (p ! 4))) (\<lambda>stop.
          if start > stop then Err (ValueError ''temporal range start is after end'')
          else Ok (Some \<lparr>sc_as_of = Some stop, sc_start = Some start, sc_end = Some stop, sc_mode = ''range'', sc_raw = raw\<rparr>)))
      | None \<Rightarrow>
          (case search_parts as_of_parts text of
             Some p \<Rightarrow> bindR (temporal_day (slice text (p ! 1) (p ! 2))) (\<lambda>day.
               Ok (Some \<lparr>sc_as_of = Some day, sc_start = None, sc_end = None, sc_mode = ''as_of'', sc_raw = raw\<rparr>))
           | None \<Rightarrow> temporal_simple text moment raw))"

definition temporal_text :: "string option \<Rightarrow> string \<Rightarrow> (string option \<times> string) res" where
  "temporal_text temporal query = (case temporal of
       None \<Rightarrow> Ok (None, query)
     | Some t \<Rightarrow> if strip t = [] then Err (ValueError ''temporal must be a non-empty string or null'')
                else Ok (Some (strip t), strip t))"

definition resolve_temporal_scope :: "iso_parser \<Rightarrow> instant \<Rightarrow> time_arg \<Rightarrow> string option \<Rightarrow> string \<Rightarrow> scope res" where
  "resolve_temporal_scope fromiso now as_of temporal query =
     bindR (temporal_text temporal query) (\<lambda>(raw, text).
     bindR (coerce_time fromiso as_of) (\<lambda>cut.
     bindR (if text \<noteq> [] then temporal_match text now raw else Ok None) (\<lambda>hit.
     Ok (case hit of
           Some s \<Rightarrow> s
         | None \<Rightarrow> (case cut of Some c \<Rightarrow> moment_asof c raw ''as_of'' | None \<Rightarrow> moment_asof now raw ''latest-available'')))))"

definition temporal_scope_modes :: "string list" where
  "temporal_scope_modes = [''latest-available'', ''latest'', ''unbounded'', ''as_of'', ''range'']"

definition scope_time :: "iso_parser \<Rightarrow> (string, pyobj) dict \<Rightarrow> string \<Rightarrow> string option res" where
  "scope_time fromiso d key = bindR (get_time fromiso d key) (\<lambda>t. Ok (map_option iso_of t))"

definition scope_norm_mode :: "(string, pyobj) dict \<Rightarrow> string res" where
  "scope_norm_mode d = (case dget_default d ''mode'' (PStr ''latest-available'') of
       PStr m \<Rightarrow> if lower (strip m) \<notin> set temporal_scope_modes then Err (ValueError ''mode must be one of'')
                 else Ok (if lower (strip m) = ''latest'' then ''latest-available'' else lower (strip m))
     | _ \<Rightarrow> Err (ValueError ''mode must be one of''))"

definition validate_temporal_scope :: "iso_parser \<Rightarrow> pyobj \<Rightarrow> (string, pyobj) dict res" where
  "validate_temporal_scope fromiso v = (case v of
       PDict d \<Rightarrow>
         bindR (scope_norm_mode d) (\<lambda>mode.
         bindR (scope_time fromiso d ''as_of'') (\<lambda>as_of.
         bindR (scope_time fromiso d ''start'') (\<lambda>start.
         bindR (scope_time fromiso d ''end'') (\<lambda>stop.
         bindR (opt_str (obj_get d ''raw'')) (\<lambda>raw.
         Ok (scope_dict \<lparr>sc_as_of = as_of, sc_start = start, sc_end = stop, sc_mode = mode, sc_raw = raw\<rparr>))))))
     | _ \<Rightarrow> Err (ValueError ''temporal_scope must be a mapping''))"

section \<open>Properties\<close>

lemma simple_bounded:
  "temporal_simple t moment raw = Ok (Some s) \<Longrightarrow>
     sc_as_of s \<noteq> None \<and> sc_mode s \<in> set [''range'', ''as_of'', ''latest-available''] \<and> sc_raw s = raw"
  by (auto simp: temporal_simple_def last_n_range_def last_year_range_def quarter_range_def moment_asof_def
      bindR_Ok_iff Let_def split: option.splits if_splits prod.splits)

lemma match_bounded:
  assumes "temporal_match t moment raw = Ok (Some s)"
  shows "(if found unbounded_re t then sc_as_of s = None \<and> sc_mode s = ''unbounded''
     else sc_as_of s \<noteq> None \<and> sc_mode s \<in> set [''range'', ''as_of'', ''latest-available'']) \<and> sc_raw s = raw"
proof (cases "found unbounded_re t \<or> search_parts between_parts t \<noteq> None \<or> search_parts as_of_parts t \<noteq> None")
  case True
  with assms show ?thesis
    by (auto simp: temporal_match_def bindR_Ok_iff split: option.splits if_splits)
next
  case False
  with assms simple_bounded [of t moment raw s] show ?thesis by (simp add: temporal_match_def)
qed

lemma match_None: "temporal_match t moment raw = Ok None \<Longrightarrow> \<not> found unbounded_re t"
  by (auto simp: temporal_match_def)

lemma mode_unbounded: "m \<in> set [''range'', ''as_of'', ''latest-available''] \<Longrightarrow> m \<noteq> ''unbounded'' \<and> m \<in> set temporal_scope_modes"
  "''unbounded'' \<in> set temporal_scope_modes"
  by (auto simp: temporal_scope_modes_def)

lemma found_empty: "\<not> found unbounded_re []"
  by code_simp

lemma resolve_scope_cases:
  assumes "resolve_temporal_scope fromiso now as_of temporal query = Ok s"
  defines "t \<equiv> (case temporal of None \<Rightarrow> query | Some t \<Rightarrow> strip t)" and "raw \<equiv> map_option strip temporal"
  obtains (Worded) "temporal_match t now raw = Ok (Some s)"
    | (Cutoff) c where "coerce_time fromiso as_of = Ok (Some c)" and "s = moment_asof c raw ''as_of''" and "\<not> found unbounded_re t"
    | (Now) "coerce_time fromiso as_of = Ok None" and "s = moment_asof now raw ''latest-available''" and "\<not> found unbounded_re t"
proof -
  have tt: "temporal_text temporal query = Ok (raw, t)"
    using assms(1) by (auto simp: resolve_temporal_scope_def temporal_text_def t_def raw_def bindR_Ok_iff
        split: option.splits if_splits)
  from assms(1) obtain cut hit where cut: "coerce_time fromiso as_of = Ok cut"
    and hit: "(if t \<noteq> [] then temporal_match t now raw else Ok None) = Ok hit"
    and s: "s = (case hit of Some s \<Rightarrow> s | None \<Rightarrow> (case cut of Some c \<Rightarrow> moment_asof c raw ''as_of''
        | None \<Rightarrow> moment_asof now raw ''latest-available''))"
    by (auto simp: resolve_temporal_scope_def tt bindR_Ok_iff)
  show thesis
  proof (cases hit)
    case None
    then have "\<not> found unbounded_re t" using hit found_empty match_None by (cases "t = []") auto
    with None s cut Cutoff Now show ?thesis by (auto split: option.splits)
  next
    case (Some r)
    with hit have "temporal_match t now raw = Ok (Some r)" by (auto split: if_splits)
    with Some s Worded show ?thesis by simp
  qed
qed

lemma resolve_scope_mode:
  assumes "resolve_temporal_scope fromiso now as_of temporal query = Ok s"
  shows "sc_mode s = ''unbounded'' \<longleftrightarrow> found unbounded_re (case temporal of None \<Rightarrow> query | Some t \<Rightarrow> strip t)"
  using assms
proof (cases rule: resolve_scope_cases)
  case Worded
  from match_bounded [OF this] show ?thesis by (auto split: if_splits)
qed (auto simp: moment_asof_def)

text \<open>
  The temporal scope of a request has no cutoff exactly when the time text of the request (the
  explicit wording, else the query) says so in words; every other scope has one; its mode is one of
  the vocabulary; the wording is kept; and an explicit cutoff is the scope's cutoff when no wording
  of the text matches.
\<close>

theorem temporal_scope_bounded:
  assumes "resolve_temporal_scope fromiso now as_of temporal query = Ok s"
  shows "sc_mode s \<in> set temporal_scope_modes
    \<and> (sc_as_of s = None \<longleftrightarrow> sc_mode s = ''unbounded'')
    \<and> (sc_mode s = ''unbounded'' \<longleftrightarrow> found unbounded_re (case temporal of None \<Rightarrow> query | Some t \<Rightarrow> strip t))
    \<and> sc_raw s = map_option strip temporal
    \<and> (coerce_time fromiso as_of = Ok (Some c)
        \<and> temporal_match (case temporal of None \<Rightarrow> query | Some t \<Rightarrow> strip t) now (map_option strip temporal) = Ok None
        \<longrightarrow> sc_as_of s = Some (iso_of c))"
  using assms
proof (cases rule: resolve_scope_cases)
  case Worded
  from match_bounded [OF this] this mode_unbounded show ?thesis by (auto split: if_splits)
qed (auto simp: moment_asof_def temporal_scope_modes_def)

definition demo_moment :: instant where
  "demo_moment = day_number (2024, 6, 3) * day_us"

definition demo_query :: string where
  "demo_query = ''all history''"

theorem temporal_scope_bounded_witness:
  "found unbounded_re demo_query"
proof -
  have "resolve_temporal_scope (\<lambda>_. None) demo_moment TNone None demo_query
      = Ok \<lparr>sc_as_of = None, sc_start = None, sc_end = None, sc_mode = ''unbounded'', sc_raw = None\<rparr>"
    by code_simp
  from temporal_scope_bounded [OF this] show ?thesis by simp
qed

text \<open>
  An explicit cutoff does not count when the query contains a time word: the scope is cut at the
  current time although the caller asked for an earlier cutoff.
\<close>

lemma wording_overrides_cutoff:
  "resolve_temporal_scope (\<lambda>_. None) demo_moment (TStamp (Aware 0)) None ''latest''
    = Ok (moment_asof demo_moment None ''as_of'')"
  by code_simp

end
