(* ===== verification/Session.thy ===== *)
theory Session
  imports Temporal Interfaces
begin

text \<open>
  Research sessions: the failure and session records of \<open>app/research/models.py\<close> with their
  validation and their JSON form, and creation and the deterministic transitions of
  \<open>app/research/session.py\<close>.  The clock and the minted id are arguments.
\<close>

section \<open>Failures\<close>

record failure =
  fl_category :: string
  fl_message :: string

definition validate_failure :: "failure \<Rightarrow> unit res" where
  "validate_failure f =
     bindR (coerce_enum failure_categories (PStr (fl_category f))) (\<lambda>_.
     checkR (fl_message f \<noteq> []) (ValueError ''message must be a non-empty string''))"

definition failure_to_dict :: "failure \<Rightarrow> pyobj" where
  "failure_to_dict f = PDict [(''category'', PStr (fl_category f)), (''message'', PStr (fl_message f))]"

definition failure_from_dict :: "pyobj \<Rightarrow> failure res" where
  "failure_from_dict v = (case v of
       PDict d \<Rightarrow>
         bindR (coerce_enum failure_categories (obj_get d ''category'')) (\<lambda>c.
         bindR (req_str d ''message'') (\<lambda>m.
         bindR (validate_failure \<lparr>fl_category = c, fl_message = m\<rparr>) (\<lambda>_.
         Ok \<lparr>fl_category = c, fl_message = m\<rparr>)))
     | _ \<Rightarrow> Err (ValueError ''failure must be a mapping''))"

definition validate_opt_failure :: "failure option \<Rightarrow> unit res" where
  "validate_opt_failure f = (case f of None \<Rightarrow> Ok () | Some x \<Rightarrow> validate_failure x)"

definition parse_opt_failure :: "(string, pyobj) dict \<Rightarrow> failure option res" where
  "parse_opt_failure d = (case obj_get d ''failure'' of
       PNone \<Rightarrow> Ok None
     | PDict e \<Rightarrow> bindR (failure_from_dict (PDict e)) (\<lambda>f. Ok (Some f))
     | _ \<Rightarrow> Err (ValueError ''failure must be a mapping or null''))"

section \<open>The session record\<close>

record session =
  se_session_id :: string
  se_created_at :: instant
  se_updated_at :: instant
  se_query :: string
  se_objective :: string
  se_as_of :: "instant option"
  se_status :: string
  se_current_wave :: int
  se_policy :: "(string, pyobj) dict"
  se_budget :: "(string, pyobj) dict"
  se_source_policy :: "(string, pyobj) dict"
  se_temporal_scope :: "(string, pyobj) dict"
  se_job_ids :: "string list"
  se_evidence_ids :: "string list"
  se_freeze_ids :: "string list"
  se_dossier_ids :: "string list"
  se_committee_runs :: "pyobj list"
  se_unresolved_questions :: "string list"
  se_targeted_question :: "string option"
  se_targeted_domain :: "string option"
  se_final_result :: "(string, pyobj) dict option"
  se_failure :: "failure option"

definition validate_session_ids :: "session \<Rightarrow> unit res" where
  "validate_session_ids s =
     bindR (checkR (se_session_id s \<noteq> []) (ValueError ''session_id must be a non-empty string'')) (\<lambda>_.
     bindR (checkR (se_query s \<noteq> []) (ValueError ''query must be a non-empty string'')) (\<lambda>_.
     checkR (se_objective s \<noteq> []) (ValueError ''objective must be a non-empty string'')))"

definition validate_session_wave :: "session \<Rightarrow> unit res" where
  "validate_session_wave s =
     bindR (coerce_enum session_statuses (PStr (se_status s))) (\<lambda>_.
     checkR (se_current_wave s \<ge> 0) (ValueError ''current_wave must be >= 0''))"

definition validate_session :: "iso_parser \<Rightarrow> session \<Rightarrow> unit res" where
  "validate_session fromiso s =
     bindR (validate_session_ids s) (\<lambda>_.
     bindR (validate_session_wave s) (\<lambda>_.
     bindR (validate_opt_failure (se_failure s)) (\<lambda>_.
     bindR (validate_source_policy (PDict (se_source_policy s))) (\<lambda>_.
     bindR (validate_temporal_scope fromiso (PDict (se_temporal_scope s))) (\<lambda>_. Ok ())))))"

section \<open>JSON form\<close>

definition json_mapping :: "(string, pyobj) dict \<Rightarrow> pyobj res" where
  "json_mapping d = bindR (validate_json_mapping (PDict d)) (\<lambda>e. Ok (PDict e))"

definition session_to_dict :: "session \<Rightarrow> (string, pyobj) dict res" where
  "session_to_dict s =
     bindR (json_mapping (se_policy s)) (\<lambda>policy.
     bindR (json_mapping (se_budget s)) (\<lambda>budget.
     bindR (json_mapping (se_source_policy s)) (\<lambda>source_policy.
     bindR (json_mapping (se_temporal_scope s)) (\<lambda>temporal_scope.
     bindR (mapR validate_json_value (se_committee_runs s)) (\<lambda>runs.
     bindR (case se_final_result s of None \<Rightarrow> Ok PNone | Some r \<Rightarrow> json_mapping r) (\<lambda>final.
     Ok [(''session_id'', PStr (se_session_id s)), (''created_at'', iso_obj (se_created_at s)),
         (''updated_at'', iso_obj (se_updated_at s)), (''query'', PStr (se_query s)),
         (''objective'', PStr (se_objective s)), (''as_of'', opt_obj iso_obj (se_as_of s)),
         (''status'', PStr (se_status s)), (''current_wave'', PInt (se_current_wave s)),
         (''policy'', policy), (''budget'', budget), (''source_policy'', source_policy),
         (''temporal_scope'', temporal_scope), (''job_ids'', py_values (se_job_ids s)),
         (''evidence_ids'', py_values (se_evidence_ids s)), (''freeze_ids'', py_values (se_freeze_ids s)),
         (''dossier_ids'', py_values (se_dossier_ids s)), (''committee_runs'', PList runs),
         (''unresolved_questions'', py_values (se_unresolved_questions s)),
         (''targeted_question'', opt_obj PStr (se_targeted_question s)),
         (''targeted_domain'', opt_obj PStr (se_targeted_domain s)),
         (''final_result'', final), (''failure'', opt_obj failure_to_dict (se_failure s))]))))))"

definition parse_session_result :: "(string, pyobj) dict \<Rightarrow> (string, pyobj) dict option res" where
  "parse_session_result d = (case dget_default d ''result'' (obj_get d ''final_result'') of
       PNone \<Rightarrow> Ok None | v \<Rightarrow> bindR (validate_json_mapping v) (\<lambda>r. Ok (Some r)))"

definition parse_session_wave :: "(string, pyobj) dict \<Rightarrow> int res" where
  "parse_session_wave d = (case dget_default d ''current_wave'' (PInt 0) of
       PInt n \<Rightarrow> Ok n | _ \<Rightarrow> Err (ValueError ''current_wave must be an int''))"

definition parse_session_runs :: "(string, pyobj) dict \<Rightarrow> pyobj list res" where
  "parse_session_runs d = (case dget_default d ''committee_runs'' (PList []) of
       PList xs \<Rightarrow> mapR validate_json_value xs | _ \<Rightarrow> Err (ValueError ''committee_runs must be a list''))"

definition parse_session_source_policy :: "(string, pyobj) dict \<Rightarrow> (string, pyobj) dict res" where
  "parse_session_source_policy d = (case obj_get d ''source_policy'' of
       PNone \<Rightarrow> Ok default_source_policy | v \<Rightarrow> validate_source_policy v)"

definition parse_session_temporal_scope :: "iso_parser \<Rightarrow> (string, pyobj) dict \<Rightarrow> (string, pyobj) dict res" where
  "parse_session_temporal_scope fromiso d = (case obj_get d ''temporal_scope'' of
       PNone \<Rightarrow> Ok default_temporal_scope | v \<Rightarrow> validate_temporal_scope fromiso v)"

definition session_from_dict :: "iso_parser \<Rightarrow> pyobj \<Rightarrow> session res" where
  "session_from_dict fromiso v = (case v of
       PDict d \<Rightarrow>
         bindR (req_str d ''session_id'') (\<lambda>sid.
         bindR (req_time fromiso d ''created_at'') (\<lambda>created.
         bindR (req_time fromiso d ''updated_at'') (\<lambda>updated.
         bindR (req_str d ''query'') (\<lambda>query.
         bindR (req_str d ''objective'') (\<lambda>objective.
         bindR (get_time fromiso d ''as_of'') (\<lambda>as_of.
         bindR (coerce_enum session_statuses (dget_default d ''status'' (PStr ''created''))) (\<lambda>status.
         bindR (parse_session_wave d) (\<lambda>wave.
         bindR (validate_json_mapping (dget_default d ''policy'' (PDict []))) (\<lambda>policy.
         bindR (validate_json_mapping (dget_default d ''budget'' (PDict []))) (\<lambda>budget.
         bindR (parse_session_source_policy d) (\<lambda>source_policy.
         bindR (parse_session_temporal_scope fromiso d) (\<lambda>temporal_scope.
         bindR (req_list_str d ''job_ids'') (\<lambda>job_ids.
         bindR (req_list_str d ''evidence_ids'') (\<lambda>evidence_ids.
         bindR (req_list_str d ''freeze_ids'') (\<lambda>freeze_ids.
         bindR (req_list_str d ''dossier_ids'') (\<lambda>dossier_ids.
         bindR (parse_session_runs d) (\<lambda>runs.
         bindR (req_list_str d ''unresolved_questions'') (\<lambda>questions.
         bindR (opt_str (obj_get d ''targeted_question'')) (\<lambda>tq.
         bindR (opt_str (obj_get d ''targeted_domain'')) (\<lambda>td.
         bindR (parse_session_result d) (\<lambda>final.
         bindR (parse_opt_failure d) (\<lambda>failure.
         (let s = \<lparr>se_session_id = sid, se_created_at = created, se_updated_at = updated, se_query = query,
                se_objective = objective, se_as_of = as_of, se_status = status, se_current_wave = wave,
                se_policy = policy, se_budget = budget, se_source_policy = source_policy,
                se_temporal_scope = temporal_scope, se_job_ids = job_ids, se_evidence_ids = evidence_ids,
                se_freeze_ids = freeze_ids, se_dossier_ids = dossier_ids, se_committee_runs = runs,
                se_unresolved_questions = questions, se_targeted_question = tq, se_targeted_domain = td,
                se_final_result = final, se_failure = failure\<rparr>
          in bindR (validate_session fromiso s) (\<lambda>_. Ok s))))))))))))))))))))))))
     | _ \<Rightarrow> Err (ValueError ''session must be a mapping''))"

text \<open>What the readers give on what the writer wrote.\<close>

lemmas reader_defs = req_str_def req_time_def get_time_def opt_str_def opt_int_def coerce_enum_def req_list_str_def
  obj_get_def dget_default_def py_values_def iso_obj_def opt_obj_def

lemma failure_roundtrip:
  assumes "validate_failure f = Ok ()"
  shows "failure_from_dict (failure_to_dict f) = Ok f"
  using assms by (cases f) (auto simp: failure_from_dict_def failure_to_dict_def validate_failure_def reader_defs
      bindR_Ok_iff split: if_splits)

lemma json_mapping_iff: "json_mapping d = Ok v \<longleftrightarrow> v = PDict d \<and> finite_json (PDict d)"
  by (auto simp: json_mapping_def bindR_Ok_iff validate_json_mapping_iff)

lemma opt_json_iff:
  "(case r of None \<Rightarrow> Ok PNone | Some d \<Rightarrow> json_mapping d) = Ok v
    \<longleftrightarrow> v = opt_obj PDict r \<and> (\<forall>d. r = Some d \<longrightarrow> finite_json (PDict d))"
  by (cases r) (auto simp: json_mapping_iff opt_obj_def)

lemma mapR_json_iff: "mapR validate_json_value xs = Ok ys \<longleftrightarrow> ys = xs \<and> list_all finite_json xs"
proof (induction xs arbitrary: ys)
  case (Cons x xs)
  then show ?case by (auto simp: bindR_Ok_iff validate_json_value_eq split: if_splits)
qed auto

definition opt_times :: "instant option \<Rightarrow> instant list" where
  "opt_times t = (case t of None \<Rightarrow> [] | Some x \<Rightarrow> [x])"

lemma time_back:
  "reads_time fromiso t \<Longrightarrow> coerce_time fromiso (time_arg_of (PStr (iso_of t))) = Ok (Some t)"
  "reads_back fromiso (opt_times u) \<Longrightarrow> coerce_time fromiso (time_arg_of (opt_obj iso_obj u)) = Ok u"
  by (auto simp: coerce_iso opt_obj_def iso_obj_def opt_times_def simp del: coerce_time.simps(3) split: option.splits)

lemma opt_failure_back:
  "validate_opt_failure f = Ok () \<Longrightarrow> obj_get d ''failure'' = opt_obj failure_to_dict f \<Longrightarrow> parse_opt_failure d = Ok f"
  using failure_roundtrip by (cases f)
    (auto simp: parse_opt_failure_def validate_opt_failure_def opt_obj_def failure_to_dict_def)

lemma session_eta:
  "\<lparr>se_session_id = se_session_id s, se_created_at = se_created_at s, se_updated_at = se_updated_at s,
     se_query = se_query s, se_objective = se_objective s, se_as_of = se_as_of s, se_status = se_status s,
     se_current_wave = se_current_wave s, se_policy = se_policy s, se_budget = se_budget s, se_source_policy = se_source_policy s,
     se_temporal_scope = se_temporal_scope s, se_job_ids = se_job_ids s, se_evidence_ids = se_evidence_ids s, se_freeze_ids = se_freeze_ids s,
     se_dossier_ids = se_dossier_ids s, se_committee_runs = se_committee_runs s, se_unresolved_questions = se_unresolved_questions s, se_targeted_question = se_targeted_question s,
     se_targeted_domain = se_targeted_domain s, se_final_result = se_final_result s, se_failure = se_failure s\<rparr> = s"
  by simp

section \<open>Transitions\<close>

definition transitions :: "(string, string list) dict" where
  "transitions = [
     (''created'', [''planning'', ''failed'', ''cancelled'']),
     (''planning'', [''researching'', ''failed'', ''cancelled'']),
     (''researching'', [''freezing'', ''failed'', ''cancelled'']),
     (''freezing'', [''analyzing'', ''failed'', ''cancelled'']),
     (''analyzing'', [''targeted_research'', ''synthesizing'', ''failed'', ''cancelled'']),
     (''targeted_research'', [''freezing'', ''failed'', ''cancelled'']),
     (''synthesizing'', [''completed'', ''failed'', ''cancelled'']),
     (''completed'', []), (''failed'', []), (''cancelled'', [])]"

definition terminal_statuses :: "string list" where
  "terminal_statuses = [''completed'', ''failed'', ''cancelled'']"

definition is_terminal :: "string \<Rightarrow> bool" where
  "is_terminal status \<longleftrightarrow> status \<in> set terminal_statuses"

definition can_transition :: "string \<Rightarrow> string \<Rightarrow> bool" where
  "can_transition current new \<longleftrightarrow> new \<in> set (dget_default transitions current [])"

definition parse_session_as_of :: "iso_parser \<Rightarrow> time_arg \<Rightarrow> instant option res" where
  "parse_session_as_of fromiso as_of = (case as_of of
       TStamp v \<Rightarrow> Ok (Some (normalize_time v))
     | TText s \<Rightarrow> if strip s \<noteq> [] then bindR (parse_time_str fromiso s) (\<lambda>t. Ok (Some t))
                  else Err (ValueError ''as_of must be ISO-8601, datetime, or null'')
     | TNone \<Rightarrow> Ok None
     | TOther \<Rightarrow> Err (ValueError ''as_of must be ISO-8601, datetime, or null''))"

definition new_session :: "instant \<Rightarrow> string \<Rightarrow> string \<Rightarrow> string \<Rightarrow> instant option \<Rightarrow> (string, pyobj) dict
    \<Rightarrow> (string, pyobj) dict \<Rightarrow> (string, pyobj) dict \<Rightarrow> (string, pyobj) dict \<Rightarrow> session" where
  "new_session now sid query objective as_of policy budget source_policy temporal_scope =
     \<lparr>se_session_id = sid, se_created_at = now, se_updated_at = now, se_query = query, se_objective = objective,
      se_as_of = as_of, se_status = ''created'', se_current_wave = 0, se_policy = policy, se_budget = budget,
      se_source_policy = source_policy, se_temporal_scope = temporal_scope, se_job_ids = [],
      se_evidence_ids = [], se_freeze_ids = [], se_dossier_ids = [], se_committee_runs = [],
      se_unresolved_questions = [], se_targeted_question = None, se_targeted_domain = None,
      se_final_result = None, se_failure = None\<rparr>"

text \<open>\<open>session_id or new_session_id()\<close>: an empty id is replaced by the minted one.\<close>

definition create_session :: "iso_parser \<Rightarrow> instant \<Rightarrow> string \<Rightarrow> string \<Rightarrow> string \<Rightarrow> time_arg \<Rightarrow> string option
    \<Rightarrow> pyobj \<Rightarrow> pyobj \<Rightarrow> string option \<Rightarrow> session res" where
  "create_session fromiso now minted query objective as_of session_id policy budget temporal =
     bindR (checkR (query \<noteq> []) (ValueError ''query must be a non-empty string'')) (\<lambda>_.
     bindR (checkR (objective \<noteq> []) (ValueError ''objective must be a non-empty string'')) (\<lambda>_.
     bindR (if policy = PNone then Ok default_policy else validate_json_mapping policy) (\<lambda>checked_policy.
     bindR (parse_session_as_of fromiso as_of) (\<lambda>parsed.
     bindR (resolve_temporal_scope fromiso now (case parsed of None \<Rightarrow> TNone | Some t \<Rightarrow> TStamp (Aware t))
              temporal query) (\<lambda>scope.
     bindR (if budget = PNone then Ok default_budget else validate_json_mapping budget) (\<lambda>checked_budget.
     bindR (resolve_source_policy (PDict checked_policy)) (\<lambda>source_policy.
     (let s = new_session now (case session_id of Some i \<Rightarrow> if i \<noteq> [] then i else minted | None \<Rightarrow> minted)
            query objective (if sc_mode scope = ''unbounded'' then None else parsed)
            checked_policy checked_budget source_policy (scope_dict scope)
      in bindR (validate_session fromiso s) (\<lambda>_. Ok s)))))))))"

definition transition_session :: "iso_parser \<Rightarrow> instant \<Rightarrow> session \<Rightarrow> string \<Rightarrow> session res" where
  "transition_session fromiso now s target =
     bindR (checkR (dget transitions target \<noteq> None) (ValueError ''unknown status'')) (\<lambda>_.
     bindR (checkR (can_transition (se_status s) target) (ValueError ''illegal transition'')) (\<lambda>_.
     (let t = s\<lparr>se_status := target, se_updated_at := now\<rparr>
      in bindR (validate_session fromiso t) (\<lambda>_. Ok t))))"

definition get_session :: "(string, session) dict \<Rightarrow> string \<Rightarrow> session res" where
  "get_session sessions sid = (case dget sessions sid of
       None \<Rightarrow> Err (KeyError ''unknown session_id'') | Some s \<Rightarrow> Ok s)"

section \<open>The lifecycle\<close>

lemma transition_targets: "list_all (\<lambda>(a, bs). list_all (\<lambda>b. dget transitions b \<noteq> None) bs) transitions"
  by code_simp

definition edges :: "(string \<times> string) list" where
  "edges = concat (map (\<lambda>(a, bs). map (Pair a) bs) transitions)"

lemma can_transition_cases: "can_transition a b \<longleftrightarrow> (a, b) \<in> set edges"
  by (auto simp: can_transition_def dget_default_def transitions_def edges_def split: option.splits if_splits)

interpretation session_life: lifecycle can_transition is_terminal
  by unfold_locales (auto simp: can_transition_def dget_default_def transitions_def is_terminal_def terminal_statuses_def)

text \<open>
  The phases a session must have gone through when it has a status; the loop of targeted research
  only repeats phases.
\<close>

definition phases_before :: "string \<Rightarrow> string list" where
  "phases_before status = dget_default [
     (''planning'', [''created'']), (''researching'', [''created'', ''planning'']),
     (''freezing'', [''created'', ''planning'', ''researching'']),
     (''analyzing'', [''created'', ''planning'', ''researching'', ''freezing'']),
     (''targeted_research'', [''created'', ''planning'', ''researching'', ''freezing'', ''analyzing'']),
     (''synthesizing'', [''created'', ''planning'', ''researching'', ''freezing'', ''analyzing'']),
     (''completed'', [''created'', ''planning'', ''researching'', ''freezing'', ''analyzing'', ''synthesizing''])] status []"

lemma phases_step:
  assumes "can_transition a b"
  shows "set (phases_before b) \<subseteq> insert a (set (phases_before a))"
proof -
  have "list_all (\<lambda>(a, b). list_all (\<lambda>p. p \<in> set (a # phases_before a)) (phases_before b)) edges"
    by code_simp
  with assms show ?thesis unfolding can_transition_cases list_all_iff by auto
qed

inductive session_step :: "iso_parser \<Rightarrow> session \<Rightarrow> session \<Rightarrow> bool" for fromiso where
  Transition: "transition_session fromiso now s target = Ok t \<Longrightarrow> session_step fromiso s t"

inductive_cases session_stepE: "session_step fromiso s t"

lemma transition_Ok:
  assumes "transition_session fromiso now s target = Ok t"
  shows "can_transition (se_status s) target" and "t = s\<lparr>se_status := target, se_updated_at := now\<rparr>"
    and "validate_session fromiso t = Ok ()"
  using assms by (auto simp: transition_session_def bindR_Ok_iff Let_def)

lemma step_status:
  assumes "session_step fromiso s t"
  shows "can_transition (se_status s) (se_status t)"
proof -
  from assms obtain now target where "transition_session fromiso now s target = Ok t" by (rule session_stepE)
  from transition_Ok [OF this] show ?thesis by simp
qed

lemma run_status: "(session_step fromiso)\<^sup>*\<^sup>* s t \<Longrightarrow> can_transition\<^sup>*\<^sup>* (se_status s) (se_status t)"
  by (induction rule: rtranclp_induct) (auto intro: rtranclp.rtrancl_into_rtrancl step_status)

lemma run_phases:
  assumes "successively (session_step fromiso) (ss @ [s])" and "hd (ss @ [s]) = s0" and "phases_before (se_status s0) = []"
  shows "set (phases_before (se_status s)) \<subseteq> se_status ` set ss"
  using assms(1,2)
proof (induction ss arbitrary: s rule: rev_induct)
  case Nil
  with assms(3) show ?case by simp
next
  case (snoc r ss)
  from snoc.prems(1) have step: "session_step fromiso r s" and run: "successively (session_step fromiso) (ss @ [r])"
    by (auto simp: successively_append_iff)
  from snoc.prems(2) have "hd (ss @ [r]) = s0" by (cases ss) auto
  from snoc.IH [OF run this] phases_step [OF step_status [OF step]] show ?case by auto
qed

text \<open>Validity only depends on the status being one of the vocabulary.\<close>

lemma validate_session_status:
  assumes "validate_session fromiso s = Ok ()"
  shows "validate_session fromiso (s\<lparr>se_status := x, se_updated_at := now\<rparr>) = Ok () \<longleftrightarrow> x \<in> set session_statuses"
  using assms
  by (auto simp: validate_session_def validate_session_ids_def validate_session_wave_def bindR_Ok_iff coerce_enum_def)

lemma edge_targets: "can_transition a b \<Longrightarrow> dget transitions b \<noteq> None \<and> b \<in> set session_statuses"
proof -
  have "list_all (\<lambda>(a, b). dget transitions b \<noteq> None \<and> b \<in> set session_statuses) edges" by code_simp
  then show "can_transition a b \<Longrightarrow> dget transitions b \<noteq> None \<and> b \<in> set session_statuses"
    unfolding can_transition_cases list_all_iff by auto
qed

lemma transition_iff:
  assumes "validate_session fromiso s = Ok ()"
  shows "transition_session fromiso now s x
    = (if dget transitions x = None then Err (ValueError ''unknown status'')
       else if \<not> can_transition (se_status s) x then Err (ValueError ''illegal transition'')
       else Ok (s\<lparr>se_status := x, se_updated_at := now\<rparr>))"
  using validate_session_status [OF assms, where x = x and now = now] edge_targets
  by (auto simp: transition_session_def Let_def)

text \<open>The next status on the shortest way to completion.\<close>

definition onward :: "string \<Rightarrow> string" where
  "onward status = dget_default [(''created'', ''planning''), (''planning'', ''researching''), (''researching'', ''freezing''),
     (''targeted_research'', ''freezing''), (''freezing'', ''analyzing''), (''analyzing'', ''synthesizing''),
     (''synthesizing'', ''completed'')] status status"

definition to_go :: "string \<Rightarrow> nat" where
  "to_go status = dget_default [(''created'', 6), (''planning'', 5), (''researching'', 4), (''targeted_research'', 4),
     (''freezing'', 3), (''analyzing'', 2), (''synthesizing'', 1)] status 0"

lemma onward_edges:
  "x \<in> set session_statuses \<Longrightarrow> \<not> is_terminal x \<Longrightarrow> can_transition x (onward x) \<and> to_go x = Suc (to_go (onward x))"
  "x \<in> set session_statuses \<Longrightarrow> is_terminal x \<longleftrightarrow> to_go x = 0"
proof -
  have "list_all (\<lambda>x. is_terminal x \<or> can_transition x (onward x) \<and> to_go x = Suc (to_go (onward x))) session_statuses"
    "list_all (\<lambda>x. is_terminal x \<longleftrightarrow> to_go x = 0) session_statuses"
    by code_simp+
  then show "x \<in> set session_statuses \<Longrightarrow> \<not> is_terminal x \<Longrightarrow> can_transition x (onward x) \<and> to_go x = Suc (to_go (onward x))"
    "x \<in> set session_statuses \<Longrightarrow> is_terminal x \<longleftrightarrow> to_go x = 0"
    by (auto simp: list_all_iff)
qed

lemma onward_end: "x \<in> set session_statuses \<Longrightarrow> to_go x = 1 \<Longrightarrow> onward x = ''completed''"
proof -
  have "list_all (\<lambda>x. to_go x \<noteq> 1 \<or> onward x = ''completed'') session_statuses" by code_simp
  then show "x \<in> set session_statuses \<Longrightarrow> to_go x = 1 \<Longrightarrow> onward x = ''completed''" by (auto simp: list_all_iff)
qed

lemma can_complete:
  assumes "validate_session fromiso s = Ok ()" and "\<not> is_terminal (se_status s)"
  shows "\<exists>t. (session_step fromiso ^^ to_go (se_status s)) s t \<and> se_status t = ''completed''"
  using assms
proof (induction "to_go (se_status s)" arbitrary: s)
  case 0
  then show ?case using onward_edges by (auto simp: validate_session_def validate_session_wave_def bindR_Ok_iff coerce_enum_def split: if_splits)
next
  case (Suc n)
  have st: "se_status s \<in> set session_statuses" using Suc.prems(1)
    by (auto simp: validate_session_def validate_session_wave_def bindR_Ok_iff coerce_enum_def split: if_splits)
  define t where "t = s\<lparr>se_status := onward (se_status s), se_updated_at := 0\<rparr>"
  note on = onward_edges(1) [OF st Suc.prems(2)]
  then have tr: "transition_session fromiso 0 s (onward (se_status s)) = Ok t"
    using edge_targets [of "se_status s" "onward (se_status s)"] by (auto simp: transition_iff [OF Suc.prems(1)] t_def)
  from session_step.Transition [OF tr] have step: "session_step fromiso s t" .
  have n: "n = to_go (se_status t)" using on Suc.hyps(2) by (simp add: t_def)
  show ?case
  proof (cases "n = 0")
    case True
    with Suc.hyps(2) onward_end [OF st] have "se_status t = ''completed''" by (simp add: t_def)
    with step True Suc.hyps(2) show ?thesis by (metis One_nat_def relpowp_1)
  next
    case False
    have "se_status t \<in> set session_statuses" using on edge_targets by (auto simp: t_def)
    with False n have "\<not> is_terminal (se_status t)" using onward_edges(2) by auto
    from Suc.hyps(1) [OF n transition_Ok(3) [OF tr] this] obtain u
      where "(session_step fromiso ^^ n) t u" "se_status u = ''completed''" unfolding n by auto
    with step Suc.hyps(2) show ?thesis by (metis relpowp_Suc_I2)
  qed
qed

section \<open>Properties\<close>

definition demo_iso :: iso_parser where
  "demo_iso s = Some (Aware 0)"

definition demo_session :: session where
  "demo_session = new_session 0 ''rs:1'' ''ACME'' ''why'' (Some 0) default_policy default_budget
     default_source_policy (scope_dict (moment_asof 0 None ''as_of''))"

lemma demo_valid: "validate_session demo_iso demo_session = Ok ()"
  by code_simp

text \<open>
  C21.  No session is completed without the whole pipeline: along any run of transitions from a created
  session to a completed one, the session has been planning, researching, freezing, analyzing and
  synthesizing; and a session in a terminal status accepts no transition at all.
\<close>

theorem session_completion_path:
  assumes "successively (session_step fromiso) ss" and "ss \<noteq> []" and "se_status (hd ss) = ''created''"
  shows "(se_status (last ss) = ''completed'' \<longrightarrow>
      {''planning'', ''researching'', ''freezing'', ''analyzing'', ''synthesizing''} \<subseteq> se_status ` set ss)
    \<and> (is_terminal (se_status (last ss)) \<longrightarrow> \<not> is_ok (transition_session fromiso now (last ss) x))"
proof (intro conjI impI)
  let ?s = "last ss"
  have ss: "butlast ss @ [?s] = ss" using assms(2) by simp
  have "phases_before ''created'' = []" by code_simp
  then have "set (phases_before (se_status ?s)) \<subseteq> se_status ` set (butlast ss)"
    using run_phases [of fromiso "butlast ss" ?s "hd ss"] assms(1,3) unfolding ss by simp
  moreover have "se_status ` set (butlast ss) \<subseteq> se_status ` set ss" by (auto dest: in_set_butlastD)
  moreover have "{''planning'', ''researching'', ''freezing'', ''analyzing'', ''synthesizing''} \<subseteq> set (phases_before ''completed'')"
    by (simp add: phases_before_def dget_default_def)
  ultimately show "{''planning'', ''researching'', ''freezing'', ''analyzing'', ''synthesizing''} \<subseteq> se_status ` set ss"
    if "se_status ?s = ''completed''" using that by auto
  show "\<not> is_ok (transition_session fromiso now ?s x)" if "is_terminal (se_status ?s)"
    using session_life.terminal_stuck [OF that] by (auto simp: is_ok_iff dest: transition_Ok(1))
qed

theorem session_completion_path_witness:
  "\<not> is_ok (transition_session demo_iso 0 (demo_session\<lparr>se_status := ''cancelled'', se_updated_at := 0\<rparr>) ''planning'')"
proof -
  let ?t = "demo_session\<lparr>se_status := ''cancelled'', se_updated_at := 0\<rparr>"
  have "transition_session demo_iso 0 demo_session ''cancelled'' = Ok ?t"
    unfolding transition_iff [OF demo_valid] by code_simp
  then have "successively (session_step demo_iso) [demo_session, ?t]" by (auto intro: session_step.Transition)
  moreover have "se_status demo_session = ''created''" by (simp add: demo_session_def new_session_def)
  ultimately show ?thesis
    using session_completion_path [of demo_iso "[demo_session, ?t]" 0 "''planning''"]
    by (simp add: is_terminal_def terminal_statuses_def)
qed

text \<open>
  C22.  No session is stuck: from every valid session that is not in a terminal status, at most six
  legal transitions lead to a completed one.
\<close>

theorem session_can_complete:
  assumes "validate_session fromiso s = Ok ()" and "\<not> is_terminal (se_status s)"
  shows "\<exists>n t. n \<le> 6 \<and> (session_step fromiso ^^ n) s t \<and> se_status t = ''completed''"
proof -
  have "to_go x \<le> 6" for x by (simp add: to_go_def dget_default_def)
  with can_complete [OF assms] show ?thesis by blast
qed

theorem session_can_complete_witness:
  "\<exists>n t. n \<le> 6 \<and> (session_step demo_iso ^^ n) demo_session t \<and> se_status t = ''completed''"
  by (rule session_can_complete [OF demo_valid])
    (simp add: demo_session_def new_session_def is_terminal_def terminal_statuses_def)

text \<open>
  A created session starts valid in status created; its source policy allows a job exactly the
  domains the request names, in any letter case and padding: SEC alone when the request names no
  sources, everything in mode all; nothing is denied beyond that; and its cutoff is the one the caller
  gave, but for a request whose wording is unbounded, which drops it.
\<close>

theorem create_session_sound:
  assumes "create_session fromiso now minted query objective as_of sid policy budget temporal = Ok s"
  shows "validate_session fromiso s = Ok () \<and> se_status s = ''created'' \<and> se_job_ids s = []
    \<and> (policy = PNone \<longrightarrow> strip d \<noteq> [] \<longrightarrow>
         source_domain_allowed (Some (se_source_policy s)) (Some d) = Ok (domain_key d = ''sec''))
    \<and> (\<exists>a m. se_source_policy s = policy_dict a [] m \<and> (m = ''all'' \<or> m = ''allowlist'' \<and> a \<noteq> []))
    \<and> (se_as_of s = None \<or> parse_session_as_of fromiso as_of = Ok (se_as_of s))
    \<and> (found unbounded_re (case temporal of None \<Rightarrow> query | Some t \<Rightarrow> strip t) \<longrightarrow> se_as_of s = None)
    \<and> (\<not> found unbounded_re (case temporal of None \<Rightarrow> query | Some t \<Rightarrow> strip t)
        \<longrightarrow> parse_session_as_of fromiso as_of = Ok (se_as_of s))"
proof -
  from assms obtain cp parsed sc cb sp where
      cp: "(if policy = PNone then Ok default_policy else validate_json_mapping policy) = Ok cp"
    and parsed: "parse_session_as_of fromiso as_of = Ok parsed"
    and sc: "resolve_temporal_scope fromiso now (case parsed of None \<Rightarrow> TNone | Some t \<Rightarrow> TStamp (Aware t)) temporal query = Ok sc"
    and sp: "resolve_source_policy (PDict cp) = Ok sp"
    and valid: "validate_session fromiso s = Ok ()"
    and s: "s = new_session now (case sid of Some i \<Rightarrow> if i \<noteq> [] then i else minted | None \<Rightarrow> minted)
            query objective (if sc_mode sc = ''unbounded'' then None else parsed) cp cb sp (scope_dict sc)"
    by (auto simp: create_session_def bindR_Ok_iff Let_def)
  have fields: "se_status s = ''created''" "se_job_ids s = []" "se_source_policy s = sp"
    "se_as_of s = (if sc_mode sc = ''unbounded'' then None else parsed)"
    by (simp_all add: s new_session_def)
  have scope: "sc_mode sc = ''unbounded'' \<longleftrightarrow> found unbounded_re (case temporal of None \<Rightarrow> query | Some t \<Rightarrow> strip t)"
    using resolve_scope_mode [OF sc] .
  have "sp = default_source_policy" if "policy = PNone"
  proof -
    have "source_container default_policy = PNone" by code_simp
    with that cp sp show ?thesis by (simp add: resolve_source_policy_def)
  qed
  then have sec: "source_domain_allowed (Some sp) (Some d) = Ok (domain_key d = ''sec'')" if "policy = PNone" "strip d \<noteq> []"
  proof -
    have "domain_key ''SEC'' = ''sec''" by code_simp
    with that \<open>policy = PNone \<Longrightarrow> sp = default_source_policy\<close> show ?thesis
      by (simp add: default_policy_dict allowed_by_policy_dict)
  qed
  obtain a m where "sp = policy_dict a [] m" "m = ''all'' \<or> m = ''allowlist'' \<and> a \<noteq> []"
    using resolved_policy_shape [OF sp] by metis
  then show ?thesis using fields valid sec parsed scope by auto
qed

theorem create_session_sound_witness:
  "source_domain_allowed (Some (se_source_policy demo_session)) (Some '' Sec '') = Ok True"
proof -
  have "create_session demo_iso 0 ''rs:1'' ''ACME'' ''why'' (TStamp (Aware 0)) None PNone PNone None = Ok demo_session"
    by code_simp
  moreover have "strip '' Sec '' \<noteq> []" "domain_key '' Sec '' = ''sec''" by code_simp+
  ultimately show ?thesis using create_session_sound [of demo_iso 0 "''rs:1''" _ _ _ _ _ _ _ demo_session "'' Sec ''"] by fastforce
qed

text \<open>
  C38.  A valid session whose policies are in canonical form survives the JSON form: when it can be
  written at all (no float in it is infinite or NaN), reading the written form gives the session
  back, with every id list, payload, optional field and timestamp.
\<close>

theorem session_roundtrip:
  assumes "validate_session fromiso s = Ok ()" and "session_to_dict s = Ok d"
    and "validate_source_policy (PDict (se_source_policy s)) = Ok (se_source_policy s)"
    and "validate_temporal_scope fromiso (PDict (se_temporal_scope s)) = Ok (se_temporal_scope s)"
    and "reads_back fromiso (se_created_at s # se_updated_at s # opt_times (se_as_of s))"
  shows "session_from_dict fromiso (PDict d) = Ok s"
proof -
  have valid: "se_session_id s \<noteq> []" "se_query s \<noteq> []" "se_objective s \<noteq> []" "se_status s \<in> set session_statuses"
    "validate_opt_failure (se_failure s) = Ok ()"
    using assms(1) by (auto simp: validate_session_def validate_session_ids_def validate_session_wave_def bindR_Ok_iff
        coerce_enum_def split: if_splits)
  from assms(5) have times: "reads_time fromiso (se_created_at s)" "reads_time fromiso (se_updated_at s)"
    "reads_back fromiso (opt_times (se_as_of s))" by simp_all
  from assms(2) have finite: "finite_json (PDict (se_policy s))" "finite_json (PDict (se_budget s))"
      "list_all finite_json (se_committee_runs s)" "\<forall>r. se_final_result s = Some r \<longrightarrow> finite_json (PDict r)"
    and d: "d = [(''session_id'', PStr (se_session_id s)), (''created_at'', iso_obj (se_created_at s)),
         (''updated_at'', iso_obj (se_updated_at s)), (''query'', PStr (se_query s)),
         (''objective'', PStr (se_objective s)), (''as_of'', opt_obj iso_obj (se_as_of s)),
         (''status'', PStr (se_status s)), (''current_wave'', PInt (se_current_wave s)),
         (''policy'', PDict (se_policy s)), (''budget'', PDict (se_budget s)), (''source_policy'', PDict (se_source_policy s)),
         (''temporal_scope'', PDict (se_temporal_scope s)), (''job_ids'', py_values (se_job_ids s)),
         (''evidence_ids'', py_values (se_evidence_ids s)), (''freeze_ids'', py_values (se_freeze_ids s)),
         (''dossier_ids'', py_values (se_dossier_ids s)), (''committee_runs'', PList (se_committee_runs s)),
         (''unresolved_questions'', py_values (se_unresolved_questions s)),
         (''targeted_question'', opt_obj PStr (se_targeted_question s)),
         (''targeted_domain'', opt_obj PStr (se_targeted_domain s)),
         (''final_result'', opt_obj PDict (se_final_result s)), (''failure'', opt_obj failure_to_dict (se_failure s))]"
    by (auto simp: session_to_dict_def bindR_Ok_iff json_mapping_iff mapR_json_iff opt_json_iff)
  have strs: "req_str d ''session_id'' = Ok (se_session_id s)" "req_str d ''query'' = Ok (se_query s)"
    "req_str d ''objective'' = Ok (se_objective s)"
    "coerce_enum session_statuses (dget_default d ''status'' (PStr ''created'')) = Ok (se_status s)"
    "parse_session_wave d = Ok (se_current_wave s)"
    using valid unfolding d by (simp_all add: reader_defs parse_session_wave_def)
  have instants: "req_time fromiso d ''created_at'' = Ok (se_created_at s)"
    "req_time fromiso d ''updated_at'' = Ok (se_updated_at s)" "get_time fromiso d ''as_of'' = Ok (se_as_of s)"
    using times(1,2) [THEN time_back(1)] time_back(2) [OF times(3)] unfolding d
    by (simp_all add: req_time_def get_time_def obj_get_def dget_default_def iso_obj_def)
  have lists: "req_list_str d ''job_ids'' = Ok (se_job_ids s)" "req_list_str d ''evidence_ids'' = Ok (se_evidence_ids s)"
    "req_list_str d ''freeze_ids'' = Ok (se_freeze_ids s)" "req_list_str d ''dossier_ids'' = Ok (se_dossier_ids s)"
    "req_list_str d ''unresolved_questions'' = Ok (se_unresolved_questions s)"
    unfolding d by (simp_all add: req_list_str_def dget_default_def py_values_def comp_def)
  have opts: "opt_str (obj_get d ''targeted_question'') = Ok (se_targeted_question s)"
    "opt_str (obj_get d ''targeted_domain'') = Ok (se_targeted_domain s)"
    unfolding d by (simp_all add: opt_str_def obj_get_def dget_default_def opt_obj_def split: option.splits)
  have payloads: "validate_json_mapping (dget_default d ''policy'' (PDict [])) = Ok (se_policy s)"
    "validate_json_mapping (dget_default d ''budget'' (PDict [])) = Ok (se_budget s)"
    "parse_session_runs d = Ok (se_committee_runs s)" "parse_session_result d = Ok (se_final_result s)"
    using finite unfolding d
    by (auto simp: dget_default_def obj_get_def parse_session_runs_def parse_session_result_def mapR_json_iff opt_obj_def
        bindR_Ok_iff validate_json_mapping_iff split: option.splits)
  have policies: "parse_session_source_policy d = Ok (se_source_policy s)"
    "parse_session_temporal_scope fromiso d = Ok (se_temporal_scope s)"
    using assms(3,4) unfolding d
    by (simp_all add: obj_get_def dget_default_def parse_session_source_policy_def parse_session_temporal_scope_def)
  have "parse_opt_failure d = Ok (se_failure s)"
    by (rule opt_failure_back [OF valid(5)]) (simp add: d obj_get_def dget_default_def)
  then show ?thesis
    by (simp add: session_from_dict_def strs instants lists opts payloads policies session_eta assms(1) Let_def)
qed

theorem session_roundtrip_witness:
  "\<exists>d. session_to_dict demo_session = Ok d \<and> session_from_dict demo_iso (PDict d) = Ok demo_session"
proof -
  have to: "is_ok (session_to_dict demo_session)"
    "validate_source_policy (PDict (se_source_policy demo_session)) = Ok (se_source_policy demo_session)"
    "validate_temporal_scope demo_iso (PDict (se_temporal_scope demo_session)) = Ok (se_temporal_scope demo_session)"
    "reads_back demo_iso (se_created_at demo_session # se_updated_at demo_session
       # opt_times (se_as_of demo_session))"
    by code_simp+
  then obtain d where "session_to_dict demo_session = Ok d" by (auto simp: is_ok_iff)
  with session_roundtrip [OF demo_valid this to(2-4)] show ?thesis by blast
qed

end
