(* ===== verification/Jobs.thy ===== *)
theory Jobs
  imports Session Budget
begin

text \<open>
  Research jobs: the job record of \<open>app/research/models.py\<close> with its JSON form, and the
  lifecycle of \<open>app/research/jobs.py\<close> with the limits a session's policy sets on the creation of
  jobs.  The clock and the minted id are arguments; a wave id is an \<open>int\<close>, so the type checks on
  it cannot fail.
\<close>

section \<open>The job record\<close>

record job =
  jb_job_id :: string
  jb_session_id :: string
  jb_wave_id :: int
  jb_parent_job_id :: "string option"
  jb_job_type :: string
  jb_owner :: string
  jb_source_domain :: "string option"
  jb_status :: string
  jb_created_at :: instant
  jb_started_at :: "instant option"
  jb_completed_at :: "instant option"
  jb_deadline :: "pydatetime option"
  jb_last_heartbeat_at :: "instant option"
  jb_model :: "string option"
  jb_token_budget :: "int option"
  jb_tool_budget :: "int option"
  jb_child_budget :: int
  jb_result :: "(string, pyobj) dict option"
  jb_diagnostics :: "(string, pyobj) dict"
  jb_failure :: "failure option"

definition validate_job_ids :: "job \<Rightarrow> unit res" where
  "validate_job_ids j =
     bindR (checkR (jb_job_id j \<noteq> []) (ValueError ''job_id must be a non-empty string'')) (\<lambda>_.
     bindR (checkR (jb_session_id j \<noteq> []) (ValueError ''session_id must be a non-empty string'')) (\<lambda>_.
     checkR (jb_wave_id j \<ge> 1) (ValueError ''wave_id must be >= 1'')))"

definition validate_job_budgets :: "job \<Rightarrow> unit res" where
  "validate_job_budgets j =
     bindR (checkR (jb_owner j \<noteq> []) (ValueError ''owner must be a non-empty string'')) (\<lambda>_.
     bindR (checkR (jb_child_budget j \<ge> 0) (ValueError ''child_budget must be >= 0'')) (\<lambda>_.
     validate_opt_failure (jb_failure j)))"

definition validate_job :: "job \<Rightarrow> unit res" where
  "validate_job j =
     bindR (validate_job_ids j) (\<lambda>_.
     bindR (coerce_enum job_types (PStr (jb_job_type j))) (\<lambda>_.
     bindR (coerce_enum job_statuses (PStr (jb_status j))) (\<lambda>_.
     validate_job_budgets j)))"

definition datetime_obj :: "pydatetime \<Rightarrow> pyobj" where
  "datetime_obj v = PStr (datetime_text v)"

definition job_to_dict :: "job \<Rightarrow> (string, pyobj) dict res" where
  "job_to_dict j =
     bindR (case jb_result j of None \<Rightarrow> Ok PNone | Some r \<Rightarrow> json_mapping r) (\<lambda>result.
     bindR (json_mapping (jb_diagnostics j)) (\<lambda>diagnostics.
     Ok [(''job_id'', PStr (jb_job_id j)), (''session_id'', PStr (jb_session_id j)),
         (''wave_id'', PInt (jb_wave_id j)), (''parent_job_id'', opt_obj PStr (jb_parent_job_id j)),
         (''job_type'', PStr (jb_job_type j)), (''owner'', PStr (jb_owner j)),
         (''source_domain'', opt_obj PStr (jb_source_domain j)), (''status'', PStr (jb_status j)),
         (''created_at'', iso_obj (jb_created_at j)), (''started_at'', opt_obj iso_obj (jb_started_at j)),
         (''completed_at'', opt_obj iso_obj (jb_completed_at j)), (''deadline'', opt_obj datetime_obj (jb_deadline j)),
         (''last_heartbeat_at'', opt_obj iso_obj (jb_last_heartbeat_at j)), (''model'', opt_obj PStr (jb_model j)),
         (''token_budget'', opt_obj PInt (jb_token_budget j)), (''tool_budget'', opt_obj PInt (jb_tool_budget j)),
         (''child_budget'', PInt (jb_child_budget j)), (''result'', result),
         (''diagnostics'', diagnostics), (''failure'', opt_obj failure_to_dict (jb_failure j))]))"

definition parse_job_result :: "(string, pyobj) dict \<Rightarrow> (string, pyobj) dict option res" where
  "parse_job_result d = (case obj_get d ''result'' of
       PNone \<Rightarrow> Ok None | v \<Rightarrow> bindR (validate_json_mapping v) (\<lambda>r. Ok (Some r)))"

definition parse_job_children :: "(string, pyobj) dict \<Rightarrow> int res" where
  "parse_job_children d = (case dget_default d ''child_budget'' (PInt 0) of
       PInt n \<Rightarrow> Ok n | _ \<Rightarrow> Err (ValueError ''child_budget must be an int''))"

definition req_wave :: "(string, pyobj) dict \<Rightarrow> int res" where
  "req_wave d = (case obj_get d ''wave_id'' of PInt n \<Rightarrow> Ok n | _ \<Rightarrow> Err (ValueError ''wave_id must be an int''))"

definition job_from_dict :: "iso_parser \<Rightarrow> pyobj \<Rightarrow> job res" where
  "job_from_dict fromiso v = (case v of
       PDict d \<Rightarrow>
         bindR (req_str d ''job_id'') (\<lambda>jid.
         bindR (req_str d ''session_id'') (\<lambda>sid.
         bindR (req_wave d) (\<lambda>wave.
         bindR (opt_str (obj_get d ''parent_job_id'')) (\<lambda>parent.
         bindR (coerce_enum job_types (obj_get d ''job_type'')) (\<lambda>jtype.
         bindR (req_str d ''owner'') (\<lambda>owner.
         bindR (opt_str (obj_get d ''source_domain'')) (\<lambda>domain.
         bindR (coerce_enum job_statuses (dget_default d ''status'' (PStr ''queued''))) (\<lambda>status.
         bindR (req_time fromiso d ''created_at'') (\<lambda>created.
         bindR (get_time fromiso d ''started_at'') (\<lambda>started.
         bindR (get_time fromiso d ''completed_at'') (\<lambda>completed.
         bindR (get_time fromiso d ''deadline'') (\<lambda>deadline.
         bindR (get_time fromiso d ''last_heartbeat_at'') (\<lambda>heartbeat.
         bindR (opt_str (obj_get d ''model'')) (\<lambda>model.
         bindR (opt_int (obj_get d ''token_budget'')) (\<lambda>tokens.
         bindR (opt_int (obj_get d ''tool_budget'')) (\<lambda>tools.
         bindR (parse_job_children d) (\<lambda>children.
         bindR (parse_job_result d) (\<lambda>result.
         bindR (validate_json_mapping (dget_default d ''diagnostics'' (PDict []))) (\<lambda>diagnostics.
         bindR (parse_opt_failure d) (\<lambda>failure.
         (let j = \<lparr>jb_job_id = jid, jb_session_id = sid, jb_wave_id = wave, jb_parent_job_id = parent,
                jb_job_type = jtype, jb_owner = owner, jb_source_domain = domain, jb_status = status,
                jb_created_at = created, jb_started_at = started, jb_completed_at = completed,
                jb_deadline = map_option Aware deadline, jb_last_heartbeat_at = heartbeat, jb_model = model,
                jb_token_budget = tokens, jb_tool_budget = tools, jb_child_budget = children,
                jb_result = result, jb_diagnostics = diagnostics, jb_failure = failure\<rparr>
          in bindR (validate_job j) (\<lambda>_. Ok j))))))))))))))))))))))
     | _ \<Rightarrow> Err (ValueError ''job must be a mapping''))"

section \<open>Policy limits\<close>

definition active_statuses :: "string list" where
  "active_statuses = [''queued'', ''running'']"

definition committee_types :: "string list" where
  "committee_types = [''stockbot'', ''bullbot'', ''bearbot'']"

definition jobtype_section :: "(string, string) dict" where
  "jobtype_section = [(''source_agent'', ''source''), (''scout'', ''scout'')]"

definition policy_section :: "(string, pyobj) dict \<Rightarrow> string \<Rightarrow> (string, pyobj) dict res" where
  "policy_section policy name = (case dget_default policy name (PDict []) of
       PDict d \<Rightarrow> Ok d | _ \<Rightarrow> Err (ValueError ''policy section must be a mapping''))"

definition section_limit :: "(string, pyobj) dict \<Rightarrow> string \<Rightarrow> int option res" where
  "section_limit sec key = (case obj_get sec key of
       PNone \<Rightarrow> Ok None | PInt n \<Rightarrow> Ok (Some n) | _ \<Rightarrow> Err (ValueError ''policy limit must be an int''))"

definition policy_limit :: "(string, pyobj) dict \<Rightarrow> string \<Rightarrow> string \<Rightarrow> int option res" where
  "policy_limit policy name key = bindR (policy_section policy name) (\<lambda>sec. section_limit sec key)"

definition research_limit :: "(string, pyobj) dict \<Rightarrow> string \<Rightarrow> int option res" where
  "research_limit policy key = policy_limit policy ''research'' key"

definition children_allowed :: "(string, pyobj) dict \<Rightarrow> string \<Rightarrow> int option res" where
  "children_allowed policy jtype = (case dget jobtype_section jtype of
       None \<Rightarrow> Ok (Some 0) | Some name \<Rightarrow> policy_limit policy name ''max_children'')"

definition default_tool_budget :: "(string, pyobj) dict \<Rightarrow> string \<Rightarrow> int option res" where
  "default_tool_budget policy jtype = (case dget jobtype_section jtype of
       None \<Rightarrow> Ok None | Some name \<Rightarrow> policy_limit policy name ''max_tool'')"

definition job_token_budget :: "session \<Rightarrow> int option" where
  "job_token_budget s = (case obj_get (se_budget s) ''total_token_budget'' of
       PInt n \<Rightarrow> if n > 0 then Some n else None | _ \<Rightarrow> None)"

text \<open>\<open>int(raw)\<close> truncates a positive float; budgets are finite floats after validation.\<close>

definition job_deadline_seconds :: "session \<Rightarrow> int option" where
  "job_deadline_seconds s = (case obj_get (se_budget s) ''deadline_seconds'' of
       PInt n \<Rightarrow> if n > 0 then Some n else None
     | PFloat (Fin q) \<Rightarrow> if q > 0 then Some \<lfloor>q\<rfloor> else None
     | _ \<Rightarrow> None)"

definition is_active :: "job \<Rightarrow> bool" where
  "is_active j \<longleftrightarrow> jb_status j \<in> set active_statuses"

definition active_jobs :: "job list \<Rightarrow> job list" where
  "active_jobs jobs = filter is_active jobs"

definition inspect_job :: "job list \<Rightarrow> string \<Rightarrow> job res" where
  "inspect_job jobs jid = (case List.find (\<lambda>j. jb_job_id j = jid) jobs of
       None \<Rightarrow> Err (KeyError ''unknown job_id'') | Some j \<Rightarrow> Ok j)"

definition list_children :: "job list \<Rightarrow> string \<Rightarrow> job list" where
  "list_children jobs pid = filter (\<lambda>j. jb_parent_job_id j = Some pid) jobs"

definition is_committee :: "job \<Rightarrow> bool" where
  "is_committee j \<longleftrightarrow> jb_job_type j \<in> set committee_types"

definition check_ceiling :: "nat \<Rightarrow> int option \<Rightarrow> string \<Rightarrow> unit res" where
  "check_ceiling used limit message = (case limit of
       None \<Rightarrow> Ok () | Some m \<Rightarrow> checkR (int used < m) (ValueError message))"

definition check_committee :: "job list \<Rightarrow> (string, pyobj) dict \<Rightarrow> string \<Rightarrow> unit res" where
  "check_committee mine policy jtype =
     (if jtype \<notin> set committee_types then Ok ()
      else bindR (policy_limit policy ''committee'' ''max_parallel'') (\<lambda>limit.
           check_ceiling (length (filter (\<lambda>j. is_committee j \<and> is_active j) mine)) limit
             ''parallelism_exceeded: committee max_parallel reached''))"

definition session_jobs :: "session \<Rightarrow> job list \<Rightarrow> job list" where
  "session_jobs s jobs = filter (\<lambda>j. jb_session_id j = se_session_id s) jobs"

definition check_capacity :: "session \<Rightarrow> job list \<Rightarrow> string \<Rightarrow> int \<Rightarrow> job list res" where
  "check_capacity s jobs jtype wave =
     bindR (research_limit (se_policy s) ''max_waves'') (\<lambda>waves.
     bindR (checkR (\<not> (wave < 1 \<or> (case waves of None \<Rightarrow> False | Some m \<Rightarrow> wave > m)))
              (ValueError ''wave_limit_exceeded'')) (\<lambda>_.
     bindR (research_limit (se_policy s) ''max_total_jobs'') (\<lambda>total.
     bindR (check_ceiling (length (se_job_ids s)) total ''job_limit_exceeded: session max_total_jobs reached'') (\<lambda>_.
     bindR (research_limit (se_policy s) ''max_parallel'') (\<lambda>parallel.
     bindR (check_ceiling (length (active_jobs (session_jobs s jobs))) parallel
              ''parallelism_exceeded: session max_parallel reached'') (\<lambda>_.
     bindR (check_committee (session_jobs s jobs) (se_policy s) jtype) (\<lambda>_.
     Ok (session_jobs s jobs))))))))"

definition check_source_allowed :: "session \<Rightarrow> string option \<Rightarrow> unit res" where
  "check_source_allowed s domain = (case domain of
       None \<Rightarrow> Ok ()
     | Some _ \<Rightarrow> bindR (source_domain_allowed (Some (se_source_policy s)) domain)
         (\<lambda>ok. checkR ok (ValueError ''policy_denied: source_domain denied by session source_policy'')))"

definition check_parent :: "job list \<Rightarrow> (string, pyobj) dict \<Rightarrow> string option \<Rightarrow> unit res" where
  "check_parent mine policy parent = (case parent of
       None \<Rightarrow> Ok ()
     | Some pid \<Rightarrow>
         bindR (inspect_job mine pid) (\<lambda>p.
         bindR (children_allowed policy (jb_job_type p)) (\<lambda>allowed.
         check_ceiling (length (list_children mine pid)) allowed ''depth_exceeded'')))"

text \<open>
  \<open>_parse_deadline\<close> neither normalises a \<open>datetime\<close> nor the parsed text: a naive deadline
  stays naive.
\<close>

definition parse_deadline :: "iso_parser \<Rightarrow> time_arg \<Rightarrow> pydatetime option res" where
  "parse_deadline fromiso deadline = (case deadline of
       TNone \<Rightarrow> Ok None
     | TStamp v \<Rightarrow> Ok (Some v)
     | TText s \<Rightarrow> if strip s = [] then Err (ValueError ''deadline must be ISO-8601, datetime, or null'')
                  else (case fromiso (strip s) of None \<Rightarrow> Err (ValueError ''deadline must be ISO-8601'') | Some v \<Rightarrow> Ok (Some v))
     | TOther \<Rightarrow> Err (ValueError ''deadline must be ISO-8601, datetime, or null''))"

section \<open>Operations\<close>

definition build_job :: "instant \<Rightarrow> string \<Rightarrow> iso_parser \<Rightarrow> session \<Rightarrow> string \<Rightarrow> string \<Rightarrow> int \<Rightarrow> string option
    \<Rightarrow> string option \<Rightarrow> string option \<Rightarrow> int option \<Rightarrow> int option \<Rightarrow> int option \<Rightarrow> time_arg \<Rightarrow> string option
    \<Rightarrow> (session \<times> job) res" where
  "build_job now minted fromiso s jtype owner wave parent domain model tokens tools children deadline jid =
     bindR (parse_deadline fromiso deadline) (\<lambda>parsed.
     bindR (case tools of Some n \<Rightarrow> Ok (Some n) | None \<Rightarrow> default_tool_budget (se_policy s) jtype) (\<lambda>tool_budget.
     bindR (case children of Some n \<Rightarrow> Ok n
              | None \<Rightarrow> bindR (children_allowed (se_policy s) jtype) (\<lambda>c. Ok (case c of None \<Rightarrow> 0 | Some n \<Rightarrow> n))) (\<lambda>child_budget.
     (let dl = (if parsed = None \<and> jtype = ''source_agent''
                then map_option (\<lambda>secs. Aware (now + secs * second_us)) (job_deadline_seconds s) else parsed);
          j = \<lparr>jb_job_id = (case jid of Some i \<Rightarrow> if i \<noteq> [] then i else minted | None \<Rightarrow> minted),
               jb_session_id = se_session_id s, jb_wave_id = wave, jb_parent_job_id = parent, jb_job_type = jtype,
               jb_owner = owner, jb_source_domain = domain, jb_status = ''queued'', jb_created_at = now,
               jb_started_at = None, jb_completed_at = None, jb_deadline = dl, jb_last_heartbeat_at = None,
               jb_model = model, jb_token_budget = (case tokens of Some n \<Rightarrow> Some n | None \<Rightarrow> job_token_budget s),
               jb_tool_budget = tool_budget, jb_child_budget = child_budget, jb_result = None,
               jb_diagnostics = [], jb_failure = None\<rparr>
      in bindR (validate_job j) (\<lambda>_.
         (let t = s\<lparr>se_job_ids := se_job_ids s @ [jb_job_id j], se_updated_at := now\<rparr>
          in bindR (validate_session fromiso t) (\<lambda>_. Ok (t, j))))))))"

definition create_job :: "instant \<Rightarrow> string \<Rightarrow> iso_parser \<Rightarrow> session \<Rightarrow> job list \<Rightarrow> string \<Rightarrow> string \<Rightarrow> int \<Rightarrow> string option
    \<Rightarrow> string option \<Rightarrow> string option \<Rightarrow> int option \<Rightarrow> int option \<Rightarrow> int option \<Rightarrow> time_arg \<Rightarrow> string option
    \<Rightarrow> (session \<times> job) res" where
  "create_job now minted fromiso s jobs jtype owner wave parent domain model tokens tools children deadline jid =
     bindR (checkR (jtype \<in> set job_types) (ValueError ''unknown job_type'')) (\<lambda>_.
     bindR (checkR (owner \<noteq> []) (ValueError ''owner must be a non-empty string'')) (\<lambda>_.
     bindR (check_capacity s jobs jtype wave) (\<lambda>mine.
     bindR (check_parent mine (se_policy s) parent) (\<lambda>_.
     bindR (check_source_allowed s domain) (\<lambda>_.
     build_job now minted fromiso s jtype owner wave parent domain model tokens tools children deadline jid)))))"

definition start_job :: "instant \<Rightarrow> job \<Rightarrow> job res" where
  "start_job now j =
     bindR (checkR (jb_status j = ''queued'') (ValueError ''cannot start job in status'')) (\<lambda>_.
     (let k = j\<lparr>jb_status := ''running'', jb_started_at := Some now, jb_last_heartbeat_at := Some now\<rparr>
      in bindR (validate_job k) (\<lambda>_. Ok k)))"

text \<open>\<open>result or {}\<close>: no result and the empty result are the same.\<close>

definition complete_job :: "instant \<Rightarrow> job \<Rightarrow> (string, pyobj) dict option \<Rightarrow> job res" where
  "complete_job now j result =
     bindR (checkR (jb_status j = ''running'') (ValueError ''cannot complete job in status'')) (\<lambda>_.
     bindR (validate_json_mapping (PDict (case result of None \<Rightarrow> [] | Some r \<Rightarrow> r))) (\<lambda>r.
     (let k = j\<lparr>jb_status := ''completed'', jb_completed_at := Some now, jb_result := Some r\<rparr>
      in bindR (validate_job k) (\<lambda>_. Ok k))))"

definition fail_job :: "instant \<Rightarrow> job \<Rightarrow> string \<Rightarrow> string \<Rightarrow> job res" where
  "fail_job now j category message =
     bindR (checkR (is_active j) (ValueError ''cannot fail job in status'')) (\<lambda>_.
     (let f = \<lparr>fl_category = category, fl_message = message\<rparr>
      in bindR (validate_failure f) (\<lambda>_.
         (let k = j\<lparr>jb_status := ''failed'', jb_completed_at := Some now, jb_failure := Some f\<rparr>
          in bindR (validate_job k) (\<lambda>_. Ok k)))))"

definition cancel_job :: "instant \<Rightarrow> job \<Rightarrow> job res" where
  "cancel_job now j =
     bindR (checkR (is_active j) (ValueError ''cannot cancel job in status'')) (\<lambda>_.
     (let k = j\<lparr>jb_status := ''cancelled'', jb_completed_at := Some now\<rparr>
      in bindR (validate_job k) (\<lambda>_. Ok k)))"

section \<open>The job lifecycle\<close>

inductive job_step :: "job \<Rightarrow> job \<Rightarrow> bool" where
  Start: "start_job now j = Ok k \<Longrightarrow> job_step j k"
| Complete: "complete_job now j r = Ok k \<Longrightarrow> job_step j k"
| Fail: "fail_job now j c m = Ok k \<Longrightarrow> job_step j k"
| Cancel: "cancel_job now j = Ok k \<Longrightarrow> job_step j k"

inductive_cases job_stepE: "job_step j k"

definition job_rank :: "job \<Rightarrow> nat" where
  "job_rank j = (if jb_status j = ''queued'' then 2 else if jb_status j = ''running'' then 1 else 0)"

definition job_over :: "job \<Rightarrow> bool" where
  "job_over j \<longleftrightarrow> \<not> is_active j"

lemmas job_op_defs = start_job_def complete_job_def fail_job_def cancel_job_def

lemma job_step_facts:
  assumes "job_step j k"
  shows "is_active j" and "job_rank k < job_rank j" and "validate_job k = Ok ()"
    and "jb_job_id k = jb_job_id j" and "jb_session_id k = jb_session_id j" and "jb_job_type k = jb_job_type j"
    and "jb_parent_job_id k = jb_parent_job_id j" and "jb_source_domain k = jb_source_domain j"
    and "(jb_status k = ''failed'') = (jb_failure k \<noteq> None) \<or> jb_failure j \<noteq> None"
    and "jb_status k = ''completed'' \<Longrightarrow> jb_result k \<noteq> None"
    and "(jb_completed_at k = None) = is_active k \<or> jb_completed_at j \<noteq> None"
  using assms
  by (cases; auto simp: job_op_defs bindR_Ok_iff Let_def is_active_def active_statuses_def job_rank_def)+

interpretation job_life: bounded_lifecycle job_step job_over job_rank
proof
  show "\<not> job_step x y" if "job_over x" for x y
    using that job_step_facts(1) unfolding job_over_def by blast
  show "job_rank y < job_rank x" if "job_step x y" for x y
    by (rule job_step_facts(2) [OF that])
qed

lemma job_run_frame:
  "job_step\<^sup>*\<^sup>* j k \<Longrightarrow> jb_job_id k = jb_job_id j \<and> jb_session_id k = jb_session_id j
     \<and> jb_job_type k = jb_job_type j \<and> jb_source_domain k = jb_source_domain j"
  by (induction rule: rtranclp_induct) (auto dest: job_step_facts(4-8))

section \<open>A session's pool of jobs\<close>

record pool =
  po_session :: session
  po_jobs :: "job list"

text \<open>
  Any interleaving of creations and status changes.  The job a status change acts on is one of the
  pool, and its place in the list is kept.
\<close>

inductive pool_step :: "iso_parser \<Rightarrow> pool \<Rightarrow> pool \<Rightarrow> bool" for fromiso where
  Create: "create_job now minted fromiso (po_session p) (po_jobs p) jtype owner wave parent domain model tokens tools
      children deadline jid = Ok (s, j)
    \<Longrightarrow> pool_step fromiso p \<lparr>po_session = s, po_jobs = po_jobs p @ [j]\<rparr>"
| Update: "i < length (po_jobs p) \<Longrightarrow> job_step (po_jobs p ! i) k
    \<Longrightarrow> pool_step fromiso p (p\<lparr>po_jobs := (po_jobs p)[i := k]\<rparr>)"

inductive_cases pool_stepE: "pool_step fromiso p q"

definition active_count :: "pool \<Rightarrow> int" where
  "active_count p = int (length (active_jobs (session_jobs (po_session p) (po_jobs p))))"

definition limit_of :: "int option res \<Rightarrow> int option" where
  "limit_of r = (case r of Ok x \<Rightarrow> x | Err _ \<Rightarrow> None)"

text \<open>What a successful creation has checked and done.\<close>

lemma check_ceiling_Ok: "check_ceiling used limit msg = Ok u \<longleftrightarrow> (\<forall>m. limit = Some m \<longrightarrow> int used < m)"
  by (auto simp: check_ceiling_def split: option.splits)

lemma build_job_Ok:
  assumes "build_job now minted fromiso s jtype owner wave parent domain model tokens tools children deadline jid = Ok (t, j)"
  shows "t = s\<lparr>se_job_ids := se_job_ids s @ [jb_job_id j], se_updated_at := now\<rparr>"
    and "validate_job j = Ok ()" and "validate_session fromiso t = Ok ()"
    and "jb_status j = ''queued''" and "jb_session_id j = se_session_id s" and "jb_job_type j = jtype"
    and "jb_wave_id j = wave" and "jb_parent_job_id j = parent" and "jb_source_domain j = domain"
    and "jb_deadline j = None \<longrightarrow> jtype \<noteq> ''source_agent'' \<or> job_deadline_seconds s = None"
  using assms by (auto simp: build_job_def bindR_Ok_iff Let_def split: if_splits)

lemma create_job_Ok:
  assumes "create_job now minted fromiso s jobs jtype owner wave parent domain model tokens tools children deadline jid = Ok (t, j)"
  shows "build_job now minted fromiso s jtype owner wave parent domain model tokens tools children deadline jid = Ok (t, j)"
    and "jtype \<in> set job_types"
    and "check_capacity s jobs jtype wave = Ok (session_jobs s jobs)"
    and "check_parent (session_jobs s jobs) (se_policy s) parent = Ok ()"
    and "check_source_allowed s domain = Ok ()"
  using assms by (auto simp: create_job_def check_capacity_def bindR_Ok_iff)

lemma check_capacity_Ok:
  assumes "check_capacity s jobs jtype wave = Ok mine"
  obtains waves total parallel where "research_limit (se_policy s) ''max_waves'' = Ok waves"
    and "1 \<le> wave" and "\<forall>m. waves = Some m \<longrightarrow> wave \<le> m"
    and "research_limit (se_policy s) ''max_total_jobs'' = Ok total"
    and "\<forall>m. total = Some m \<longrightarrow> int (length (se_job_ids s)) < m"
    and "research_limit (se_policy s) ''max_parallel'' = Ok parallel"
    and "\<forall>m. parallel = Some m \<longrightarrow> int (length (active_jobs (session_jobs s jobs))) < m"
    and "check_committee (session_jobs s jobs) (se_policy s) jtype = Ok ()"
proof -
  from assms obtain waves total parallel and u :: unit where "research_limit (se_policy s) ''max_waves'' = Ok waves"
    and w: "\<not> (wave < 1 \<or> (case waves of None \<Rightarrow> False | Some m \<Rightarrow> wave > m))"
    and "research_limit (se_policy s) ''max_total_jobs'' = Ok total"
    and "\<forall>m. total = Some m \<longrightarrow> int (length (se_job_ids s)) < m"
    and "research_limit (se_policy s) ''max_parallel'' = Ok parallel"
    and "\<forall>m. parallel = Some m \<longrightarrow> int (length (active_jobs (session_jobs s jobs))) < m"
    and "check_committee (session_jobs s jobs) (se_policy s) jtype = Ok u"
    unfolding check_capacity_def bindR_Ok_iff check_ceiling_Ok checkR_Ok_iff by blast
  moreover from w have "1 \<le> wave" "\<forall>m. waves = Some m \<longrightarrow> wave \<le> m" by auto
  ultimately show thesis by (intro that) simp_all
qed

lemma queued_active [simp]: "jb_status j = ''queued'' \<Longrightarrow> is_active j"
  by (simp add: is_active_def active_statuses_def)

lemma session_jobs_snoc:
  "jb_session_id j = se_session_id s \<Longrightarrow> session_jobs s (jobs @ [j]) = session_jobs s jobs @ [j]"
  by (simp add: session_jobs_def)

lemma session_jobs_frame [simp]: "session_jobs (s\<lparr>se_job_ids := x, se_updated_at := y\<rparr>) = session_jobs s"
  by (simp add: session_jobs_def fun_eq_iff)

text \<open>A status change never adds an active job.\<close>

lemma update_active:
  assumes "i < length js" and "job_step (js ! i) k"
  shows "length (active_jobs (session_jobs s (js[i := k]))) \<le> length (active_jobs (session_jobs s js))"
proof -
  have split: "js = take i js @ js ! i # drop (Suc i) js" using assms(1) by (rule id_take_nth_drop)
  have upd: "js[i := k] = take i js @ k # drop (Suc i) js" using assms(1) by (rule upd_conv_take_nth_drop)
  have "jb_session_id k = jb_session_id (js ! i)" "is_active (js ! i)"
    using job_step_facts(1,5) [OF assms(2)] by simp_all
  then show ?thesis unfolding upd by (subst (2) split) (simp add: session_jobs_def active_jobs_def)
qed

lemma pool_step_policy: "pool_step fromiso p q \<Longrightarrow> se_policy (po_session q) = se_policy (po_session p)"
  by (elim pool_stepE) (auto dest!: create_job_Ok(1) build_job_Ok(1))

interpretation parallel_meter: metered active_count
  "\<lambda>p. granted_ceiling (limit_of (research_limit (se_policy (po_session p)) ''max_parallel''))" "pool_step fromiso" for fromiso
proof
  fix p q :: pool and m
  assume step: "pool_step fromiso p q"
  then show "granted_ceiling (limit_of (research_limit (se_policy (po_session q)) ''max_parallel''))
      = granted_ceiling (limit_of (research_limit (se_policy (po_session p)) ''max_parallel''))"
    by (simp add: pool_step_policy)
  assume ceiling: "granted_ceiling (limit_of (research_limit (se_policy (po_session p)) ''max_parallel'')) = Some m"
    and used: "active_count p \<le> m"
  from step show "active_count q \<le> m"
  proof (cases rule: pool_step.cases)
    case (Create now minted jtype owner wave parent domain model tokens tools children deadline jid s j)
    note ok = create_job_Ok [OF Create(2)]
    note built = build_job_Ok [OF ok(1)]
    from check_capacity_Ok [OF ok(3)] obtain parallel
      where "research_limit (se_policy (po_session p)) ''max_parallel'' = Ok parallel"
        "\<forall>m. parallel = Some m \<longrightarrow> int (length (active_jobs (session_jobs (po_session p) (po_jobs p)))) < m" by metis
    with ceiling have "active_count p < m"
      by (auto simp: active_count_def granted_ceiling_def limit_of_def)
    moreover have "active_count q = active_count p + 1"
      using Create(1) built by (simp add: active_count_def session_jobs_snoc active_jobs_def)
    ultimately show ?thesis by simp
  next
    case (Update i k)
    with used update_active [OF Update(2,3), of "po_session p"] show ?thesis by (simp add: active_count_def)
  qed
qed

interpretation total_meter: metered "\<lambda>p. int (length (se_job_ids (po_session p)))"
  "\<lambda>p. granted_ceiling (limit_of (research_limit (se_policy (po_session p)) ''max_total_jobs''))" "pool_step fromiso" for fromiso
proof
  fix p q :: pool and m
  assume step: "pool_step fromiso p q"
  then show "granted_ceiling (limit_of (research_limit (se_policy (po_session q)) ''max_total_jobs''))
      = granted_ceiling (limit_of (research_limit (se_policy (po_session p)) ''max_total_jobs''))"
    by (simp add: pool_step_policy)
  assume ceiling: "granted_ceiling (limit_of (research_limit (se_policy (po_session p)) ''max_total_jobs'')) = Some m"
    and used: "int (length (se_job_ids (po_session p))) \<le> m"
  from step show "int (length (se_job_ids (po_session q))) \<le> m"
  proof (cases rule: pool_step.cases)
    case (Create now minted jtype owner wave parent domain model tokens tools children deadline jid s j)
    note ok = create_job_Ok [OF Create(2)]
    from check_capacity_Ok [OF ok(3)] obtain total
      where "research_limit (se_policy (po_session p)) ''max_total_jobs'' = Ok total"
        "\<forall>m. total = Some m \<longrightarrow> int (length (se_job_ids (po_session p))) < m" by metis
    with ceiling Create(1) build_job_Ok(1) [OF ok(1)] show ?thesis
      by (auto simp: granted_ceiling_def limit_of_def)
  qed (use used in simp)
qed

section \<open>Properties\<close>

text \<open>
  C34.  A job changes status at most twice and a finished job never changes again; whatever happens to
  it, its id, session, type and source domain stay, and every state it reaches is a valid record.
\<close>

theorem job_lifecycle_bounded:
  assumes "(job_step ^^ n) j k" and "validate_job j = Ok ()"
  shows "n \<le> 2 \<and> (\<not> is_active j \<longrightarrow> k = j) \<and> validate_job k = Ok ()
    \<and> jb_job_id k = jb_job_id j \<and> jb_session_id k = jb_session_id j
    \<and> jb_job_type k = jb_job_type j \<and> jb_source_domain k = jb_source_domain j"
proof -
  have run: "job_step\<^sup>*\<^sup>* j k" using assms(1) by (rule relpowp_imp_rtranclp)
  have "n \<le> job_rank j" by (rule job_life.run_bounded [OF assms(1)])
  also have "\<dots> \<le> 2" by (simp add: job_rank_def)
  finally have "n \<le> 2" .
  moreover have "k = j" if "\<not> is_active j"
    using job_life.terminal_absorbing [OF run] that by (simp add: job_over_def)
  moreover from run assms(2) have "validate_job k = Ok ()"
    by (induction rule: rtranclp_induct) (auto dest: job_step_facts(3))
  ultimately show ?thesis using job_run_frame [OF run] by blast
qed

definition demo_job :: job where
  "demo_job = \<lparr>jb_job_id = ''job:1'', jb_session_id = ''rs:1'', jb_wave_id = 1, jb_parent_job_id = None,
     jb_job_type = ''source_agent'', jb_owner = ''kernel'', jb_source_domain = Some ''SEC'', jb_status = ''queued'',
     jb_created_at = 0, jb_started_at = None, jb_completed_at = None, jb_deadline = None, jb_last_heartbeat_at = None,
     jb_model = None, jb_token_budget = None, jb_tool_budget = None, jb_child_budget = 0, jb_result = None,
     jb_diagnostics = [], jb_failure = None\<rparr>"

lemma demo_job_valid: "validate_job demo_job = Ok ()"
  by code_simp

theorem job_lifecycle_bounded_witness:
  "\<exists>k. job_step demo_job k \<and> validate_job k = Ok () \<and> jb_job_id k = ''job:1''"
proof -
  have "is_ok (cancel_job 0 demo_job)" by code_simp
  then obtain k where "cancel_job 0 demo_job = Ok k" by (auto simp: is_ok_iff)
  then have "(job_step ^^ 1) demo_job k" unfolding relpowp_1 by (rule job_step.Cancel)
  with job_lifecycle_bounded [OF this demo_job_valid] show ?thesis unfolding relpowp_1 by (auto simp: demo_job_def)
qed

text \<open>
  C18.  A created job is within every limit the session's policy sets: the wave, the total number of
  jobs, the active jobs of the session and the committee, and the children of its parent, each counted
  with the new job; its source domain is allowed by the session; it is a valid queued job whose id is
  the last of the session's.
\<close>

theorem create_job_within_limits:
  assumes "create_job now minted fromiso s jobs jtype owner wave parent domain model tokens tools children deadline jid = Ok (t, j)"
  shows "validate_job j = Ok () \<and> jb_status j = ''queued'' \<and> se_job_ids t = se_job_ids s @ [jb_job_id j]
    \<and> 1 \<le> wave \<and> (limit_of (research_limit (se_policy s) ''max_waves'') = Some m \<longrightarrow> wave \<le> m)
    \<and> (limit_of (research_limit (se_policy s) ''max_total_jobs'') = Some m \<longrightarrow> int (length (se_job_ids t)) \<le> m)
    \<and> (limit_of (research_limit (se_policy s) ''max_parallel'') = Some m
        \<longrightarrow> int (length (active_jobs (session_jobs t (jobs @ [j])))) \<le> m)
    \<and> (is_committee j \<longrightarrow> limit_of (policy_limit (se_policy s) ''committee'' ''max_parallel'') = Some m
        \<longrightarrow> int (length (filter (\<lambda>k. is_committee k \<and> is_active k) (session_jobs t (jobs @ [j])))) \<le> m)
    \<and> (parent = Some pid \<longrightarrow> (\<exists>p. inspect_job (session_jobs s jobs) pid = Ok p
        \<and> (limit_of (children_allowed (se_policy s) (jb_job_type p)) = Some m
            \<longrightarrow> int (length (list_children (session_jobs t (jobs @ [j])) pid)) \<le> m)))
    \<and> (domain \<noteq> None \<longrightarrow> source_domain_allowed (Some (se_source_policy s)) domain = Ok True)"
proof -
  note ok = create_job_Ok [OF assms]
  note built = build_job_Ok [OF ok(1)]
  obtain waves total parallel where
      limits: "research_limit (se_policy s) ''max_waves'' = Ok waves" "1 \<le> wave" "\<forall>m. waves = Some m \<longrightarrow> wave \<le> m"
      "research_limit (se_policy s) ''max_total_jobs'' = Ok total" "\<forall>m. total = Some m \<longrightarrow> int (length (se_job_ids s)) < m"
      "research_limit (se_policy s) ''max_parallel'' = Ok parallel"
      "\<forall>m. parallel = Some m \<longrightarrow> int (length (active_jobs (session_jobs s jobs))) < m"
    and committee: "check_committee (session_jobs s jobs) (se_policy s) jtype = Ok ()"
    by (rule check_capacity_Ok [OF ok(3)])
  have sj: "session_jobs t (jobs @ [j]) = session_jobs s jobs @ [j]" using built(1,5) by (simp add: session_jobs_snoc)
  have com: "int (length (filter (\<lambda>k. is_committee k \<and> is_active k) (session_jobs t (jobs @ [j])))) \<le> m"
    if "is_committee j" "limit_of (policy_limit (se_policy s) ''committee'' ''max_parallel'') = Some m"
    using committee that built unfolding sj
    by (cases "policy_limit (se_policy s) ''committee'' ''max_parallel''")
      (auto simp: check_committee_def check_ceiling_Ok limit_of_def is_committee_def)
  have kids: "\<exists>p. inspect_job (session_jobs s jobs) pid = Ok p
      \<and> (limit_of (children_allowed (se_policy s) (jb_job_type p)) = Some m
          \<longrightarrow> int (length (list_children (session_jobs t (jobs @ [j])) pid)) \<le> m)" if "parent = Some pid"
    using ok(4) that built(8) unfolding sj
    by (auto simp: check_parent_def bindR_Ok_iff check_ceiling_Ok limit_of_def list_children_def)
  have dom: "source_domain_allowed (Some (se_source_policy s)) domain = Ok True" if "domain \<noteq> None"
    using ok(5) that by (auto simp: check_source_allowed_def bindR_Ok_iff)
  have par: "int (length (active_jobs (session_jobs t (jobs @ [j])))) \<le> m"
    if "limit_of (research_limit (se_policy s) ''max_parallel'') = Some m"
    using limits(6,7) that built(4) unfolding sj by (simp add: limit_of_def active_jobs_def)
  have tot: "int (length (se_job_ids t)) \<le> m" if "limit_of (research_limit (se_policy s) ''max_total_jobs'') = Some m"
    using limits(4,5) that built(1) by (simp add: limit_of_def)
  have wav: "wave \<le> m" if "limit_of (research_limit (se_policy s) ''max_waves'') = Some m"
    using limits(1,3) that by (simp add: limit_of_def)
  have ids: "se_job_ids t = se_job_ids s @ [jb_job_id j]" using built(1) by simp
  show ?thesis using built(2,4) ids limits(2) wav tot par com kids dom by blast
qed

theorem create_job_within_limits_witness:
  "\<exists>t j. create_job 0 ''job:1'' demo_iso demo_session [] ''source_agent'' ''kernel'' 1 None (Some ''sec'') None None None None TNone None = Ok (t, j)
     \<and> int (length (active_jobs (session_jobs t [j]))) \<le> 6"
proof -
  have "is_ok (create_job 0 ''job:1'' demo_iso demo_session [] ''source_agent'' ''kernel'' 1 None (Some ''sec'') None None None None TNone None)"
    "limit_of (research_limit (se_policy demo_session) ''max_parallel'') = Some 6"
    by code_simp+
  then obtain t j where "create_job 0 ''job:1'' demo_iso demo_session [] ''source_agent'' ''kernel'' 1 None (Some ''sec'') None None None None TNone None = Ok (t, j)"
    by (auto simp: is_ok_iff)
  with create_job_within_limits [OF this, of 6] \<open>limit_of _ = _\<close> show ?thesis by auto
qed

text \<open>
  C24.  Under every interleaving of job creations and status changes in a session that starts without
  jobs, the active jobs never exceed the parallel limit of the policy and the jobs ever created never
  exceed the total limit.
\<close>

theorem pool_within_limits:
  assumes "(pool_step fromiso)\<^sup>*\<^sup>* \<lparr>po_session = s, po_jobs = []\<rparr> p" and "se_job_ids s = []"
  shows "(limit_of (research_limit (se_policy s) ''max_parallel'') = Some m \<longrightarrow> active_count p \<le> max 0 m)
    \<and> (limit_of (research_limit (se_policy s) ''max_total_jobs'') = Some m
        \<longrightarrow> int (length (se_job_ids (po_session p))) \<le> max 0 m)"
proof -
  have "active_count \<lparr>po_session = s, po_jobs = []\<rparr> = 0"
    by (simp add: active_count_def active_jobs_def session_jobs_def)
  with parallel_meter.run_within [OF assms(1), of "max 0 m"] total_meter.run_within [OF assms(1), of "max 0 m"] assms(2)
  show ?thesis by (auto simp: granted_ceiling_def)
qed

theorem pool_within_limits_witness:
  "\<exists>p. pool_step demo_iso \<lparr>po_session = demo_session, po_jobs = []\<rparr> p \<and> active_count p \<le> 6"
proof -
  let ?p = "\<lparr>po_session = demo_session, po_jobs = []\<rparr>"
  have "is_ok (create_job 0 ''job:1'' demo_iso (po_session ?p) (po_jobs ?p) ''scout'' ''kernel'' 1 None None None None None None TNone None)"
    and lim: "limit_of (research_limit (se_policy demo_session) ''max_parallel'') = Some 6" "se_job_ids demo_session = []"
    by code_simp+
  then obtain t j where "create_job 0 ''job:1'' demo_iso (po_session ?p) (po_jobs ?p) ''scout'' ''kernel'' 1 None None None None None None TNone None = Ok (t, j)"
    by (auto simp: is_ok_iff)
  from pool_step.Create [OF this] obtain p where step: "pool_step demo_iso ?p p" by blast
  then have "(pool_step demo_iso)\<^sup>*\<^sup>* ?p p" by (rule r_into_rtranclp)
  from pool_within_limits [OF this lim(2), of 6] lim(1) step show ?thesis by auto
qed

section \<open>Round trip\<close>

lemma job_eta:
  "\<lparr>jb_job_id = jb_job_id j, jb_session_id = jb_session_id j, jb_wave_id = jb_wave_id j,
     jb_parent_job_id = jb_parent_job_id j, jb_job_type = jb_job_type j, jb_owner = jb_owner j,
     jb_source_domain = jb_source_domain j, jb_status = jb_status j, jb_created_at = jb_created_at j,
     jb_started_at = jb_started_at j, jb_completed_at = jb_completed_at j,
     jb_deadline = jb_deadline j, jb_last_heartbeat_at = jb_last_heartbeat_at j,
     jb_model = jb_model j, jb_token_budget = jb_token_budget j, jb_tool_budget = jb_tool_budget j,
     jb_child_budget = jb_child_budget j, jb_result = jb_result j, jb_diagnostics = jb_diagnostics j,
     jb_failure = jb_failure j\<rparr> = j"
  by simp

text \<open>
  A valid job with a deadline in UTC survives the JSON form, with its budgets, its result, its
  failure and all of its timestamps.
\<close>

theorem job_roundtrip:
  assumes "validate_job j = Ok ()" and "job_to_dict j = Ok d" and "jb_deadline j = map_option Aware deadline"
    and "reads_back fromiso (jb_created_at j # opt_times (jb_started_at j) @ opt_times (jb_completed_at j)
      @ opt_times deadline @ opt_times (jb_last_heartbeat_at j))"
  shows "job_from_dict fromiso (PDict d) = Ok j"
proof -
  have valid: "jb_job_id j \<noteq> []" "jb_session_id j \<noteq> []" "jb_owner j \<noteq> []" "jb_job_type j \<in> set job_types"
    "jb_status j \<in> set job_statuses" "validate_opt_failure (jb_failure j) = Ok ()"
    using assms(1) by (auto simp: validate_job_def validate_job_ids_def validate_job_budgets_def bindR_Ok_iff
        coerce_enum_def split: if_splits)
  from assms(4) have times: "reads_time fromiso (jb_created_at j)" "reads_back fromiso (opt_times (jb_started_at j))"
    "reads_back fromiso (opt_times (jb_completed_at j))" "reads_back fromiso (opt_times deadline)"
    "reads_back fromiso (opt_times (jb_last_heartbeat_at j))" by (simp_all add: reads_back_def)
  have dl: "opt_obj datetime_obj (jb_deadline j) = opt_obj iso_obj deadline"
    unfolding assms(3) by (cases deadline) (simp_all add: opt_obj_def datetime_obj_def datetime_text_def iso_obj_def)
  from assms(2) have finite: "\<forall>r. jb_result j = Some r \<longrightarrow> finite_json (PDict r)" "finite_json (PDict (jb_diagnostics j))"
    and d: "d = [(''job_id'', PStr (jb_job_id j)), (''session_id'', PStr (jb_session_id j)),
         (''wave_id'', PInt (jb_wave_id j)), (''parent_job_id'', opt_obj PStr (jb_parent_job_id j)),
         (''job_type'', PStr (jb_job_type j)), (''owner'', PStr (jb_owner j)),
         (''source_domain'', opt_obj PStr (jb_source_domain j)), (''status'', PStr (jb_status j)),
         (''created_at'', iso_obj (jb_created_at j)), (''started_at'', opt_obj iso_obj (jb_started_at j)),
         (''completed_at'', opt_obj iso_obj (jb_completed_at j)), (''deadline'', opt_obj iso_obj deadline),
         (''last_heartbeat_at'', opt_obj iso_obj (jb_last_heartbeat_at j)), (''model'', opt_obj PStr (jb_model j)),
         (''token_budget'', opt_obj PInt (jb_token_budget j)), (''tool_budget'', opt_obj PInt (jb_tool_budget j)),
         (''child_budget'', PInt (jb_child_budget j)), (''result'', opt_obj PDict (jb_result j)),
         (''diagnostics'', PDict (jb_diagnostics j)), (''failure'', opt_obj failure_to_dict (jb_failure j))]"
    unfolding job_to_dict_def dl by (auto simp: bindR_Ok_iff json_mapping_iff opt_json_iff)
  have strs: "req_str d ''job_id'' = Ok (jb_job_id j)" "req_str d ''session_id'' = Ok (jb_session_id j)"
    "req_str d ''owner'' = Ok (jb_owner j)" "coerce_enum job_types (obj_get d ''job_type'') = Ok (jb_job_type j)"
    "coerce_enum job_statuses (dget_default d ''status'' (PStr ''queued'')) = Ok (jb_status j)"
    "req_wave d = Ok (jb_wave_id j)" "parse_job_children d = Ok (jb_child_budget j)"
    using valid unfolding d by (simp_all add: reader_defs req_wave_def parse_job_children_def)
  have instants: "req_time fromiso d ''created_at'' = Ok (jb_created_at j)"
    "get_time fromiso d ''started_at'' = Ok (jb_started_at j)" "get_time fromiso d ''completed_at'' = Ok (jb_completed_at j)"
    "get_time fromiso d ''deadline'' = Ok deadline" "get_time fromiso d ''last_heartbeat_at'' = Ok (jb_last_heartbeat_at j)"
    using time_back(1) [OF times(1)] times(2-5) [THEN time_back(2)] unfolding d
    by (simp_all add: req_time_def get_time_def obj_get_def dget_default_def iso_obj_def)
  have opts: "opt_str (obj_get d ''parent_job_id'') = Ok (jb_parent_job_id j)"
    "opt_str (obj_get d ''source_domain'') = Ok (jb_source_domain j)" "opt_str (obj_get d ''model'') = Ok (jb_model j)"
    "opt_int (obj_get d ''token_budget'') = Ok (jb_token_budget j)" "opt_int (obj_get d ''tool_budget'') = Ok (jb_tool_budget j)"
    unfolding d by (simp_all add: opt_str_def opt_int_def obj_get_def dget_default_def opt_obj_def split: option.splits)
  have payloads: "parse_job_result d = Ok (jb_result j)"
    "validate_json_mapping (dget_default d ''diagnostics'' (PDict [])) = Ok (jb_diagnostics j)"
    using finite unfolding d
    by (auto simp: dget_default_def obj_get_def parse_job_result_def opt_obj_def bindR_Ok_iff validate_json_mapping_iff
        split: option.splits)
  have "parse_opt_failure d = Ok (jb_failure j)"
    by (rule opt_failure_back [OF valid(6)]) (simp add: d obj_get_def dget_default_def)
  then show ?thesis
    by (simp add: job_from_dict_def strs instants opts payloads assms(3) [symmetric] job_eta assms(1) Let_def)
qed

theorem job_roundtrip_witness:
  "\<exists>d. job_to_dict demo_job = Ok d \<and> job_from_dict demo_iso (PDict d) = Ok demo_job"
proof -
  have to: "is_ok (job_to_dict demo_job)" "jb_deadline demo_job = map_option Aware None"
    "reads_back demo_iso (jb_created_at demo_job # opt_times (jb_started_at demo_job) @ opt_times (jb_completed_at demo_job)
      @ opt_times None @ opt_times (jb_last_heartbeat_at demo_job))"
    by code_simp+
  then obtain d where "job_to_dict demo_job = Ok d" by (auto simp: is_ok_iff)
  with job_roundtrip [OF demo_job_valid this to(2,3)] show ?thesis by blast
qed

end
