(* ===== verification/Evidence.thy ===== *)
theory Evidence
  imports Kernel Interfaces
begin

text \<open>
  Research evidence (\<open>app/research/evidence.py\<close>): the source references, the validated
  record, the append-only ledger with its correction chains, the ingest gate and the JSON form.
  \<open>H\<close> is SHA-256 in hexadecimal and nothing is assumed of it.  Timestamps are instants in UTC, as
  the readers make them.
\<close>

section \<open>Vocabularies\<close>

definition record_kinds :: "string list" where
  "record_kinds = [''discovery'', ''evidence'']"

definition claim_kinds :: "string list" where
  "claim_kinds = [''observed_fact'']"

definition provenance_kinds :: "string list" where
  "provenance_kinds = [''sec_source'', ''search_run'', ''none'']"

definition basis_kinds :: "string list" where
  "basis_kinds = [''raw'', ''rendered'']"

section \<open>Source references\<close>

definition strip_of :: "pyobj \<Rightarrow> string" where
  "strip_of v = (case v of PStr s \<Rightarrow> strip s | _ \<Rightarrow> [])"

definition is_accession :: "string \<Rightarrow> bool" where
  "is_accession s \<longleftrightarrow> length s = 20 \<and> s ! 10 = CHR ''-'' \<and> s ! 13 = CHR ''-''
     \<and> list_all is_digit_char (take 10 s) \<and> list_all is_digit_char (take 2 (drop 11 s))
     \<and> list_all is_digit_char (drop 14 s)"

definition normalize_accession :: "pyobj \<Rightarrow> string res" where
  "normalize_accession v =
     (let s = strip_of v;
          t = (if s \<noteq> [] \<and> list_all is_digit_char s \<and> length s = 18
               then take 10 s @ ''-'' @ take 2 (drop 10 s) @ ''-'' @ drop 12 s else s)
      in if is_accession t then Ok t else Err (ValueError ''invalid accession number''))"

definition canonical_offset :: "pyobj \<Rightarrow> int res" where
  "canonical_offset v = (case v of
       PInt n \<Rightarrow> if n < 0 then Err (ValueError ''must be an int >= 0'') else Ok n
     | _ \<Rightarrow> Err (ValueError ''must be an int >= 0''))"

definition canonical_hash :: "pyobj \<Rightarrow> string res" where
  "canonical_hash v =
     (let s = strip_of v
      in if length s \<noteq> 64 \<or> \<not> list_all (\<lambda>c. c \<in> set ''0123456789abcdef'') s
         then Err (ValueError ''text_hash must be a sha256 hex digest'') else Ok s)"

definition ref_texts :: "pyobj \<Rightarrow> pyobj \<Rightarrow> (string \<times> string) res" where
  "ref_texts document passage =
     (if strip_of document = [] \<or> strip_of passage = []
      then Err (ValueError ''document_name and passage must be non-empty strings'')
      else Ok (strip_of document, strip_of passage))"

definition ref_window :: "pyobj \<Rightarrow> pyobj \<Rightarrow> (int \<times> int) res" where
  "ref_window offset stop =
     bindR (canonical_offset offset) (\<lambda>a.
     bindR (canonical_offset stop) (\<lambda>b.
     if b \<le> a then Err (ValueError ''end must be greater than offset'') else Ok (a, b)))"

definition sec_source_ref :: "pyobj \<Rightarrow> pyobj \<Rightarrow> pyobj \<Rightarrow> pyobj \<Rightarrow> pyobj \<Rightarrow> pyobj \<Rightarrow> pyobj \<Rightarrow> pyobj \<Rightarrow> (string, pyobj) dict res" where
  "sec_source_ref accession document passage uri offset stop basis text_hash =
     bindR (ref_texts document passage) (\<lambda>(doc, quoted).
     bindR (checkR (in_vocab basis basis_kinds) (ValueError ''basis must be one of'')) (\<lambda>_.
     bindR (ref_window offset stop) (\<lambda>(a, b).
     bindR (normalize_accession accession) (\<lambda>acc.
     bindR (canonical_hash text_hash) (\<lambda>h.
     Ok [(''kind'', PStr ''sec_source''), (''accession_no'', PStr acc), (''document_name'', PStr doc),
         (''passage'', PStr quoted), (''offset'', PInt a), (''end'', PInt b), (''basis'', basis),
         (''text_hash'', PStr h), (''source_uri'', if strip_of uri \<noteq> [] then PStr (strip_of uri) else PNone)])))))"

definition search_run_ref :: "pyobj \<Rightarrow> pyobj \<Rightarrow> (string, pyobj) dict res" where
  "search_run_ref search_id query =
     (if strip_of search_id = [] \<or> strip_of query = []
      then Err (ValueError ''search_id and query must be non-empty strings'')
      else Ok [(''kind'', PStr ''search_run''), (''search_id'', PStr (strip_of search_id)), (''query'', PStr (strip_of query))])"

definition provenance_str :: "(string, pyobj) dict \<Rightarrow> string \<Rightarrow> string res" where
  "provenance_str prov key = (case obj_get prov key of
       PStr s \<Rightarrow> if strip s \<noteq> [] then Ok s else Err (EvidenceIntegrityError ''provenance must be a non-empty string'')
     | _ \<Rightarrow> Err (EvidenceIntegrityError ''provenance must be a non-empty string''))"

definition uncanonical_sec_source_ref :: "(string, pyobj) dict \<Rightarrow> (string, pyobj) dict res" where
  "uncanonical_sec_source_ref d =
     bindR (normalize_accession (obj_get d ''accession_no'')) (\<lambda>acc.
     bindR (provenance_str d ''document_name'') (\<lambda>doc.
     bindR (provenance_str d ''passage'') (\<lambda>passage.
     Ok [(''kind'', PStr ''sec_source''), (''accession_no'', PStr acc), (''document_name'', PStr doc),
         (''passage'', PStr passage),
         (''source_uri'', if is_str (obj_get d ''source_uri'') then obj_get d ''source_uri'' else PNone)])))"

text \<open>\<open>except ValueError\<close>: \<open>EvidenceIntegrityError\<close> is a subclass, and the new one carries the message.\<close>

definition as_integrity_error :: "'a res \<Rightarrow> 'a res" where
  "as_integrity_error r = (case r of
       Err (ValueError m) \<Rightarrow> Err (EvidenceIntegrityError m)
     | _ \<Rightarrow> r)"

definition sec_source_provenance :: "(string, pyobj) dict \<Rightarrow> (string, pyobj) dict res" where
  "sec_source_provenance d =
     (if dget d ''text_hash'' \<noteq> None \<or> dget d ''offset'' \<noteq> None \<or> dget d ''basis'' \<noteq> None
      then as_integrity_error
        (bindR (provenance_str d ''document_name'') (\<lambda>doc.
         bindR (provenance_str d ''passage'') (\<lambda>passage.
         sec_source_ref (obj_get d ''accession_no'') (PStr doc) (PStr passage) (obj_get d ''source_uri'')
           (obj_get d ''offset'') (obj_get d ''end'') (obj_get d ''basis'') (obj_get d ''text_hash''))))
      else as_integrity_error (uncanonical_sec_source_ref d))"

definition validate_provenance :: "pyobj \<Rightarrow> (string, pyobj) dict res" where
  "validate_provenance v = (case v of
       PDict d \<Rightarrow>
         if d = [] then Ok []
         else (let kind = obj_get d ''kind''
           in if \<not> in_vocab kind provenance_kinds then Err (EvidenceIntegrityError ''kind must be one of'')
              else if kind = PStr ''none'' then Ok [(''kind'', PStr ''none'')]
              else if kind = PStr ''search_run''
                then bindR (provenance_str d ''search_id'') (\<lambda>sid.
                     bindR (provenance_str d ''query'') (\<lambda>q. search_run_ref (PStr sid) (PStr q)))
              else sec_source_provenance d)
     | _ \<Rightarrow> Err (EvidenceIntegrityError ''must be an object''))"

section \<open>The record\<close>

record evidence =
  ev_evidence_id :: string
  ev_session_id :: string
  ev_wave_id :: int
  ev_source_type :: string
  ev_source_name :: string
  ev_subject :: string
  ev_claim_text :: string
  ev_content :: string
  ev_content_hash :: string
  ev_retrieved_at :: instant
  ev_source_uri :: "string option"
  ev_source_record_id :: "string option"
  ev_published_at :: "instant option"
  ev_known_at :: "instant option"
  ev_effective_at :: "instant option"
  ev_job_id :: "string option"
  ev_agent_id :: "string option"
  ev_supports :: "string list"
  ev_contradicts :: "string list"
  ev_confidence :: "decimal option"
  ev_quality :: "string option"
  ev_metadata :: "(string, pyobj) dict"
  ev_superseded_by :: "string option"
  ev_record_kind :: string
  ev_claim_kind :: string
  ev_provenance :: "(string, pyobj) dict"

definition evidence_content_hash :: "(string \<Rightarrow> string) \<Rightarrow> string \<Rightarrow> string" where
  "evidence_content_hash H content = H content"

text \<open>\<open>0.0 <= confidence <= 1.0\<close> is false for a NaN.\<close>

definition confidence_ok :: "decimal option \<Rightarrow> bool" where
  "confidence_ok c = (case c of None \<Rightarrow> True | Some (Fin q) \<Rightarrow> 0 \<le> q \<and> q \<le> 1 | Some _ \<Rightarrow> False)"

text \<open>The constructor: the checks of \<open>__post_init__\<close> in order, then the canonical provenance.\<close>

definition evidence_post_init :: "(string \<Rightarrow> string) \<Rightarrow> evidence \<Rightarrow> evidence res" where
  "evidence_post_init H e =
     bindR (checkR (ev_record_kind e \<in> set record_kinds) (EvidenceIntegrityError ''record_kind must be discovery|evidence'')) (\<lambda>_.
     bindR (checkR (ev_claim_kind e \<in> set claim_kinds) (EvidenceIntegrityError ''claim_kind must be one of'')) (\<lambda>_.
     bindR (checkR (ev_wave_id e \<ge> 1) (EvidenceIntegrityError ''wave_id must be an int >= 1'')) (\<lambda>_.
     bindR (checkR (evidence_content_hash H (ev_content e) = ev_content_hash e) (EvidenceIntegrityError ''content_hash mismatch'')) (\<lambda>_.
     bindR (checkR (confidence_ok (ev_confidence e)) (EvidenceIntegrityError ''confidence must be within 0..1'')) (\<lambda>_.
     bindR (validate_provenance (PDict (ev_provenance e))) (\<lambda>p.
     Ok (e\<lparr>ev_provenance := p\<rparr>)))))))"

section \<open>The ledger\<close>

type_synonym ledger = "(string, evidence) dict"

definition ledger_append :: "ledger \<Rightarrow> evidence \<Rightarrow> ledger res" where
  "ledger_append l e =
     (if dget l (ev_evidence_id e) \<noteq> None then Err (EvidenceIntegrityError ''duplicate evidence_id'')
      else case ev_superseded_by e of
          Some prior \<Rightarrow> if dget l prior = None then Err (EvidenceIntegrityError ''superseded_by not in ledger'')
                        else Ok (dset (ev_evidence_id e) e l)
        | None \<Rightarrow> Ok (dset (ev_evidence_id e) e l))"

definition supersede :: "ledger \<Rightarrow> evidence \<Rightarrow> ledger res" where
  "supersede l corrected =
     (if ev_superseded_by corrected = None \<or> ev_superseded_by corrected = Some []
      then Err (EvidenceIntegrityError ''supersede needs corrected.superseded_by set to the prior id'')
      else ledger_append l corrected)"

definition ledger_get :: "ledger \<Rightarrow> string \<Rightarrow> evidence res" where
  "ledger_get l i = (case dget l i of None \<Rightarrow> Err (EvidenceNotFoundError ''not found'') | Some e \<Rightarrow> Ok e)"

text \<open>The forward index: the last correction of each corrected record.\<close>

definition forward :: "ledger \<Rightarrow> (string, string) dict" where
  "forward l = fold (\<lambda>(_, e) f. case ev_superseded_by e of None \<Rightarrow> f | Some prior \<Rightarrow> dset prior (ev_evidence_id e) f) l []"

text \<open>The loop that follows it; \<open>None\<close> would be a loop that does not end.\<close>

partial_function (option) follow :: "ledger \<Rightarrow> (string, string) dict \<Rightarrow> evidence \<Rightarrow> evidence res option" where
  "follow l f e = (case dget f (ev_evidence_id e) of
       None \<Rightarrow> Some (Ok e)
     | Some i \<Rightarrow> (case ledger_get l i of Err x \<Rightarrow> Some (Err x) | Ok e' \<Rightarrow> follow l f e'))"

declare follow.simps [code]

definition current :: "ledger \<Rightarrow> string \<Rightarrow> evidence res option" where
  "current l i = (case ledger_get l i of Err x \<Rightarrow> Some (Err x) | Ok e \<Rightarrow> follow l (forward l) e)"

definition list_session :: "ledger \<Rightarrow> string \<Rightarrow> evidence list" where
  "list_session l sid = filter (\<lambda>e. ev_session_id e = sid) (map snd l)"

definition ledger_ids :: "ledger \<Rightarrow> string list" where
  "ledger_ids l = map fst l"

section \<open>Record kinds of loose records\<close>

text \<open>A mapping's kind; the keys win over the metadata, absence means evidence.\<close>

definition record_kind_of :: "(string, pyobj) dict \<Rightarrow> pyobj" where
  "record_kind_of item =
     (let meta_kind = (case obj_get item ''metadata'' of PDict m \<Rightarrow> obj_get m ''record_kind'' | _ \<Rightarrow> PNone);
          kind = dget_default item ''record_kind'' meta_kind
      in if kind = PNone then PStr ''evidence'' else kind)"

definition discovery_only :: "(string, pyobj) dict list \<Rightarrow> bool" where
  "discovery_only items \<longleftrightarrow> items \<noteq> [] \<and> list_all (\<lambda>i. record_kind_of i = PStr ''discovery'') items"

definition substantive_records :: "(string, pyobj) dict list \<Rightarrow> (string, pyobj) dict list" where
  "substantive_records items = filter (\<lambda>i. record_kind_of i = PStr ''evidence'') items"

section \<open>Ingest\<close>

definition blank_opt :: "string option \<Rightarrow> bool" where
  "blank_opt s \<longleftrightarrow> s = None \<or> s = Some []"

text \<open>The required fields with whether they are missing; \<open>retrieved_at\<close> always is there.\<close>

definition ingest_required :: "evidence \<Rightarrow> (string \<times> bool) list" where
  "ingest_required e =
     (if ev_record_kind e = ''discovery''
      then [(''session_id'', ev_session_id e = []), (''retrieved_at'', False),
            (''lineage'', blank_opt (ev_job_id e) \<and> blank_opt (ev_agent_id e))]
      else [(''session_id'', ev_session_id e = []), (''source_name'', ev_source_name e = []),
            (''source_ref'', blank_opt (ev_source_uri e) \<and> blank_opt (ev_source_record_id e)),
            (''retrieved_at'', False), (''lineage'', blank_opt (ev_job_id e) \<and> blank_opt (ev_agent_id e))])"

definition ingest_missing :: "evidence \<Rightarrow> string list" where
  "ingest_missing e = map fst (filter snd (ingest_required e))"

definition known_arg :: "evidence \<Rightarrow> time_arg" where
  "known_arg e = (case ev_known_at e of None \<Rightarrow> TNone | Some t \<Rightarrow> TStamp (Aware t))"

definition ingest_pit_gate :: "iso_parser \<Rightarrow> evidence \<Rightarrow> time_arg \<Rightarrow> string option" where
  "ingest_pit_gate fromiso e as_of =
     (if ev_record_kind e = ''discovery'' then None
      else if pit_unverified as_of (known_arg e) then Some ''PIT_UNVERIFIED''
      else (case pit_violated fromiso as_of (known_arg e) of
              Err _ \<Rightarrow> Some ''PROVENANCE_FAILURE''
            | Ok True \<Rightarrow> Some ''PIT_VIOLATION''
            | Ok False \<Rightarrow> None))"

text \<open>
  What is journalled of a refusal; the callback is called with it once, whether or not it raises, and
  the refusal is raised in both cases.
\<close>

record rejection =
  rj_evidence_id :: string
  rj_reason :: string
  rj_known_at :: "string option"
  rj_as_of :: "string option"

definition iso_arg :: "time_arg \<Rightarrow> string option" where
  "iso_arg a = (case a of TStamp v \<Rightarrow> Some (datetime_text v) | TText s \<Rightarrow> Some s | _ \<Rightarrow> None)"

definition ingest_reject :: "evidence \<Rightarrow> time_arg \<Rightarrow> string \<Rightarrow> rejection list \<times> 'a res" where
  "ingest_reject e as_of reason =
     ([\<lparr>rj_evidence_id = ev_evidence_id e, rj_reason = reason, rj_known_at = map_option iso_of (ev_known_at e),
        rj_as_of = iso_arg as_of\<rparr>], Err (EvidenceRejectedError (ev_evidence_id e) reason))"

definition ingest_evidence :: "iso_parser \<Rightarrow> ledger \<Rightarrow> evidence \<Rightarrow> time_arg \<Rightarrow> rejection list \<times> ledger res" where
  "ingest_evidence fromiso l e as_of =
     (if ingest_missing e \<noteq> [] then ingest_reject e as_of ''PROVENANCE_FAILURE''
      else (case ingest_pit_gate fromiso e as_of of
              Some reason \<Rightarrow> ingest_reject e as_of reason
            | None \<Rightarrow> ([], ledger_append l e)))"

section \<open>JSON form\<close>

definition evidence_to_json :: "evidence \<Rightarrow> (string, pyobj) dict" where
  "evidence_to_json e =
     [(''evidence_id'', PStr (ev_evidence_id e)), (''session_id'', PStr (ev_session_id e)),
      (''wave_id'', PInt (ev_wave_id e)), (''source_type'', PStr (ev_source_type e)),
      (''source_name'', PStr (ev_source_name e)), (''source_uri'', opt_obj PStr (ev_source_uri e)),
      (''source_record_id'', opt_obj PStr (ev_source_record_id e)), (''subject'', PStr (ev_subject e)),
      (''claim_text'', PStr (ev_claim_text e)), (''content'', PStr (ev_content e)),
      (''content_hash'', PStr (ev_content_hash e)), (''published_at'', opt_obj iso_obj (ev_published_at e)),
      (''known_at'', opt_obj iso_obj (ev_known_at e)), (''effective_at'', opt_obj iso_obj (ev_effective_at e)),
      (''retrieved_at'', iso_obj (ev_retrieved_at e)), (''job_id'', opt_obj PStr (ev_job_id e)),
      (''agent_id'', opt_obj PStr (ev_agent_id e)), (''supports'', py_values (ev_supports e)),
      (''contradicts'', py_values (ev_contradicts e)), (''confidence'', opt_obj PFloat (ev_confidence e)),
      (''quality'', opt_obj PStr (ev_quality e)), (''metadata'', PDict (ev_metadata e)),
      (''superseded_by'', opt_obj PStr (ev_superseded_by e)), (''record_kind'', PStr (ev_record_kind e)),
      (''claim_kind'', PStr (ev_claim_kind e)), (''provenance'', PDict (ev_provenance e))]"

definition ev_req_str :: "(string, pyobj) dict \<Rightarrow> string \<Rightarrow> string res" where
  "ev_req_str d key = (case obj_get d key of
       PStr s \<Rightarrow> if s \<noteq> [] then Ok s else Err (EvidenceIntegrityError ''must be a non-empty string'')
     | _ \<Rightarrow> Err (EvidenceIntegrityError ''must be a non-empty string''))"

definition ev_opt_str :: "(string, pyobj) dict \<Rightarrow> string \<Rightarrow> string option res" where
  "ev_opt_str d key = (case obj_get d key of
       PNone \<Rightarrow> Ok None
     | PStr s \<Rightarrow> Ok (if s = [] then None else Some s)
     | _ \<Rightarrow> Err (EvidenceIntegrityError ''must be a string or null''))"

definition ev_req_dt :: "iso_parser \<Rightarrow> (string, pyobj) dict \<Rightarrow> string \<Rightarrow> instant res" where
  "ev_req_dt fromiso d key = (case obj_get d key of
       PStr s \<Rightarrow> (case fromiso (strip s) of
           None \<Rightarrow> Err (EvidenceIntegrityError ''must be an ISO-8601 datetime'')
         | Some t \<Rightarrow> Ok (normalize_time t))
     | _ \<Rightarrow> Err (EvidenceIntegrityError ''must be an ISO-8601 datetime''))"

definition ev_opt_dt :: "iso_parser \<Rightarrow> (string, pyobj) dict \<Rightarrow> string \<Rightarrow> instant option res" where
  "ev_opt_dt fromiso d key =
     (if obj_get d key = PNone then Ok None else bindR (ev_req_dt fromiso d key) (\<lambda>t. Ok (Some t)))"

definition ev_req_int :: "(string, pyobj) dict \<Rightarrow> string \<Rightarrow> int res" where
  "ev_req_int d key = (case obj_get d key of PInt n \<Rightarrow> Ok n | _ \<Rightarrow> Err (EvidenceIntegrityError ''must be an int''))"

definition ev_str_list :: "(string, pyobj) dict \<Rightarrow> string \<Rightarrow> string list res" where
  "ev_str_list d key = (case dget_default d key (PList []) of
       PList xs \<Rightarrow> if list_all is_str xs then Ok (map str_of xs)
                   else Err (EvidenceIntegrityError ''must be a list of strings'')
     | _ \<Rightarrow> Err (EvidenceIntegrityError ''must be a list of strings''))"

definition evidence_confidence :: "(string, pyobj) dict \<Rightarrow> decimal option res" where
  "evidence_confidence d = (case obj_get d ''confidence'' of
       PNone \<Rightarrow> Ok None | PInt n \<Rightarrow> Ok (Some (Fin (of_int n))) | PFloat x \<Rightarrow> Ok (Some x)
     | _ \<Rightarrow> Err (EvidenceIntegrityError ''confidence must be a number or null''))"

definition evidence_metadata :: "(string, pyobj) dict \<Rightarrow> (string, pyobj) dict res" where
  "evidence_metadata d = (case dget_default d ''metadata'' (PDict []) of
       PDict m \<Rightarrow> Ok m | _ \<Rightarrow> Err (EvidenceIntegrityError ''metadata must be an object''))"

definition evidence_record_kind :: "(string, pyobj) dict \<Rightarrow> string res" where
  "evidence_record_kind d =
     (let raw = (if obj_get d ''record_kind'' = PNone
                 then (case obj_get d ''metadata'' of PDict m \<Rightarrow> obj_get m ''record_kind'' | _ \<Rightarrow> PNone)
                 else obj_get d ''record_kind'')
      in if raw = PNone then Ok ''evidence''
         else if in_vocab raw record_kinds then Ok (str_of raw)
         else Err (EvidenceIntegrityError ''record_kind must be discovery|evidence''))"

definition evidence_claim_kind :: "(string, pyobj) dict \<Rightarrow> string res" where
  "evidence_claim_kind d =
     (let raw = obj_get d ''claim_kind''
      in if raw = PNone then Ok ''observed_fact''
         else if in_vocab raw claim_kinds then Ok (str_of raw)
         else Err (EvidenceIntegrityError ''claim_kind must be one of''))"

text \<open>The \<open>quality\<close> of the written form is not read back.\<close>

definition evidence_from_dict :: "(string \<Rightarrow> string) \<Rightarrow> iso_parser \<Rightarrow> (string, pyobj) dict \<Rightarrow> evidence res" where
  "evidence_from_dict H fromiso d =
     bindR (ev_req_str d ''evidence_id'') (\<lambda>eid.
     bindR (ev_req_str d ''session_id'') (\<lambda>sid.
     bindR (ev_req_int d ''wave_id'') (\<lambda>wave.
     bindR (ev_req_str d ''source_type'') (\<lambda>stype.
     bindR (ev_req_str d ''source_name'') (\<lambda>sname.
     bindR (ev_req_str d ''subject'') (\<lambda>subject.
     bindR (ev_req_str d ''claim_text'') (\<lambda>claim.
     bindR (ev_req_str d ''content'') (\<lambda>content.
     bindR (ev_req_str d ''content_hash'') (\<lambda>hash.
     bindR (ev_req_dt fromiso d ''retrieved_at'') (\<lambda>retrieved.
     bindR (ev_opt_str d ''source_uri'') (\<lambda>uri.
     bindR (ev_opt_str d ''source_record_id'') (\<lambda>rid.
     bindR (ev_opt_dt fromiso d ''published_at'') (\<lambda>published.
     bindR (ev_opt_dt fromiso d ''known_at'') (\<lambda>known.
     bindR (ev_opt_dt fromiso d ''effective_at'') (\<lambda>effective.
     bindR (ev_opt_str d ''job_id'') (\<lambda>jid.
     bindR (ev_opt_str d ''agent_id'') (\<lambda>aid.
     bindR (ev_str_list d ''supports'') (\<lambda>supports.
     bindR (ev_str_list d ''contradicts'') (\<lambda>contradicts.
     bindR (evidence_confidence d) (\<lambda>confidence.
     bindR (evidence_metadata d) (\<lambda>raw_metadata.
     bindR (validate_json_mapping (PDict raw_metadata)) (\<lambda>metadata.
     bindR (ev_opt_str d ''superseded_by'') (\<lambda>superseded.
     bindR (evidence_record_kind d) (\<lambda>rkind.
     bindR (evidence_claim_kind d) (\<lambda>ckind.
     bindR (validate_provenance (dget_default d ''provenance'' (PDict []))) (\<lambda>provenance.
     evidence_post_init H \<lparr>ev_evidence_id = eid, ev_session_id = sid, ev_wave_id = wave, ev_source_type = stype,
       ev_source_name = sname, ev_subject = subject, ev_claim_text = claim, ev_content = content,
       ev_content_hash = hash, ev_retrieved_at = retrieved, ev_source_uri = uri, ev_source_record_id = rid,
       ev_published_at = published, ev_known_at = known, ev_effective_at = effective, ev_job_id = jid,
       ev_agent_id = aid, ev_supports = supports, ev_contradicts = contradicts, ev_confidence = confidence,
       ev_quality = None, ev_metadata = metadata, ev_superseded_by = superseded, ev_record_kind = rkind,
       ev_claim_kind = ckind, ev_provenance = provenance\<rparr>))))))))))))))))))))))))))"

section \<open>Ledger invariants\<close>

lemma dset_new: "dget l k = None \<Longrightarrow> dset k v l = l @ [(k, v)]"
  by (induction l) (auto split: if_splits)

lemma ledger_append_iff:
  "ledger_append l e = Ok l' \<longleftrightarrow> dget l (ev_evidence_id e) = None
     \<and> (\<forall>p. ev_superseded_by e = Some p \<longrightarrow> dget l p \<noteq> None) \<and> l' = l @ [(ev_evidence_id e, e)]"
  by (auto simp: ledger_append_def dset_new split: option.splits)

lemma supersede_Ok: "supersede l e = Ok l' \<Longrightarrow> ledger_append l e = Ok l' \<and> ev_superseded_by e \<noteq> None"
  by (auto simp: supersede_def split: if_splits)

lemma ingest_Ok: "ingest_evidence fromiso l e as_of = (rs, Ok l') \<Longrightarrow> ledger_append l e = Ok l' \<and> rs = []"
  by (auto simp: ingest_evidence_def ingest_reject_def split: if_splits option.splits)

inductive ledger_step :: "ledger \<Rightarrow> ledger \<Rightarrow> bool" where
  Append: "ledger_append l e = Ok l' \<Longrightarrow> ledger_step l l'"
| Supersede: "supersede l e = Ok l' \<Longrightarrow> ledger_step l l'"
| Ingest: "ingest_evidence fromiso l e as_of = (rs, Ok l') \<Longrightarrow> ledger_step l l'"

lemma ledger_step_iff: "ledger_step l l' \<longleftrightarrow> (\<exists>e. ledger_append l e = Ok l')"
  by (auto elim!: ledger_step.cases intro: ledger_step.intros dest: supersede_Ok ingest_Ok)

interpretation ledger_log: append_log id ledger_step
  by unfold_locales (auto simp: ledger_step_iff ledger_append_iff)

text \<open>Every record is filed under its id, ids are unique, and a correction names an earlier record.\<close>

definition ledger_wf :: "ledger \<Rightarrow> bool" where
  "ledger_wf l \<longleftrightarrow> distinct (map fst l) \<and> (\<forall>(i, e) \<in> set l. ev_evidence_id e = i)
     \<and> (\<forall>k < length l. \<forall>p. ev_superseded_by (snd (l ! k)) = Some p \<longrightarrow> p \<in> fst ` set (take k l))"

lemma ledger_wf_append:
  assumes "ledger_wf l" and "ledger_append l e = Ok l'"
  shows "ledger_wf l'"
proof -
  have l': "l' = l @ [(ev_evidence_id e, e)]" and new: "ev_evidence_id e \<notin> fst ` set l"
    and prior: "\<And>p. ev_superseded_by e = Some p \<Longrightarrow> p \<in> fst ` set l"
    using assms(2) by (auto simp: ledger_append_iff map_of_eq_None_iff)
  show ?thesis unfolding ledger_wf_def l'
  proof (intro conjI allI impI)
    fix k p
    assume k: "k < length (l @ [(ev_evidence_id e, e)])"
      and p: "ev_superseded_by (snd ((l @ [(ev_evidence_id e, e)]) ! k)) = Some p"
    show "p \<in> fst ` set (take k (l @ [(ev_evidence_id e, e)]))"
    proof (cases "k < length l")
      case True
      with assms(1) p show ?thesis by (simp add: ledger_wf_def nth_append)
    next
      case False
      with k p prior show ?thesis by (simp add: nth_append)
    qed
  qed (use assms(1) new in \<open>auto simp: ledger_wf_def\<close>)
qed

lemma ledger_run_wf: "ledger_step\<^sup>*\<^sup>* l l' \<Longrightarrow> ledger_wf l \<Longrightarrow> ledger_wf l'"
  by (induction rule: rtranclp_induct) (auto simp: ledger_step_iff dest: ledger_wf_append)

lemma ledger_wf_Nil [simp]: "ledger_wf []"
  by (simp add: ledger_wf_def)

lemma ledger_wf_get: "ledger_wf l \<Longrightarrow> k < length l \<Longrightarrow> dget l (ev_evidence_id (snd (l ! k))) = Some (snd (l ! k))"
proof -
  assume wf: "ledger_wf l" and k: "k < length l"
  then have "l ! k \<in> set l" by simp
  with wf have "ev_evidence_id (snd (l ! k)) = fst (l ! k)" by (auto simp: ledger_wf_def)
  then have "(ev_evidence_id (snd (l ! k)), snd (l ! k)) \<in> set l" using k by simp
  with wf show ?thesis by (simp add: ledger_wf_def)
qed

section \<open>Correction chains\<close>

definition corrects :: "ledger \<Rightarrow> string \<Rightarrow> string \<Rightarrow> bool" where
  "corrects l p i \<longleftrightarrow> (\<exists>(j, e) \<in> set l. ev_superseded_by e = Some p \<and> ev_evidence_id e = i)"

lemma forward_snoc: "forward (l @ [(i, e)])
    = (case ev_superseded_by e of None \<Rightarrow> forward l | Some p \<Rightarrow> dset p (ev_evidence_id e) (forward l))"
  unfolding forward_def by (simp split: option.split)

lemma forward_None: "dget (forward l) p = None \<longleftrightarrow> (\<nexists>i. corrects l p i)"
proof (induction l rule: rev_induct)
  case (snoc x l)
  then show ?case by (cases x) (auto simp: forward_snoc corrects_def split: option.splits)
qed (simp add: forward_def corrects_def)

lemma forward_Some: "dget (forward l) p = Some i \<Longrightarrow> corrects l p i"
proof (induction l rule: rev_induct)
  case (snoc x l)
  then show ?case by (cases x) (auto simp: forward_snoc corrects_def split: option.splits if_splits)
qed (simp add: forward_def)

lemma corrects_later:
  assumes "ledger_wf l" and "k < length l" and "corrects l (ev_evidence_id (snd (l ! k))) i"
  shows "\<exists>m < length l. k < m \<and> ev_evidence_id (snd (l ! m)) = i"
proof -
  from assms(3) obtain m where m: "m < length l" "ev_superseded_by (snd (l ! m)) = Some (ev_evidence_id (snd (l ! k)))"
    "ev_evidence_id (snd (l ! m)) = i"
    by (auto simp: corrects_def in_set_conv_nth)
  with assms(1) have "ev_evidence_id (snd (l ! k)) \<in> fst ` set (take m l)" by (simp add: ledger_wf_def)
  then obtain j where j: "j < m" "fst (l ! j) = ev_evidence_id (snd (l ! k))"
    using m(1) by (auto simp: in_set_conv_nth)
  have "fst (l ! k) = ev_evidence_id (snd (l ! k))"
    using assms(1,2) nth_mem [OF assms(2)] by (auto simp: ledger_wf_def)
  moreover have "distinct (map fst l)" using assms(1) by (simp add: ledger_wf_def)
  ultimately have "j = k" using j m(1) assms(2) nth_eq_iff_index_eq [of "map fst l" j k] by simp
  with j m show ?thesis by auto
qed

lemma follow_ends:
  assumes "ledger_wf l" and "k < length l"
  shows "\<exists>m < length l. follow l (forward l) (snd (l ! k)) = Some (Ok (snd (l ! m)))
    \<and> (corrects l)\<^sup>*\<^sup>* (ev_evidence_id (snd (l ! k))) (ev_evidence_id (snd (l ! m)))
    \<and> (\<nexists>i. corrects l (ev_evidence_id (snd (l ! m))) i)"
  using assms(2)
proof (induction "length l - k" arbitrary: k rule: less_induct)
  case less
  show ?case
  proof (cases "dget (forward l) (ev_evidence_id (snd (l ! k)))")
    case None
    then have "follow l (forward l) (snd (l ! k)) = Some (Ok (snd (l ! k)))" by (subst follow.simps) simp
    with None less.prems show ?thesis unfolding forward_None by blast
  next
    case (Some i)
    note step = forward_Some [OF Some]
    obtain m where m: "m < length l" "k < m" "ev_evidence_id (snd (l ! m)) = i"
      using corrects_later [OF assms(1) less.prems step] by blast
    then have "length l - m < length l - k" by simp
    from less.hyps [OF this m(1)] obtain n where n: "n < length l" "follow l (forward l) (snd (l ! m)) = Some (Ok (snd (l ! n)))"
      "(corrects l)\<^sup>*\<^sup>* i (ev_evidence_id (snd (l ! n)))" "\<nexists>i. corrects l (ev_evidence_id (snd (l ! n))) i"
      unfolding m(3) by blast
    have "ledger_get l i = Ok (snd (l ! m))" using ledger_wf_get [OF assms(1) m(1)] m(3) by (simp add: ledger_get_def)
    then have "follow l (forward l) (snd (l ! k)) = Some (Ok (snd (l ! n)))"
      using n(2) by (subst follow.simps) (simp add: Some)
    moreover have "(corrects l)\<^sup>*\<^sup>* (ev_evidence_id (snd (l ! k))) (ev_evidence_id (snd (l ! n)))"
      using step n(3) by (rule converse_rtranclp_into_rtranclp)
    ultimately show ?thesis using n by blast
  qed
qed

section \<open>Properties\<close>

text \<open>
  C23.  Following the corrections of a record always ends: in every ledger that appends, corrections and
  ingests can build, \<open>current\<close> returns for a recorded id the record at the end of a chain of
  corrections from it, one that nothing corrects, and reports an unknown id as not found.
\<close>

theorem current_terminates:
  assumes "ledger_step\<^sup>*\<^sup>* [] l"
  shows "(case dget l i of
       None \<Rightarrow> \<exists>m. current l i = Some (Err (EvidenceNotFoundError m))
     | Some e \<Rightarrow> \<exists>e'. current l i = Some (Ok e') \<and> dget l (ev_evidence_id e') = Some e'
         \<and> (corrects l)\<^sup>*\<^sup>* i (ev_evidence_id e') \<and> (\<nexists>j. corrects l (ev_evidence_id e') j))"
proof (cases "dget l i")
  case None
  then show ?thesis by (simp add: current_def ledger_get_def)
next
  case (Some e)
  have wf: "ledger_wf l" using ledger_run_wf [OF assms] by simp
  from Some obtain k where k: "k < length l" "l ! k = (i, e)" by (metis in_set_conv_nth map_of_SomeD)
  then have "ev_evidence_id e = i" using wf nth_mem [OF k(1)] by (auto simp: ledger_wf_def)
  with follow_ends [OF wf k(1)] k Some ledger_wf_get [OF wf] show ?thesis
    by (fastforce simp: current_def ledger_get_def)
qed

definition demo_evidence :: evidence where
  "demo_evidence = \<lparr>ev_evidence_id = ''ev:1'', ev_session_id = ''rs:1'', ev_wave_id = 1, ev_source_type = ''filing'',
     ev_source_name = ''SEC'', ev_subject = ''ACME'', ev_claim_text = ''shares rose'', ev_content = ''text'',
     ev_content_hash = ''text'', ev_retrieved_at = 0, ev_source_uri = Some ''u'', ev_source_record_id = None,
     ev_published_at = None, ev_known_at = Some 0, ev_effective_at = None, ev_job_id = Some ''job:1'',
     ev_agent_id = None, ev_supports = [], ev_contradicts = [], ev_confidence = Some (Fin (1 / 2)), ev_quality = None,
     ev_metadata = [], ev_superseded_by = None, ev_record_kind = ''evidence'', ev_claim_kind = ''observed_fact'',
     ev_provenance = []\<rparr>"

definition demo_correction :: evidence where
  "demo_correction = demo_evidence\<lparr>ev_evidence_id := ''ev:2'', ev_superseded_by := Some ''ev:1''\<rparr>"

theorem current_terminates_witness:
  "\<exists>e'. current [(''ev:1'', demo_evidence), (''ev:2'', demo_correction)] ''ev:1'' = Some (Ok e') \<and> ev_superseded_by e' = Some ''ev:1''"
proof -
  let ?l = "[(''ev:1'', demo_evidence), (''ev:2'', demo_correction)]"
  have "ledger_step [] [(''ev:1'', demo_evidence)]" "ledger_step [(''ev:1'', demo_evidence)] ?l"
    unfolding ledger_step_iff ledger_append_iff
    by (rule exI [of _ demo_evidence], simp add: demo_evidence_def)
      (rule exI [of _ demo_correction], simp add: demo_correction_def demo_evidence_def)
  then have run: "ledger_step\<^sup>*\<^sup>* [] ?l" by (meson converse_rtranclp_into_rtranclp r_into_rtranclp)
  have "corrects ?l ''ev:1'' ''ev:2''" by (simp add: corrects_def demo_correction_def demo_evidence_def)
  moreover from current_terminates [OF run, of "''ev:1''"] obtain e' where e': "current ?l ''ev:1'' = Some (Ok e')"
    "dget ?l (ev_evidence_id e') = Some e'" "\<nexists>j. corrects ?l (ev_evidence_id e') j" by auto
  ultimately have "e' = demo_correction" by (auto split: if_splits simp: demo_evidence_def)
  with e'(1) show ?thesis by (auto simp: demo_correction_def)
qed

text \<open>
  When a known time lies within a cutoff given as a \<open>datetime\<close>, as text or not at all: the text
  \<open>unbounded\<close> (in any case, with any surrounding space) and an absent cutoff admit everything, a
  blank or unreadable text and any other value nothing, and otherwise the row needs a known time at or
  before the instant of the cutoff.
\<close>

definition known_within :: "iso_parser \<Rightarrow> time_arg \<Rightarrow> instant option \<Rightarrow> bool" where
  "known_within fromiso as_of known = (case as_of of
       TNone \<Rightarrow> True
     | TOther \<Rightarrow> False
     | TStamp c \<Rightarrow> (case known of Some k \<Rightarrow> k \<le> normalize_time c | None \<Rightarrow> False)
     | TText s \<Rightarrow> lower (strip s) = ''unbounded''
         \<or> strip s \<noteq> [] \<and> (case (fromiso (strip s), known) of
               (Some c, Some k) \<Rightarrow> k \<le> normalize_time c | _ \<Rightarrow> False))"

definition traceable :: "evidence \<Rightarrow> bool" where
  "traceable e \<longleftrightarrow> ev_session_id e \<noteq> [] \<and> \<not> (blank_opt (ev_job_id e) \<and> blank_opt (ev_agent_id e))
     \<and> (ev_record_kind e = ''discovery''
        \<or> ev_source_name e \<noteq> [] \<and> \<not> (blank_opt (ev_source_uri e) \<and> blank_opt (ev_source_record_id e)))"

definition admissible :: "iso_parser \<Rightarrow> time_arg \<Rightarrow> evidence \<Rightarrow> bool" where
  "admissible fromiso as_of e \<longleftrightarrow> ev_record_kind e = ''discovery'' \<or> known_within fromiso as_of (ev_known_at e)"

lemma lower_Nil_iff: "lower s = [] \<longleftrightarrow> s = []"
  by (simp add: lower_def)

lemma missing_traceable: "ingest_missing e = [] \<longleftrightarrow> traceable e"
  by (auto simp: ingest_missing_def ingest_required_def traceable_def)

lemma gate_admissible: "ingest_pit_gate fromiso e as_of = None \<longleftrightarrow> admissible fromiso as_of e"
  by (cases as_of; cases "ev_known_at e")
    (auto simp: ingest_pit_gate_def pit_unverified_def as_of_bounded_def known_arg_def pit_violated_def
      unbounded_text_def no_cutoff_as_of_def parse_time_str_def normalize_time_def admissible_def known_within_def
      lower_Nil_iff not_less strip_def split: option.splits sum.splits bool.splits if_splits)

lemma gate_reasons:
  "ingest_pit_gate fromiso e as_of = Some r \<Longrightarrow> r \<in> set [''PROVENANCE_FAILURE'', ''PIT_UNVERIFIED'', ''PIT_VIOLATION'']"
  by (auto simp: ingest_pit_gate_def split: if_splits sum.splits bool.splits)

text \<open>
  C3.  No look-ahead enters the ledger, for every form of cutoff a caller passes (an absent one, text,
  a \<open>datetime\<close>): an evidential row that is ingested has a known time within the cutoff, and every
  ingested row names its session, the job or agent it comes from and, if evidential, its source and a
  reference.  A refused row lacks one of these (a blank or unreadable cutoff admits no evidential row),
  leaves the ledger as it was and is journalled once with its reason; an admissible row is refused only
  by the ledger itself.
\<close>

theorem ingest_no_lookahead:
  "case ingest_evidence fromiso l e as_of of
     (rs, Ok l') \<Rightarrow> rs = [] \<and> l' = l @ [(ev_evidence_id e, e)] \<and> dget l (ev_evidence_id e) = None
       \<and> traceable e \<and> (ev_record_kind e = ''discovery'' \<or> known_within fromiso as_of (ev_known_at e))
   | (rs, Err x) \<Rightarrow> (\<exists>r. x = EvidenceRejectedError (ev_evidence_id e) r \<and> map rj_reason rs = [r]
         \<and> r \<in> set [''PROVENANCE_FAILURE'', ''PIT_UNVERIFIED'', ''PIT_VIOLATION'']
         \<and> \<not> (traceable e \<and> (ev_record_kind e = ''discovery'' \<or> known_within fromiso as_of (ev_known_at e))))
       \<or> (\<exists>m. x = EvidenceIntegrityError m \<and> rs = [])"
proof -
  have err: "ledger_append l e = Err x \<Longrightarrow> \<exists>m. x = EvidenceIntegrityError m" for x
    by (auto simp: ledger_append_def split: if_splits option.splits)
  consider (Missing) "ingest_missing e \<noteq> []"
    | (Gate) r where "ingest_missing e = []" "ingest_pit_gate fromiso e as_of = Some r"
    | (Append) "ingest_missing e = []" "ingest_pit_gate fromiso e as_of = None" by fastforce
  then show ?thesis
  proof cases
    case Missing
    then show ?thesis by (simp add: ingest_evidence_def ingest_reject_def missing_traceable)
  next
    case (Gate r)
    from Gate(2) gate_admissible [of fromiso e as_of] have "\<not> admissible fromiso as_of e" by simp
    with Gate gate_reasons [OF Gate(2)] show ?thesis
      by (simp add: ingest_evidence_def ingest_reject_def admissible_def)
  next
    case Append
    then have ok: "traceable e" "admissible fromiso as_of e" by (simp_all add: missing_traceable gate_admissible)
    show ?thesis
    proof (cases "ledger_append l e")
      case (Inl x)
      with Append err show ?thesis by (auto simp: ingest_evidence_def)
    next
      case (Inr l')
      then have "l' = l @ [(ev_evidence_id e, e)]" "dget l (ev_evidence_id e) = None" by (simp_all add: ledger_append_iff)
      with Append ok Inr show ?thesis by (simp add: ingest_evidence_def admissible_def)
    qed
  qed
qed

section \<open>Round trip\<close>

lemma evidence_eta:
  "\<lparr>ev_evidence_id = ev_evidence_id e, ev_session_id = ev_session_id e, ev_wave_id = ev_wave_id e,
   ev_source_type = ev_source_type e, ev_source_name = ev_source_name e, ev_subject = ev_subject e,
   ev_claim_text = ev_claim_text e, ev_content = ev_content e, ev_content_hash = ev_content_hash e,
   ev_retrieved_at = ev_retrieved_at e, ev_source_uri = ev_source_uri e,
   ev_source_record_id = ev_source_record_id e, ev_published_at = ev_published_at e,
   ev_known_at = ev_known_at e, ev_effective_at = ev_effective_at e, ev_job_id = ev_job_id e,
   ev_agent_id = ev_agent_id e, ev_supports = ev_supports e, ev_contradicts = ev_contradicts e,
   ev_confidence = ev_confidence e, ev_quality = q, ev_metadata = ev_metadata e,
   ev_superseded_by = ev_superseded_by e, ev_record_kind = ev_record_kind e,
   ev_claim_kind = ev_claim_kind e, ev_provenance = ev_provenance e\<rparr> = e\<lparr>ev_quality := q\<rparr>"
  by (cases e) simp

definition evidence_texts :: "evidence \<Rightarrow> string list" where
  "evidence_texts e = [ev_evidence_id e, ev_session_id e, ev_source_type e, ev_source_name e, ev_subject e,
     ev_claim_text e, ev_content e, ev_content_hash e]"

definition evidence_options :: "evidence \<Rightarrow> string option list" where
  "evidence_options e = [ev_source_uri e, ev_source_record_id e, ev_job_id e, ev_agent_id e, ev_superseded_by e]"

definition evidence_times :: "evidence \<Rightarrow> instant list" where
  "evidence_times e = ev_retrieved_at e # concat (map (\<lambda>t. case t of None \<Rightarrow> [] | Some x \<Rightarrow> [x])
     [ev_published_at e, ev_known_at e, ev_effective_at e])"

lemma ev_time_back:
  "reads_time fromiso t \<Longrightarrow> obj_get d key = PStr (iso_of t) \<Longrightarrow> ev_req_dt fromiso d key = Ok t"
  by (simp add: ev_req_dt_def reads_time_def normalize_time_def)

lemma ev_opt_time_back:
  "reads_back fromiso (case t of None \<Rightarrow> [] | Some x \<Rightarrow> [x]) \<Longrightarrow> obj_get d key = opt_obj iso_obj t
    \<Longrightarrow> ev_opt_dt fromiso d key = Ok t"
  by (cases t) (simp_all add: ev_opt_dt_def opt_obj_def iso_obj_def ev_time_back)

lemma ev_opt_str_back: "s \<noteq> Some [] \<Longrightarrow> obj_get d key = opt_obj PStr s \<Longrightarrow> ev_opt_str d key = Ok s"
  by (cases s) (simp_all add: ev_opt_str_def opt_obj_def)

text \<open>
  A valid evidence record survives the JSON form, with its hash, confidence, provenance, correction
  link and timestamps, but for its \<open>quality\<close>, which the reader always leaves empty.
\<close>

theorem evidence_roundtrip:
  assumes "evidence_post_init H e = Ok e" and "finite_json (PDict (ev_metadata e))" and "[] \<notin> set (evidence_texts e)"
    and "Some [] \<notin> set (evidence_options e)" and "reads_back fromiso (evidence_times e)"
  shows "evidence_from_dict H fromiso (evidence_to_json e) = Ok (e\<lparr>ev_quality := None\<rparr>)"
proof -
  define d where "d = evidence_to_json e"
  have texts: "ev_req_str d ''evidence_id'' = Ok (ev_evidence_id e)" "ev_req_str d ''session_id'' = Ok (ev_session_id e)"
    "ev_req_str d ''source_type'' = Ok (ev_source_type e)" "ev_req_str d ''source_name'' = Ok (ev_source_name e)"
    "ev_req_str d ''subject'' = Ok (ev_subject e)" "ev_req_str d ''claim_text'' = Ok (ev_claim_text e)"
    "ev_req_str d ''content'' = Ok (ev_content e)" "ev_req_str d ''content_hash'' = Ok (ev_content_hash e)"
    "ev_req_int d ''wave_id'' = Ok (ev_wave_id e)"
    using assms(3) by (auto simp: d_def evidence_to_json_def evidence_texts_def ev_req_str_def ev_req_int_def
        obj_get_def dget_default_def)
  have gets: "obj_get d ''source_uri'' = opt_obj PStr (ev_source_uri e)"
    "obj_get d ''source_record_id'' = opt_obj PStr (ev_source_record_id e)" "obj_get d ''job_id'' = opt_obj PStr (ev_job_id e)"
    "obj_get d ''agent_id'' = opt_obj PStr (ev_agent_id e)" "obj_get d ''superseded_by'' = opt_obj PStr (ev_superseded_by e)"
    "obj_get d ''retrieved_at'' = PStr (iso_of (ev_retrieved_at e))" "obj_get d ''published_at'' = opt_obj iso_obj (ev_published_at e)"
    "obj_get d ''known_at'' = opt_obj iso_obj (ev_known_at e)" "obj_get d ''effective_at'' = opt_obj iso_obj (ev_effective_at e)"
    by (simp_all add: d_def evidence_to_json_def obj_get_def dget_default_def iso_obj_def)
  have opts: "ev_opt_str d ''source_uri'' = Ok (ev_source_uri e)" "ev_opt_str d ''source_record_id'' = Ok (ev_source_record_id e)"
    "ev_opt_str d ''job_id'' = Ok (ev_job_id e)" "ev_opt_str d ''agent_id'' = Ok (ev_agent_id e)"
    "ev_opt_str d ''superseded_by'' = Ok (ev_superseded_by e)"
    using assms(4) gets(1-5) by (auto simp: evidence_options_def intro!: ev_opt_str_back)
  have times: "ev_req_dt fromiso d ''retrieved_at'' = Ok (ev_retrieved_at e)"
    "ev_opt_dt fromiso d ''published_at'' = Ok (ev_published_at e)" "ev_opt_dt fromiso d ''known_at'' = Ok (ev_known_at e)"
    "ev_opt_dt fromiso d ''effective_at'' = Ok (ev_effective_at e)"
    using assms(5) gets(6-9) by (auto simp: evidence_times_def reads_back_def intro!: ev_time_back ev_opt_time_back)
  have lists: "ev_str_list d ''supports'' = Ok (ev_supports e)" "ev_str_list d ''contradicts'' = Ok (ev_contradicts e)"
    by (simp_all add: d_def evidence_to_json_def ev_str_list_def dget_default_def py_values_def)
  have valid: "ev_record_kind e \<in> set record_kinds" "ev_claim_kind e \<in> set claim_kinds"
    "validate_provenance (PDict (ev_provenance e)) = Ok (ev_provenance e)"
  proof -
    from assms(1) obtain p where kinds: "ev_record_kind e \<in> set record_kinds" "ev_claim_kind e \<in> set claim_kinds"
      and p: "validate_provenance (PDict (ev_provenance e)) = Ok p" and e: "Ok (e\<lparr>ev_provenance := p\<rparr>) = Ok e"
      unfolding evidence_post_init_def bindR_Ok_iff checkR_Ok_iff by blast
    from e have "ev_provenance (e\<lparr>ev_provenance := p\<rparr>) = ev_provenance e" by (simp only: sum.inject)
    then have "p = ev_provenance e" by simp
    with p kinds show "ev_record_kind e \<in> set record_kinds" "ev_claim_kind e \<in> set claim_kinds"
      "validate_provenance (PDict (ev_provenance e)) = Ok (ev_provenance e)" by simp_all
  qed
  have kinds: "evidence_record_kind d = Ok (ev_record_kind e)" "evidence_claim_kind d = Ok (ev_claim_kind e)"
    "validate_provenance (dget_default d ''provenance'' (PDict [])) = Ok (ev_provenance e)"
    "evidence_metadata d = Ok (ev_metadata e)"
    using valid by (simp_all add: d_def evidence_to_json_def evidence_record_kind_def evidence_claim_kind_def obj_get_def
        dget_default_def in_vocab_def evidence_metadata_def)
  have conf: "evidence_confidence d = Ok (ev_confidence e)"
    by (simp add: d_def evidence_to_json_def evidence_confidence_def obj_get_def dget_default_def opt_obj_def split: option.split)
  have made: "evidence_post_init H (e\<lparr>ev_quality := None\<rparr>) = Ok (e\<lparr>ev_quality := None\<rparr>)"
    using assms(1) valid(3) by (auto simp: evidence_post_init_def bindR_Ok_iff)
  have meta: "validate_json_mapping (PDict (ev_metadata e)) = Ok (ev_metadata e)" using assms(2) by simp
  show ?thesis unfolding d_def [symmetric] evidence_from_dict_def
    by (simp only: texts opts times lists kinds conf meta bindR_simps evidence_eta made)
qed

theorem evidence_roundtrip_witness:
  "evidence_from_dict (\<lambda>s. s) (\<lambda>_. Some (Aware 0)) (evidence_to_json demo_evidence) = Ok demo_evidence"
proof -
  have "evidence_post_init (\<lambda>s. s) demo_evidence = Ok demo_evidence" "finite_json (PDict (ev_metadata demo_evidence))"
    "list_all (\<lambda>s. s \<noteq> []) (evidence_texts demo_evidence)" "list_all (\<lambda>s. s \<noteq> Some []) (evidence_options demo_evidence)"
    "reads_back (\<lambda>_. Some (Aware 0)) (evidence_times demo_evidence)" "ev_quality demo_evidence = None"
    by code_simp+
  note ok = this
  have "[] \<notin> set (evidence_texts demo_evidence)" "Some [] \<notin> set (evidence_options demo_evidence)"
    using ok(3,4) unfolding list_all_iff by blast+
  from evidence_roundtrip [OF ok(1,2) this ok(5)] show ?thesis
    by (simp add: demo_evidence_def)
qed

end
