(* ===== verification/Journal.thy ===== *)
theory Journal
  imports Kernel Interfaces
begin

text \<open>
  The session journal: the event record of \<open>app/research/models.py\<close> with its JSON form and the
  in-memory log of \<open>app/research/journal.py\<close>.  The module's \<open>_LOG\<close> is passed through the
  operations, each of which runs under the module's lock; clock and minted ids are arguments.
\<close>

section \<open>Events\<close>

record journal_event =
  je_event_id :: string
  je_session_id :: string
  je_sequence :: int
  je_event_type :: string
  je_timestamp :: instant
  je_actor_type :: string
  je_actor_id :: string
  je_payload :: "(string, pyobj) dict"
  je_previous_state :: "string option"
  je_new_state :: "string option"

definition validate_event_ids :: "journal_event \<Rightarrow> unit res" where
  "validate_event_ids e =
     bindR (checkR (je_event_id e \<noteq> []) (ValueError ''event_id must be a non-empty string'')) (\<lambda>_.
     bindR (checkR (je_session_id e \<noteq> []) (ValueError ''session_id must be a non-empty string'')) (\<lambda>_.
     checkR (je_sequence e \<ge> 1) (ValueError ''sequence must be >= 1'')))"

definition validate_event :: "journal_event \<Rightarrow> unit res" where
  "validate_event e =
     bindR (validate_event_ids e) (\<lambda>_.
     bindR (checkR (je_event_type e \<noteq> []) (ValueError ''event_type must be a non-empty string'')) (\<lambda>_.
     bindR (checkR (je_actor_type e \<noteq> []) (ValueError ''actor_type must be a non-empty string'')) (\<lambda>_.
     checkR (je_actor_id e \<noteq> []) (ValueError ''actor_id must be a non-empty string''))))"

definition event_to_dict :: "journal_event \<Rightarrow> (string, pyobj) dict res" where
  "event_to_dict e = bindR (validate_json_mapping (PDict (je_payload e))) (\<lambda>payload. Ok
     [(''event_id'', PStr (je_event_id e)), (''session_id'', PStr (je_session_id e)),
      (''sequence'', PInt (je_sequence e)), (''event_type'', PStr (je_event_type e)),
      (''timestamp'', iso_obj (je_timestamp e)), (''actor_type'', PStr (je_actor_type e)),
      (''actor_id'', PStr (je_actor_id e)), (''payload'', PDict payload),
      (''previous_state'', opt_obj PStr (je_previous_state e)), (''new_state'', opt_obj PStr (je_new_state e))])"

definition event_from_dict :: "iso_parser \<Rightarrow> pyobj \<Rightarrow> journal_event res" where
  "event_from_dict fromiso v = (case v of
       PDict d \<Rightarrow> (case obj_get d ''sequence'' of
           PInt seq \<Rightarrow>
             bindR (req_str d ''event_id'') (\<lambda>eid.
             bindR (req_str d ''session_id'') (\<lambda>sid.
             bindR (req_str d ''event_type'') (\<lambda>etype.
             bindR (req_time fromiso d ''timestamp'') (\<lambda>ts.
             bindR (req_str d ''actor_type'') (\<lambda>atype.
             bindR (req_str d ''actor_id'') (\<lambda>aid.
             bindR (validate_json_mapping (dget_default d ''payload'' (PDict []))) (\<lambda>payload.
             bindR (opt_str (obj_get d ''previous_state'')) (\<lambda>prev.
             bindR (opt_str (obj_get d ''new_state'')) (\<lambda>new.
             (let e = \<lparr>je_event_id = eid, je_session_id = sid, je_sequence = seq, je_event_type = etype,
                    je_timestamp = ts, je_actor_type = atype, je_actor_id = aid, je_payload = payload,
                    je_previous_state = prev, je_new_state = new\<rparr>
              in bindR (validate_event e) (\<lambda>_. Ok e)))))))))))
         | _ \<Rightarrow> Err (ValueError ''sequence must be an int''))
     | _ \<Rightarrow> Err (ValueError ''journal event must be a mapping''))"

section \<open>The log\<close>

type_synonym journal = "(string, journal_event list) dict"

definition session_log :: "journal \<Rightarrow> string \<Rightarrow> journal_event list" where
  "session_log jl sid = dget_default jl sid []"

definition max_sequence :: "journal_event list \<Rightarrow> int" where
  "max_sequence es = (if es = [] then 0 else Max (set (map je_sequence es)))"

definition next_sequence :: "journal \<Rightarrow> string \<Rightarrow> int" where
  "next_sequence jl sid = max_sequence (session_log jl sid) + 1"

definition check_journal_ids :: "string \<Rightarrow> string \<Rightarrow> string \<Rightarrow> string \<Rightarrow> unit res" where
  "check_journal_ids sid etype atype aid =
     bindR (checkR (sid \<noteq> []) (ValueError ''session_id must be a non-empty string'')) (\<lambda>_.
     bindR (checkR (etype \<noteq> []) (ValueError ''event_type must be a non-empty string'')) (\<lambda>_.
     bindR (checkR (atype \<noteq> []) (ValueError ''actor_type must be a non-empty string'')) (\<lambda>_.
     checkR (aid \<noteq> []) (ValueError ''actor_id must be a non-empty string''))))"

definition build_journal_event :: "instant \<Rightarrow> string \<Rightarrow> string \<Rightarrow> string \<Rightarrow> string \<Rightarrow> string \<Rightarrow> (string, pyobj) dict option
    \<Rightarrow> string option \<Rightarrow> string option \<Rightarrow> string option \<Rightarrow> instant option \<Rightarrow> int \<Rightarrow> journal_event res" where
  "build_journal_event now minted sid etype atype aid payload prev new eid timestamp sequence =
     bindR (validate_json_mapping (PDict (case payload of None \<Rightarrow> [] | Some p \<Rightarrow> p))) (\<lambda>checked.
     (let e = \<lparr>je_event_id = (case eid of Some i \<Rightarrow> if i \<noteq> [] then i else minted | None \<Rightarrow> minted),
            je_session_id = sid, je_sequence = sequence, je_event_type = etype,
            je_timestamp = (case timestamp of Some t \<Rightarrow> t | None \<Rightarrow> now), je_actor_type = atype, je_actor_id = aid,
            je_payload = checked, je_previous_state = prev, je_new_state = new\<rparr>
      in bindR (validate_event e) (\<lambda>_. Ok e)))"

text \<open>
  \<open>setdefault\<close> leaves an empty log behind even when the event is refused.
\<close>

definition append_event :: "instant \<Rightarrow> string \<Rightarrow> journal \<Rightarrow> string \<Rightarrow> string \<Rightarrow> string \<Rightarrow> string \<Rightarrow> (string, pyobj) dict option
    \<Rightarrow> string option \<Rightarrow> string option \<Rightarrow> string option \<Rightarrow> instant option \<Rightarrow> journal \<times> journal_event res" where
  "append_event now minted jl sid etype atype aid payload prev new eid timestamp =
     (case check_journal_ids sid etype atype aid of
        Err x \<Rightarrow> (jl, Err x)
      | Ok _ \<Rightarrow>
          (let events = session_log jl sid;
               jl' = dset sid events jl
           in case build_journal_event now minted sid etype atype aid payload prev new eid timestamp (max_sequence events + 1) of
                Err x \<Rightarrow> (jl', Err x)
              | Ok e \<Rightarrow> if list_ex (\<lambda>x. je_event_id x = je_event_id e) events
                        then (jl', Err (ValueError ''duplicate event_id''))
                        else (dset sid (events @ [e]) jl', Ok e)))"

definition list_events :: "journal \<Rightarrow> string \<Rightarrow> string option \<Rightarrow> journal_event list" where
  "list_events jl sid etype = (case etype of
       None \<Rightarrow> session_log jl sid
     | Some t \<Rightarrow> filter (\<lambda>e. je_event_type e = t) (session_log jl sid))"

definition check_hydrated :: "string \<Rightarrow> nat \<times> journal_event \<Rightarrow> unit res" where
  "check_hydrated sid ie = (case ie of (i, e) \<Rightarrow>
     bindR (checkR (je_session_id e = sid) (ValueError ''event belongs to another session'')) (\<lambda>_.
     bindR (checkR (je_sequence e = int i) (ValueError ''gap in log'')) (\<lambda>_.
     validate_event e)))"

definition hydrate :: "journal \<Rightarrow> string \<Rightarrow> journal_event list \<Rightarrow> journal \<times> unit res" where
  "hydrate jl sid events =
     (let ordered = sort_key je_sequence events
      in case mapR (check_hydrated sid) (enumerate 1 ordered) of
           Err x \<Rightarrow> (jl, Err x)
         | Ok _ \<Rightarrow> (dset sid ordered jl, Ok ()))"

definition rejection_payload :: "string \<Rightarrow> string \<Rightarrow> string option \<Rightarrow> string option \<Rightarrow> (string, pyobj) dict res" where
  "rejection_payload eid reason known_at as_of =
     bindR (checkR (eid \<noteq> []) (ValueError ''evidence_id must be a non-empty string'')) (\<lambda>_.
     bindR (checkR (reason \<noteq> []) (ValueError ''reason must be a non-empty string'')) (\<lambda>_.
     Ok [(''evidence_id'', PStr eid), (''reason'', PStr reason), (''known_at'', opt_obj PStr known_at),
         (''as_of'', opt_obj PStr as_of)]))"

section \<open>Numbering\<close>

definition event_number :: "journal_event \<Rightarrow> nat" where
  "event_number e = nat (je_sequence e)"

inductive journal_step :: "journal \<Rightarrow> journal \<Rightarrow> bool" where
  Append: "journal_step jl (fst (append_event now minted jl sid etype atype aid payload prev new eid timestamp))"

inductive_cases journal_stepE: "journal_step jl jl'"

lemma session_log_dset [simp]: "session_log (dset k es jl) sid = (if sid = k then es else session_log jl sid)"
  by (simp add: session_log_def dget_default_def)

lemma build_event_Ok:
  assumes "build_journal_event now minted sid etype atype aid payload prev new eid timestamp n = Ok e"
  shows "je_sequence e = n" and "je_session_id e = sid" and "validate_event e = Ok ()"
  using assms by (auto simp: build_journal_event_def bindR_Ok_iff Let_def)

text \<open>One call either leaves every session's events alone or adds one numbered event to one session.\<close>

lemma append_event_cases:
  obtains (Refused) x where "snd (append_event now minted jl sid etype atype aid payload prev new eid timestamp) = Err x"
      and "\<And>s. session_log (fst (append_event now minted jl sid etype atype aid payload prev new eid timestamp)) s = session_log jl s"
    | (Added) e where "snd (append_event now minted jl sid etype atype aid payload prev new eid timestamp) = Ok e"
      and "je_sequence e = next_sequence jl sid" and "je_session_id e = sid" and "validate_event e = Ok ()"
      and "je_event_id e \<notin> je_event_id ` set (session_log jl sid)"
      and "\<And>s. session_log (fst (append_event now minted jl sid etype atype aid payload prev new eid timestamp)) s
            = (if s = sid then session_log jl sid @ [e] else session_log jl s)"
proof (cases "check_journal_ids sid etype atype aid")
  case (Inl x)
  then show thesis by (intro Refused [of x]) (simp_all add: append_event_def)
next
  case ok: (Inr u)
  let ?b = "build_journal_event now minted sid etype atype aid payload prev new eid timestamp (max_sequence (session_log jl sid) + 1)"
  show thesis
  proof (cases ?b)
    case (Inl x)
    with ok show thesis by (intro Refused [of x]) (simp_all add: append_event_def Let_def)
  next
    case (Inr e)
    note e = build_event_Ok [OF Inr]
    show thesis
    proof (cases "je_event_id e \<in> je_event_id ` set (session_log jl sid)")
      case True
      then have "append_event now minted jl sid etype atype aid payload prev new eid timestamp
          = (dset sid (session_log jl sid) jl, Err (ValueError ''duplicate event_id''))"
        using ok Inr by (auto simp: append_event_def Let_def list_ex_iff)
      then show thesis by (intro Refused [of "ValueError ''duplicate event_id''"]) simp_all
    next
      case False
      then have "\<not> list_ex (\<lambda>x. je_event_id x = je_event_id e) (session_log jl sid)"
        unfolding list_ex_iff image_iff by (blast dest: sym)
      with ok Inr have app: "append_event now minted jl sid etype atype aid payload prev new eid timestamp
          = (dset sid (session_log jl sid @ [e]) (dset sid (session_log jl sid) jl), Ok e)"
        by (simp add: append_event_def Let_def)
      show thesis
      proof (rule Added [of e])
        show "je_sequence e = next_sequence jl sid" using e(1) by (simp only: next_sequence_def)
      qed (simp_all add: app e(2,3) False)
    qed
  qed
qed

lemma max_sequence_numbered:
  assumes "numbered event_number es" and "\<forall>e \<in> set es. je_sequence e \<ge> 1"
  shows "max_sequence es = int (length es)"
proof (cases "es = []")
  case False
  have nth: "je_sequence (es ! i) = int (Suc i)" if "i < length es" for i
    using numbered_nth [OF assms(1) that] assms(2) that by (auto simp: event_number_def)
  have "Max (set (map je_sequence es)) = int (length es)"
  proof (rule Max_eqI)
    show "int (length es) \<in> set (map je_sequence es)"
    proof -
      have "je_sequence (es ! (length es - 1)) = int (length es)" "es ! (length es - 1) \<in> set es"
        using nth [of "length es - 1"] False by simp_all
      then show ?thesis by (metis image_eqI set_map)
    qed
    show "y \<le> int (length es)" if "y \<in> set (map je_sequence es)" for y
      using that nth by (auto simp: in_set_conv_nth)
  qed simp
  with False show ?thesis by (simp add: max_sequence_def)
qed (simp add: max_sequence_def)

definition log_ok :: "string \<Rightarrow> journal_event list \<Rightarrow> bool" where
  "log_ok sid es \<longleftrightarrow> numbered event_number es \<and> distinct (map je_event_id es)
     \<and> (\<forall>e \<in> set es. je_sequence e \<ge> 1 \<and> je_session_id e = sid \<and> validate_event e = Ok ())"

lemma log_ok_Nil [simp]: "log_ok sid []"
  by (simp add: log_ok_def)

lemma journal_step_cases:
  assumes "journal_step jl jl'"
  obtains "session_log jl' s = session_log jl s"
    | e where "session_log jl' s = session_log jl s @ [e]" and "je_sequence e = next_sequence jl s"
      and "je_session_id e = s" and "validate_event e = Ok ()" and "je_event_id e \<notin> je_event_id ` set (session_log jl s)"
  using assms
proof (cases rule: journal_step.cases)
  case (Append now minted sid etype atype aid payload prev new eid timestamp)
  show thesis
    by (rule append_event_cases [of now minted jl sid etype atype aid payload prev new eid timestamp];
        cases "s = sid"; use that Append in auto)
qed

lemma journal_step_ok:
  assumes "journal_step jl jl'" and "log_ok s (session_log jl s)"
  shows "log_ok s (session_log jl' s)"
  using assms(1)
proof (cases rule: journal_step_cases [of _ _ s])
  case (2 e)
  have "je_sequence e = int (Suc (length (session_log jl s)))"
    using assms(2) 2(2) max_sequence_numbered by (auto simp: log_ok_def next_sequence_def)
  with 2 assms(2) show ?thesis by (auto simp: log_ok_def numbered_snoc event_number_def)
qed (use assms(2) in simp)

interpretation journal_log: append_log "\<lambda>jl. session_log jl s" journal_step for s
proof
  fix jl jl'
  assume "journal_step jl jl'"
  then show "prefix (session_log jl s) (session_log jl' s)"
    by (cases rule: journal_step_cases [of _ _ s]) auto
qed

lemma journal_run_ok: "journal_step\<^sup>*\<^sup>* jl jl' \<Longrightarrow> log_ok s (session_log jl s) \<Longrightarrow> log_ok s (session_log jl' s)"
  by (induction rule: rtranclp_induct) (auto intro: journal_step_ok)

section \<open>Hydration\<close>

lemma mapR_unit_iff: "mapR f xs = Ok us \<Longrightarrow> x \<in> set xs \<Longrightarrow> f x = Ok ()"
  using mapR_Ok_mem [of f xs us x] by auto

lemma hydrate_Ok:
  assumes "hydrate jl sid events = (jl', Ok ())"
  shows "session_log jl' sid = sort_key je_sequence events" and "numbered event_number (session_log jl' sid)"
    and "\<forall>e \<in> set events. je_sequence e \<ge> 1 \<and> je_session_id e = sid \<and> validate_event e = Ok ()"
    and "s \<noteq> sid \<Longrightarrow> session_log jl' s = session_log jl s"
proof -
  let ?o = "sort_key je_sequence events"
  from assms obtain us where us: "mapR (check_hydrated sid) (enumerate 1 ?o) = Ok us" and jl': "jl' = dset sid ?o jl"
    by (auto simp: hydrate_def Let_def split: sum.splits)
  have nth: "je_session_id (?o ! i) = sid \<and> je_sequence (?o ! i) = int (Suc i) \<and> validate_event (?o ! i) = Ok ()"
    if i: "i < length ?o" for i
  proof -
    have "(Suc i, ?o ! i) \<in> set (enumerate 1 ?o)" using i by (auto simp: in_set_enumerate_eq)
    from mapR_unit_iff [OF us this] show ?thesis by (auto simp: check_hydrated_def bindR_Ok_iff)
  qed
  show "session_log jl' sid = ?o" "s \<noteq> sid \<Longrightarrow> session_log jl' s = session_log jl s" by (simp_all add: jl')
  have "map event_number ?o = [1..<Suc (length ?o)]"
  proof (rule nth_equalityI)
    show "map event_number ?o ! i = [1..<Suc (length ?o)] ! i" if "i < length (map event_number ?o)" for i
    proof -
      have "event_number (?o ! i) = Suc i" using nth [of i] that by (simp add: event_number_def)
      then show ?thesis using that by (simp del: upt_Suc)
    qed
  qed (simp del: upt_Suc)
  then show "numbered event_number (session_log jl' sid)" by (simp add: jl' numbered_def)
  have "\<forall>e \<in> set ?o. je_sequence e \<ge> 1 \<and> je_session_id e = sid \<and> validate_event e = Ok ()"
    using nth unfolding all_set_conv_all_nth by simp
  then show "\<forall>e \<in> set events. je_sequence e \<ge> 1 \<and> je_session_id e = sid \<and> validate_event e = Ok ()" by simp
qed

section \<open>Properties\<close>

text \<open>
  C25.  The journal of a session is numbered without gaps: after any calls of \<open>append_event\<close> for
  any sessions, starting from an empty log or from one that \<open>hydrate\<close> accepted with distinct ids, the
  events of the session carry the sequence numbers 1, 2, and so on, their ids are distinct, every one of
  them is valid, and the events that were there before are still there, in place.
\<close>

theorem journal_numbered:
  assumes "hydrate jl0 sid events = (jl, Ok ())" and "distinct (map je_event_id events)"
    and "journal_step\<^sup>*\<^sup>* jl jl'"
  shows "map je_sequence (session_log jl' sid) = map int [1..<Suc (length (session_log jl' sid))]
    \<and> distinct (map je_event_id (session_log jl' sid)) \<and> prefix (sort_key je_sequence events) (session_log jl' sid)
    \<and> next_sequence jl' sid = int (length (session_log jl' sid)) + 1
    \<and> (\<forall>e \<in> set (session_log jl' sid). je_session_id e = sid \<and> validate_event e = Ok ())"
proof -
  note h = hydrate_Ok [OF assms(1)]
  have "distinct (map je_event_id (sort_key je_sequence events))"
    using assms(2) by (metis distinct_map distinct_sort set_sort)
  then have "log_ok sid (session_log jl sid)" using h(2,3) unfolding h(1) by (simp add: log_ok_def)
  from journal_run_ok [OF assms(3) this] have ok: "log_ok sid (session_log jl' sid)" .
  let ?es = "session_log jl' sid"
  have "je_sequence (?es ! i) = int (Suc i)" if "i < length ?es" for i
  proof -
    have "event_number (?es ! i) = Suc i" using ok numbered_nth that by (auto simp: log_ok_def)
    moreover have "je_sequence (?es ! i) \<ge> 1" using ok that by (auto simp: log_ok_def)
    ultimately show ?thesis by (simp add: event_number_def)
  qed
  then have "map je_sequence ?es = map int [1..<Suc (length ?es)]"
    by (intro nth_equalityI) (simp_all del: upt_Suc)
  moreover have "max_sequence ?es = int (length ?es)"
    using ok by (intro max_sequence_numbered) (auto simp: log_ok_def)
  ultimately show ?thesis using ok journal_log.run_extends [OF assms(3), of sid] unfolding h(1)
    by (simp add: log_ok_def next_sequence_def)
qed

theorem journal_numbered_witness:
  "map je_sequence (session_log (fst (append_event 0 ''jev:1'' [(''rs:1'', [])] ''rs:1'' ''start'' ''kernel'' ''k'' None None None None None)) ''rs:1'') = [1]"
proof -
  let ?a = "append_event 0 ''jev:1'' [(''rs:1'', [])] ''rs:1'' ''start'' ''kernel'' ''k'' None None None None None"
  have "hydrate [] ''rs:1'' [] = ([(''rs:1'', [])], Ok ())" by (simp add: hydrate_def)
  moreover have "journal_step\<^sup>*\<^sup>* [(''rs:1'', [])] (fst ?a)" by (rule r_into_rtranclp, rule journal_step.Append)
  moreover have "length (session_log (fst ?a) ''rs:1'') = 1" by code_simp
  ultimately show ?thesis using journal_numbered [of "[]" "''rs:1''" "[]" _ "fst ?a"] by simp
qed

section \<open>Round trip\<close>

lemma event_eta [simp]:
  "\<lparr>je_event_id = je_event_id e, je_session_id = je_session_id e, je_sequence = je_sequence e, je_event_type = je_event_type e,
    je_timestamp = je_timestamp e, je_actor_type = je_actor_type e, je_actor_id = je_actor_id e, je_payload = je_payload e,
    je_previous_state = je_previous_state e, je_new_state = je_new_state e\<rparr> = e"
  by simp

lemma event_roundtrip:
  assumes "validate_event e = Ok ()" and "event_to_dict e = Ok d" and "reads_time fromiso (je_timestamp e)"
  shows "event_from_dict fromiso (PDict d) = Ok e"
proof -
  from assms(2) have d: "d = [(''event_id'', PStr (je_event_id e)), (''session_id'', PStr (je_session_id e)),
      (''sequence'', PInt (je_sequence e)), (''event_type'', PStr (je_event_type e)),
      (''timestamp'', iso_obj (je_timestamp e)), (''actor_type'', PStr (je_actor_type e)),
      (''actor_id'', PStr (je_actor_id e)), (''payload'', PDict (je_payload e)),
      (''previous_state'', opt_obj PStr (je_previous_state e)), (''new_state'', opt_obj PStr (je_new_state e))]"
    and finite: "validate_json_mapping (PDict (je_payload e)) = Ok (je_payload e)"
    by (auto simp: event_to_dict_def bindR_Ok_iff validate_json_mapping_iff)
  have strs: "req_str d ''event_id'' = Ok (je_event_id e)" "req_str d ''session_id'' = Ok (je_session_id e)"
    "req_str d ''event_type'' = Ok (je_event_type e)" "req_str d ''actor_type'' = Ok (je_actor_type e)"
    "req_str d ''actor_id'' = Ok (je_actor_id e)" "obj_get d ''sequence'' = PInt (je_sequence e)"
    "dget_default d ''payload'' (PDict []) = PDict (je_payload e)"
    using assms(1) unfolding d
    by (auto simp: req_str_def obj_get_def dget_default_def validate_event_def validate_event_ids_def bindR_Ok_iff)
  have opts: "opt_str (obj_get d ''previous_state'') = Ok (je_previous_state e)"
    "opt_str (obj_get d ''new_state'') = Ok (je_new_state e)"
    unfolding d by (simp_all add: opt_str_def obj_get_def dget_default_def opt_obj_def split: option.splits)
  have ts: "req_time fromiso d ''timestamp'' = Ok (je_timestamp e)"
    using coerce_iso [OF assms(3)] unfolding d
    by (simp add: req_time_def get_time_def obj_get_def dget_default_def iso_obj_def del: coerce_time.simps)
  show ?thesis by (simp add: event_from_dict_def strs opts ts finite Let_def assms(1))
qed

end
