(* ===== verification/Freeze.thy ===== *)
theory Freeze
  imports Evidence "HOL-Library.Multiset"
begin

text \<open>
  The evidence freeze of a wave (\<open>app/research/freeze.py\<close>): taking a snapshot of the records a
  wave may use, checking records against it, and its JSON form.  The SHA-256 of a text and the clock
  are the arguments \<open>H\<close> and \<open>now\<close>.
\<close>

section \<open>The freeze\<close>

record evidence_freeze =
  fz_freeze_id :: string
  fz_session_id :: string
  fz_wave_id :: int
  fz_created_at :: instant
  fz_as_of :: "instant option"
  fz_evidence_ids :: "string list"
  fz_content_hash :: string

definition check_freeze_ids :: "evidence_freeze \<Rightarrow> unit res" where
  "check_freeze_ids f =
     bindR (checkR (fz_freeze_id f \<noteq> []) (FreezeIntegrityError ''freeze_id must be non-empty'')) (\<lambda>_.
     bindR (checkR (fz_session_id f \<noteq> []) (FreezeIntegrityError ''session_id must be non-empty'')) (\<lambda>_.
     checkR (fz_content_hash f \<noteq> []) (FreezeIntegrityError ''content_hash must be non-empty'')))"

text \<open>The constructor with its \<open>__post_init__\<close>.\<close>

definition make_freeze :: "evidence_freeze \<Rightarrow> evidence_freeze res" where
  "make_freeze f = bindR (check_freeze_ids f) (\<lambda>_.
     bindR (checkR (fz_wave_id f \<ge> 1) (FreezeIntegrityError ''wave_id must be an int >= 1'')) (\<lambda>_. Ok f))"

definition freeze_line :: "evidence \<Rightarrow> string" where
  "freeze_line e = ev_evidence_id e @ '':'' @ ev_content_hash e"

definition newline :: string where
  "newline = [CHR 0x0A]"

definition freeze_body :: "evidence list \<Rightarrow> string" where
  "freeze_body records = join newline (map freeze_line (sort_key ev_evidence_id records))"

definition freeze_content_hash :: "(string \<Rightarrow> string) \<Rightarrow> evidence list \<Rightarrow> string" where
  "freeze_content_hash H records = H (freeze_body records)"

fun freeze_time :: "iso_parser \<Rightarrow> time_arg \<Rightarrow> instant option res" where
  "freeze_time fromiso TNone = Ok None"
| "freeze_time fromiso (TStamp v) = Ok (Some (normalize_time v))"
| "freeze_time fromiso (TText s) = (case fromiso s of
       None \<Rightarrow> Err (FreezeIntegrityError ''must be an ISO-8601 datetime'')
     | Some v \<Rightarrow> Ok (Some (normalize_time v)))"
| "freeze_time fromiso TOther = Err (TypeError ''fromisoformat: argument must be str'')"

definition check_freeze_wave :: "int \<Rightarrow> unit res" where
  "check_freeze_wave wave = checkR (wave \<ge> 1) (FreezeIntegrityError ''wave_id must be an int >= 1'')"

definition check_freeze_membership :: "string \<Rightarrow> int \<Rightarrow> evidence list \<Rightarrow> unit res" where
  "check_freeze_membership sid wave recs = bindR
     (mapR (\<lambda>e. checkR (ev_session_id e = sid \<and> 1 \<le> ev_wave_id e \<and> ev_wave_id e \<le> wave)
        (FreezeIntegrityError ''belongs to another session or wave'')) recs)
     (\<lambda>_. Ok ())"

definition freeze_cutoff :: "instant option \<Rightarrow> time_arg" where
  "freeze_cutoff as_of = (case as_of of None \<Rightarrow> TNone | Some t \<Rightarrow> TStamp (Aware t))"

definition check_freeze_pit_one :: "iso_parser \<Rightarrow> instant option \<Rightarrow> evidence \<Rightarrow> unit res" where
  "check_freeze_pit_one fromiso as_of e =
     bindR (checkR (\<not> pit_unverified (freeze_cutoff as_of) (known_arg e)) (FreezeIntegrityError ''unverified PIT'')) (\<lambda>_.
     bindR (pit_violated fromiso (freeze_cutoff as_of) (known_arg e)) (\<lambda>violated.
     checkR (\<not> violated) (FreezeIntegrityError ''violates PIT'')))"

definition check_freeze_pit :: "iso_parser \<Rightarrow> instant option \<Rightarrow> evidence list \<Rightarrow> unit res" where
  "check_freeze_pit fromiso as_of recs = bindR (mapR (check_freeze_pit_one fromiso as_of) recs) (\<lambda>_. Ok ())"

definition freeze_ids :: "evidence list \<Rightarrow> string list res" where
  "freeze_ids recs = (let ids = sort (remdups (map ev_evidence_id recs))
     in bindR (checkR (length ids = length recs) (FreezeIntegrityError ''duplicate evidence ids'')) (\<lambda>_. Ok ids))"

definition create_freeze :: "(string \<Rightarrow> string) \<Rightarrow> iso_parser \<Rightarrow> instant \<Rightarrow> string \<Rightarrow> string \<Rightarrow> int \<Rightarrow> evidence list
    \<Rightarrow> time_arg \<Rightarrow> time_arg \<Rightarrow> evidence_freeze res" where
  "create_freeze H fromiso now fid sid wave recs as_of created_at =
     bindR (check_freeze_wave wave) (\<lambda>_.
     bindR (check_freeze_membership sid wave recs) (\<lambda>_.
     bindR (freeze_time fromiso as_of) (\<lambda>frozen_as_of.
     bindR (check_freeze_pit fromiso frozen_as_of recs) (\<lambda>_.
     bindR (freeze_ids recs) (\<lambda>ids.
     bindR (freeze_time fromiso created_at) (\<lambda>created.
     make_freeze \<lparr>fz_freeze_id = fid, fz_session_id = sid, fz_wave_id = wave,
       fz_created_at = (case created of None \<Rightarrow> now | Some t \<Rightarrow> t), fz_as_of = frozen_as_of,
       fz_evidence_ids = ids, fz_content_hash = freeze_content_hash H recs\<rparr>))))))"

definition verify_freeze :: "(string \<Rightarrow> string) \<Rightarrow> evidence_freeze \<Rightarrow> evidence list \<Rightarrow> unit res" where
  "verify_freeze H f recs =
     bindR (checkR (set (map ev_evidence_id recs) = set (fz_evidence_ids f)) (FreezeIntegrityError ''evidence id set drifted'')) (\<lambda>_.
     checkR (freeze_content_hash H recs = fz_content_hash f) (FreezeIntegrityError ''content_hash mismatch''))"

section \<open>The JSON form\<close>

definition freeze_to_dict :: "evidence_freeze \<Rightarrow> (string, pyobj) dict" where
  "freeze_to_dict f =
     [(''freeze_id'', PStr (fz_freeze_id f)), (''session_id'', PStr (fz_session_id f)), (''wave_id'', PInt (fz_wave_id f)),
      (''created_at'', iso_obj (fz_created_at f)), (''as_of'', opt_obj iso_obj (fz_as_of f)),
      (''evidence_ids'', py_values (fz_evidence_ids f)), (''content_hash'', PStr (fz_content_hash f))]"

definition narrow_wave :: "pyobj \<Rightarrow> int res" where
  "narrow_wave v = (case v of PInt n \<Rightarrow> if n < 1 then Err (FreezeIntegrityError ''wave_id must be an int >= 1'') else Ok n
     | _ \<Rightarrow> Err (FreezeIntegrityError ''wave_id must be an int >= 1''))"

definition narrow_opt_time :: "pyobj \<Rightarrow> time_arg res" where
  "narrow_opt_time v = (case v of PNone \<Rightarrow> Ok TNone | PStr s \<Rightarrow> Ok (TText s)
     | _ \<Rightarrow> Err (FreezeIntegrityError ''must be a datetime, ISO-8601 string, or null''))"

definition freeze_text :: "(string, pyobj) dict \<Rightarrow> string \<Rightarrow> string res" where
  "freeze_text d key = (case obj_get d key of
       PStr s \<Rightarrow> if s \<noteq> [] then Ok s else Err (FreezeIntegrityError ''must be a non-empty string'')
     | _ \<Rightarrow> Err (FreezeIntegrityError ''must be a non-empty string''))"

definition freeze_ids_triplet :: "(string, pyobj) dict \<Rightarrow> (string \<times> string \<times> string) res" where
  "freeze_ids_triplet d = bindR (freeze_text d ''freeze_id'') (\<lambda>fid. bindR (freeze_text d ''session_id'') (\<lambda>sid.
     bindR (freeze_text d ''content_hash'') (\<lambda>h. Ok (fid, sid, h))))"

definition freeze_evidence_tuple :: "(string, pyobj) dict \<Rightarrow> string list res" where
  "freeze_evidence_tuple d = (case dget_default d ''evidence_ids'' (PList []) of
       PList xs \<Rightarrow> if list_all is_str xs then Ok (map str_of xs)
                   else Err (FreezeIntegrityError ''evidence_ids must be a list of strings'')
     | _ \<Rightarrow> Err (FreezeIntegrityError ''evidence_ids must be a list of strings''))"

definition freeze_opt_time :: "iso_parser \<Rightarrow> (string, pyobj) dict \<Rightarrow> string \<Rightarrow> instant option res" where
  "freeze_opt_time fromiso d key = bindR (narrow_opt_time (obj_get d key)) (freeze_time fromiso)"

definition freeze_from_dict :: "iso_parser \<Rightarrow> instant \<Rightarrow> (string, pyobj) dict \<Rightarrow> evidence_freeze res" where
  "freeze_from_dict fromiso now d =
     bindR (freeze_ids_triplet d) (\<lambda>(fid, sid, h).
     bindR (narrow_wave (obj_get d ''wave_id'')) (\<lambda>wave.
     bindR (freeze_opt_time fromiso d ''created_at'') (\<lambda>created.
     bindR (freeze_opt_time fromiso d ''as_of'') (\<lambda>as_of.
     bindR (freeze_evidence_tuple d) (\<lambda>ids.
     make_freeze \<lparr>fz_freeze_id = fid, fz_session_id = sid, fz_wave_id = wave,
       fz_created_at = (case created of None \<Rightarrow> now | Some t \<Rightarrow> t), fz_as_of = as_of,
       fz_evidence_ids = ids, fz_content_hash = h\<rparr>)))))"

section \<open>What an accepted freeze says\<close>

lemma check_freeze_pit_one_iff:
  "check_freeze_pit_one fromiso as_of e = Ok () \<longleftrightarrow> (\<forall>c. as_of = Some c \<longrightarrow> (\<exists>k. ev_known_at e = Some k \<and> k \<le> c))"
  by (cases as_of; cases "ev_known_at e")
    (auto simp: check_freeze_pit_one_def freeze_cutoff_def known_arg_def pit_unverified_def as_of_bounded_def
      pit_violated_def unbounded_text_def normalize_time_def)

lemma mapR_unit: "bindR (mapR f xs) (\<lambda>_. Ok ()) = Ok () \<longleftrightarrow> (\<forall>x \<in> set xs. f x = Ok ())"
  for f :: "'a \<Rightarrow> unit res"
  by (auto simp: bindR_Ok_iff mapR_Ok_iff is_ok_iff)

lemma freeze_ids_Ok: "freeze_ids recs = Ok ids \<longleftrightarrow> distinct (map ev_evidence_id recs) \<and> ids = sort (map ev_evidence_id recs)"
proof -
  have "length (remdups (map ev_evidence_id recs)) = length recs \<longleftrightarrow> distinct (map ev_evidence_id recs)"
    by (metis length_map length_remdups_eq remdups_id_iff_distinct)
  then show ?thesis by (auto simp: freeze_ids_def Let_def bindR_Ok_iff distinct_remdups_id)
qed

lemma create_freeze_Ok:
  assumes "create_freeze H fromiso now fid sid wave recs as_of created_at = Ok f"
  shows "distinct (map ev_evidence_id recs)" and "fz_evidence_ids f = sort (map ev_evidence_id recs)"
    and "fz_content_hash f = H (freeze_body recs)" and "freeze_time fromiso as_of = Ok (fz_as_of f)"
    and "e \<in> set recs \<Longrightarrow> ev_session_id e = fz_session_id f \<and> 1 \<le> ev_wave_id e \<and> ev_wave_id e \<le> fz_wave_id f"
    and "e \<in> set recs \<Longrightarrow> fz_as_of f = Some c \<Longrightarrow> \<exists>k. ev_known_at e = Some k \<and> k \<le> c"
proof -
  from assms obtain frozen ids created where
      member: "check_freeze_membership sid wave recs = Ok ()"
    and frozen: "freeze_time fromiso as_of = Ok frozen"
    and pit: "check_freeze_pit fromiso frozen recs = Ok ()"
    and ids: "freeze_ids recs = Ok ids"
    and f: "f = \<lparr>fz_freeze_id = fid, fz_session_id = sid, fz_wave_id = wave,
       fz_created_at = (case created of None \<Rightarrow> now | Some t \<Rightarrow> t), fz_as_of = frozen,
       fz_evidence_ids = ids, fz_content_hash = freeze_content_hash H recs\<rparr>"
    by (auto simp: create_freeze_def make_freeze_def bindR_Ok_iff)
  show "distinct (map ev_evidence_id recs)" "fz_evidence_ids f = sort (map ev_evidence_id recs)"
    using ids by (simp_all add: freeze_ids_Ok f)
  show "fz_content_hash f = H (freeze_body recs)" "freeze_time fromiso as_of = Ok (fz_as_of f)"
    by (simp_all add: f frozen freeze_content_hash_def)
  show "ev_session_id e = fz_session_id f \<and> 1 \<le> ev_wave_id e \<and> ev_wave_id e \<le> fz_wave_id f" if "e \<in> set recs"
    using member that unfolding check_freeze_membership_def mapR_unit checkR_Ok_iff by (simp add: f)
  show "\<exists>k. ev_known_at e = Some k \<and> k \<le> c" if "e \<in> set recs" "fz_as_of f = Some c"
    using pit that unfolding check_freeze_pit_def mapR_unit check_freeze_pit_one_iff by (simp add: f)
qed

lemma verify_freeze_iff:
  "verify_freeze H f recs = Ok () \<longleftrightarrow>
     ev_evidence_id ` set recs = set (fz_evidence_ids f) \<and> H (freeze_body recs) = fz_content_hash f"
  by (auto simp: verify_freeze_def bindR_Ok_iff freeze_content_hash_def)

text \<open>The body of a freeze does not depend on the order in which the records come.\<close>

lemma freeze_body_perm:
  assumes "mset recs' = mset recs" and "distinct (map ev_evidence_id recs)"
  shows "freeze_body recs' = freeze_body recs"
proof -
  have "inj_on ev_evidence_id (set recs')"
    using assms by (metis distinct_map mset_eq_setD)
  then have "sort_key ev_evidence_id recs' = sort_key ev_evidence_id recs"
    using assms(1) by (intro sort_key_inj_key_eq) simp_all
  then show ?thesis by (simp add: freeze_body_def)
qed

section \<open>Reading a body back\<close>

lemma split_first:
  assumes "x @ c # y = x' @ c # y'" and "c \<notin> set x" and "c \<notin> set x'"
  shows "x = x' \<and> y = y'"
  using assms
proof (induction x arbitrary: x')
  case Nil
  then show ?case by (cases x') auto
next
  case (Cons a x)
  then show ?case by (cases x') auto
qed

lemma split_last:
  assumes "x @ c # y = x' @ c # y'" and "c \<notin> set y" and "c \<notin> set y'"
  shows "x = x' \<and> y = y'"
proof -
  have "rev y @ c # rev x = rev y' @ c # rev x'" using assms(1) by (metis append.assoc append_Cons append_Nil rev.simps(2) rev_append)
  from split_first [OF this] assms(2,3) show ?thesis by simp
qed

lemma join_inject:
  assumes "join [c] xs = join [c] ys" and "\<forall>x \<in> set xs. x \<noteq> [] \<and> c \<notin> set x" and "\<forall>y \<in> set ys. y \<noteq> [] \<and> c \<notin> set y"
  shows "xs = ys"
  using assms
proof (induction "[c]" xs arbitrary: ys rule: join.induct)
  case 1
  show ?case
  proof (cases ys)
    case (Cons y ys')
    with 1 show ?thesis by (cases ys') auto
  qed simp
next
  case (2 x)
  show ?case
  proof (cases ys)
    case (Cons y ys')
    with 2 show ?thesis by (cases ys') auto
  qed (use 2 in simp)
next
  case (3 x x' xs)
  show ?case
  proof (cases ys)
    case Nil
    with 3 show ?thesis by simp
  next
    case (Cons y ys')
    show ?thesis
    proof (cases ys')
      case Nil
      with 3 Cons show ?thesis by auto
    next
      case (Cons y' ys'')
      with \<open>ys = y # ys'\<close> 3(2) have "x @ c # join [c] (x' # xs) = y @ c # join [c] (y' # ys'')" by simp
      from split_first [OF this] 3(3,4) \<open>ys = y # ys'\<close> Cons have "x = y" "join [c] (x' # xs) = join [c] (y' # ys'')"
        by auto
      with 3(1) [of "y' # ys''"] 3(3,4) \<open>ys = y # ys'\<close> Cons show ?thesis by simp
    qed
  qed
qed

text \<open>Ids on one line and hashes without a colon, as the program mints them.\<close>

definition plain_record :: "evidence \<Rightarrow> bool" where
  "plain_record e \<longleftrightarrow> CHR 0x0A \<notin> set (ev_evidence_id e) \<and> CHR 0x0A \<notin> set (ev_content_hash e)
     \<and> CHR '':'' \<notin> set (ev_content_hash e)"

lemma freeze_body_inject:
  assumes "freeze_body recs = freeze_body recs'" and "\<forall>e \<in> set recs \<union> set recs'. plain_record e"
  shows "mset (map (\<lambda>e. (ev_evidence_id e, ev_content_hash e)) recs) = mset (map (\<lambda>e. (ev_evidence_id e, ev_content_hash e)) recs')"
proof -
  let ?s = "sort_key ev_evidence_id" and ?p = "\<lambda>e. (ev_evidence_id e, ev_content_hash e)"
  have line: "freeze_line e \<noteq> [] \<and> CHR 0x0A \<notin> set (freeze_line e)" if "plain_record e" for e
    using that by (auto simp: freeze_line_def plain_record_def)
  have lines: "map freeze_line (?s recs) = map freeze_line (?s recs')"
    using assms line by (intro join_inject [of "CHR 0x0A"]) (auto simp: freeze_body_def newline_def)
  then have len: "length (?s recs) = length (?s recs')" by (rule map_eq_imp_length_eq)
  have "?p (?s recs ! i) = ?p (?s recs' ! i)" if i: "i < length (?s recs)" for i
  proof -
    have "freeze_line (?s recs ! i) = freeze_line (?s recs' ! i)" using lines i len by (metis nth_map)
    moreover have "?s recs ! i \<in> set recs" "?s recs' ! i \<in> set recs'"
      using nth_mem [OF i] nth_mem [of i "?s recs'"] i len by (metis set_sort)+
    with assms(2) have "plain_record (?s recs ! i)" "plain_record (?s recs' ! i)" by auto
    ultimately show ?thesis
      using split_last [of "ev_evidence_id (?s recs ! i)" "CHR '':''" "ev_content_hash (?s recs ! i)"
          "ev_evidence_id (?s recs' ! i)" "ev_content_hash (?s recs' ! i)"]
      by (simp add: freeze_line_def plain_record_def)
  qed
  with len have "map ?p (?s recs) = map ?p (?s recs')" by (intro nth_equalityI) simp_all
  then have "mset (map ?p (?s recs)) = mset (map ?p (?s recs'))" by (rule arg_cong)
  then show ?thesis by simp
qed

section \<open>Properties\<close>

text \<open>
  C7.  A freeze accepts exactly the snapshot it was taken of.  The records of the freeze verify in
  every order; they all belong to its session and to a wave up to its own, and none was known after
  its cutoff.  Conversely a list of records that verifies has the same ids with the same contents and
  no further record, as long as the hash does not collide on the texts at hand, the contents of all
  records match their hashes, and ids and hashes are printed on one line, the hashes without a colon.
\<close>

theorem freeze_accepts_snapshot:
  assumes "create_freeze H fromiso now fid sid wave recs as_of created_at = Ok f"
  shows "(mset recs' = mset recs \<longrightarrow> verify_freeze H f recs' = Ok ())
    \<and> (\<forall>e \<in> set recs. ev_session_id e = fz_session_id f \<and> 1 \<le> ev_wave_id e \<and> ev_wave_id e \<le> fz_wave_id f
         \<and> (\<forall>c. fz_as_of f = Some c \<longrightarrow> (\<exists>k. ev_known_at e = Some k \<and> k \<le> c)))
    \<and> (verify_freeze H f recs' = Ok ()
         \<longrightarrow> inj_on H ({freeze_body recs, freeze_body recs'} \<union> ev_content ` (set recs \<union> set recs'))
         \<longrightarrow> (\<forall>e \<in> set recs \<union> set recs'. plain_record e \<and> ev_content_hash e = evidence_content_hash H (ev_content e))
         \<longrightarrow> mset (map (\<lambda>e. (ev_evidence_id e, ev_content e)) recs') = mset (map (\<lambda>e. (ev_evidence_id e, ev_content e)) recs))"
proof (intro conjI impI)
  note f = create_freeze_Ok [OF assms]
  show "verify_freeze H f recs' = Ok ()" if "mset recs' = mset recs"
    using freeze_body_perm [OF that f(1)] mset_eq_setD [OF that] by (simp add: verify_freeze_iff f(2,3))
  show "\<forall>e \<in> set recs. ev_session_id e = fz_session_id f \<and> 1 \<le> ev_wave_id e \<and> ev_wave_id e \<le> fz_wave_id f
      \<and> (\<forall>c. fz_as_of f = Some c \<longrightarrow> (\<exists>k. ev_known_at e = Some k \<and> k \<le> c))"
    using f(5,6) by blast
  assume verified: "verify_freeze H f recs' = Ok ()"
    and inj: "inj_on H ({freeze_body recs, freeze_body recs'} \<union> ev_content ` (set recs \<union> set recs'))"
    and plain: "\<forall>e \<in> set recs \<union> set recs'. plain_record e \<and> ev_content_hash e = evidence_content_hash H (ev_content e)"
  have "H (freeze_body recs') = H (freeze_body recs)" using verified by (simp add: verify_freeze_iff f(3))
  then have "freeze_body recs' = freeze_body recs" by (rule inj_onD [OF inj]) simp_all
  then have pairs: "mset (map (\<lambda>e. (ev_evidence_id e, ev_content_hash e)) recs')
      = mset (map (\<lambda>e. (ev_evidence_id e, ev_content_hash e)) recs)"
    using plain by (intro freeze_body_inject) auto
  define g where "g = (\<lambda>(i :: string, h). (i, inv_into (ev_content ` (set recs \<union> set recs')) H h))"
  have inj': "inj_on H (ev_content ` (set recs \<union> set recs'))" using inj by (rule inj_on_subset) blast
  have read: "g (ev_evidence_id e, ev_content_hash e) = (ev_evidence_id e, ev_content e)" if "e \<in> set recs \<union> set recs'" for e
  proof -
    have "ev_content_hash e = H (ev_content e)" using plain that by (simp add: evidence_content_hash_def)
    moreover have "ev_content e \<in> ev_content ` (set recs \<union> set recs')" using that by (rule imageI)
    ultimately show ?thesis using inv_into_f_f [OF inj'] by (simp add: g_def)
  qed
  have contents: "mset (map (\<lambda>e. (ev_evidence_id e, ev_content e)) es)
      = image_mset g (mset (map (\<lambda>e. (ev_evidence_id e, ev_content_hash e)) es))" if "set es \<subseteq> set recs \<union> set recs'" for es
    using that read unfolding mset_map multiset.map_comp
    by (intro image_mset_cong) (auto simp: o_def)
  show "mset (map (\<lambda>e. (ev_evidence_id e, ev_content e)) recs') = mset (map (\<lambda>e. (ev_evidence_id e, ev_content e)) recs)"
    using contents [of recs] contents [of recs'] pairs by simp
qed

theorem freeze_accepts_snapshot_witness:
  "\<exists>f. create_freeze (\<lambda>s. s) (\<lambda>_. None) 0 ''fz:1'' ''rs:1'' 1 [demo_evidence] (TStamp (Aware 0)) TNone = Ok f
     \<and> verify_freeze (\<lambda>s. s) f [demo_evidence] = Ok ()"
proof -
  have "is_ok (create_freeze (\<lambda>s. s) (\<lambda>_. None) 0 ''fz:1'' ''rs:1'' 1 [demo_evidence] (TStamp (Aware 0)) TNone)"
    by code_simp
  then obtain f where f: "create_freeze (\<lambda>s. s) (\<lambda>_. None) 0 ''fz:1'' ''rs:1'' 1 [demo_evidence] (TStamp (Aware 0)) TNone = Ok f"
    by (auto simp: is_ok_iff)
  from freeze_accepts_snapshot [OF f, of "[demo_evidence]"] f show ?thesis by blast
qed

section \<open>Round trip\<close>

lemma freeze_eta:
  "\<lparr>fz_freeze_id = fz_freeze_id f, fz_session_id = fz_session_id f, fz_wave_id = fz_wave_id f,
    fz_created_at = fz_created_at f, fz_as_of = fz_as_of f, fz_evidence_ids = fz_evidence_ids f,
    fz_content_hash = fz_content_hash f\<rparr> = f"
  by simp

lemma freeze_opt_time_back:
  "obj_get d key = opt_obj iso_obj t \<Longrightarrow> \<forall>x. t = Some x \<longrightarrow> fromiso (iso_of x) = Some (Aware x)
    \<Longrightarrow> freeze_opt_time fromiso d key = Ok t"
  by (cases t) (simp_all add: freeze_opt_time_def narrow_opt_time_def opt_obj_def iso_obj_def normalize_time_def)

text \<open>
  A valid freeze survives its JSON form, so one that was stored still verifies its records.
\<close>

lemma freeze_roundtrip:
  assumes "make_freeze f = Ok f" and "\<forall>t \<in> insert (fz_created_at f) (set_option (fz_as_of f)). fromiso (iso_of t) = Some (Aware t)"
  shows "freeze_from_dict fromiso now (freeze_to_dict f) = Ok f"
proof -
  define d where "d = freeze_to_dict f"
  have gets: "obj_get d ''created_at'' = opt_obj iso_obj (Some (fz_created_at f))" "obj_get d ''as_of'' = opt_obj iso_obj (fz_as_of f)"
    by (simp_all add: d_def freeze_to_dict_def obj_get_def dget_default_def opt_obj_def)
  have "freeze_ids_triplet d = Ok (fz_freeze_id f, fz_session_id f, fz_content_hash f)"
    "narrow_wave (obj_get d ''wave_id'') = Ok (fz_wave_id f)"
    using assms(1) by (auto simp: d_def freeze_to_dict_def freeze_ids_triplet_def freeze_text_def obj_get_def dget_default_def
        narrow_wave_def make_freeze_def check_freeze_ids_def bindR_Ok_iff)
  moreover have "freeze_evidence_tuple d = Ok (fz_evidence_ids f)"
    by (simp add: d_def freeze_to_dict_def freeze_evidence_tuple_def dget_default_def py_values_def)
  moreover have "freeze_opt_time fromiso d ''created_at'' = Ok (Some (fz_created_at f))"
    "freeze_opt_time fromiso d ''as_of'' = Ok (fz_as_of f)"
    using assms(2) by (intro freeze_opt_time_back gets; auto)+
  ultimately have "freeze_from_dict fromiso now d = Ok f"
    by (simp add: freeze_from_dict_def freeze_eta assms(1))
  then show ?thesis by (simp add: d_def)
qed

text \<open>A stored freeze without a creation time is given the time of the reading.\<close>

lemma freeze_invents_created_at:
  "map_option fz_created_at (case freeze_from_dict (\<lambda>_. None) now
     [(''freeze_id'', PStr ''fz:1''), (''session_id'', PStr ''rs:1''), (''wave_id'', PInt 1), (''content_hash'', PStr ''00'')]
     of Err _ \<Rightarrow> None | Ok f \<Rightarrow> Some f) = Some now"
  by (simp add: freeze_from_dict_def freeze_ids_triplet_def freeze_text_def obj_get_def dget_default_def narrow_wave_def
      freeze_opt_time_def narrow_opt_time_def freeze_evidence_tuple_def make_freeze_def check_freeze_ids_def)

end
