(* ===== verification/Grounding.thy ===== *)
theory Grounding
  imports Kernel
begin

text \<open>
  Model output into typed, grounded committee data (\<open>app/research/agents/__init__.py\<close> and the
  three committee agents): claims that cite only the ids of a freeze, the committee envelope and the
  analysis built from it.  \<open>json.loads\<close> and \<open>json.dumps\<close> are the arguments \<open>loads\<close>
  (a value, or the exception it raises) and \<open>dumps\<close>; the answer of the language model is
  an argument of the agents, whose prompts are not modelled.
\<close>

type_synonym json_loads = "string \<Rightarrow> pyobj res"
type_synonym json_dumps = "pyobj \<Rightarrow> string"

section \<open>Vocabularies and records\<close>

definition committee_claim_types :: "string list" where
  "committee_claim_types = [''observed_fact'', ''inference'', ''unknown'', ''contradicted'']"

definition materiality_levels :: "string list" where
  "materiality_levels = [''critical'', ''high'', ''medium'', ''low'']"

definition committee_required_keys :: "string list" where
  "committee_required_keys = [''executive_view'', ''claims'', ''impact_channels'', ''materiality'',
     ''uncertainties'', ''what_would_change'', ''follow_ups'']"

record research_request =
  rq_question :: string
  rq_why_material :: string
  rq_requested_source_domain :: string
  rq_expected_gain :: string
  rq_requesting_agents :: "string list"

record impact_channel =
  ic_text :: string
  ic_direction :: string
  ic_evidence_ids :: "string list"

record committee_materiality =
  cm_overall :: string
  cm_reasoning :: string

record grounded_claim =
  gc_text :: string
  gc_claim_type :: string
  gc_evidence_ids :: "string list"

section \<open>Claims\<close>

definition frozen_set :: "string list \<Rightarrow> string list" where
  "frozen_set frozen = filter (\<lambda>e. e \<noteq> []) frozen"

text \<open>
  Where the code catches \<open>json.JSONDecodeError\<close> (\<open>None\<close> here), any other error of
  \<open>json.loads\<close> goes through: \<open>ValueError\<close> for an integer of too many digits,
  \<open>RecursionError\<close> for deep nesting.
\<close>

definition loads_or_none :: "json_loads \<Rightarrow> string \<Rightarrow> pyobj option res" where
  "loads_or_none loads s = (case loads s of
       Ok v \<Rightarrow> Ok (Some v) | Err (JsonDecodeError _) \<Rightarrow> Ok None | Err e \<Rightarrow> Err e)"

definition decode_claims_list :: "json_loads \<Rightarrow> string \<Rightarrow> pyobj list res" where
  "decode_claims_list loads s =
     (if strip s = [] then Err (ModelOutputFailure ''claims must be one JSON document (got blank)'')
      else bindR (loads_or_none loads (strip s)) (\<lambda>v. case v of
          None \<Rightarrow> Err (ModelOutputFailure ''claims must be one JSON document'')
        | Some (PList xs) \<Rightarrow> Ok xs
        | Some _ \<Rightarrow> Err (ModelOutputFailure ''claims must be a JSON list'')))"

definition claim_text :: "(string, pyobj) dict \<Rightarrow> string res" where
  "claim_text d = (case obj_get d ''text'' of
       PStr s \<Rightarrow> if strip s \<noteq> [] then Ok s else Err (ModelOutputFailure ''each claim needs non-empty text'')
     | _ \<Rightarrow> Err (ModelOutputFailure ''each claim needs non-empty text''))"

definition claim_type :: "(string, pyobj) dict \<Rightarrow> string res" where
  "claim_type d = (case obj_get d ''claim_type'' of
       PNone \<Rightarrow> Ok ''inference''
     | PStr s \<Rightarrow> if lower (strip s) \<in> set committee_claim_types then Ok (lower (strip s))
                 else Err (ModelOutputFailure ''claim_type must be one of'')
     | _ \<Rightarrow> Err (ModelOutputFailure ''claim_type must be one of''))"

definition grounded_ids :: "string list \<Rightarrow> pyobj \<Rightarrow> string list option res" where
  "grounded_ids frozen v = (case v of
       PList xs \<Rightarrow>
         if list_ex (\<lambda>x. \<not> is_str x \<or> str_of x = []) xs then Ok None
         else if list_ex (\<lambda>x. str_of x \<notin> set frozen) xs then Err (ModelOutputFailure ''unknown evidence id'')
         else Ok (Some (dedup (map str_of xs)))
     | _ \<Rightarrow> Ok None)"

definition claim_ids :: "string list \<Rightarrow> (string, pyobj) dict \<Rightarrow> string \<Rightarrow> string list res" where
  "claim_ids frozen d ctype = bindR (grounded_ids frozen (obj_get d ''evidence_ids'')) (\<lambda>seen. case seen of
       None \<Rightarrow> Err (ModelOutputFailure ''each claim needs an evidence_ids list of ids'')
     | Some ids \<Rightarrow> if ids = [] \<and> ctype \<noteq> ''unknown'' then Err (ModelOutputFailure ''uncited claim'') else Ok ids)"

definition build_claim :: "string list \<Rightarrow> pyobj \<Rightarrow> grounded_claim res" where
  "build_claim frozen item = (case item of
       PDict d \<Rightarrow>
         if list_ex (\<lambda>k. k \<notin> {''text'', ''claim_type'', ''evidence_ids''}) (map fst d)
            \<or> ''evidence_ids'' \<notin> set (map fst d) \<or> ''text'' \<notin> set (map fst d)
         then Err (ModelOutputFailure ''each claim must contain exactly {text, claim_type, evidence_ids}'')
         else bindR (claim_text d) (\<lambda>raw. bindR (claim_type d) (\<lambda>ctype. bindR (claim_ids frozen d ctype) (\<lambda>ids.
              Ok \<lparr>gc_text = take 500 (strip raw), gc_claim_type = ctype, gc_evidence_ids = ids\<rparr>)))
     | _ \<Rightarrow> Err (ModelOutputFailure ''each claim must be {text, claim_type, evidence_ids}''))"

definition parse_grounded_claims :: "json_loads \<Rightarrow> string list \<Rightarrow> string \<Rightarrow> grounded_claim list res" where
  "parse_grounded_claims loads frozen s =
     bindR (decode_claims_list loads s) (mapR (build_claim (frozen_set frozen)))"

section \<open>Tolerant parsing\<close>

text \<open>The text before the first code fence and the text after it.\<close>

fun at_fence :: "string \<Rightarrow> (string \<times> string) option" where
  "at_fence [] = None"
| "at_fence (c # cs) = (if take 3 (c # cs) = ''```'' then Some ([], drop 3 (c # cs))
     else map_option (\<lambda>(pre, post). (c # pre, post)) (at_fence cs))"

lemma at_fence_length: "at_fence s = Some (pre, post) \<Longrightarrow> length post < length s"
proof (induction s arbitrary: pre)
  case Nil
  then show ?case by simp
next
  case (Cons c cs)
  show ?case
  proof (cases "take 3 (c # cs) = ''```''")
    case True
    with Cons.prems have "post = drop 3 (c # cs)" by simp
    then show ?thesis by simp
  next
    case False
    with Cons.prems obtain pre' where "at_fence cs = Some (pre', post)" by (auto simp del: take_Cons_numeral)
    from Cons.IH [OF this] show ?thesis by simp
  qed
qed

definition skip_json :: "string \<Rightarrow> string" where
  "skip_json s = (if take 4 s = ''json'' then drop 4 s else s)"

lemma length_skip_json: "length (skip_json s) \<le> length s"
  by (simp add: skip_json_def)

lemma fence_shrinks:
  "at_fence s = Some (pre, opened) \<Longrightarrow> at_fence (skip_json opened) = Some (block, after) \<Longrightarrow> length after < length s"
  using at_fence_length [of s pre opened] at_fence_length [of "skip_json opened" block after] length_skip_json [of opened]
  by linarith

text \<open>
  The first group of every match of \<open>_FENCED_JSON\<close>, from left to right: what stands between an
  opening fence, with an optional \<open>json\<close>, and the next fence, without the white space around it.
\<close>

function fenced_blocks :: "string \<Rightarrow> string list" where
  "fenced_blocks s = (case at_fence s of
       None \<Rightarrow> []
     | Some (_, opened) \<Rightarrow> (case at_fence (skip_json opened) of
           None \<Rightarrow> []
         | Some (block, after) \<Rightarrow> strip block # fenced_blocks after))"
  by pat_completeness auto

termination
  by (relation "measure length") (auto dest: fence_shrinks)

declare fenced_blocks.simps [simp del]

definition try_json_list :: "json_loads \<Rightarrow> string \<Rightarrow> pyobj list option res" where
  "try_json_list loads s = bindR (loads_or_none loads (strip s))
     (\<lambda>v. Ok (case v of Some (PList xs) \<Rightarrow> Some xs | _ \<Rightarrow> None))"

fun is_dict :: "pyobj \<Rightarrow> bool" where
  "is_dict (PDict d) = True"
| "is_dict v = False"

definition try_json_object :: "json_loads \<Rightarrow> string \<Rightarrow> pyobj option res" where
  "try_json_object loads s = bindR (loads_or_none loads (strip s))
     (\<lambda>d. Ok (case d of Some v \<Rightarrow> if is_dict v then Some v else None | None \<Rightarrow> None))"

fun fenced_list :: "json_loads \<Rightarrow> string list \<Rightarrow> pyobj list option res" where
  "fenced_list loads [] = Ok None"
| "fenced_list loads (b # bs) = bindR (try_json_list loads b) (\<lambda>d. case d of
       None \<Rightarrow> fenced_list loads bs
     | Some xs \<Rightarrow> if list_ex is_dict xs then Ok (Some xs) else fenced_list loads bs)"

text \<open>\<open>text[text.find("["):text.rfind("]") + 1]\<close> when both are there in this order.\<close>

definition bracketed :: "string \<Rightarrow> string option" where
  "bracketed s = (let from = dropWhile (\<lambda>c. c \<noteq> CHR ''['') s; upto = rev (dropWhile (\<lambda>c. c \<noteq> CHR '']'') (rev from))
     in if upto = [] then None else Some upto)"

definition embedded_claim_list :: "json_loads \<Rightarrow> string \<Rightarrow> pyobj list option res" where
  "embedded_claim_list loads s = bindR (fenced_list loads (fenced_blocks s)) (\<lambda>d. case d of
       Some xs \<Rightarrow> Ok (Some xs)
     | None \<Rightarrow> bindR (try_json_object loads s) (\<lambda>single. case single of
           Some v \<Rightarrow> Ok (Some [v])
         | None \<Rightarrow> (case bracketed s of None \<Rightarrow> Ok None | Some t \<Rightarrow> try_json_list loads t)))"

definition decode_claims_list_relaxed :: "json_loads \<Rightarrow> string \<Rightarrow> pyobj list option res" where
  "decode_claims_list_relaxed loads s =
     (if strip s = [] then Ok None
      else bindR (try_json_list loads (strip s)) (\<lambda>d. case d of
          Some xs \<Rightarrow> Ok (Some xs) | None \<Rightarrow> embedded_claim_list loads (strip s)))"

text \<open>
  The loop of the tolerant parser: the claims kept and what \<open>on_reject\<close> is told of the others.
  Only \<open>ModelOutputFailure\<close> is caught.
\<close>

fun keep_grounded :: "json_dumps \<Rightarrow> string list \<Rightarrow> pyobj list \<Rightarrow> (grounded_claim list \<times> (string \<times> string) list) res" where
  "keep_grounded dumps frozen [] = Ok ([], [])"
| "keep_grounded dumps frozen (x # xs) = (case build_claim frozen x of
       Ok c \<Rightarrow> bindR (keep_grounded dumps frozen xs) (\<lambda>(cs, rs). Ok (c # cs, rs))
     | Err (ModelOutputFailure m) \<Rightarrow>
         bindR (keep_grounded dumps frozen xs) (\<lambda>(cs, rs). Ok (cs, (take 200 (dumps x), m) # rs))
     | Err e \<Rightarrow> Err e)"

definition parse_grounded_claims_tolerant :: "json_loads \<Rightarrow> json_dumps \<Rightarrow> string list \<Rightarrow> string
    \<Rightarrow> (grounded_claim list \<times> (string \<times> string) list) res" where
  "parse_grounded_claims_tolerant loads dumps frozen s = bindR (decode_claims_list_relaxed loads s) (\<lambda>d. case d of
       None \<Rightarrow> Ok ([], [(if strip s = [] then ''<blank>'' else take 200 (strip s), ''model output was not a JSON claim list'')])
     | Some items \<Rightarrow> keep_grounded dumps (frozen_set frozen) items)"

section \<open>References of claims\<close>

definition add_ref :: "string \<Rightarrow> string list \<Rightarrow> string list" where
  "add_ref eid refs = (if eid \<in> set refs then refs else refs @ [eid])"

definition claims_refs :: "grounded_claim list \<Rightarrow> string list" where
  "claims_refs claims = fold (\<lambda>c. fold add_ref (gc_evidence_ids c)) claims []"

definition conservative_order :: "string list" where
  "conservative_order = [''contradicted'', ''unknown'', ''inference'', ''observed_fact'']"

definition claim_rank :: "string \<Rightarrow> nat" where
  "claim_rank t = length (takeWhile (\<lambda>u. u \<noteq> t) conservative_order)"

definition conservative_claim_type :: "string list \<Rightarrow> string" where
  "conservative_claim_type types = (case filter (\<lambda>t. t \<in> set conservative_order) types of
       [] \<Rightarrow> ''inference''
     | t # ts \<Rightarrow> fold (\<lambda>u best. if claim_rank u < claim_rank best then u else best) ts t)"

section \<open>The committee envelope\<close>

definition decode_envelope :: "json_loads \<Rightarrow> string \<Rightarrow> (string, pyobj) dict res" where
  "decode_envelope loads s =
     (if strip s = [] then Err (ModelOutputFailure ''committee output must be one JSON document (got blank)'')
      else bindR (loads_or_none loads (strip s)) (\<lambda>v. case v of
          None \<Rightarrow> Err (ModelOutputFailure ''committee output must be one JSON document'')
        | Some (PDict d) \<Rightarrow> Ok d
        | Some _ \<Rightarrow> Err (ModelOutputFailure ''committee output must be a JSON object'')))"

fun is_list :: "pyobj \<Rightarrow> bool" where
  "is_list (PList xs) = True"
| "is_list v = False"

fun list_of :: "pyobj \<Rightarrow> pyobj list" where
  "list_of (PList xs) = xs"
| "list_of v = []"

definition envelope_lists :: "(string, pyobj) dict \<Rightarrow> (pyobj list \<times> pyobj list) res" where
  "envelope_lists d = bindR (checkR (is_list (obj_get d ''claims'') \<and> is_list (obj_get d ''follow_ups'')) (AssertionError []))
     (\<lambda>_. Ok (list_of (obj_get d ''claims''), list_of (obj_get d ''follow_ups'')))"

definition envelope_shape :: "(string \<times> (pyobj \<Rightarrow> bool)) list" where
  "envelope_shape = [(''claims'', is_list), (''impact_channels'', is_list), (''follow_ups'', is_list),
     (''uncertainties'', is_list), (''what_would_change'', is_list), (''executive_view'', is_str)]"

definition envelope_error :: py_error where
  "envelope_error = ModelOutputFailure ''ERR_COMMITTEE_ENVELOPE_INCOMPLETE''"

definition materiality_ok :: "(string, pyobj) dict \<Rightarrow> bool" where
  "materiality_ok p \<longleftrightarrow> (case obj_get p ''overall'' of PStr s \<Rightarrow> lower (strip s) \<in> set materiality_levels | _ \<Rightarrow> False)
     \<and> is_str (obj_get p ''reasoning'')"

definition require_materiality_payload :: "pyobj \<Rightarrow> unit res" where
  "require_materiality_payload v = checkR (materiality_ok (case v of PDict p \<Rightarrow> p | _ \<Rightarrow> [])) envelope_error"

definition require_rich_envelope :: "(string, pyobj) dict \<Rightarrow> unit res" where
  "require_rich_envelope d =
     bindR (checkR (list_all (\<lambda>k. k \<in> set (map fst d)) committee_required_keys) envelope_error) (\<lambda>_.
     bindR (checkR (list_all (\<lambda>(k, expected). expected (obj_get d k)) envelope_shape) envelope_error) (\<lambda>_.
     require_materiality_payload (obj_get d ''materiality'')))"

definition ends_question :: "string \<Rightarrow> bool" where
  "ends_question q \<longleftrightarrow> q \<noteq> [] \<and> last q = CHR ''?''"

definition follow_up_question :: "pyobj \<Rightarrow> string res" where
  "follow_up_question item = (case (case item of PDict d \<Rightarrow> dget_default d ''question'' (dget_default d ''text'' (PStr [])) | v \<Rightarrow> v) of
       PStr raw \<Rightarrow> let q = strip raw in
         if length q < 12 \<or> length q > 500 \<or> \<not> ends_question q
         then Err (ModelOutputFailure ''malformed committee follow_up'') else Ok q
     | _ \<Rightarrow> Err (ModelOutputFailure ''committee follow_up must be a question string''))"

definition text_or :: "string \<Rightarrow> pyobj \<Rightarrow> string" where
  "text_or fallback v = (case v of PStr s \<Rightarrow> if strip s \<noteq> [] then strip s else fallback | _ \<Rightarrow> fallback)"

definition build_follow_up :: "string \<Rightarrow> pyobj \<Rightarrow> research_request res" where
  "build_follow_up agent item = bindR (follow_up_question item) (\<lambda>q. Ok
     \<lparr>rq_question = q,
      rq_why_material = text_or ''committee follow-up'' (case item of
          PDict d \<Rightarrow> dget_default d ''why_it_matters'' (dget_default d ''why_material'' (PStr ''committee follow-up''))
        | _ \<Rightarrow> PStr ''committee follow-up''),
      rq_requested_source_domain = text_or ''SEC'' (case item of
          PDict d \<Rightarrow> dget_default d ''suggested_source'' (dget_default d ''requested_source_domain'' (PStr ''SEC''))
        | _ \<Rightarrow> PStr ''SEC''),
      rq_expected_gain = ''medium'', rq_requesting_agents = [agent]\<rparr>)"

definition str_or_blank :: "nat \<Rightarrow> pyobj \<Rightarrow> string" where
  "str_or_blank cap v = (case v of PStr s \<Rightarrow> take cap (strip s) | _ \<Rightarrow> [])"

definition parse_channel :: "string list \<Rightarrow> pyobj \<Rightarrow> impact_channel option res" where
  "parse_channel frozen item = (case item of
       PDict d \<Rightarrow> bindR (grounded_ids frozen (dget_default d ''evidence_ids'' (PList []))) (\<lambda>seen.
         case (obj_get d ''text'', seen) of
           (PStr s, Some (i # js)) \<Rightarrow> if strip s = [] then Ok None
             else Ok (Some \<lparr>ic_text = take 500 (strip s), ic_direction = str_or_blank 200 (obj_get d ''direction''),
                            ic_evidence_ids = i # js\<rparr>)
         | _ \<Rightarrow> Ok None)
     | _ \<Rightarrow> Ok None)"

definition parse_materiality :: "pyobj \<Rightarrow> committee_materiality res" where
  "parse_materiality v = (case v of
       PDict p \<Rightarrow> (case dget p ''overall'' of
           None \<Rightarrow> Err (KeyError ''overall'')
         | Some (PStr s) \<Rightarrow> Ok \<lparr>cm_overall = lower (strip s), cm_reasoning = str_or_blank 2000 (obj_get p ''reasoning'')\<rparr>
         | Some _ \<Rightarrow> Err (AssertionError []))
     | _ \<Rightarrow> Err (AssertionError []))"

definition parse_str_items :: "pyobj \<Rightarrow> string list" where
  "parse_str_items v = (case v of
       PList xs \<Rightarrow> map (\<lambda>x. take 2000 (strip (str_of x))) (filter (\<lambda>x. is_str x \<and> strip (str_of x) \<noteq> []) xs)
     | _ \<Rightarrow> [])"

record committee_envelope =
  ce_claims :: "grounded_claim list"
  ce_follow_ups :: "research_request list"
  ce_executive_view :: string
  ce_impact_channels :: "impact_channel list"
  ce_materiality :: committee_materiality
  ce_uncertainties :: "string list"
  ce_what_would_change :: "string list"

definition present :: "'a option list \<Rightarrow> 'a list" where
  "present xs = map the (filter (\<lambda>x. x \<noteq> None) xs)"

definition parse_committee_envelope :: "json_loads \<Rightarrow> json_dumps \<Rightarrow> string list \<Rightarrow> string \<Rightarrow> string \<Rightarrow> committee_envelope res" where
  "parse_committee_envelope loads dumps frozen agent s =
     bindR (decode_envelope loads s) (\<lambda>d.
     bindR (require_rich_envelope d) (\<lambda>_.
     bindR (envelope_lists d) (\<lambda>(raw_claims, raw_follow).
     bindR (parse_grounded_claims loads frozen (dumps (PList raw_claims))) (\<lambda>claims.
     bindR (mapR (build_follow_up agent) raw_follow) (\<lambda>follow_ups.
     bindR (checkR (is_list (obj_get d ''impact_channels'')) (AssertionError [])) (\<lambda>_.
     bindR (mapR (parse_channel (frozen_set frozen)) (list_of (obj_get d ''impact_channels''))) (\<lambda>channels.
     bindR (parse_materiality (obj_get d ''materiality'')) (\<lambda>materiality.
     Ok \<lparr>ce_claims = claims, ce_follow_ups = follow_ups, ce_executive_view = str_or_blank 2000 (obj_get d ''executive_view''),
       ce_impact_channels = present channels, ce_materiality = materiality,
       ce_uncertainties = parse_str_items (obj_get d ''uncertainties''),
       ce_what_would_change = parse_str_items (obj_get d ''what_would_change'')\<rparr>))))))))"

definition parse_committee_output :: "json_loads \<Rightarrow> json_dumps \<Rightarrow> string list \<Rightarrow> string \<Rightarrow> string
    \<Rightarrow> (grounded_claim list \<times> research_request list) res" where
  "parse_committee_output loads dumps frozen agent s =
     bindR (parse_committee_envelope loads dumps frozen agent s) (\<lambda>env. Ok (ce_claims env, ce_follow_ups env))"

section \<open>The committee agents\<close>

text \<open>
  The three agents differ in their prompt, the name of their stance and the field the view goes to
  (\<open>an_case\<close>: \<open>base_case\<close> and \<open>answer\<close>, \<open>bull_case\<close>, \<open>bear_case\<close>); stockbot has no stance.
\<close>

record analysis =
  an_session_id :: string
  an_wave_id :: int
  an_freeze_id :: string
  an_evidence_ids :: "string list"
  an_as_of :: string
  an_question :: string
  an_stance :: string
  an_case :: string
  an_unknowns :: "string list"
  an_what_would_change :: "string list"
  an_claims :: "grounded_claim list"
  an_research_requests :: "research_request list"
  an_executive_view :: string
  an_impact_channels :: "impact_channel list"
  an_materiality :: committee_materiality
  an_uncertainties :: "string list"

definition coerce_wave :: "pyobj \<Rightarrow> int res" where
  "coerce_wave v = (case v of
       PInt n \<Rightarrow> if n < 1 then Err (ValueError ''wave_id must be >= 1'') else Ok n
     | PStr s \<Rightarrow> let t = strip s in
         if t = [] \<or> \<not> list_all is_digit_char t then Err (ValueError ''wave_id must be an int >= 1'')
         else if digits_val t < 1 then Err (ValueError ''wave_id must be >= 1'') else Ok (digits_val t)
     | _ \<Rightarrow> Err (ValueError ''wave_id must be an int >= 1''))"

definition tag_request :: "string \<Rightarrow> research_request \<Rightarrow> research_request" where
  "tag_request agent r = (if agent \<in> set (rq_requesting_agents r) then r
     else r\<lparr>rq_requesting_agents := rq_requesting_agents r @ [agent]\<rparr>)"

definition prose_or_placeholder :: "grounded_claim list \<Rightarrow> string list \<Rightarrow> string" where
  "prose_or_placeholder claims frozen = (let prose = strip (join [CHR 0x0A] (map gc_text claims))
     in if prose \<noteq> [] then prose else if frozen \<noteq> [] then ''No grounded claims in freeze.'' else ''Freeze holds no evidence.'')"

definition run_member :: "string \<Rightarrow> string \<Rightarrow> json_loads \<Rightarrow> json_dumps \<Rightarrow> string \<Rightarrow> string \<Rightarrow> pyobj \<Rightarrow> string \<Rightarrow> string list
    \<Rightarrow> string \<Rightarrow> research_request list \<Rightarrow> string \<Rightarrow> analysis res" where
  "run_member agent stance loads dumps question sid wave fid frozen as_of follow_ups answer =
     bindR (coerce_wave wave) (\<lambda>w.
     bindR (parse_committee_envelope loads dumps frozen agent (strip answer)) (\<lambda>env.
     (let unknowns = (if ce_uncertainties env \<noteq> [] then ce_uncertainties env
                      else if ce_claims env \<noteq> [] \<or> frozen \<noteq> [] then [] else [''freeze holds no evidence'']);
          prose = prose_or_placeholder (ce_claims env) frozen;
          view = (if ce_executive_view env \<noteq> [] then ce_executive_view env else prose)
      in Ok \<lparr>an_session_id = sid, an_wave_id = w, an_freeze_id = fid, an_evidence_ids = frozen, an_as_of = as_of,
        an_question = question, an_stance = stance, an_case = view, an_unknowns = unknowns,
        an_what_would_change = ce_what_would_change env, an_claims = ce_claims env,
        an_research_requests = ce_follow_ups env @ map (tag_request agent) follow_ups,
        an_executive_view = view, an_impact_channels = ce_impact_channels env,
        an_materiality = ce_materiality env, an_uncertainties = unknowns\<rparr>)))"

definition run_stockbot :: "json_loads \<Rightarrow> json_dumps \<Rightarrow> string \<Rightarrow> string \<Rightarrow> pyobj \<Rightarrow> string \<Rightarrow> string list
    \<Rightarrow> string \<Rightarrow> research_request list \<Rightarrow> string \<Rightarrow> analysis res" where
  "run_stockbot = run_member ''stockbot'' []"

definition run_bullbot :: "json_loads \<Rightarrow> json_dumps \<Rightarrow> string \<Rightarrow> string \<Rightarrow> pyobj \<Rightarrow> string \<Rightarrow> string list
    \<Rightarrow> string \<Rightarrow> research_request list \<Rightarrow> string \<Rightarrow> analysis res" where
  "run_bullbot = run_member ''bullbot'' ''bullish''"

definition run_bearbot :: "json_loads \<Rightarrow> json_dumps \<Rightarrow> string \<Rightarrow> string \<Rightarrow> pyobj \<Rightarrow> string \<Rightarrow> string list
    \<Rightarrow> string \<Rightarrow> research_request list \<Rightarrow> string \<Rightarrow> analysis res" where
  "run_bearbot = run_member ''bearbot'' ''bearish''"

section \<open>What the parsers let through\<close>

definition grounded :: "string list \<Rightarrow> grounded_claim \<Rightarrow> bool" where
  "grounded frozen c \<longleftrightarrow> set (gc_evidence_ids c) \<subseteq> set frozen - {[]} \<and> distinct (gc_evidence_ids c)
     \<and> gc_claim_type c \<in> set committee_claim_types \<and> (gc_evidence_ids c = [] \<longrightarrow> gc_claim_type c = ''unknown'')
     \<and> gc_text c \<noteq> [] \<and> length (gc_text c) \<le> 500"

definition grounded_channel :: "string list \<Rightarrow> impact_channel \<Rightarrow> bool" where
  "grounded_channel frozen c \<longleftrightarrow> set (ic_evidence_ids c) \<subseteq> set frozen - {[]} \<and> ic_evidence_ids c \<noteq> [] \<and> distinct (ic_evidence_ids c)
     \<and> ic_text c \<noteq> [] \<and> length (ic_text c) \<le> 500"

definition asked :: "research_request \<Rightarrow> bool" where
  "asked r \<longleftrightarrow> 12 \<le> length (rq_question r) \<and> length (rq_question r) \<le> 500 \<and> ends_question (rq_question r)
     \<and> rq_why_material r \<noteq> [] \<and> rq_requested_source_domain r \<noteq> []"

named_theorems accepts "what a parser that returns has checked"

lemma take_500_strip [simp]: "take 500 s = [] \<longleftrightarrow> s = ([] :: string)"
  by simp

lemma grounded_ids_Some [accepts]:
  "grounded_ids (frozen_set frozen) v = Ok (Some ids) \<Longrightarrow> set ids \<subseteq> set frozen - {[]} \<and> distinct ids"
  by (auto simp: grounded_ids_def frozen_set_def list_ex_iff eq_commute [of "[]"] split: pyobj.splits if_splits)

lemma grounded_ids_Err: "grounded_ids frozen v = Err e \<Longrightarrow> \<exists>m. e = ModelOutputFailure m"
  by (auto simp: grounded_ids_def split: pyobj.splits if_splits)

lemma claim_ids_Ok [accepts]:
  "claim_ids (frozen_set frozen) d t = Ok ids
     \<Longrightarrow> set ids \<subseteq> set frozen - {[]} \<and> distinct ids \<and> (ids = [] \<longrightarrow> t = ''unknown'')"
  by (auto simp: claim_ids_def bindR_Ok_iff dest!: grounded_ids_Some split: option.splits if_splits)

lemma claim_text_Ok [accepts]: "claim_text d = Ok t \<Longrightarrow> strip t \<noteq> []"
  by (auto simp: claim_text_def split: pyobj.splits if_splits)

lemma claim_type_Ok [accepts]: "claim_type d = Ok t \<Longrightarrow> t \<in> set committee_claim_types"
  by (auto simp: claim_type_def committee_claim_types_def split: pyobj.splits if_splits)

lemma build_claim_Ok [accepts]: "build_claim (frozen_set frozen) v = Ok c \<Longrightarrow> grounded frozen c"
  by (cases v) (auto simp: build_claim_def bindR_Ok_iff grounded_def dest!: accepts split: if_splits)

lemma build_claim_Err: "build_claim frozen v = Err e \<Longrightarrow> \<exists>m. e = ModelOutputFailure m"
  by (cases v) (auto simp: build_claim_def bindR_Err_iff claim_text_def claim_type_def claim_ids_def dest: grounded_ids_Err
      split: if_splits pyobj.splits option.splits)

lemma parse_grounded_claims_Ok [accepts]:
  "parse_grounded_claims loads frozen s = Ok cs \<Longrightarrow> list_all (grounded frozen) cs"
  by (auto simp: parse_grounded_claims_def bindR_Ok_iff list_all_iff dest!: mapR_Ok_set accepts)

lemma parse_channel_Ok [accepts]: "parse_channel (frozen_set frozen) v = Ok (Some c) \<Longrightarrow> grounded_channel frozen c"
proof (cases v)
  case (PDict d)
  let ?ids = "grounded_ids (frozen_set frozen) (dget_default d ''evidence_ids'' (PList []))"
  assume ok: "parse_channel (frozen_set frozen) v = Ok (Some c)"
  with PDict obtain seen where seen: "?ids = Ok seen" by (auto simp: parse_channel_def bindR_Ok_iff)
  show ?thesis
  proof (cases seen)
    case (Some ids)
    with seen have "set ids \<subseteq> set frozen - {[]} \<and> distinct ids" by (intro grounded_ids_Some) simp
    with ok PDict seen Some show ?thesis
      by (cases ids; cases "obj_get d ''text''") (auto simp: parse_channel_def grounded_channel_def split: if_splits)
  qed (use ok PDict seen in \<open>cases "obj_get d ''text''"; simp add: parse_channel_def\<close>)
qed (simp_all add: parse_channel_def)

lemma text_or_nonempty: "fallback \<noteq> [] \<Longrightarrow> text_or fallback v \<noteq> []"
  by (auto simp: text_or_def split: pyobj.splits)

lemma build_follow_up_Ok [accepts]: "build_follow_up agent v = Ok r \<Longrightarrow> asked r \<and> rq_requesting_agents r = [agent]"
  by (auto simp: build_follow_up_def bindR_Ok_iff asked_def follow_up_question_def Let_def text_or_nonempty split: pyobj.splits if_splits)

lemma parse_materiality_Ok [accepts]:
  "parse_materiality v = Ok m \<Longrightarrow> require_materiality_payload v = Ok () \<Longrightarrow> cm_overall m \<in> set materiality_levels"
  by (cases v) (auto simp: parse_materiality_def require_materiality_payload_def materiality_ok_def obj_get_def dget_default_def
      split: option.splits pyobj.splits)

lemma envelope_Ok:
  assumes "parse_committee_envelope loads dumps frozen agent s = Ok env"
  shows "list_all (grounded frozen) (ce_claims env)" and "list_all (grounded_channel frozen) (ce_impact_channels env)"
    and "list_all (\<lambda>r. asked r \<and> rq_requesting_agents r = [agent]) (ce_follow_ups env)"
    and "cm_overall (ce_materiality env) \<in> set materiality_levels"
proof -
  from assms obtain d raw_claims raw_follow claims follow_ups channels materiality where
      rich: "require_rich_envelope d = Ok ()"
    and claims: "parse_grounded_claims loads frozen (dumps (PList raw_claims)) = Ok claims"
    and follow: "mapR (build_follow_up agent) raw_follow = Ok follow_ups"
    and channels: "mapR (parse_channel (frozen_set frozen)) (list_of (obj_get d ''impact_channels'')) = Ok channels"
    and mat: "parse_materiality (obj_get d ''materiality'') = Ok materiality"
    and env: "env = \<lparr>ce_claims = claims, ce_follow_ups = follow_ups, ce_executive_view = str_or_blank 2000 (obj_get d ''executive_view''),
       ce_impact_channels = present channels, ce_materiality = materiality,
       ce_uncertainties = parse_str_items (obj_get d ''uncertainties''),
       ce_what_would_change = parse_str_items (obj_get d ''what_would_change'')\<rparr>"
    by (auto simp: parse_committee_envelope_def bindR_Ok_iff)
  show "list_all (grounded frozen) (ce_claims env)" using parse_grounded_claims_Ok [OF claims] by (simp add: env)
  show "list_all (grounded_channel frozen) (ce_impact_channels env)"
    by (auto simp: env present_def list_all_iff dest!: mapR_Ok_set [OF channels] parse_channel_Ok)
  show "list_all (\<lambda>r. asked r \<and> rq_requesting_agents r = [agent]) (ce_follow_ups env)"
    by (auto simp: env list_all_iff dest!: mapR_Ok_set [OF follow] build_follow_up_Ok)
  from rich have "require_materiality_payload (obj_get d ''materiality'') = Ok ()"
    by (simp add: require_rich_envelope_def bindR_Ok_iff)
  from parse_materiality_Ok [OF mat this] show "cm_overall (ce_materiality env) \<in> set materiality_levels" by (simp add: env)
qed

text \<open>The references of claims are their ids, each once, in first-seen order.\<close>

lemma add_ref_simps [simp]: "set (add_ref e rs) = insert e (set rs)" "distinct (add_ref e rs) \<longleftrightarrow> distinct rs"
  by (auto simp: add_ref_def)

lemma fold_add_ref [simp]: "set (fold add_ref es rs) = set es \<union> set rs" "distinct (fold add_ref es rs) \<longleftrightarrow> distinct rs"
  by (induction es arbitrary: rs) auto

lemma claims_refs_gen:
  "set (fold (\<lambda>c. fold add_ref (gc_evidence_ids c)) cs rs) = (\<Union>c \<in> set cs. set (gc_evidence_ids c)) \<union> set rs
   \<and> (distinct (fold (\<lambda>c. fold add_ref (gc_evidence_ids c)) cs rs) \<longleftrightarrow> distinct rs)"
  by (induction cs arbitrary: rs) auto

lemma claims_refs [simp]: "set (claims_refs cs) = (\<Union>c \<in> set cs. set (gc_evidence_ids c))" "distinct (claims_refs cs)"
  using claims_refs_gen [of cs "[]"] by (simp_all add: claims_refs_def)

text \<open>The conservative type of duplicates is declared by one of them and ranks below all of them.\<close>

lemma fold_min:
  "(let m = fold (\<lambda>u best. if claim_rank u < claim_rank best then u else best) ts t
    in m \<in> insert t (set ts) \<and> (\<forall>u \<in> insert t (set ts). claim_rank m \<le> claim_rank u))"
proof (induction ts arbitrary: t)
  case (Cons u ts)
  from Cons.IH [of "if claim_rank u < claim_rank t then u else t"] show ?case
    by (auto simp: Let_def split: if_splits)
qed simp

lemma conservative_claim_type:
  assumes "t \<in> set types" and "t \<in> set conservative_order"
  shows "conservative_claim_type types \<in> set types" and "claim_rank (conservative_claim_type types) \<le> claim_rank t"
proof -
  obtain u us where u: "filter (\<lambda>t. t \<in> set conservative_order) types = u # us"
    using assms by (cases "filter (\<lambda>t. t \<in> set conservative_order) types") (auto simp: filter_empty_conv)
  then have "set (u # us) \<subseteq> set types" "t \<in> set (u # us)" using assms filter_is_subset
    by (metis, metis (mono_tags, lifting) filter_set mem_Collect_eq set_filter)
  with fold_min [of us u] u show "conservative_claim_type types \<in> set types"
    "claim_rank (conservative_claim_type types) \<le> claim_rank t"
    by (auto simp: conservative_claim_type_def Let_def)
qed

section \<open>Properties\<close>

text \<open>
  C14.  A committee analysis cites nothing outside its freeze: every claim and every impact channel of
  an accepted model answer names only ids of the frozen evidence, each once; only a claim of type
  unknown cites nothing; the references of all claims together lie in the freeze; every follow-up is a
  question of 12 to 500 characters asked by the agent; and the materiality is one of the four levels.
\<close>

theorem analysis_grounded:
  assumes "run_member agent stance loads dumps question sid wave fid frozen as_of follow_ups answer = Ok a"
  shows "list_all (grounded frozen) (an_claims a) \<and> list_all (grounded_channel frozen) (an_impact_channels a)
    \<and> set (claims_refs (an_claims a)) \<subseteq> set frozen \<and> 1 \<le> an_wave_id a
    \<and> cm_overall (an_materiality a) \<in> set materiality_levels
    \<and> (\<exists>own. an_research_requests a = own @ map (tag_request agent) follow_ups
         \<and> list_all (\<lambda>r. asked r \<and> rq_requesting_agents r = [agent]) own)"
proof -
  from assms obtain w env where w: "coerce_wave wave = Ok w"
    and env: "parse_committee_envelope loads dumps frozen agent (strip answer) = Ok env"
    and a: "an_claims a = ce_claims env" "an_impact_channels a = ce_impact_channels env" "an_wave_id a = w"
      "an_materiality a = ce_materiality env" "an_research_requests a = ce_follow_ups env @ map (tag_request agent) follow_ups"
    by (auto simp: run_member_def bindR_Ok_iff Let_def)
  note ok = envelope_Ok [OF env]
  have "set (claims_refs (ce_claims env)) \<subseteq> set frozen"
    using ok(1) by (auto simp: list_all_iff grounded_def)
  moreover have "1 \<le> w" using w by (auto simp: coerce_wave_def Let_def split: pyobj.splits if_splits)
  ultimately show ?thesis using ok by (auto simp: a)
qed

definition demo_envelope :: pyobj where
  "demo_envelope = PDict [(''executive_view'', PStr ''flat''),
     (''claims'', PList [PDict [(''text'', PStr ''rose''), (''evidence_ids'', PList [PStr ''ev:1''])]]),
     (''impact_channels'', PList []),
     (''materiality'', PDict [(''overall'', PStr ''High''), (''reasoning'', PStr [])]),
     (''uncertainties'', PList []), (''what_would_change'', PList []),
     (''follow_ups'', PList [PStr ''What changed?''])]"

definition demo_loads :: json_loads where
  "demo_loads s = (if s = ''[c]'' then Ok (PList [PDict [(''text'', PStr ''rose''), (''evidence_ids'', PList [PStr ''ev:1''])]])
     else Ok demo_envelope)"

theorem analysis_grounded_witness:
  "\<exists>a. run_bullbot demo_loads (\<lambda>_. ''[c]'') ''why'' ''rs:1'' (PInt 1) ''fz:1'' [''ev:1''] ''now'' [] ''{}'' = Ok a
     \<and> claims_refs (an_claims a) = [''ev:1''] \<and> set (claims_refs (an_claims a)) \<subseteq> {''ev:1''}"
proof -
  let ?run = "run_bullbot demo_loads (\<lambda>_. ''[c]'') ''why'' ''rs:1'' (PInt 1) ''fz:1'' [''ev:1''] ''now'' [] ''{}''"
  have "map_sum id (\<lambda>a. claims_refs (an_claims a)) ?run = Ok [''ev:1'']" by code_simp
  then obtain a where a: "?run = Ok a" "claims_refs (an_claims a) = [''ev:1'']" by (cases ?run) auto
  from analysis_grounded [OF a(1) [unfolded run_bullbot_def]] have "set (claims_refs (an_claims a)) \<subseteq> set [''ev:1'']" by blast
  with a show ?thesis by (simp del: claims_refs)
qed

lemma keep_grounded_total:
  "keep_grounded dumps frozen xs = Ok (map (\<lambda>x. projr (build_claim frozen x)) (filter (\<lambda>x. is_ok (build_claim frozen x)) xs),
     map (\<lambda>x. (take 200 (dumps x), case build_claim frozen x of Err (ModelOutputFailure m) \<Rightarrow> m | _ \<Rightarrow> []))
       (filter (\<lambda>x. \<not> is_ok (build_claim frozen x)) xs))"
proof (induction xs)
  case (Cons x xs)
  show ?case
  proof (cases "build_claim frozen x")
    case (Inl e)
    moreover from build_claim_Err [OF Inl] obtain m where "e = ModelOutputFailure m" by blast
    ultimately show ?thesis by (simp add: Cons.IH)
  qed (simp add: Cons.IH)
qed simp

text \<open>An error the relaxed decoding raises is one that \<open>json.loads\<close> raised and nothing catches.\<close>

definition passes_through :: "json_loads \<Rightarrow> py_error \<Rightarrow> bool" where
  "passes_through loads e \<longleftrightarrow> (\<exists>t. loads t = Err e) \<and> (\<forall>m. e \<noteq> JsonDecodeError m)"

lemma loads_or_none_Err: "loads_or_none loads s = Err e \<Longrightarrow> passes_through loads e"
  by (auto simp: loads_or_none_def passes_through_def split: sum.splits py_error.splits)

lemma try_json_Err:
  "try_json_list loads s = Err e \<Longrightarrow> passes_through loads e"
  "try_json_object loads s = Err e \<Longrightarrow> passes_through loads e"
  by (auto simp: try_json_list_def try_json_object_def bindR_Err_iff dest: loads_or_none_Err)

lemma fenced_list_Err: "fenced_list loads bs = Err e \<Longrightarrow> passes_through loads e"
  by (induction bs) (auto simp: bindR_Err_iff dest: try_json_Err split: option.splits if_splits)

lemma relaxed_Err: "decode_claims_list_relaxed loads s = Err e \<Longrightarrow> passes_through loads e"
  by (auto simp: decode_claims_list_relaxed_def embedded_claim_list_def bindR_Err_iff
      dest: try_json_Err fenced_list_Err split: option.splits if_splits)

lemma relaxed_strict: "strip s \<noteq> [] \<Longrightarrow> loads (strip s) = Ok (PList xs) \<Longrightarrow> decode_claims_list_relaxed loads s = Ok (Some xs)"
  by (simp add: decode_claims_list_relaxed_def try_json_list_def loads_or_none_def)

lemma strict_list:
  "decode_claims_list loads s = Ok xs \<longleftrightarrow> strip s \<noteq> [] \<and> loads (strip s) = Ok (PList xs)"
  by (auto simp: decode_claims_list_def loads_or_none_def bindR_Ok_iff
      split: sum.splits option.splits pyobj.splits py_error.splits)


text \<open>Blank text and text that is no JSON are answered with an empty list, against the docstring.\<close>

lemma tolerant_swallows_shape:
  "parse_grounded_claims_tolerant loads dumps frozen [] = Ok ([], [(''<blank>'', ''model output was not a JSON claim list'')])"
  "parse_grounded_claims_tolerant (\<lambda>_. Err (JsonDecodeError m)) dumps frozen ''no''
     = Ok ([], [(''no'', ''model output was not a JSON claim list'')])"
proof -
  show "parse_grounded_claims_tolerant loads dumps frozen [] = Ok ([], [(''<blank>'', ''model output was not a JSON claim list'')])"
    by (simp add: parse_grounded_claims_tolerant_def decode_claims_list_relaxed_def strip_def)
  have facts: "strip ''no'' = ''no''" "fenced_blocks ''no'' = []" "bracketed ''no'' = None" by code_simp+
  show "parse_grounded_claims_tolerant (\<lambda>_. Err (JsonDecodeError m)) dumps frozen ''no''
     = Ok ([], [(''no'', ''model output was not a JSON claim list'')])"
    by (simp add: parse_grounded_claims_tolerant_def decode_claims_list_relaxed_def embedded_claim_list_def facts
        try_json_list_def try_json_object_def loads_or_none_def)
qed

end
