(* ===== verification/Committee.thy ===== *)
theory Committee
  imports Grounding
begin

text \<open>
  The deterministic merge of the three committee analyses
  (\<open>app/research/synthesis/committee.py\<close>), with the rendering of strings its lines use.
\<close>

section \<open>Rendering\<close>

definition hex_digit :: "nat \<Rightarrow> char" where
  "hex_digit n = (if n < 10 then char_of (48 + n) else char_of (87 + n))"

text \<open>\<open>repr\<close> of an ASCII string: single quotes unless only those occur in it.\<close>

definition repr_char :: "char \<Rightarrow> char \<Rightarrow> string" where
  "repr_char q c = (let n = (of_char c :: nat) in
     if c = q \<or> c = CHR 0x5C then [CHR 0x5C, c]
     else if n = 10 then [CHR 0x5C, CHR ''n''] else if n = 13 then [CHR 0x5C, CHR ''r''] else if n = 9 then [CHR 0x5C, CHR ''t'']
     else if n < 32 \<or> n = 127 then [CHR 0x5C, CHR ''x'', hex_digit (n div 16), hex_digit (n mod 16)] else [c])"

definition py_repr :: "string \<Rightarrow> string" where
  "py_repr s = (let q = (if CHR 0x27 \<in> set s \<and> CHR 0x22 \<notin> set s then CHR 0x22 else CHR 0x27)
     in [q] @ concat (map (repr_char q) s) @ [q])"

definition repr_strs :: "string list \<Rightarrow> string" where
  "repr_strs xs = ''['' @ join '', '' (map py_repr xs) @ '']''"

definition int_str :: "int \<Rightarrow> string" where
  "int_str n = (if n < 0 then CHR ''-'' # nat_str (nat (- n)) else nat_str (nat n))"

section \<open>The merged read\<close>

record critical_disagreement =
  cd_question :: string
  cd_bull :: string
  cd_bear :: string
  cd_evidence_ids :: "string list"

record committee_disagreement =
  co_session_id :: string
  co_wave_id :: int
  co_freeze_id :: string
  co_agreement :: "string list"
  co_disagreement :: "string list"
  co_critical_uncertainties :: "string list"
  co_requested_research :: "research_request list"
  co_consensus :: "string list"
  co_critical_disagreements :: "critical_disagreement list"

definition coerce_int_id :: "int \<Rightarrow> int res" where
  "coerce_int_id n = (if n \<ge> 1 then Ok n else Err (ValueError ''wave_id must be an int >= 1''))"

definition coerce_str_id :: "string \<Rightarrow> int res" where
  "coerce_str_id s = (let t = strip s in
     if t \<noteq> [] \<and> list_all is_digit_char t \<and> digits_val t \<ge> 1 then Ok (digits_val t)
     else Err (ValueError ''wave_id must be an int >= 1''))"

definition coerce_wave_id :: "pyobj \<Rightarrow> int res" where
  "coerce_wave_id v = (case v of PInt n \<Rightarrow> coerce_int_id n | PStr s \<Rightarrow> coerce_str_id s
     | _ \<Rightarrow> Err (ValueError ''wave_id must be an int >= 1''))"

definition dedup_capped :: "string list \<Rightarrow> string list" where
  "dedup_capped items = take 20 (dedup (filter (\<lambda>x. x \<noteq> []) items))"

definition shared_lines :: "string list \<Rightarrow> string list \<Rightarrow> string list \<Rightarrow> string list" where
  "shared_lines stock bull bear = map (\<lambda>e. ''all three cite '' @ e) (filter (\<lambda>e. e \<in> set bull \<and> e \<in> set bear) stock)"

definition solo_line :: "string \<Rightarrow> string list \<Rightarrow> string option" where
  "solo_line label ids = (if ids = [] then None else Some (label @ ''-only evidence: '' @ join '', '' (take 5 ids)))"

definition only_in :: "string list \<Rightarrow> string list \<Rightarrow> string list" where
  "only_in xs ys = filter (\<lambda>e. e \<notin> set ys) xs"

definition stance_lines :: "analysis \<Rightarrow> analysis \<Rightarrow> analysis \<Rightarrow> string list \<Rightarrow> string list \<Rightarrow> string list \<Rightarrow> string list \<times> string list" where
  "stance_lines stock bull bear stock_refs bull_refs bear_refs =
     (shared_lines stock_refs bull_refs bear_refs,
      [''bull ('' @ an_stance bull @ '') vs bear ('' @ an_stance bear @ '') on: '' @ an_question stock,
       ''base cites '' @ nat_str (length stock_refs) @ '' items; bull '' @ nat_str (length bull_refs)
         @ ''; bear '' @ nat_str (length bear_refs)]
      @ present [solo_line ''bull'' (only_in bull_refs bear_refs), solo_line ''bear'' (only_in bear_refs bull_refs)])"

text \<open>
  One entry per question, in first-seen order; a repeated question adds its agents to the first
  request.  (The code adds them in place, so the first analysis that asks sees them too.)
\<close>

definition merge_request :: "research_request \<Rightarrow> (string, research_request) dict \<Rightarrow> (string, research_request) dict" where
  "merge_request r seen = (case dget seen (rq_question r) of
       None \<Rightarrow> dset (rq_question r) r seen
     | Some prior \<Rightarrow> dset (rq_question r) (prior\<lparr>rq_requesting_agents := fold add_ref (rq_requesting_agents r) (rq_requesting_agents prior)\<rparr>) seen)"

definition merge_requests :: "analysis \<Rightarrow> analysis \<Rightarrow> analysis \<Rightarrow> research_request list" where
  "merge_requests stock bull bear = map snd
     (fold merge_request (an_research_requests stock @ an_research_requests bull @ an_research_requests bear) [])"

definition member_view :: "string list \<Rightarrow> string" where
  "member_view candidates = (case filter (\<lambda>v. strip v \<noteq> []) candidates of [] \<Rightarrow> [] | v # _ \<Rightarrow> take 2000 (strip v))"

text \<open>Per text, what each role declares for it; the last declaration of a role wins.\<close>

type_synonym declared = "(string, (string, string) dict) dict"

definition declare_item :: "string \<Rightarrow> string \<times> string \<Rightarrow> declared \<Rightarrow> declared" where
  "declare_item role item by_text = (case item of (t, v) \<Rightarrow>
     if strip t \<noteq> [] \<and> strip v \<noteq> [] then dset (strip t) (dset role (strip v) (dget_default by_text (strip t) [])) by_text
     else by_text)"

definition declared_by_text :: "(string \<times> (string \<times> string) list) list \<Rightarrow> declared" where
  "declared_by_text roles = fold (\<lambda>(role, items). fold (declare_item role) items) roles []"

definition conflict_lines :: "string \<Rightarrow> declared \<Rightarrow> string list" where
  "conflict_lines label by_text =
     map (\<lambda>(t, reads). label @ '' conflict on '' @ py_repr (take 160 t) @ '': ''
            @ join '', '' (map (\<lambda>(role, v). role @ '' '' @ v) reads))
       (filter (\<lambda>(_, reads). length (remdups (map snd reads)) > 1) by_text)"

definition in_roles :: "(analysis \<Rightarrow> (string \<times> string) list) \<Rightarrow> analysis \<Rightarrow> analysis \<Rightarrow> analysis \<Rightarrow> (string \<times> (string \<times> string) list) list" where
  "in_roles f stock bull bear = [(''stockbot'', f stock), (''bullbot'', f bull), (''bearbot'', f bear)]"

definition claim_items :: "analysis \<Rightarrow> (string \<times> string) list" where
  "claim_items a = map (\<lambda>c. (gc_text c, gc_claim_type c)) (an_claims a)"

definition channel_items :: "analysis \<Rightarrow> (string \<times> string) list" where
  "channel_items a = map (\<lambda>c. (ic_text c, ic_direction c)) (an_impact_channels a)"

definition claim_conflicts :: "analysis \<Rightarrow> analysis \<Rightarrow> analysis \<Rightarrow> string list" where
  "claim_conflicts stock bull bear = conflict_lines ''claim type'' (declared_by_text (in_roles claim_items stock bull bear))"

definition channel_conflicts :: "analysis \<Rightarrow> analysis \<Rightarrow> analysis \<Rightarrow> string list" where
  "channel_conflicts stock bull bear = conflict_lines ''impact channel'' (declared_by_text (in_roles channel_items stock bull bear))"

definition split_side :: "analysis \<Rightarrow> string \<Rightarrow> string \<Rightarrow> string \<Rightarrow> string \<Rightarrow> string list \<Rightarrow> critical_disagreement list" where
  "split_side stock stance view bull_fallback bear_fallback ids = (if ids = [] then []
     else [\<lparr>cd_question = ''How far does the '' @ stance @ '' read of '' @ an_question stock @ '' hold?'',
            cd_bull = (if view \<noteq> [] then view else bull_fallback), cd_bear = (if view \<noteq> [] then view else bear_fallback),
            cd_evidence_ids = take 10 ids\<rparr>])"

definition critical_split :: "analysis \<Rightarrow> analysis \<Rightarrow> analysis \<Rightarrow> string list \<Rightarrow> string list \<Rightarrow> critical_disagreement list" where
  "critical_split stock bull bear bull_refs bear_refs =
     split_side stock ''bullish'' (member_view [an_executive_view bull, an_case bull])
       ''bullish read stands on bull-only evidence'' ''bearish read disputes the bullish read'' (only_in bull_refs bear_refs)
     @ split_side stock ''bearish'' (member_view [an_executive_view bear, an_case bear])
       ''bullish read disputes the bearish read'' ''bearish read stands on bear-only evidence'' (only_in bear_refs bull_refs)"

definition compute_disagreement :: "analysis \<Rightarrow> analysis \<Rightarrow> analysis \<Rightarrow> committee_disagreement res" where
  "compute_disagreement stock bull bear =
     (let stock_refs = claims_refs (an_claims stock); bull_refs = claims_refs (an_claims bull); bear_refs = claims_refs (an_claims bear);
          (agreement, disagreement) = stance_lines stock bull bear stock_refs bull_refs bear_refs
      in bindR (coerce_wave_id (PInt (an_wave_id stock))) (\<lambda>wave. Ok
       \<lparr>co_session_id = an_session_id stock, co_wave_id = wave, co_freeze_id = an_freeze_id stock, co_agreement = agreement,
        co_disagreement = disagreement @ claim_conflicts stock bull bear @ channel_conflicts stock bull bear,
        co_critical_uncertainties = dedup_capped (an_unknowns stock @ an_unknowns bull @ an_unknowns bear),
        co_requested_research = merge_requests stock bull bear, co_consensus = agreement,
        co_critical_disagreements = critical_split stock bull bear bull_refs bear_refs\<rparr>))"

section \<open>Merged requests\<close>

definition asks :: "research_request list \<Rightarrow> string \<Rightarrow> string \<Rightarrow> bool" where
  "asks rs q agent \<longleftrightarrow> (\<exists>r \<in> set rs. rq_question r = q \<and> agent \<in> set (rq_requesting_agents r))"

definition merge_ok :: "research_request list \<Rightarrow> (string, research_request) dict \<Rightarrow> bool" where
  "merge_ok rs seen \<longleftrightarrow> distinct (map fst seen) \<and> fst ` set seen = rq_question ` set rs
     \<and> (\<forall>(q, r) \<in> set seen. rq_question r = q \<and> (\<forall>agent. agent \<in> set (rq_requesting_agents r) \<longleftrightarrow> asks rs q agent))"

lemma merge_request_ok:
  assumes "merge_ok rs seen"
  shows "merge_ok (rs @ [r]) (merge_request r seen)"
proof -
  from assms have dist: "distinct (map fst seen)" and keys: "fst ` set seen = rq_question ` set rs"
    and vals: "\<And>q x. (q, x) \<in> set seen \<Longrightarrow> rq_question x = q \<and> (\<forall>agent. agent \<in> set (rq_requesting_agents x) \<longleftrightarrow> asks rs q agent)"
    by (auto simp: merge_ok_def)
  let ?v = "case dget seen (rq_question r) of None \<Rightarrow> r
    | Some prior \<Rightarrow> prior\<lparr>rq_requesting_agents := fold add_ref (rq_requesting_agents r) (rq_requesting_agents prior)\<rparr>"
  have step: "merge_request r seen = dset (rq_question r) ?v seen" by (simp add: merge_request_def split: option.splits)
  have dist': "distinct (map fst (dset (rq_question r) ?v seen))" using dist by (rule distinct_update)
  have keys': "fst ` set (dset (rq_question r) ?v seen) = insert (rq_question r) (fst ` set seen)"
    by (simp add: dom_update)
  have vals': "rq_question x = q \<and> (\<forall>agent. agent \<in> set (rq_requesting_agents x) \<longleftrightarrow> asks (rs @ [r]) q agent)"
    if "(q, x) \<in> set (dset (rq_question r) ?v seen)" for q x
  proof -
    note x = map_of_is_SomeI [OF dist' that]
    show ?thesis
    proof (cases "q = rq_question r")
      case False
      with x dist vals [of q x] show ?thesis by (auto simp: map_of_eq_Some_iff asks_def)
    next
      case True
      with x have x: "x = ?v" by (simp split: option.splits)
      show ?thesis
      proof (cases "dget seen (rq_question r)")
        case None
        then have "rq_question r \<notin> rq_question ` set rs" unfolding keys [symmetric] by (simp add: map_of_eq_None_iff)
        then have "\<forall>y \<in> set rs. rq_question y \<noteq> rq_question r" by (metis imageI)
        with None True x show ?thesis by (auto simp: asks_def)
      next
        case (Some prior)
        with dist have "(rq_question r, prior) \<in> set seen" by (simp add: map_of_eq_Some_iff)
        from vals [OF this] Some True x show ?thesis by (auto simp: asks_def)
      qed
    qed
  qed
  have "fst ` set (dset (rq_question r) ?v seen) = rq_question ` set (rs @ [r])" using keys' keys by simp
  with dist' vals' show ?thesis unfolding merge_ok_def step by blast
qed

lemma merge_requests_ok: "merge_ok rs (fold merge_request rs [])"
proof (induction rs rule: rev_induct)
  case Nil
  show ?case by (simp add: merge_ok_def)
qed (simp add: merge_request_ok)

section \<open>Properties\<close>

text \<open>
  C29.  The merged read loses nothing the members share or ask for: the agreement names exactly the ids
  that all three analyses cite; every question of a member is requested exactly once, with exactly the
  agents that ask it; the uncertainties are among those of the members, without repetition and at most
  twenty; and session, wave and freeze are those of the base analysis.
\<close>

theorem disagreement_complete:
  assumes "compute_disagreement stock bull bear = Ok d"
  shows "set (co_agreement d) = (\<lambda>e. ''all three cite '' @ e) `
        (set (claims_refs (an_claims stock)) \<inter> set (claims_refs (an_claims bull)) \<inter> set (claims_refs (an_claims bear)))
    \<and> distinct (map rq_question (co_requested_research d))
    \<and> rq_question ` set (co_requested_research d)
        = rq_question ` set (an_research_requests stock @ an_research_requests bull @ an_research_requests bear)
    \<and> (\<forall>q agent. asks (co_requested_research d) q agent
        \<longleftrightarrow> asks (an_research_requests stock @ an_research_requests bull @ an_research_requests bear) q agent)
    \<and> distinct (co_critical_uncertainties d) \<and> length (co_critical_uncertainties d) \<le> 20
    \<and> set (co_critical_uncertainties d) \<subseteq> set (an_unknowns stock @ an_unknowns bull @ an_unknowns bear)
    \<and> co_session_id d = an_session_id stock \<and> co_wave_id d = an_wave_id stock \<and> co_freeze_id d = an_freeze_id stock"
proof -
  let ?rs = "an_research_requests stock @ an_research_requests bull @ an_research_requests bear"
  define seen where "seen = fold merge_request ?rs []"
  have ok: "merge_ok ?rs seen" unfolding seen_def by (rule merge_requests_ok)
  then have dist: "distinct (map fst seen)" and keys: "fst ` set seen = rq_question ` set ?rs"
    and vals: "\<And>q x. (q, x) \<in> set seen \<Longrightarrow> rq_question x = q \<and> (\<forall>agent. agent \<in> set (rq_requesting_agents x) \<longleftrightarrow> asks ?rs q agent)"
    by (auto simp: merge_ok_def)
  from assms have research: "co_requested_research d = map snd seen"
    and agree: "co_agreement d = shared_lines (claims_refs (an_claims stock)) (claims_refs (an_claims bull)) (claims_refs (an_claims bear))"
    and unsure: "co_critical_uncertainties d = dedup_capped (an_unknowns stock @ an_unknowns bull @ an_unknowns bear)"
    and ids: "co_session_id d = an_session_id stock" "co_wave_id d = an_wave_id stock" "co_freeze_id d = an_freeze_id stock"
    by (auto simp: compute_disagreement_def Let_def stance_lines_def bindR_Ok_iff merge_requests_def seen_def
        coerce_wave_id_def coerce_int_id_def split: if_splits)
  have questions: "map rq_question (co_requested_research d) = map fst seen"
    using vals unfolding research by (auto simp: comp_def split_beta)
  have "asks (co_requested_research d) q agent \<longleftrightarrow> asks ?rs q agent" for q agent
  proof
    assume "asks (co_requested_research d) q agent"
    then obtain k x where x: "(k, x) \<in> set seen" "rq_question x = q" "agent \<in> set (rq_requesting_agents x)"
      unfolding research asks_def by auto
    with vals [OF x(1)] show "asks ?rs q agent" by blast
  next
    assume a: "asks ?rs q agent"
    then have "q \<in> fst ` set seen" unfolding keys by (auto simp: asks_def)
    then obtain x where "(q, x) \<in> set seen" by auto
    moreover from this have "x \<in> set (map snd seen)" by force
    ultimately show "asks (co_requested_research d) q agent" using vals a unfolding research asks_def by blast
  qed
  moreover have "distinct (map rq_question (co_requested_research d))" unfolding questions by (rule dist)
  moreover have "rq_question ` set (co_requested_research d) = rq_question ` set ?rs"
    unfolding keys [symmetric] using arg_cong [OF questions, of set] by simp
  moreover have "set (co_critical_uncertainties d) \<subseteq> set (an_unknowns stock @ an_unknowns bull @ an_unknowns bear)"
    "distinct (co_critical_uncertainties d)" "length (co_critical_uncertainties d) \<le> 20"
    unfolding unsure dedup_capped_def by (auto dest: in_set_takeD intro: distinct_take)
  moreover have "set (co_agreement d) = (\<lambda>e. ''all three cite '' @ e) `
      (set (claims_refs (an_claims stock)) \<inter> set (claims_refs (an_claims bull)) \<inter> set (claims_refs (an_claims bear)))"
    unfolding agree shared_lines_def by (auto simp del: claims_refs)
  ultimately show ?thesis using ids by blast
qed

definition demo_analysis :: "string \<Rightarrow> string \<Rightarrow> analysis" where
  "demo_analysis stance agent = \<lparr>an_session_id = ''rs:1'', an_wave_id = 1, an_freeze_id = ''fz:1'', an_evidence_ids = [''ev:1''],
     an_as_of = ''now'', an_question = ''why'', an_stance = stance, an_case = ''flat'', an_unknowns = [], an_what_would_change = [],
     an_claims = [\<lparr>gc_text = ''rose'', gc_claim_type = ''inference'', gc_evidence_ids = [''ev:1'']\<rparr>],
     an_research_requests = [\<lparr>rq_question = ''What changed?'', rq_why_material = ''debt'', rq_requested_source_domain = ''SEC'',
       rq_expected_gain = ''medium'', rq_requesting_agents = [agent]\<rparr>],
     an_executive_view = ''flat'', an_impact_channels = [], an_materiality = \<lparr>cm_overall = ''high'', cm_reasoning = []\<rparr>,
     an_uncertainties = []\<rparr>"

theorem disagreement_complete_witness:
  "\<exists>d. compute_disagreement (demo_analysis [] ''stockbot'') (demo_analysis ''bullish'' ''bullbot'') (demo_analysis ''bearish'' ''bearbot'') = Ok d
     \<and> asks (co_requested_research d) ''What changed?'' ''bearbot''"
proof -
  let ?run = "compute_disagreement (demo_analysis [] ''stockbot'') (demo_analysis ''bullish'' ''bullbot'') (demo_analysis ''bearish'' ''bearbot'')"
  have "is_ok ?run" by code_simp
  then obtain d where d: "?run = Ok d" by (auto simp: is_ok_iff)
  have "asks (an_research_requests (demo_analysis [] ''stockbot'') @ an_research_requests (demo_analysis ''bullish'' ''bullbot'')
      @ an_research_requests (demo_analysis ''bearish'' ''bearbot'')) ''What changed?'' ''bearbot''"
    by (simp add: asks_def demo_analysis_def)
  with disagreement_complete [OF d] d show ?thesis by blast
qed

text \<open>
  Whenever a member has a view, both reads of the split are that member's view: the opposing read is
  not kept.
\<close>

lemma critical_reads_coincide:
  assumes "x \<in> set (critical_split stock bull bear bull_refs bear_refs)"
    and "member_view [an_executive_view bull, an_case bull] \<noteq> []" and "member_view [an_executive_view bear, an_case bear] \<noteq> []"
  shows "cd_bull x = cd_bear x"
  using assms by (auto simp: critical_split_def split_side_def split: if_splits)

end
