(* ===== verification/Director.thy ===== *)
theory Director
  imports Committee "HOL-Library.Product_Lexorder" Complex_Main
begin

text \<open>
  The deterministic director (\<open>app/research/director.py\<close>): one wave over injected steps, the gate
  that decides the next wave, and the exact-repeat detector.  The text of a float is the argument
  \<open>fmt\<close>; \<open>record_stop\<close> is the pair the decision returns.
\<close>

section \<open>Waves\<close>

record director_budgets =
  db_max_waves :: "int option"
  db_max_jobs :: "int option"
  db_max_tool_calls :: "int option"
  db_runtime_budget_s :: "rat option"
  db_zero_novelty_limit :: "int option"

record wave_result =
  wr_session_id :: string
  wr_wave_id :: int
  wr_freeze_id :: string
  wr_evidence_ids :: "string list"
  wr_stock :: "analysis option"
  wr_bull :: "analysis option"
  wr_bear :: "analysis option"
  wr_disagreement :: "committee_disagreement option"
  wr_coverage :: "(string, pyobj) dict option"
  wr_relationships :: "pyobj list"
  wr_open_questions :: "string list"
  wr_question :: string
  wr_novelty :: "(string, pyobj) dict"

record wave_decision =
  wd_authorized :: bool
  wd_stop_reason :: string
  wd_reason_detail :: string
  wd_targeted_question :: string
  wd_targeted_domain :: string

definition stop_with :: "string \<Rightarrow> string \<Rightarrow> wave_decision" where
  "stop_with reason detail = \<lparr>wd_authorized = False, wd_stop_reason = reason, wd_reason_detail = detail,
     wd_targeted_question = [], wd_targeted_domain = []\<rparr>"

text \<open>The injected steps, over a state of the world; each may raise.\<close>

record 'w director_deps =
  dd_create_session :: "string \<Rightarrow> string \<Rightarrow> 'w \<Rightarrow> (string \<times> 'w) res"
  dd_fetch_wave_evidence :: "string \<Rightarrow> 'w \<Rightarrow> (string list \<times> 'w) res"
  dd_create_freeze :: "string \<Rightarrow> 'w \<Rightarrow> (string \<times> 'w) res"
  dd_run_committee :: "string \<Rightarrow> 'w \<Rightarrow> ((analysis \<times> analysis \<times> analysis) \<times> 'w) res"
  dd_record_stop :: "string \<Rightarrow> string \<Rightarrow> 'w \<Rightarrow> 'w res"

definition bare_wave :: "string \<Rightarrow> int \<Rightarrow> string \<Rightarrow> string list \<Rightarrow> string \<Rightarrow> wave_result" where
  "bare_wave sid wave fid ids question = \<lparr>wr_session_id = sid, wr_wave_id = wave, wr_freeze_id = fid, wr_evidence_ids = ids,
     wr_stock = None, wr_bull = None, wr_bear = None, wr_disagreement = None, wr_coverage = None, wr_relationships = [],
     wr_open_questions = [], wr_question = question, wr_novelty = []\<rparr>"

definition run_wave1 :: "string \<Rightarrow> string \<Rightarrow> 'w director_deps \<Rightarrow> pyobj \<Rightarrow> string option \<Rightarrow> 'w \<Rightarrow> (wave_result \<times> 'w) res" where
  "run_wave1 question as_of deps wave interrupt_after w0 =
     bindR (coerce_wave_id wave) (\<lambda>wid.
     bindR (dd_create_session deps question as_of w0) (\<lambda>(sid, w1).
     bindR (dd_fetch_wave_evidence deps sid w1) (\<lambda>(ids, w2).
     if interrupt_after = Some ''source''
     then bindR (dd_record_stop deps sid ''interrupted:source'' w2) (\<lambda>w3. Ok (bare_wave sid wid [] ids question, w3))
     else bindR (dd_create_freeze deps sid w2) (\<lambda>(fid, w3).
          if interrupt_after = Some ''freeze''
          then bindR (dd_record_stop deps sid ''interrupted:freeze'' w3) (\<lambda>w4. Ok (bare_wave sid wid fid ids question, w4))
          else bindR (dd_run_committee deps sid w3) (\<lambda>((stock, bull, bear), w4).
               bindR (compute_disagreement stock bull bear) (\<lambda>d.
               Ok ((bare_wave sid wid fid ids question)\<lparr>wr_stock := Some stock, wr_bull := Some bull, wr_bear := Some bear,
                      wr_disagreement := Some d\<rparr>, w4)))))))"

section \<open>Requests\<close>

definition gain_rank :: "research_request \<Rightarrow> nat" where
  "gain_rank r = (let g = lower (strip (rq_expected_gain r)) in if g = ''high'' then 2 else if g = ''medium'' then 1 else 0)"

definition decision_key :: "research_request \<Rightarrow> nat \<times> nat" where
  "decision_key r = (gain_rank r, length (rq_requesting_agents r))"

definition is_material :: "research_request \<Rightarrow> bool" where
  "is_material r \<longleftrightarrow> strip (rq_why_material r) \<noteq> [] \<and> gain_rank r > 0"

definition is_actionable :: "research_request \<Rightarrow> bool" where
  "is_actionable r \<longleftrightarrow> upper (strip (rq_requested_source_domain r)) = ''SEC''"

section \<open>Budgets\<close>

definition waves_exceeded :: "director_budgets \<Rightarrow> int \<Rightarrow> wave_decision option" where
  "waves_exceeded b used = (case db_max_waves b of None \<Rightarrow> None
     | Some m \<Rightarrow> if used \<ge> m then Some (stop_with ''max_waves'' (''waves_used='' @ int_str used @ '' max='' @ int_str m)) else None)"

definition runtime_exceeded :: "(rat \<Rightarrow> string) \<Rightarrow> director_budgets \<Rightarrow> rat \<Rightarrow> wave_decision option" where
  "runtime_exceeded fmt b elapsed = (case db_runtime_budget_s b of None \<Rightarrow> None
     | Some m \<Rightarrow> if elapsed \<ge> m then Some (stop_with ''runtime_exceeded'' (''elapsed='' @ fmt elapsed @ ''s budget='' @ fmt m @ ''s'')) else None)"

definition jobs_exceeded :: "director_budgets \<Rightarrow> int \<Rightarrow> wave_decision option" where
  "jobs_exceeded b used = (case db_max_jobs b of None \<Rightarrow> None
     | Some m \<Rightarrow> if used \<ge> m then Some (stop_with ''jobs_exceeded'' (''jobs_used='' @ int_str used @ '' max='' @ int_str m)) else None)"

text \<open>\<open>x or y\<close> for an optional \<open>x\<close>.\<close>

definition or_else :: "'a option \<Rightarrow> 'a option \<Rightarrow> 'a option" where
  "or_else x y = (case x of None \<Rightarrow> y | Some _ \<Rightarrow> x)"

definition budget_stop :: "(rat \<Rightarrow> string) \<Rightarrow> director_budgets \<Rightarrow> int \<Rightarrow> int \<Rightarrow> rat \<Rightarrow> wave_decision option" where
  "budget_stop fmt b waves_used jobs_used elapsed =
     or_else (waves_exceeded b waves_used) (or_else (runtime_exceeded fmt b elapsed) (jobs_exceeded b jobs_used))"

section \<open>Coverage\<close>

definition nonblank_strs :: "pyobj list \<Rightarrow> string list" where
  "nonblank_strs xs = map str_of (filter (\<lambda>v. is_str v \<and> strip (str_of v) \<noteq> []) xs)"

definition coverage_str_list :: "(string, pyobj) dict option \<Rightarrow> string \<Rightarrow> string list" where
  "coverage_str_list coverage key = (case coverage of None \<Rightarrow> []
     | Some d \<Rightarrow> (case obj_get d key of PList xs \<Rightarrow> nonblank_strs xs | _ \<Rightarrow> []))"

definition coverage_questions :: "(string, pyobj) dict option \<Rightarrow> string list \<Rightarrow> string list" where
  "coverage_questions coverage extra = (let asked_too = filter (\<lambda>q. strip q \<noteq> []) extra in
     case coverage of None \<Rightarrow> asked_too
     | Some _ \<Rightarrow> dedup (coverage_str_list coverage ''material_open_questions'' @ coverage_str_list coverage ''unresolved''
                    @ coverage_str_list coverage ''open_questions'' @ asked_too))"

definition coverage_branches :: "(string, pyobj) dict option \<Rightarrow> string list \<times> string list" where
  "coverage_branches coverage = (let covered = coverage_str_list coverage ''major_entities_investigated'' in
     (covered, dedup (coverage_str_list coverage ''major_entities_missing'' @ coverage_str_list coverage ''remaining_branches''
        @ filter (\<lambda>route. route \<notin> set covered) (coverage_str_list coverage ''routes_unsearched''))))"

definition missing_branches :: "(string, pyobj) dict option \<Rightarrow> string list" where
  "missing_branches coverage = (case coverage_branches coverage of (covered, remaining) \<Rightarrow> filter (\<lambda>r. r \<notin> set covered) remaining)"

definition coverage_verdict :: "(string, pyobj) dict option \<Rightarrow> bool" where
  "coverage_verdict coverage = (case coverage of None \<Rightarrow> False
     | Some d \<Rightarrow> in_vocab (obj_get d ''useful_for_question'') [''sufficient'', ''insufficient''])"

definition challenge_detail :: "wave_result \<Rightarrow> string \<Rightarrow> string list \<Rightarrow> string list \<Rightarrow> string list \<Rightarrow> string \<Rightarrow> string" where
  "challenge_detail w question covered missing open_q target =
     ''coverage challenge: '' @ nat_str (length missing) @ '' branch(es) remaining, '' @ nat_str (length open_q)
     @ '' material open question(s), '' @ nat_str (length (wr_relationships w)) @ '' relationship(s); targeted follow-up on ''
     @ py_repr target @ '' (original question: '' @ py_repr (take 160 question) @ ''; covered: '' @ repr_strs (take 5 covered)
     @ ''; remaining: '' @ repr_strs (take 5 missing) @ '')''"

definition coverage_challenge :: "wave_result \<Rightarrow> wave_decision option" where
  "coverage_challenge w =
     (if \<not> coverage_verdict (wr_coverage w) then None
      else let covered = fst (coverage_branches (wr_coverage w)); missing = missing_branches (wr_coverage w);
               open_q = coverage_questions (wr_coverage w) (wr_open_questions w)
           in case missing @ open_q of [] \<Rightarrow> None
              | target # _ \<Rightarrow>
                  let question = (if strip (wr_question w) \<noteq> [] then strip (wr_question w) else target)
                  in Some \<lparr>wd_authorized = True, wd_stop_reason = ''continue'',
                       wd_reason_detail = challenge_detail w question covered missing open_q target,
                       wd_targeted_question = question @ '' :: targeted follow-up: '' @ target, wd_targeted_domain = ''SEC''\<rparr>)"

section \<open>Committee follow-up\<close>

definition requests_of :: "wave_result \<Rightarrow> research_request list" where
  "requests_of w = (case wr_disagreement w of None \<Rightarrow> [] | Some d \<Rightarrow> co_requested_research d)"

definition research_stop :: "wave_result \<Rightarrow> wave_decision" where
  "research_stop w =
     (if requests_of w = [] then stop_with ''no_questions'' ''committee requested no follow-up research''
      else let material = filter is_material (requests_of w) in
        if material = [] then stop_with ''low_gain'' ''no material follow-up (all low-gain or unmotivated)''
        else case sort_desc decision_key (filter is_actionable material) of
            [] \<Rightarrow> stop_with ''not_actionable'' ''material requests need non-SEC domains''
          | best # _ \<Rightarrow> \<lparr>wd_authorized = True, wd_stop_reason = ''continue'',
              wd_reason_detail = ''wave '' @ int_str (wr_wave_id w + 1) @ '' authorized: '' @ rq_question best,
              wd_targeted_question = rq_question best, wd_targeted_domain = rq_requested_source_domain best\<rparr>)"

section \<open>Novelty\<close>

definition novelty_zero_keys :: "string list" where
  "novelty_zero_keys = [''new_raw_documents'', ''new_evidence_records'', ''new_relationships'', ''resolved_questions'']"

definition novelty_count :: "(string, pyobj) dict \<Rightarrow> string \<Rightarrow> int" where
  "novelty_count novelty key = (case obj_get novelty key of PInt n \<Rightarrow> if n > 0 then n else 0 | _ \<Rightarrow> 0)"

definition branch_exhausted :: "wave_result \<Rightarrow> bool" where
  "branch_exhausted w = (case wr_disagreement w of None \<Rightarrow> False
     | Some d \<Rightarrow> missing_branches (wr_coverage w) = []
         \<and> coverage_questions (wr_coverage w) (wr_open_questions w) = []
         \<and> \<not> list_ex is_material (co_requested_research d))"

definition zero_novelty_counts :: "wave_result \<Rightarrow> (string, pyobj) dict option \<Rightarrow> (string, pyobj) dict option" where
  "zero_novelty_counts w novelty =
     (let counts = (case novelty of Some n \<Rightarrow> if n \<noteq> [] then n else wr_novelty w | None \<Rightarrow> wr_novelty w)
      in if counts = [] \<or> list_ex (\<lambda>key. novelty_count counts key > 0) novelty_zero_keys then None else Some counts)"

definition limit_stop :: "wave_result \<Rightarrow> (string, pyobj) dict \<Rightarrow> int \<Rightarrow> wave_decision option" where
  "limit_stop w counts limit =
     (let streak = (if novelty_count counts ''zero_novelty_waves'' \<noteq> 0 then novelty_count counts ''zero_novelty_waves'' else 1)
      in if streak < limit then None
         else Some (stop_with ''no_novelty'' (''wave '' @ int_str (wr_wave_id w) @ '': '' @ int_str streak
           @ '' consecutive zero-novelty wave(s) on this branch; zero_novelty_limit='' @ int_str limit
           @ '' (explicit operator policy, not research semantics)'')))"

definition novelty_stop :: "wave_result \<Rightarrow> (string, pyobj) dict option \<Rightarrow> int option \<Rightarrow> wave_decision option" where
  "novelty_stop w novelty limit = (case zero_novelty_counts w novelty of None \<Rightarrow> None
     | Some counts \<Rightarrow>
         if novelty_count counts ''duplicate_actions_blocked'' \<noteq> 0
         then Some (stop_with ''loop_detected'' (''wave '' @ int_str (wr_wave_id w) @ '': ''
                @ int_str (novelty_count counts ''duplicate_actions_blocked'')
                @ '' exact repeated action(s) with no evidence progress and a zero-novelty wave''))
         else case limit of
             Some l \<Rightarrow> limit_stop w counts l
           | None \<Rightarrow> if \<not> branch_exhausted w then None
                     else Some (stop_with ''no_novelty'' (''wave '' @ int_str (wr_wave_id w)
                       @ '': zero-novelty wave with nothing unexplored left on this branch ''
                       @ ''(no remaining route, branch, entity, material open question, or material committee request)'')))"

definition unlimited :: director_budgets where
  "unlimited = \<lparr>db_max_waves = None, db_max_jobs = None, db_max_tool_calls = None, db_runtime_budget_s = None,
     db_zero_novelty_limit = None\<rparr>"

definition decide_next_wave :: "(rat \<Rightarrow> string) \<Rightarrow> wave_result \<Rightarrow> director_budgets option \<Rightarrow> int \<Rightarrow> int \<Rightarrow> rat
    \<Rightarrow> (string, pyobj) dict option \<Rightarrow> wave_decision \<times> (string \<times> string)" where
  "decide_next_wave fmt w budgets waves_used jobs_used elapsed novelty =
     (let b = (case budgets of None \<Rightarrow> unlimited | Some x \<Rightarrow> x);
          decision = (case budget_stop fmt b waves_used jobs_used elapsed of
              Some d \<Rightarrow> d
            | None \<Rightarrow>
                let d = (case coverage_challenge w of Some c \<Rightarrow> c | None \<Rightarrow> research_stop w)
                in (case novelty_stop w novelty (db_zero_novelty_limit b) of Some n \<Rightarrow> n | None \<Rightarrow> d))
      in (decision, (wr_session_id w, wd_stop_reason decision @ '':'' @ wd_reason_detail decision)))"

section \<open>Exact repeats\<close>

type_synonym action = "string \<times> string \<times> string \<times> string \<times> string list \<times> string \<times> string \<times> string"

datatype forms_arg = FSeq "string list" | FText string

definition form_tuple :: "forms_arg \<Rightarrow> string list" where
  "form_tuple forms = (case forms of FSeq fs \<Rightarrow> fs | FText f \<Rightarrow> if f \<noteq> [] then [f] else [])"

definition normalize_research_action :: "string \<Rightarrow> string \<Rightarrow> string \<Rightarrow> string \<Rightarrow> forms_arg \<Rightarrow> string \<Rightarrow> string \<Rightarrow> string \<Rightarrow> action" where
  "normalize_research_action source tool query ticker forms as_of accession objective =
     (lower (strip source), strip tool, strip query, upper (strip ticker), map (\<lambda>f. upper (strip f)) (form_tuple forms),
      strip as_of, strip accession, strip objective)"

record loop_entry =
  le_action :: action
  le_result_hash :: "string option"
  le_reason :: string

record loop_detector =
  ld_seen :: "(action, string \<times> int) dict"
  ld_telemetry :: "loop_entry list"

definition loop_precheck :: "loop_detector \<Rightarrow> action \<Rightarrow> loop_detector \<times> bool" where
  "loop_precheck ld a = (case dget (ld_seen ld) a of
       Some (h, delta) \<Rightarrow>
         if delta \<le> 0
         then (ld\<lparr>ld_telemetry := ld_telemetry ld @ [\<lparr>le_action = a, le_result_hash = None, le_reason = ''research_loop_detected''\<rparr>]\<rparr>, True)
         else (ld, False)
     | None \<Rightarrow> (ld, False))"

definition loop_check :: "loop_detector \<Rightarrow> action \<Rightarrow> string \<Rightarrow> int \<Rightarrow> loop_detector \<times> bool" where
  "loop_check ld a result_hash delta =
     (if (case dget (ld_seen ld) a of Some (h, _) \<Rightarrow> h = result_hash \<and> delta \<le> 0 | None \<Rightarrow> False)
      then (ld\<lparr>ld_telemetry := ld_telemetry ld @ [\<lparr>le_action = a, le_result_hash = Some result_hash, le_reason = ''research_loop_detected''\<rparr>]\<rparr>, True)
      else (ld\<lparr>ld_seen := dset a (result_hash, delta) (ld_seen ld)\<rparr>, False))"

text \<open>
  The discipline of the callers: an action is dispatched unless the pre-check calls it a duplicate, and
  its outcome (result hash, new evidence) is checked in.  The result lists the dispatched actions with
  their outcome and whether the check flagged them.
\<close>

fun run_actions :: "loop_detector \<Rightarrow> (action \<times> string \<times> int) list \<Rightarrow> loop_detector \<times> (action \<times> int \<times> bool) list" where
  "run_actions ld [] = (ld, [])"
| "run_actions ld ((a, h, delta) # rest) =
     (case loop_precheck ld a of (ld1, blocked) \<Rightarrow>
        if blocked then run_actions ld1 rest
        else (case loop_check ld1 a h delta of (ld2, flagged) \<Rightarrow>
               (case run_actions ld2 rest of (ld3, es) \<Rightarrow> (ld3, (a, delta, flagged) # es))))"

definition fresh_detector :: loop_detector where
  "fresh_detector = \<lparr>ld_seen = [], ld_telemetry = []\<rparr>"

section \<open>How decisions are made\<close>

named_theorems decision_simps "the fields of decisions"

lemma stop_with_simps [simp]:
  "wd_authorized (stop_with r d) = False" "wd_stop_reason (stop_with r d) = r" "wd_reason_detail (stop_with r d) = d"
  by (simp_all add: stop_with_def)

lemma budget_stop_None:
  "budget_stop fmt b waves jobs elapsed = None \<longleftrightarrow>
     (\<forall>m. db_max_waves b = Some m \<longrightarrow> waves < m) \<and> (\<forall>m. db_runtime_budget_s b = Some m \<longrightarrow> elapsed < m)
     \<and> (\<forall>m. db_max_jobs b = Some m \<longrightarrow> jobs < m)"
  by (auto simp: budget_stop_def or_else_def waves_exceeded_def runtime_exceeded_def jobs_exceeded_def not_le split: option.splits)

lemma budget_stop_reason:
  "budget_stop fmt b waves jobs elapsed = Some d
     \<Longrightarrow> \<not> wd_authorized d \<and> wd_stop_reason d \<in> {''max_waves'', ''runtime_exceeded'', ''jobs_exceeded''}"
  by (auto simp: budget_stop_def or_else_def waves_exceeded_def runtime_exceeded_def jobs_exceeded_def split: option.splits if_splits)

text \<open>What remains open on a branch.\<close>

definition residuals :: "wave_result \<Rightarrow> string list" where
  "residuals w = missing_branches (wr_coverage w) @ coverage_questions (wr_coverage w) (wr_open_questions w)"

lemma coverage_challenge_None: "coverage_challenge w = None \<longleftrightarrow> \<not> coverage_verdict (wr_coverage w) \<or> residuals w = []"
  by (auto simp: coverage_challenge_def residuals_def Let_def split: list.splits)

lemma coverage_challenge_Some:
  assumes "coverage_challenge w = Some d"
  shows "wd_authorized d" and "wd_stop_reason d = ''continue''" and "wd_targeted_domain d = ''SEC''" and "residuals w \<noteq> []"
    and "coverage_verdict (wr_coverage w)"
    and "\<exists>q. wd_targeted_question d = q @ '' :: targeted follow-up: '' @ hd (residuals w)"
proof -
  from assms show verdict: "coverage_verdict (wr_coverage w)" by (simp add: coverage_challenge_def split: if_splits)
  from assms have "coverage_challenge w \<noteq> None" by simp
  then show res: "residuals w \<noteq> []" by (simp add: coverage_challenge_None)
  then obtain t ts where ts: "residuals w = t # ts" by (cases "residuals w") auto
  with assms verdict show "wd_authorized d" "wd_stop_reason d = ''continue''" "wd_targeted_domain d = ''SEC''"
    "\<exists>q. wd_targeted_question d = q @ '' :: targeted follow-up: '' @ hd (residuals w)"
    by (auto simp: coverage_challenge_def residuals_def Let_def)
qed

lemma hd_sort_desc:
  assumes "sort_desc k xs = y # ys"
  shows "y \<in> set xs" and "\<forall>x \<in> set xs. k x \<le> k y"
proof -
  have "set (sort_desc k xs) = set xs" by simp
  with assms show "y \<in> set xs" by (metis list.set_intros(1))
  have "sorted (rev (map k (y # ys)))" using sort_desc_sorted [of k xs] assms by simp
  then have "\<forall>z \<in> set ys. k z \<le> k y" by (simp add: sorted_append)
  moreover have "set xs = insert y (set ys)" using \<open>set (sort_desc k xs) = set xs\<close> assms by simp
  ultimately show "\<forall>x \<in> set xs. k x \<le> k y" by auto
qed

lemma research_stop_cases:
  obtains (Stop) "\<not> wd_authorized (research_stop w)"
      and "wd_stop_reason (research_stop w) \<in> {''no_questions'', ''low_gain'', ''not_actionable''}"
    | (Continue) r where "r \<in> set (requests_of w)" and "is_material r" and "is_actionable r"
      and "\<forall>x \<in> set (requests_of w). is_material x \<and> is_actionable x \<longrightarrow> decision_key x \<le> decision_key r"
      and "wd_authorized (research_stop w)" and "wd_stop_reason (research_stop w) = ''continue''"
      and "wd_targeted_question (research_stop w) = rq_question r"
      and "wd_targeted_domain (research_stop w) = rq_requested_source_domain r"
proof (cases "requests_of w = [] \<or> filter is_material (requests_of w) = []
    \<or> sort_desc decision_key (filter is_actionable (filter is_material (requests_of w))) = []")
  case True
  then have "\<not> wd_authorized (research_stop w)"
    "wd_stop_reason (research_stop w) \<in> {''no_questions'', ''low_gain'', ''not_actionable''}"
    by (auto simp: research_stop_def Let_def)
  then show thesis by (rule Stop)
next
  case False
  then obtain r rs where sorted: "sort_desc decision_key (filter is_actionable (filter is_material (requests_of w))) = r # rs"
    by (cases "sort_desc decision_key (filter is_actionable (filter is_material (requests_of w)))") auto
  show thesis
  proof (rule Continue [of r])
    show "r \<in> set (requests_of w)" "is_material r" "is_actionable r" using hd_sort_desc(1) [OF sorted] by auto
    show "\<forall>x \<in> set (requests_of w). is_material x \<and> is_actionable x \<longrightarrow> decision_key x \<le> decision_key r"
      using hd_sort_desc(2) [OF sorted] by simp
  qed (use False sorted in \<open>simp_all add: research_stop_def Let_def\<close>)
qed

lemma novelty_stop_reason:
  assumes "novelty_stop w novelty limit = Some d"
  shows "\<not> wd_authorized d" and "wd_stop_reason d \<in> {''loop_detected'', ''no_novelty''}"
    and "limit = None \<Longrightarrow> wd_stop_reason d = ''no_novelty'' \<Longrightarrow> branch_exhausted w"
    and "zero_novelty_counts w novelty \<noteq> None"
  using assms by (auto simp: novelty_stop_def limit_stop_def Let_def split: option.splits if_splits)

lemma exhausted_no_residuals: "branch_exhausted w \<Longrightarrow> residuals w = [] \<and> (\<forall>r \<in> set (requests_of w). \<not> is_material r)"
  by (auto simp: branch_exhausted_def residuals_def requests_of_def list_ex_iff split: option.splits)

definition base_decision :: "wave_result \<Rightarrow> wave_decision" where
  "base_decision w = (case coverage_challenge w of Some c \<Rightarrow> c | None \<Rightarrow> research_stop w)"

lemma decide_cases:
  fixes fmt w budgets
  defines "b \<equiv> (case budgets of None \<Rightarrow> unlimited | Some x \<Rightarrow> x)"
  obtains (Exceeded) d where "budget_stop fmt b waves jobs elapsed = Some d"
      and "fst (decide_next_wave fmt w budgets waves jobs elapsed novelty) = d"
    | (Novelty) d where "budget_stop fmt b waves jobs elapsed = None" and "novelty_stop w novelty (db_zero_novelty_limit b) = Some d"
      and "fst (decide_next_wave fmt w budgets waves jobs elapsed novelty) = d"
    | (Base) "budget_stop fmt b waves jobs elapsed = None" and "novelty_stop w novelty (db_zero_novelty_limit b) = None"
      and "fst (decide_next_wave fmt w budgets waves jobs elapsed novelty) = base_decision w"
proof (cases "budget_stop fmt b waves jobs elapsed")
  case None
  show thesis
  proof (cases "novelty_stop w novelty (db_zero_novelty_limit b)")
    case n: None
    with None show thesis by (intro Base) (simp_all add: decide_next_wave_def b_def base_decision_def Let_def)
  next
    case (Some d)
    with None show thesis by (intro Novelty [of d]) (simp_all add: decide_next_wave_def b_def Let_def)
  qed
next
  case (Some d)
  then show thesis by (intro Exceeded [of d]) (simp_all add: decide_next_wave_def b_def Let_def)
qed

lemma base_decision_cases:
  obtains (Residual) "coverage_verdict (wr_coverage w)" and "residuals w \<noteq> []" and "wd_authorized (base_decision w)"
      and "wd_stop_reason (base_decision w) = ''continue''" and "wd_targeted_domain (base_decision w) = ''SEC''"
      and "\<exists>q. wd_targeted_question (base_decision w) = q @ '' :: targeted follow-up: '' @ hd (residuals w)"
    | (Committee) "\<not> coverage_verdict (wr_coverage w) \<or> residuals w = []" and "base_decision w = research_stop w"
proof (cases "coverage_challenge w")
  case None
  then have "\<not> coverage_verdict (wr_coverage w) \<or> residuals w = []" by (simp add: coverage_challenge_None)
  with None show thesis by (intro Committee) (simp_all add: base_decision_def)
next
  case (Some d)
  from coverage_challenge_Some [OF this] show thesis by (intro Residual) (simp_all add: base_decision_def Some)
qed

section \<open>Properties\<close>

text \<open>
  C15.  The decision on the next wave is sound.  A wave is authorized exactly when the reason is
  \<open>continue\<close>, and then every configured budget still has room, the target is the SEC, and there is
  something to look for: a residual of the coverage, or a material and actionable committee request,
  of which the targeted one has the highest gain and support.  Without an operator limit, a run that
  stops for lack of novelty has nothing left to explore: no residual and no material request.  The
  decision is recorded with its reason and detail.
\<close>

theorem decision_sound:
  assumes "decide_next_wave fmt w budgets waves jobs elapsed novelty = (d, recorded)"
  shows "(wd_authorized d \<longleftrightarrow> wd_stop_reason d = ''continue'')
    \<and> recorded = (wr_session_id w, wd_stop_reason d @ '':'' @ wd_reason_detail d)
    \<and> (wd_authorized d \<longrightarrow> upper (strip (wd_targeted_domain d)) = ''SEC''
        \<and> (\<forall>b. budgets = Some b \<longrightarrow> (\<forall>m. db_max_waves b = Some m \<longrightarrow> waves < m)
             \<and> (\<forall>m. db_max_jobs b = Some m \<longrightarrow> jobs < m) \<and> (\<forall>m. db_runtime_budget_s b = Some m \<longrightarrow> elapsed < m))
        \<and> (residuals w \<noteq> [] \<or> (\<exists>r \<in> set (requests_of w). is_material r \<and> is_actionable r \<and> wd_targeted_question d = rq_question r
             \<and> (\<forall>x \<in> set (requests_of w). is_material x \<and> is_actionable x \<longrightarrow> decision_key x \<le> decision_key r))))
    \<and> (wd_stop_reason d = ''no_novelty'' \<and> (\<forall>b. budgets = Some b \<longrightarrow> db_zero_novelty_limit b = None)
        \<longrightarrow> residuals w = [] \<and> \<not> list_ex is_material (requests_of w))"
proof -
  let ?b = "case budgets of None \<Rightarrow> unlimited | Some x \<Rightarrow> x"
  from assms have d: "d = fst (decide_next_wave fmt w budgets waves jobs elapsed novelty)"
    and recorded: "recorded = (wr_session_id w, wd_stop_reason d @ '':'' @ wd_reason_detail d)"
    by (simp, auto simp: decide_next_wave_def Let_def)
  have sec: "upper (strip ''SEC'') = ''SEC''" by code_simp
  show ?thesis
  proof (cases rule: decide_cases [of fmt budgets waves jobs elapsed w novelty])
    case (Exceeded x)
    with budget_stop_reason [OF this(1)] d recorded show ?thesis by auto
  next
    case (Novelty x)
    have limit: "db_zero_novelty_limit ?b = None" if "\<forall>b. budgets = Some b \<longrightarrow> db_zero_novelty_limit b = None"
      using that by (cases budgets) (simp_all add: unlimited_def)
    note stop = novelty_stop_reason [OF Novelty(2)]
    with limit exhausted_no_residuals [of w] Novelty(3) d recorded show ?thesis by (auto simp: list_ex_iff)
  next
    case Base
    from Base(1) have room: "\<forall>b. budgets = Some b \<longrightarrow> (\<forall>m. db_max_waves b = Some m \<longrightarrow> waves < m)
        \<and> (\<forall>m. db_max_jobs b = Some m \<longrightarrow> jobs < m) \<and> (\<forall>m. db_runtime_budget_s b = Some m \<longrightarrow> elapsed < m)"
      by (auto simp: budget_stop_None)
    show ?thesis
    proof (cases rule: base_decision_cases [of w])
      case Residual
      with Base(3) d recorded room sec show ?thesis by auto
    next
      case Committee
      with Base(3) d have d': "d = research_stop w" by simp
      show ?thesis
      proof (cases rule: research_stop_cases [of w])
        case Stop
        with d' recorded show ?thesis by auto
      next
        case (Continue r)
        then have "upper (strip (wd_targeted_domain d)) = ''SEC''" by (simp add: d' is_actionable_def)
        with Continue d' recorded room show ?thesis by auto
      qed
    qed
  qed
qed

definition demo_wave :: wave_result where
  "demo_wave = (bare_wave ''rs:1'' 1 ''fz:1'' [''ev:1''] ''why'')
     \<lparr>wr_coverage := Some [(''useful_for_question'', PStr ''insufficient''), (''remaining_branches'', PList [PStr ''debt''])]\<rparr>"

lemma demo_residuals: "residuals demo_wave = [''debt'']" and demo_verdict: "coverage_verdict (wr_coverage demo_wave)"
  by code_simp+

theorem decision_sound_witness:
  "\<exists>d. fst (decide_next_wave (\<lambda>_. []) demo_wave None 1 4 0 None) = d \<and> wd_authorized d \<and> wd_stop_reason d = ''continue''"
proof -
  let ?d = "fst (decide_next_wave (\<lambda>_. []) demo_wave None 1 4 0 None)"
  have "wd_authorized ?d" by code_simp
  with decision_sound [of "\<lambda>_. []" demo_wave None 1 4 0 None ?d] show ?thesis by (metis prod.collapse)
qed

text \<open>
  Residuals keep the run going: as long as the dossier has a verdict and its coverage still names
  a missing branch, an unsearched route or an open question, the next wave is authorized and targets
  the first of them, unless a configured budget is spent, an operator limit on waves without novelty is
  configured, or a wave without any novelty was blocked on exact repeats.
\<close>

theorem residuals_continue:
  assumes "coverage_verdict (wr_coverage w)" and "residuals w \<noteq> []"
    and "\<forall>b. budgets = Some b \<longrightarrow> db_zero_novelty_limit b = None \<and> (\<forall>m. db_max_waves b = Some m \<longrightarrow> waves < m)
          \<and> (\<forall>m. db_max_jobs b = Some m \<longrightarrow> jobs < m) \<and> (\<forall>m. db_runtime_budget_s b = Some m \<longrightarrow> elapsed < m)"
    and "\<forall>c. zero_novelty_counts w novelty = Some c \<longrightarrow> novelty_count c ''duplicate_actions_blocked'' = 0"
  shows "wd_authorized (fst (decide_next_wave fmt w budgets waves jobs elapsed novelty))
    \<and> (\<exists>q. wd_targeted_question (fst (decide_next_wave fmt w budgets waves jobs elapsed novelty))
         = q @ '' :: targeted follow-up: '' @ hd (residuals w))"
proof -
  let ?b = "case budgets of None \<Rightarrow> unlimited | Some x \<Rightarrow> x"
  have "budget_stop fmt ?b waves jobs elapsed = None" and limit: "db_zero_novelty_limit ?b = None"
    using assms(3) by (auto simp: budget_stop_None unlimited_def split: option.splits)
  moreover have "novelty_stop w novelty None = None"
    using assms(2,4) exhausted_no_residuals [of w] by (auto simp: novelty_stop_def split: option.splits)
  ultimately have d: "fst (decide_next_wave fmt w budgets waves jobs elapsed novelty) = base_decision w"
    by (cases rule: decide_cases [of fmt budgets waves jobs elapsed w novelty]) simp_all
  show ?thesis
    by (cases rule: base_decision_cases [of w]) (use assms(1,2) d in auto)
qed

theorem residuals_continue_witness:
  "wd_authorized (fst (decide_next_wave (\<lambda>_. []) demo_wave None 7 40 0 None))"
proof -
  have "zero_novelty_counts demo_wave None = None" by code_simp
  with residuals_continue [of demo_wave None 7 40 0 None "\<lambda>_. []"] show ?thesis by (simp add: demo_residuals demo_verdict)
qed

lemma run_actions_blocks:
  assumes "dget (ld_seen ld) a = Some (h, delta)" and "delta \<le> 0"
  shows "a \<notin> fst ` set (snd (run_actions ld xs))"
  using assms(1)
proof (induction xs arbitrary: ld)
  case (Cons x xs)
  obtain b h' delta' where x: "x = (b, h', delta')" by (cases x)
  obtain ld1 blocked where pre: "loop_precheck ld b = (ld1, blocked)" by fastforce
  then have seen1: "ld_seen ld1 = ld_seen ld" by (auto simp: loop_precheck_def split: option.splits if_splits)
  show ?case
  proof (cases blocked)
    case True
    with Cons.IH [of ld1] Cons.prems seen1 pre x show ?thesis by simp
  next
    case False
    with pre Cons.prems assms(2) have "b \<noteq> a" by (auto simp: loop_precheck_def)
    obtain ld2 flagged where chk: "loop_check ld1 b h' delta' = (ld2, flagged)" by fastforce
    with \<open>b \<noteq> a\<close> seen1 Cons.prems have "dget (ld_seen ld2) a = Some (h, delta)"
      by (auto simp: loop_check_def split: if_splits)
    from Cons.IH [OF this] \<open>b \<noteq> a\<close> False pre chk x show ?thesis by (auto split: prod.splits)
  qed
qed simp


definition demo_action :: action where
  "demo_action = normalize_research_action ''SEC'' ''get_filing'' ''debt'' ''acme'' (FText ''10-k'') [] [] ''why''"


text \<open>An action that once brought evidence is dispatched again without end, bringing nothing.\<close>

lemma repeat_after_progress_runs:
  "map (fst \<circ> snd) (snd (run_actions fresh_detector ((demo_action, ''h'', 1) # replicate n (demo_action, ''h'', 0)))) = 1 # replicate n 0"
proof -
  have "snd (run_actions \<lparr>ld_seen = [(demo_action, ''h'', 1)], ld_telemetry = t\<rparr> (replicate n (demo_action, ''h'', 0)))
      = replicate n (demo_action, 0, True)" for t
    by (induction n arbitrary: t) (simp_all add: loop_precheck_def loop_check_def split: prod.splits, metis snd_conv)
  from this [of "[]"] show ?thesis by (auto simp: fresh_detector_def loop_precheck_def loop_check_def split: prod.splits)
qed

end
