(* ===== verification/Stage.thy ===== *)
theory Stage
  imports Firewall Jobs
begin

text \<open>
  The stages of a research session and the tools each allows (\<open>app/research/stage.py\<close>).  Stages
  are derived from session records and job lists; the duck-typed field access of the code is field
  selection.  Every name of \<open>TOOLS\<close> is a key of \<open>TOOL_CAPABILITIES\<close> and conversely, so the
  research tools are the keys with the research capability.
\<close>

section \<open>Tool sets\<close>

datatype stage = SOURCE_RESEARCH | COMMITTEE | FINAL

definition research_tool_names :: "string list" where
  "research_tool_names = map fst (filter (\<lambda>(_, cap). cap = CAP_RESEARCH) tool_capabilities)"

definition discovery_tools :: "string list" where
  "discovery_tools = [''browse_tools'', ''search_tools'', ''describe_tool'', ''list_tool_domains'', ''call_tool'']"

definition control_tools :: "string list" where
  "control_tools = [''research_start'', ''research_resume'', ''research_status'', ''research_cancel'', ''research_read'',
     ''research_read_search'', ''research_add_evidence'', ''research_submit_source_result'', ''research_add_analysis'',
     ''research_finalize'']"

definition thesis_tools :: "string list" where
  "thesis_tools = [''thesis_create'', ''thesis_show'', ''thesis_refine'', ''thesis_watch'', ''thesis_journal'', ''thesis_status'']"

definition dispatch_tools :: "string list" where
  "dispatch_tools = filter (\<lambda>t. t \<notin> set discovery_tools \<and> t \<notin> set control_tools \<and> t \<notin> set thesis_tools) research_tool_names"

definition stage_allow :: "stage \<Rightarrow> string list" where
  "stage_allow s = (case s of
       SOURCE_RESEARCH \<Rightarrow> discovery_tools @ dispatch_tools @ [''research_resume'', ''research_status'', ''research_read'',
         ''research_read_search'', ''research_cancel'', ''research_add_evidence'', ''research_submit_source_result'']
     | COMMITTEE \<Rightarrow> discovery_tools @ [''research_resume'', ''research_status'', ''research_read'', ''research_cancel'',
         ''research_add_analysis'']
     | FINAL \<Rightarrow> discovery_tools @ [''research_resume'', ''research_status'', ''research_read'', ''research_cancel'',
         ''research_finalize''])"

section \<open>The stage of a session\<close>

definition latest_freeze_id :: "session \<Rightarrow> string option" where
  "latest_freeze_id s = (if se_freeze_ids s = [] then None else Some (last (se_freeze_ids s)))"

definition entry_job_ids :: "(string, pyobj) dict \<Rightarrow> string \<Rightarrow> string list" where
  "entry_job_ids entry fid = (if obj_get entry ''freeze_id'' \<noteq> PStr fid then []
     else case obj_get entry ''jobs'' of PList xs \<Rightarrow> map str_of (filter is_str xs) | _ \<Rightarrow> [])"

definition wanted_trio_jobs :: "session \<Rightarrow> string \<Rightarrow> string list" where
  "wanted_trio_jobs s fid =
     concat (map (\<lambda>entry. case entry of PDict d \<Rightarrow> entry_job_ids d fid | _ \<Rightarrow> []) (se_committee_runs s))"

text \<open>The last job with an id wins.\<close>

definition job_index :: "job list \<Rightarrow> (string, job) dict" where
  "job_index jobs = fold (\<lambda>j d. dset (jb_job_id j) j d) jobs []"

definition completed_job_roles :: "job list \<Rightarrow> string list \<Rightarrow> string list" where
  "completed_job_roles jobs wanted = concat (map (\<lambda>jid. case dget (job_index jobs) jid of
       None \<Rightarrow> [] | Some j \<Rightarrow> if jb_status j = ''completed'' then [jb_job_type j] else []) wanted)"

definition trio_complete :: "session \<Rightarrow> job list \<Rightarrow> bool" where
  "trio_complete s jobs = (case latest_freeze_id s of None \<Rightarrow> False
     | Some fid \<Rightarrow> {''stockbot'', ''bullbot'', ''bearbot''} \<subseteq> set (completed_job_roles jobs (wanted_trio_jobs s fid)))"

definition final_or_committee :: "session \<Rightarrow> job list \<Rightarrow> stage" where
  "final_or_committee s jobs = (if trio_complete s jobs then FINAL else COMMITTEE)"

definition terminal_stage :: "string \<Rightarrow> stage option" where
  "terminal_stage status = (if status \<in> {''SYNTHESIZING'', ''COMPLETED''} then Some FINAL
     else if status = ''TARGETED_RESEARCH'' then Some SOURCE_RESEARCH else None)"

definition active_stage :: "string \<Rightarrow> session \<Rightarrow> job list \<Rightarrow> stage" where
  "active_stage status s jobs = (if se_freeze_ids s \<noteq> [] \<or> status \<in> {''FREEZING'', ''ANALYZING''}
     then final_or_committee s jobs else SOURCE_RESEARCH)"

definition stage_for_session :: "session \<Rightarrow> job list \<Rightarrow> stage" where
  "stage_for_session s jobs = (let status = upper (se_status s) in
     case terminal_stage status of Some st \<Rightarrow> st | None \<Rightarrow> active_stage status s jobs)"

definition check_stage_tool :: "stage \<Rightarrow> string \<Rightarrow> unit res" where
  "check_stage_tool s tool =
     (if tool \<in> set discovery_tools then Ok ()
      else checkR (tool \<in> set (stage_allow s)) (ValueError ''Stage forbids tool''))"

section \<open>What the stages separate\<close>

lemma tool_sets:
  "set discovery_tools \<subseteq> set research_tool_names" "set control_tools \<subseteq> set research_tool_names"
  "set thesis_tools \<subseteq> set research_tool_names"
  by (simp_all add: discovery_tools_def control_tools_def thesis_tools_def research_tool_names_def tool_capabilities_def)

lemma dispatch_tools_research: "t \<in> set dispatch_tools \<Longrightarrow> t \<in> set research_tool_names \<and> t \<notin> set discovery_tools"
  by (simp add: dispatch_tools_def)

lemma dispatch_stage: "t \<in> set dispatch_tools \<Longrightarrow> is_ok (check_stage_tool s t) \<longleftrightarrow> s = SOURCE_RESEARCH"
  by (cases s) (auto simp: check_stage_tool_def stage_allow_def dispatch_tools_def control_tools_def)

lemma check_stage_tool_Ok:
  "check_stage_tool s t = Ok () \<longleftrightarrow> t \<in> set discovery_tools \<or> t \<in> set (stage_allow s)"
  by (simp add: check_stage_tool_def)

lemma upper_statuses [simp]:
  "upper ''created'' = ''CREATED''"
  "upper ''planning'' = ''PLANNING''"
  "upper ''researching'' = ''RESEARCHING''"
  "upper ''freezing'' = ''FREEZING''"
  "upper ''analyzing'' = ''ANALYZING''"
  "upper ''targeted_research'' = ''TARGETED_RESEARCH''"
  "upper ''synthesizing'' = ''SYNTHESIZING''"
  "upper ''completed'' = ''COMPLETED''"
  "upper ''failed'' = ''FAILED''"
  "upper ''cancelled'' = ''CANCELLED''"
  by code_simp+

text \<open>A failed or cancelled session without a freeze is given the source stage, with all data tools.\<close>

lemma cancelled_session_stage:
  "se_status s \<in> {''failed'', ''cancelled''} \<Longrightarrow> se_freeze_ids s = [] \<Longrightarrow> stage_for_session s jobs = SOURCE_RESEARCH"
  by (auto simp: stage_for_session_def terminal_stage_def active_stage_def)

text \<open>The data tools are open exactly before the first freeze and during targeted research.\<close>

lemma source_stage_iff:
  assumes "se_status s \<in> set session_statuses"
  shows "stage_for_session s jobs = SOURCE_RESEARCH \<longleftrightarrow>
     se_status s = ''targeted_research'' \<or> se_freeze_ids s = [] \<and> se_status s \<notin> {''freezing'', ''analyzing'', ''synthesizing'', ''completed''}"
proof -
  have "final_or_committee s jobs \<noteq> SOURCE_RESEARCH" by (simp add: final_or_committee_def)
  moreover note assms [unfolded session_statuses_def list.set insert_iff]
  ultimately show ?thesis
    by (elim disjE emptyE) (simp_all add: stage_for_session_def terminal_stage_def active_stage_def)
qed

end
