(* ===== verification/Dispatch.thy ===== *)
theory Dispatch
  imports Stage Director
begin

text \<open>
  The kernel's gate on tool calls: the persisted budgets of \<open>app/research/repository.py\<close> and the
  authorization of one dispatch in \<open>app/research/service.py\<close>.  The store holds the rows of the
  database, whose reads give back what was written; each transaction is one step.  The clock is the
  argument \<open>now\<close>, \<open>str\<close> of a value that is not text and \<open>json.dumps\<close> with sorted keys are
  the arguments \<open>show_obj\<close> and \<open>dumps\<close>.
\<close>

section \<open>The store\<close>

record store =
  st_sessions :: "(string, session) dict"
  st_jobs :: "(string, job) dict"
  st_evidence :: "(string \<times> string) list"
  st_events :: "(string \<times> string \<times> (string, pyobj) dict) list"

definition list_jobs :: "store \<Rightarrow> string \<Rightarrow> job list" where
  "list_jobs st sid = sort_key jb_created_at (filter (\<lambda>j. jb_session_id j = sid) (map snd (st_jobs st)))"

definition evidence_count :: "store \<Rightarrow> string \<Rightarrow> int" where
  "evidence_count st sid = int (length (filter (\<lambda>(s, _). s = sid) (st_evidence st)))"

text \<open>A replaced row gets a new row id, so it moves behind the others.\<close>

definition put_job :: "job \<Rightarrow> store \<Rightarrow> store" where
  "put_job j st = st\<lparr>st_jobs := filter (\<lambda>(k, _). k \<noteq> jb_job_id j) (st_jobs st) @ [(jb_job_id j, j)]\<rparr>"

definition put_session :: "session \<Rightarrow> store \<Rightarrow> store" where
  "put_session s st = st\<lparr>st_sessions := dset (se_session_id s) s (st_sessions st)\<rparr>"

definition save_job :: "job \<Rightarrow> store \<Rightarrow> store \<times> unit res" where
  "save_job j st = (case validate_job j of Err e \<Rightarrow> (st, Err e) | Ok _ \<Rightarrow> (put_job j st, Ok ()))"

definition save_session :: "iso_parser \<Rightarrow> session \<Rightarrow> store \<Rightarrow> store \<times> unit res" where
  "save_session fromiso s st = (case validate_session fromiso s of Err e \<Rightarrow> (st, Err e) | Ok _ \<Rightarrow> (put_session s st, Ok ()))"

definition require_session :: "store \<Rightarrow> string \<Rightarrow> session res" where
  "require_session st sid = (case dget (st_sessions st) sid of None \<Rightarrow> Err (KeyError ''unknown session_id'') | Some s \<Rightarrow> Ok s)"

definition require_job :: "store \<Rightarrow> string \<Rightarrow> job res" where
  "require_job st jid = (case dget (st_jobs st) jid of None \<Rightarrow> Err (KeyError ''unknown job_id'') | Some j \<Rightarrow> Ok j)"

section \<open>Budgets\<close>

definition default_max_tool_calls :: "int option" where
  "default_max_tool_calls = db_max_tool_calls unlimited"

definition session_max_calls :: "session \<Rightarrow> int option \<Rightarrow> int option" where
  "session_max_calls s default_max = (case obj_get (se_budget s) ''total_tool_budget'' of
       PInt n \<Rightarrow> if n \<ge> 0 then Some n else default_max
     | PNone \<Rightarrow>
         (case dget (case dget_default (se_policy s) ''research'' (PDict []) of PDict d \<Rightarrow> d | _ \<Rightarrow> []) ''max_tool_calls'' of
            None \<Rightarrow> default_max
          | Some PNone \<Rightarrow> None
          | Some (PInt n) \<Rightarrow> Some n
          | Some _ \<Rightarrow> default_max)
     | _ \<Rightarrow> default_max)"

definition session_used_calls :: "session \<Rightarrow> int" where
  "session_used_calls s = (case dget_default (se_budget s) ''tool_calls_used'' (PInt 0) of
       PInt n \<Rightarrow> if n \<ge> 0 then n else 0 | _ \<Rightarrow> 0)"

definition check_dispatch_budgets :: "job \<Rightarrow> int option \<Rightarrow> int \<Rightarrow> unit res" where
  "check_dispatch_budgets j max_calls used =
     bindR (checkR (\<not> (case jb_tool_budget j of None \<Rightarrow> False | Some n \<Rightarrow> n \<le> 0)) (ValueError ''tool_budget exhausted'')) (\<lambda>_.
     checkR (\<not> (case max_calls of None \<Rightarrow> False | Some m \<Rightarrow> used \<ge> m)) (ValueError ''session tool budget exhausted''))"

definition past_deadline :: "instant \<Rightarrow> job \<Rightarrow> bool" where
  "past_deadline now j = (case jb_deadline j of None \<Rightarrow> False | Some d \<Rightarrow> now > normalize_time d)"

definition timed_out :: "instant \<Rightarrow> string \<Rightarrow> job \<Rightarrow> job" where
  "timed_out now message j = j\<lparr>jb_status := ''timed_out'', jb_completed_at := Some now,
     jb_failure := Some \<lparr>fl_category = ''timeout'', fl_message = message\<rparr>\<rparr>"

definition deadline_message :: "job \<Rightarrow> string" where
  "deadline_message j = (case jb_deadline j of None \<Rightarrow> [] | Some d \<Rightarrow> ''deadline '' @ datetime_text d @ '' expired'')"

text \<open>
  One transaction: it commits the bill, or the time-out of the job, or nothing.
\<close>

definition consume_dispatch_budget :: "iso_parser \<Rightarrow> instant \<Rightarrow> string \<Rightarrow> string \<Rightarrow> store \<Rightarrow> store \<times> (session \<times> job) res" where
  "consume_dispatch_budget fromiso now sid jid st =
     (case bindR (require_session st sid) (\<lambda>s. bindR (require_job st jid) (\<lambda>j.
        bindR (checkR (jb_session_id j = se_session_id s) (ValueError ''job belongs to another session'')) (\<lambda>_.
        bindR (checkR (jb_status j = ''running'') (ValueError ''running required'')) (\<lambda>_. Ok (s, j))))) of
        Err e \<Rightarrow> (st, Err e)
      | Ok (s, j) \<Rightarrow>
          if past_deadline now j
          then (case validate_job (timed_out now (deadline_message j) j) of
                  Err e \<Rightarrow> (st, Err e)
                | Ok _ \<Rightarrow> (put_job (timed_out now (deadline_message j) j) st, Err (ValueError ''deadline expired'')))
          else let used = session_used_calls s;
                   spent = j\<lparr>jb_tool_budget := map_option (\<lambda>n. n - 1) (jb_tool_budget j)\<rparr>;
                   billed = s\<lparr>se_budget := dset ''tool_calls_used'' (PInt (used + 1)) (se_budget s), se_updated_at := now\<rparr>
               in (case bindR (check_dispatch_budgets j (session_max_calls s default_max_tool_calls) used) (\<lambda>_.
                     bindR (validate_session fromiso billed) (\<lambda>_. validate_job spent)) of
                     Err e \<Rightarrow> (st, Err e)
                   | Ok _ \<Rightarrow> (put_job spent (put_session billed st), Ok (billed, spent))))"

section \<open>Live jobs\<close>

definition enforce_live_job :: "instant \<Rightarrow> string \<Rightarrow> store \<Rightarrow> store \<times> job res" where
  "enforce_live_job now jid st = (case require_job st jid of
       Err e \<Rightarrow> (st, Err e)
     | Ok j \<Rightarrow>
         if past_deadline now j
         then (case save_job (timed_out now ''deadline expired'' j) st of
                 (st1, Err e) \<Rightarrow> (st1, Err e)
               | (st1, Ok _) \<Rightarrow> (st1, Err (ValueError ''ERR_JOB_TIMED_OUT: deadline expired'')))
         else if jb_status j = ''timed_out'' then (st, Err (ValueError ''ERR_JOB_TIMED_OUT: timed out''))
         else (st, Ok j))"

definition heartbeat_job :: "instant \<Rightarrow> string \<Rightarrow> store \<Rightarrow> store \<times> job res" where
  "heartbeat_job now jid st = (case require_job st jid of
       Err e \<Rightarrow> (st, Err e)
     | Ok j \<Rightarrow> (case save_job (j\<lparr>jb_last_heartbeat_at := Some now\<rparr>) st of
                   (st1, Err e) \<Rightarrow> (st1, Err e)
                 | (st1, Ok _) \<Rightarrow> (st1, Ok (j\<lparr>jb_last_heartbeat_at := Some now\<rparr>))))"

section \<open>The repeat gate\<close>

definition dispatch_live_job :: "store \<Rightarrow> string \<Rightarrow> string \<Rightarrow> (session \<times> job) res" where
  "dispatch_live_job st sid jid = bindR (require_session st sid) (\<lambda>s. bindR (require_job st jid) (\<lambda>j.
     bindR (checkR (jb_session_id j = se_session_id s) (ValueError ''job belongs to another session'')) (\<lambda>_. Ok (s, j))))"

definition is_sec_tool :: "string \<Rightarrow> bool" where
  "is_sec_tool name \<longleftrightarrow> name \<in> set sec_tools \<and> dget tool_domains name \<noteq> Some ''portfolio_read''"

definition dispatch_check_domain :: "job \<Rightarrow> string \<Rightarrow> unit res" where
  "dispatch_check_domain j tool =
     (if jb_job_type j \<in> {''stockbot'', ''bullbot'', ''bearbot''} then Err (ValueError ''committee job cannot dispatch tools'')
      else case jb_source_domain j of
          None \<Rightarrow> Ok ()
        | Some domain \<Rightarrow>
            if take 8 tool = ''research'' \<or> upper domain \<noteq> ''SEC'' then Ok ()
            else checkR (is_sec_tool tool) (ValueError ''tool outside SEC domain''))"

definition str_or_empty :: "(pyobj \<Rightarrow> string) \<Rightarrow> pyobj \<Rightarrow> string" where
  "str_or_empty show_obj v = (if \<not> truthy v then [] else case v of PStr s \<Rightarrow> s | _ \<Rightarrow> show_obj v)"

definition first_truthy :: "pyobj list \<Rightarrow> pyobj" where
  "first_truthy vs = (case filter truthy (butlast vs) of [] \<Rightarrow> last vs | v # _ \<Rightarrow> v)"

definition dispatch_action :: "(pyobj \<Rightarrow> string) \<Rightarrow> (pyobj \<Rightarrow> string) \<Rightarrow> job \<Rightarrow> session \<Rightarrow> string \<Rightarrow> (string, pyobj) dict \<Rightarrow> action \<times> string" where
  "dispatch_action show_obj dumps j s tool arguments =
     (let args = filter (\<lambda>(k, _). k \<noteq> ''session_id'' \<and> k \<noteq> ''job_id'') arguments
      in (normalize_research_action (case jb_source_domain j of None \<Rightarrow> [] | Some d \<Rightarrow> d) tool
            (str_or_empty show_obj (obj_get args ''query''))
            (str_or_empty show_obj (first_truthy [obj_get args ''ticker'', obj_get args ''identifier'', obj_get args ''entity'', obj_get args ''query'']))
            (case obj_get args ''forms'' of PList xs \<Rightarrow> FSeq (map str_of (filter is_str xs)) | PStr f \<Rightarrow> FText f | _ \<Rightarrow> FSeq [])
            (str_or_empty show_obj (obj_get args ''as_of'')) (str_or_empty show_obj (obj_get args ''accession_no'')) (se_objective s),
          dumps (PDict args)))"

definition action_obj :: "action \<times> string \<Rightarrow> pyobj" where
  "action_obj a = (case a of ((source, tool, query, ticker, forms, as_of, accession, objective), args) \<Rightarrow>
     PList [PStr source, PStr tool, PStr query, PStr ticker, py_values forms, PStr as_of, PStr accession, PStr objective, PStr args])"

definition seen_actions :: "job \<Rightarrow> (string, pyobj) dict" where
  "seen_actions j = (case obj_get (jb_diagnostics j) ''dispatch_actions'' of PDict d \<Rightarrow> d | _ \<Rightarrow> [])"

definition repeats :: "(string, pyobj) dict \<Rightarrow> string \<Rightarrow> int \<Rightarrow> bool" where
  "repeats seen key count = (case obj_get seen key of PInt n \<Rightarrow> count \<le> n | _ \<Rightarrow> False)"

definition dispatch_loop_gate :: "(pyobj \<Rightarrow> string) \<Rightarrow> (pyobj \<Rightarrow> string) \<Rightarrow> session \<Rightarrow> job \<Rightarrow> string \<Rightarrow> (string, pyobj) dict option
    \<Rightarrow> store \<Rightarrow> store \<times> unit res" where
  "dispatch_loop_gate show_obj dumps s j tool arguments st = (case arguments of
       None \<Rightarrow> (st, Ok ())
     | Some args \<Rightarrow>
         (let action = dispatch_action show_obj dumps j s tool args; key = dumps (action_obj action);
              seen = seen_actions j; count = evidence_count st (se_session_id s)
          in if repeats seen key count
             then (st\<lparr>st_events := st_events st @ [(se_session_id s, ''research_loop_detected'',
                      [(''job_id'', PStr (jb_job_id j)), (''tool'', PStr tool), (''action'', action_obj action),
                       (''query'', PStr (fst (snd (snd (fst action))))), (''evidence_count'', PInt count),
                       (''reason'', PStr ''research_loop_detected'')])]\<rparr>,
                   Err (ValueError ''research_loop_detected''))
             else save_job (j\<lparr>jb_diagnostics := dset ''dispatch_actions'' (PDict (dset key (PInt count) seen)) (jb_diagnostics j)\<rparr>) st))"

section \<open>One dispatch\<close>

definition dispatch_receipt :: "string \<Rightarrow> string \<Rightarrow> string \<Rightarrow> session \<Rightarrow> job \<Rightarrow> (string, pyobj) dict" where
  "dispatch_receipt sid jid tool billed spent =
     [(''session_id'', PStr sid), (''job_id'', PStr jid), (''tool_name'', PStr tool),
      (''tool_budget'', opt_obj PInt (jb_tool_budget spent)),
      (''tool_calls_used'', PInt (case dget_default (se_budget billed) ''tool_calls_used'' (PInt 0) of PInt n \<Rightarrow> n | _ \<Rightarrow> 0))]"

definition authorize_and_consume_dispatch :: "(pyobj \<Rightarrow> string) \<Rightarrow> (pyobj \<Rightarrow> string) \<Rightarrow> iso_parser \<Rightarrow> instant \<Rightarrow> string \<Rightarrow> string \<Rightarrow> string
    \<Rightarrow> (string, pyobj) dict option \<Rightarrow> store \<Rightarrow> store \<times> (string, pyobj) dict res" where
  "authorize_and_consume_dispatch show_obj dumps fromiso now sid jid tool arguments st =
     (case bindR (dispatch_live_job st sid jid) (\<lambda>(s, j).
        bindR (check_stage_tool (stage_for_session s (list_jobs st sid)) tool) (\<lambda>_.
        bindR (dispatch_check_domain j tool) (\<lambda>_. Ok s))) of
        Err e \<Rightarrow> (st, Err e)
      | Ok s \<Rightarrow>
          (case consume_dispatch_budget fromiso now sid jid st of
             (st1, Err e) \<Rightarrow> (st1, Err e)
           | (st1, Ok (billed, spent)) \<Rightarrow>
               (case dispatch_loop_gate show_obj dumps s spent tool arguments st1 of
                  (st2, Err e) \<Rightarrow> (st2, Err e)
                | (st2, Ok _) \<Rightarrow> (st2, Ok (dispatch_receipt sid jid tool billed spent)))))"

section \<open>The runner's own count\<close>

text \<open>
  The runner keeps a second ledger of research dispatches (\<open>BudgetLedger\<close> of
  \<open>app/research/runner.py\<close>), which it writes over the count of the session row; each write takes
  the lock, so it is one step.  Except in strict mode every exception is swallowed.
\<close>

record budget_ledger =
  bl_limit :: "int option"
  bl_used :: int

definition new_ledger :: "int option \<Rightarrow> budget_ledger" where
  "new_ledger limit = \<lparr>bl_limit = limit, bl_used = 0\<rparr>"

definition consume_research_dispatch :: "budget_ledger \<Rightarrow> budget_ledger \<times> bool" where
  "consume_research_dispatch b =
     (if (case bl_limit b of None \<Rightarrow> False | Some n \<Rightarrow> bl_used b \<ge> n) then (b, False)
      else (b\<lparr>bl_used := bl_used b + 1\<rparr>, True))"

definition hydrate_ledger :: "pyobj \<Rightarrow> budget_ledger \<Rightarrow> budget_ledger" where
  "hydrate_ledger used b = (case used of PInt n \<Rightarrow> if n > bl_used b then b\<lparr>bl_used := n\<rparr> else b | _ \<Rightarrow> b)"

definition counted_session :: "instant \<Rightarrow> int \<Rightarrow> session \<Rightarrow> session" where
  "counted_session now n s = s\<lparr>se_budget := dset ''tool_calls_used'' (PInt n) (se_budget s), se_updated_at := now\<rparr>"

definition save_budget_used :: "iso_parser \<Rightarrow> instant \<Rightarrow> bool \<Rightarrow> budget_ledger \<Rightarrow> string \<Rightarrow> store \<Rightarrow> store \<times> unit res" where
  "save_budget_used fromiso now strict b sid st =
     (case (case require_session st sid of
              Err e \<Rightarrow> (st, Err e)
            | Ok s \<Rightarrow> save_session fromiso (counted_session now (bl_used b) s) st) of
        (st1, r) \<Rightarrow> (st1, if strict then r else Ok ()))"

section \<open>The next step of a session\<close>

definition job_action :: "job \<Rightarrow> pyobj" where
  "job_action j = PDict [(''verb'', PStr ''EXECUTE_JOB''), (''job_id'', PStr (jb_job_id j)), (''job_type'', PStr (jb_job_type j)),
     (''source_domain'', PStr (case jb_source_domain j of Some d \<Rightarrow> if d \<noteq> [] then d else ''sec'' | None \<Rightarrow> ''sec'')),
     (''deadline'', opt_obj datetime_obj (jb_deadline j)), (''budget_s'', PInt 600)]"

definition status_action :: "(string \<Rightarrow> string) \<Rightarrow> string \<Rightarrow> pyobj" where
  "status_action repr status = (case dget
     [(''created'', PDict [(''verb'', PStr ''PLAN'')]), (''planning'', PDict [(''verb'', PStr ''PLAN'')]),
      (''researching'', PDict [(''verb'', PStr ''WAIT''), (''reason'', PStr ''no runnable jobs'')]),
      (''freezing'', PDict [(''verb'', PStr ''FREEZE'')]), (''analyzing'', PDict [(''verb'', PStr ''ANALYZE'')]),
      (''targeted_research'', PDict [(''verb'', PStr ''EXECUTE_JOB''), (''reason'', PStr ''dispatch targeted research'')]),
      (''synthesizing'', PDict [(''verb'', PStr ''SYNTHESIZE'')])] status of
       Some a \<Rightarrow> a
     | None \<Rightarrow> PDict [(''verb'', PStr ''NONE''), (''reason'', PStr (''unknown status '' @ repr status))])"

definition pending_next_action :: "session \<Rightarrow> job list \<Rightarrow> pyobj" where
  "pending_next_action s jobs =
     (let mine = sort_key jb_job_id (filter (\<lambda>j. jb_session_id j = se_session_id s) jobs)
      in if se_status s \<in> {''completed'', ''failed'', ''cancelled''}
         then PDict [(''verb'', PStr ''NONE''), (''reason'', PStr (''session '' @ se_status s))]
         else case filter (\<lambda>j. jb_status j = ''running'') mine @ filter (\<lambda>j. jb_status j = ''queued'') mine of
             j # _ \<Rightarrow> job_action j
           | [] \<Rightarrow> status_action py_repr (se_status s))"

section \<open>Reads after writes\<close>

lemma map_of_filter_other: "map_of (filter (\<lambda>(k, _). k \<noteq> x) xs) y = (if y = x then None else map_of xs y)"
  by (induction xs) auto

lemma put_job_reads [simp]:
  "dget (st_jobs (put_job j st)) k = (if k = jb_job_id j then Some j else dget (st_jobs st) k)"
  "st_sessions (put_job j st) = st_sessions st"
  "st_evidence (put_job j st) = st_evidence st"
  by (auto simp: put_job_def map_of_filter_other map_add_def split: option.splits)

lemma put_session_reads [simp]:
  "dget (st_sessions (put_session s st)) k = (if k = se_session_id s then Some s else dget (st_sessions st) k)"
  "st_jobs (put_session s st) = st_jobs st"
  "st_evidence (put_session s st) = st_evidence st"
  by (simp_all add: put_session_def)

lemma evidence_count_frame [simp]:
  "evidence_count (put_job j st) = evidence_count st" "evidence_count (put_session s st) = evidence_count st"
  by (simp_all add: evidence_count_def fun_eq_iff)

lemma save_job_outcome:
  assumes "save_job j st = (st1, r)"
  obtains (Failed) e where "st1 = st" "r = Err e" | (Saved) "st1 = put_job j st" "r = Ok ()"
  using assms [symmetric] by (cases "validate_job j") (simp_all add: save_job_def)

lemma list_all_update: "list_all P xs \<Longrightarrow> P (k, v) \<Longrightarrow> list_all P (AList.update k v xs)"
  by (induction xs) auto

text \<open>Rows stand under their own keys.\<close>

definition store_ok :: "store \<Rightarrow> bool" where
  "store_ok st \<longleftrightarrow> list_all (\<lambda>(k, s). se_session_id s = k) (st_sessions st) \<and> list_all (\<lambda>(k, j). jb_job_id j = k) (st_jobs st)"

lemma store_ok_reads:
  assumes "store_ok st"
  shows "dget (st_sessions st) sid = Some s \<Longrightarrow> se_session_id s = sid" "dget (st_jobs st) jid = Some j \<Longrightarrow> jb_job_id j = jid"
  using assms by (auto simp: store_ok_def list_all_iff dest!: map_of_SomeD)

lemma store_ok_put [simp]:
  "store_ok st \<Longrightarrow> store_ok (put_job j st)" "store_ok st \<Longrightarrow> store_ok (put_session s st)"
  "store_ok (st\<lparr>st_evidence := x\<rparr>) = store_ok st" "store_ok (st\<lparr>st_events := y\<rparr>) = store_ok st"
  by (auto simp: store_ok_def put_job_def put_session_def list_all_iff)
    (use list_all_update [of "\<lambda>(k, s). se_session_id s = k", unfolded list_all_iff] in fastforce)

section \<open>What one bill requires and writes\<close>

definition spent_job :: "job \<Rightarrow> job" where
  "spent_job j = j\<lparr>jb_tool_budget := map_option (\<lambda>n. n - 1) (jb_tool_budget j)\<rparr>"

definition billed_session :: "instant \<Rightarrow> session \<Rightarrow> session" where
  "billed_session now s = s\<lparr>se_budget := dset ''tool_calls_used'' (PInt (session_used_calls s + 1)) (se_budget s), se_updated_at := now\<rparr>"

lemma require_Ok [simp]:
  "require_session st sid = Inr s \<longleftrightarrow> dget (st_sessions st) sid = Some s"
  "require_job st jid = Inr j \<longleftrightarrow> dget (st_jobs st) jid = Some j"
  by (auto simp: require_session_def require_job_def split: option.splits)

lemma check_dispatch_budgets_Ok:
  "check_dispatch_budgets j max_calls used = Ok () \<longleftrightarrow>
     (\<forall>n. jb_tool_budget j = Some n \<longrightarrow> 0 < n) \<and> (\<forall>m. max_calls = Some m \<longrightarrow> used < m)"
  by (auto simp: check_dispatch_budgets_def bindR_Ok_iff split: option.splits)

lemma billed_reads [simp]:
  "session_used_calls (billed_session now s) = session_used_calls s + 1"
  "session_max_calls (billed_session now s) d = session_max_calls s d"
  "se_session_id (billed_session now s) = se_session_id s" "se_objective (billed_session now s) = se_objective s"
  by (auto simp: session_used_calls_def session_max_calls_def billed_session_def dget_default_def obj_get_def
      split: option.splits pyobj.splits)

lemma counted_reads [simp]:
  "session_max_calls (counted_session now n s) d = session_max_calls s d"
  "se_session_id (counted_session now n s) = se_session_id s" "se_objective (counted_session now n s) = se_objective s"
  "0 \<le> n \<Longrightarrow> session_used_calls (counted_session now n s) = n"
  by (auto simp: session_used_calls_def session_max_calls_def counted_session_def dget_default_def obj_get_def
      split: option.splits pyobj.splits)

lemma spent_reads [simp]:
  "jb_job_id (spent_job j) = jb_job_id j" "jb_session_id (spent_job j) = jb_session_id j"
  "jb_source_domain (spent_job j) = jb_source_domain j" "jb_diagnostics (spent_job j) = jb_diagnostics j"
  by (simp_all add: spent_job_def)

lemma timed_out_reads [simp]:
  "jb_job_id (timed_out now m j) = jb_job_id j" "jb_session_id (timed_out now m j) = jb_session_id j"
  "jb_source_domain (timed_out now m j) = jb_source_domain j" "jb_diagnostics (timed_out now m j) = jb_diagnostics j"
  by (simp_all add: timed_out_def)

definition bill_allowed :: "instant \<Rightarrow> session \<Rightarrow> job \<Rightarrow> bool" where
  "bill_allowed now s j \<longleftrightarrow> jb_session_id j = se_session_id s \<and> jb_status j = ''running'' \<and> \<not> past_deadline now j
     \<and> check_dispatch_budgets j (session_max_calls s default_max_tool_calls) (session_used_calls s) = Ok ()"

lemma consume_outcome:
  assumes "consume_dispatch_budget fromiso now sid jid st = (st1, r)"
  obtains (Kept) e where "st1 = st" "r = Err e"
  | (Expired) j e m where "dget (st_jobs st) jid = Some j" "st1 = put_job (timed_out now m j) st" "r = Err e"
  | (Billed) s j where "dget (st_sessions st) sid = Some s" "dget (st_jobs st) jid = Some j" "bill_allowed now s j"
      "st1 = put_job (spent_job j) (put_session (billed_session now s) st)" "r = Ok (billed_session now s, spent_job j)"
proof (cases "bindR (require_session st sid) (\<lambda>s. bindR (require_job st jid) (\<lambda>j.
        bindR (checkR (jb_session_id j = se_session_id s) (ValueError ''job belongs to another session'')) (\<lambda>_.
        bindR (checkR (jb_status j = ''running'') (ValueError ''running required'')) (\<lambda>_. Ok (s, j)))))")
  case (Inl e)
  with assms show ?thesis by (intro Kept [of e]) (simp_all add: consume_dispatch_budget_def)
next
  case (Inr p)
  then obtain s j where p: "p = (s, j)" and found: "dget (st_sessions st) sid = Some s" "dget (st_jobs st) jid = Some j"
    and own: "jb_session_id j = se_session_id s" "jb_status j = ''running''"
    by (auto simp: bindR_Ok_iff)
  note res = assms [symmetric, unfolded consume_dispatch_budget_def Inr p sum.case prod.case]
  show ?thesis
  proof (cases "past_deadline now j")
    case True
    note res = res [unfolded if_P [OF True]]
    show ?thesis
    proof (cases "validate_job (timed_out now (deadline_message j) j)")
      case (Inl e)
      with res show ?thesis by (intro Kept [of e]) simp_all
    next
      case (Inr u)
      with res show ?thesis by (intro Expired [OF found(2), where m = "deadline_message j" and e = "ValueError ''deadline expired''"]) simp_all
    qed
  next
    case False
    note res = res [unfolded if_not_P [OF False] Let_def, folded billed_session_def spent_job_def]
    show ?thesis
    proof (cases "bindR (check_dispatch_budgets j (session_max_calls s default_max_tool_calls) (session_used_calls s)) (\<lambda>_.
        bindR (validate_session fromiso (billed_session now s)) (\<lambda>_. validate_job (spent_job j)))")
      case (Inl e)
      with res show ?thesis by (intro Kept [of e]) simp_all
    next
      case (Inr u)
      then have "bill_allowed now s j" using own False by (simp add: bill_allowed_def bindR_Ok_iff)
      with res Inr found show ?thesis by (intro Billed) simp_all
    qed
  qed
qed

section \<open>Row writes\<close>

text \<open>
  Every operation is a sequence of row writes: a job row whose identity stays and whose recorded
  actions stay or gain the one that is about to run, a billed session row, a session row with another count below
  its ceiling, or new evidence.
\<close>

definition record_action :: "string \<Rightarrow> int \<Rightarrow> job \<Rightarrow> job" where
  "record_action key count j = j\<lparr>jb_diagnostics := dset ''dispatch_actions'' (PDict (dset key (PInt count) (seen_actions j))) (jb_diagnostics j)\<rparr>"

definition same_row :: "job \<Rightarrow> job \<Rightarrow> bool" where
  "same_row j k \<longleftrightarrow> jb_job_id k = jb_job_id j \<and> jb_session_id k = jb_session_id j \<and> jb_source_domain k = jb_source_domain j"

inductive row_write :: "store \<Rightarrow> store \<Rightarrow> bool" where
  Kept_actions: "dget (st_jobs st) (jb_job_id j) = Some j \<Longrightarrow> same_row j k \<Longrightarrow> jb_diagnostics k = jb_diagnostics j
    \<Longrightarrow> row_write st (put_job k st)"
| Recorded: "dget (st_jobs st) (jb_job_id j) = Some j \<Longrightarrow> row_write st (put_job (record_action key (evidence_count st (jb_session_id j)) j) st)"
| Bill: "dget (st_sessions st) (se_session_id s) = Some s
    \<Longrightarrow> \<forall>m. session_max_calls s default_max_tool_calls = Some m \<longrightarrow> session_used_calls s < m
    \<Longrightarrow> row_write st (put_session (billed_session now s) st)"
| Count: "dget (st_sessions st) (se_session_id s) = Some s
    \<Longrightarrow> \<forall>m. session_max_calls s default_max_tool_calls = Some m \<longrightarrow> n \<le> m \<Longrightarrow> 0 \<le> n
    \<Longrightarrow> row_write st (put_session (counted_session now n s) st)"
| Grow: "row_write st (st\<lparr>st_evidence := st_evidence st @ [e]\<rparr>)"
| Event: "row_write st (st\<lparr>st_events := st_events st @ [v]\<rparr>)"

inductive_cases row_writeE: "row_write st st1"

lemma row_write_ok: "row_write st st1 \<Longrightarrow> store_ok st \<Longrightarrow> store_ok st1"
  by (erule row_writeE) simp_all

lemma writes_ok: "row_write\<^sup>*\<^sup>* st st1 \<Longrightarrow> store_ok st \<Longrightarrow> store_ok st1"
  by (induction rule: rtranclp_induct) (auto intro: row_write_ok)

lemma record_reads [simp]:
  "jb_job_id (record_action key n j) = jb_job_id j" "jb_session_id (record_action key n j) = jb_session_id j"
  "jb_source_domain (record_action key n j) = jb_source_domain j"
  "seen_actions (record_action key n j) = dset key (PInt n) (seen_actions j)"
  by (simp_all add: record_action_def seen_actions_def obj_get_def dget_default_def)

lemma consume_writes:
  assumes "consume_dispatch_budget fromiso now sid jid st = (st1, r)" and "store_ok st"
  shows "row_write\<^sup>*\<^sup>* st st1"
  using assms(1)
proof (cases rule: consume_outcome)
  case (Kept e)
  then show ?thesis by simp
next
  case (Expired j e m)
  have "row_write st (put_job (timed_out now m j) st)"
    using Expired(1) store_ok_reads(2) [OF assms(2) Expired(1)] by (intro Kept_actions [of st j]) (simp_all add: same_row_def)
  then show ?thesis using Expired(2) by simp
next
  case (Billed s j)
  note ids = store_ok_reads(1) [OF assms(2) Billed(1)] store_ok_reads(2) [OF assms(2) Billed(2)]
  have "row_write st (put_session (billed_session now s) st)"
    using Billed(1,3) ids by (intro Bill) (simp_all add: bill_allowed_def check_dispatch_budgets_Ok)
  moreover have "row_write (put_session (billed_session now s) st) (put_job (spent_job j) (put_session (billed_session now s) st))"
    using Billed(2) ids by (intro Kept_actions [of _ j]) (simp_all add: same_row_def)
  ultimately show ?thesis using Billed(4) by simp
qed

definition dispatch_key :: "(pyobj \<Rightarrow> string) \<Rightarrow> (pyobj \<Rightarrow> string) \<Rightarrow> job \<Rightarrow> session \<Rightarrow> string \<Rightarrow> (string, pyobj) dict \<Rightarrow> string" where
  "dispatch_key show_obj dumps j s tool args = dumps (action_obj (dispatch_action show_obj dumps j s tool args))"

lemma loop_gate_outcome:
  assumes "dispatch_loop_gate show_obj dumps s j tool arguments st = (st1, r)"
  obtains (Untracked) "arguments = None" "st1 = st" "r = Ok ()"
  | (Refused) args v e where "arguments = Some args" "st1 = st\<lparr>st_events := st_events st @ [v]\<rparr>" "r = Err e"
  | (Failed) args e where "arguments = Some args" "st1 = st" "r = Err e"
  | (Fresh) args where "arguments = Some args" "r = Ok ()"
      "\<not> repeats (seen_actions j) (dispatch_key show_obj dumps j s tool args) (evidence_count st (se_session_id s))"
      "st1 = put_job (record_action (dispatch_key show_obj dumps j s tool args) (evidence_count st (se_session_id s)) j) st"
proof (cases arguments)
  case None
  with assms show ?thesis by (intro Untracked) (simp_all add: dispatch_loop_gate_def)
next
  case (Some args)
  note res = assms [symmetric, unfolded dispatch_loop_gate_def Some option.case Let_def, folded dispatch_key_def]
  show ?thesis
  proof (cases "repeats (seen_actions j) (dispatch_key show_obj dumps j s tool args) (evidence_count st (se_session_id s))")
    case True
    note res = res [unfolded if_P [OF True]]
    then show ?thesis by (intro Refused [OF Some]) auto
  next
    case False
    note res = res [unfolded if_not_P [OF False], folded record_action_def]
    from res [symmetric] show ?thesis
    proof (cases rule: save_job_outcome)
      case (Failed e)
      then show ?thesis by (intro that(3) [OF Some])
    next
      case Saved
      then show ?thesis using False by (intro Fresh [OF Some])
    qed
  qed
qed

lemma loop_gate_writes:
  assumes "dispatch_loop_gate show_obj dumps s j tool arguments st = (st1, r)"
    and "dget (st_jobs st) (jb_job_id j) = Some j" and "jb_session_id j = se_session_id s"
  shows "row_write\<^sup>*\<^sup>* st st1"
  using assms(1)
proof (cases rule: loop_gate_outcome)
  case (Fresh args)
  then show ?thesis using Recorded [OF assms(2)] assms(3) by auto
qed (auto intro: Event)

lemma authorize_outcome:
  assumes "authorize_and_consume_dispatch show_obj dumps fromiso now sid jid tool arguments st = (st2, r)"
  obtains (Kept) e where "st2 = st" "r = Err e"
  | (Unbilled) e where "r = Err e" "\<exists>e'. consume_dispatch_budget fromiso now sid jid st = (st2, Err e')"
  | (Gated) s j st1 g where "dget (st_sessions st) sid = Some s" "dget (st_jobs st) jid = Some j"
      "check_stage_tool (stage_for_session s (list_jobs st sid)) tool = Ok ()" "dispatch_check_domain j tool = Ok ()"
      "bill_allowed now s j"
      "consume_dispatch_budget fromiso now sid jid st = (st1, Ok (billed_session now s, spent_job j))"
      "st1 = put_job (spent_job j) (put_session (billed_session now s) st)"
      "dispatch_loop_gate show_obj dumps s (spent_job j) tool arguments st1 = (st2, g)"
      "r = bindR g (\<lambda>_. Ok (dispatch_receipt sid jid tool (billed_session now s) (spent_job j)))"
proof (cases "bindR (dispatch_live_job st sid jid) (\<lambda>(s, j).
        bindR (check_stage_tool (stage_for_session s (list_jobs st sid)) tool) (\<lambda>_.
        bindR (dispatch_check_domain j tool) (\<lambda>_. Ok s)))")
  case (Inl e)
  with assms [symmetric] show ?thesis by (intro Kept [of e]) (simp_all add: authorize_and_consume_dispatch_def)
next
  case (Inr s)
  then obtain j where found: "dget (st_sessions st) sid = Some s" "dget (st_jobs st) jid = Some j"
    and allowed: "check_stage_tool (stage_for_session s (list_jobs st sid)) tool = Ok ()" "dispatch_check_domain j tool = Ok ()"
    by (auto simp: bindR_Ok_iff dispatch_live_job_def)
  note res = assms [symmetric, unfolded authorize_and_consume_dispatch_def Inr sum.case]
  obtain st1 c where c: "consume_dispatch_budget fromiso now sid jid st = (st1, c)" by (rule prod.exhaust)
  note res = res [unfolded c prod.case]
  from c show ?thesis
  proof (cases rule: consume_outcome)
    case (Kept e)
    with res c show ?thesis by (intro Unbilled [of e]) simp_all
  next
    case (Expired k e m)
    with res c show ?thesis by (intro Unbilled [of e]) simp_all
  next
    case (Billed s' k)
    with found have same: "s' = s" "k = j" by simp_all
    obtain g where g: "dispatch_loop_gate show_obj dumps s (spent_job j) tool arguments st1 = (st2, g)"
      "r = bindR g (\<lambda>_. Ok (dispatch_receipt sid jid tool (billed_session now s) (spent_job j)))"
      using res Billed(5) by (auto simp: same bindR_def split: prod.splits sum.splits)
    show ?thesis using Billed c g by (intro Gated [OF found allowed]) (simp_all add: same)
  qed
qed

lemma authorize_writes:
  assumes "authorize_and_consume_dispatch show_obj dumps fromiso now sid jid tool arguments st = (st2, r)" and "store_ok st"
  shows "row_write\<^sup>*\<^sup>* st st2"
  using assms(1)
proof (cases rule: authorize_outcome)
  case (Unbilled e)
  then show ?thesis using consume_writes assms(2) by blast
next
  case (Gated s j st1 g)
  have "jb_job_id j = jid" "jb_session_id j = se_session_id s"
    using store_ok_reads(2) [OF assms(2) Gated(2)] Gated(5) by (simp_all add: bill_allowed_def)
  then have "row_write\<^sup>*\<^sup>* st1 st2" using Gated(7) by (intro loop_gate_writes [OF Gated(8)]) simp_all
  with consume_writes [OF Gated(6) assms(2)] show ?thesis by (rule rtranclp_trans)
qed simp

section \<open>The steps of a store\<close>

definition used_calls :: "string \<Rightarrow> store \<Rightarrow> int" where
  "used_calls sid st = (case dget (st_sessions st) sid of None \<Rightarrow> 0 | Some s \<Rightarrow> session_used_calls s)"

definition max_calls :: "string \<Rightarrow> store \<Rightarrow> int option" where
  "max_calls sid st = (case dget (st_sessions st) sid of None \<Rightarrow> None | Some s \<Rightarrow> session_max_calls s default_max_tool_calls)"

text \<open>
  What callers of the kernel do to one store, in any order: dispatches of any job, heartbeats, the
  deadline guard, evidence that lands in the ledger, and the runner's count, for a runner whose ledger is
  within the ceiling of the session (a ledger without that limit is the case of
  \<open>runner_count_past_ceiling\<close> below).
\<close>

definition ledger_within :: "budget_ledger \<Rightarrow> string \<Rightarrow> store \<Rightarrow> bool" where
  "ledger_within b sid st \<longleftrightarrow> 0 \<le> bl_used b \<and> (case max_calls sid st of None \<Rightarrow> True | Some m \<Rightarrow> bl_used b \<le> m)"

inductive store_step :: "(pyobj \<Rightarrow> string) \<Rightarrow> (pyobj \<Rightarrow> string) \<Rightarrow> iso_parser \<Rightarrow> store \<Rightarrow> store \<Rightarrow> bool" for show_obj dumps fromiso where
  Dispatched: "authorize_and_consume_dispatch show_obj dumps fromiso now sid jid tool arguments st = (st1, r)
    \<Longrightarrow> store_step show_obj dumps fromiso st st1"
| Beat: "heartbeat_job now jid st = (st1, r1) \<Longrightarrow> store_step show_obj dumps fromiso st st1"
| Enforced: "enforce_live_job now jid st = (st1, r1) \<Longrightarrow> store_step show_obj dumps fromiso st st1"
| Landed: "store_step show_obj dumps fromiso st (st\<lparr>st_evidence := st_evidence st @ [e]\<rparr>)"
| Counted: "save_budget_used fromiso now strict b sid st = (st1, r1) \<Longrightarrow> ledger_within b sid st
    \<Longrightarrow> store_step show_obj dumps fromiso st st1"

lemma same_row_write:
  assumes "dget (st_jobs st) jid = Some j" and "store_ok st" and "save_job k st = (st1, r)"
    and "same_row j k" and "jb_diagnostics k = jb_diagnostics j"
  shows "row_write\<^sup>*\<^sup>* st st1"
  using assms(3)
proof (cases rule: save_job_outcome)
  case Saved
  have "row_write st (put_job k st)"
    using assms(1,4,5) store_ok_reads(2) [OF assms(2,1)] by (intro Kept_actions [of st j]) simp_all
  with Saved show ?thesis by simp
qed simp

lemma heartbeat_writes:
  assumes "heartbeat_job now jid st = (st1, r)" and "store_ok st"
  shows "row_write\<^sup>*\<^sup>* st st1"
proof (cases "dget (st_jobs st) jid")
  case None
  with assms(1) show ?thesis by (simp add: heartbeat_job_def require_job_def)
next
  case (Some j)
  obtain st2 c where save: "save_job (j\<lparr>jb_last_heartbeat_at := Some now\<rparr>) st = (st2, c)" by (rule prod.exhaust)
  have "st1 = st2" using assms(1) Some save by (auto simp: heartbeat_job_def require_job_def split: sum.splits)
  with same_row_write [OF Some assms(2) save] show ?thesis by (simp add: same_row_def)
qed

lemma enforce_writes:
  assumes "enforce_live_job now jid st = (st1, r)" and "store_ok st"
  shows "row_write\<^sup>*\<^sup>* st st1"
proof (cases "dget (st_jobs st) jid")
  case None
  with assms(1) show ?thesis by (simp add: enforce_live_job_def require_job_def)
next
  case (Some j)
  obtain st2 c where save: "save_job (timed_out now ''deadline expired'' j) st = (st2, c)" by (rule prod.exhaust)
  have "st1 = st \<or> st1 = st2" using assms(1) Some save
    by (auto simp: enforce_live_job_def require_job_def split: sum.splits if_splits)
  with same_row_write [OF Some assms(2) save] show ?thesis by (auto simp: same_row_def)
qed

lemma count_writes:
  assumes "save_budget_used fromiso now strict b sid st = (st1, r)" and "ledger_within b sid st" and "store_ok st"
  shows "row_write\<^sup>*\<^sup>* st st1"
proof (cases "dget (st_sessions st) sid")
  case None
  with assms(1) show ?thesis by (simp add: save_budget_used_def require_session_def)
next
  case (Some s)
  note ids = store_ok_reads(1) [OF assms(3) Some]
  have "row_write st (put_session (counted_session now (bl_used b) s) st)"
    using Some ids assms(2) by (intro Count) (auto simp: ledger_within_def max_calls_def)
  moreover have "st1 = st \<or> st1 = put_session (counted_session now (bl_used b) s) st"
    using assms(1) Some
    by (auto simp: save_budget_used_def require_session_def save_session_def split: sum.splits)
  ultimately show ?thesis by auto
qed

lemma store_step_writes: "store_step show_obj dumps fromiso st st1 \<Longrightarrow> store_ok st \<Longrightarrow> row_write\<^sup>*\<^sup>* st st1"
  by (induction rule: store_step.induct)
    (auto intro: authorize_writes heartbeat_writes enforce_writes count_writes Grow)

lemma run_writes: "(store_step show_obj dumps fromiso)\<^sup>*\<^sup>* st st1 \<Longrightarrow> store_ok st \<Longrightarrow> row_write\<^sup>*\<^sup>* st st1"
proof (induction rule: rtranclp_induct)
  case (step t u)
  from step.IH step.prems have run: "row_write\<^sup>*\<^sup>* st t" by simp
  from run store_step_writes [OF step.hyps(2) writes_ok [OF run step.prems]] show ?case by (rule rtranclp_trans)
qed simp

section \<open>The session's ceiling\<close>

interpretation dispatch_meter: metered "used_calls sid" "max_calls sid" row_write for sid
proof
  fix st st1 :: store and m
  assume "row_write st st1"
  then show "max_calls sid st1 = max_calls sid st"
    by (cases rule: row_write.cases) (simp_all add: max_calls_def)
  assume "max_calls sid st = Some m" "used_calls sid st \<le> m"
  with \<open>row_write st st1\<close> show "used_calls sid st1 \<le> m"
    by (cases rule: row_write.cases) (auto simp: max_calls_def used_calls_def)
qed

section \<open>Recorded actions\<close>

lemma write_evidence: "row_write st st1 \<Longrightarrow> evidence_count st sid \<le> evidence_count st1 sid"
  by (erule row_writeE) (auto simp: evidence_count_def)

lemma write_session:
  assumes "row_write st st1" and "dget (st_sessions st) sid = Some s"
  shows "\<exists>s1. dget (st_sessions st1) sid = Some s1 \<and> se_objective s1 = se_objective s"
  using assms by (cases rule: row_write.cases) auto

lemma write_job:
  assumes "row_write st st1" and "dget (st_jobs st) jid = Some j"
  shows "\<exists>k. dget (st_jobs st1) jid = Some k \<and> same_row j k
    \<and> (obj_get (seen_actions k) key = obj_get (seen_actions j) key
        \<or> obj_get (seen_actions k) key = PInt (evidence_count st (jb_session_id j)))"
  using assms
proof (cases rule: row_write.cases)
  case (Kept_actions i k)
  with assms(2) show ?thesis by (auto simp: seen_actions_def same_row_def)
next
  case (Recorded i key')
  with assms(2) show ?thesis by (auto simp: same_row_def obj_get_def dget_default_def)
qed (use assms(2) in \<open>auto simp: same_row_def\<close>)

text \<open>The action ran when the session held at least \<open>n\<close> pieces of evidence.\<close>

definition ran_at :: "string \<Rightarrow> string \<Rightarrow> string \<Rightarrow> string option \<Rightarrow> string \<Rightarrow> int \<Rightarrow> store \<Rightarrow> bool" where
  "ran_at sid jid objective domain key n st \<longleftrightarrow> n \<le> evidence_count st sid
     \<and> (\<exists>s. dget (st_sessions st) sid = Some s \<and> se_objective s = objective)
     \<and> (\<exists>j c. dget (st_jobs st) jid = Some j \<and> jb_session_id j = sid \<and> jb_source_domain j = domain
           \<and> obj_get (seen_actions j) key = PInt c \<and> n \<le> c)"

lemma ran_at_write:
  assumes "row_write st st1" and "ran_at sid jid objective domain key n st"
  shows "ran_at sid jid objective domain key n st1"
proof -
  from assms(2) obtain s j c where s: "dget (st_sessions st) sid = Some s" "se_objective s = objective"
    and j: "dget (st_jobs st) jid = Some j" "jb_session_id j = sid" "jb_source_domain j = domain"
      "obj_get (seen_actions j) key = PInt c" "n \<le> c" and n: "n \<le> evidence_count st sid"
    by (auto simp: ran_at_def)
  from write_session [OF assms(1) s(1)] obtain s1
    where s1: "dget (st_sessions st1) sid = Some s1" "se_objective s1 = se_objective s" by blast
  from write_job [OF assms(1) j(1), of key] obtain k where k: "dget (st_jobs st1) jid = Some k" "same_row j k"
    "obj_get (seen_actions k) key = obj_get (seen_actions j) key \<or> obj_get (seen_actions k) key = PInt (evidence_count st (jb_session_id j))"
    by blast
  have "\<exists>c. obj_get (seen_actions k) key = PInt c \<and> n \<le> c" using k(3) j n by auto
  moreover have "n \<le> evidence_count st1 sid" using n write_evidence [OF assms(1)] by (rule order_trans)
  ultimately show ?thesis using s s1 j k by (auto simp: ran_at_def same_row_def)
qed

lemma ran_at_run: "row_write\<^sup>*\<^sup>* st st1 \<Longrightarrow> ran_at sid jid objective domain key n st \<Longrightarrow> ran_at sid jid objective domain key n st1"
  by (induction rule: rtranclp_induct) (auto intro: ran_at_write)

lemma dispatch_key_cong:
  "jb_source_domain j = jb_source_domain k \<Longrightarrow> se_objective s = se_objective t
    \<Longrightarrow> dispatch_key show_obj dumps j s tool args = dispatch_key show_obj dumps k t tool args"
  by (simp add: dispatch_key_def dispatch_action_def)

lemma authorized_ran:
  assumes "authorize_and_consume_dispatch show_obj dumps fromiso now sid jid tool (Some args) st = (st1, Ok receipt)"
    and "store_ok st"
  obtains s j where "dget (st_sessions st) sid = Some s" "dget (st_jobs st) jid = Some j"
    "ran_at sid jid (se_objective s) (jb_source_domain j) (dispatch_key show_obj dumps j s tool args) (evidence_count st1 sid) st1"
  using assms(1)
proof (cases rule: authorize_outcome)
  case (Gated s j st0 g)
  note ids = store_ok_reads(1) [OF assms(2) Gated(1)] store_ok_reads(2) [OF assms(2) Gated(2)]
  have own: "jb_session_id j = sid" using Gated(5) ids by (simp add: bill_allowed_def)
  let ?key = "dispatch_key show_obj dumps (spent_job j) s tool args"
  have key: "?key = dispatch_key show_obj dumps j s tool args" by (rule dispatch_key_cong) simp_all
  have g: "g = Ok ()" using Gated(9) by (cases g) simp_all
  from Gated(8) have "st1 = put_job (record_action ?key (evidence_count st0 sid) (spent_job j)) st0"
    by (cases rule: loop_gate_outcome) (simp_all add: g ids)
  then have "ran_at sid jid (se_objective s) (jb_source_domain j) ?key (evidence_count st1 sid) st1"
    using Gated(1,7) ids own by (simp add: ran_at_def obj_get_def dget_default_def)
  with key that [OF Gated(1,2)] show ?thesis by simp
qed simp_all

lemma ran_at_refused:
  assumes "ran_at sid jid (se_objective s) (jb_source_domain j) (dispatch_key show_obj dumps j s tool args) (evidence_count st sid) st"
    and "store_ok st"
  shows "\<not> is_ok (snd (authorize_and_consume_dispatch show_obj dumps fromiso now sid jid tool (Some args) st))"
proof (cases "authorize_and_consume_dispatch show_obj dumps fromiso now sid jid tool (Some args) st")
  case (Pair st2 r)
  then show ?thesis
  proof (cases rule: authorize_outcome)
    case (Gated t k st1 g)
    note ids = store_ok_reads(1) [OF assms(2) Gated(1)] store_ok_reads(2) [OF assms(2) Gated(2)]
    from assms(1) Gated(1,2) obtain c where same: "se_objective t = se_objective s" "jb_source_domain k = jb_source_domain j"
      and c: "obj_get (seen_actions k) (dispatch_key show_obj dumps j s tool args) = PInt c" "evidence_count st sid \<le> c"
      by (auto simp: ran_at_def)
    have key: "dispatch_key show_obj dumps (spent_job k) t tool args = dispatch_key show_obj dumps j s tool args"
      by (rule dispatch_key_cong) (simp_all add: same)
    have seen: "seen_actions (spent_job k) = seen_actions k" by (simp add: seen_actions_def)
    have "repeats (seen_actions (spent_job k)) (dispatch_key show_obj dumps (spent_job k) t tool args) (evidence_count st1 (se_session_id t))"
      using c ids Gated(7) by (simp add: key seen repeats_def)
    with Gated(8) have "\<not> is_ok g" by (cases rule: loop_gate_outcome) simp_all
    then show ?thesis using Pair Gated(9) by (cases g) simp_all
  qed (use Pair in simp_all)
qed

section \<open>Properties\<close>

definition demo_running :: job where
  "demo_running = demo_job\<lparr>jb_status := ''running'', jb_tool_budget := Some 2\<rparr>"

definition demo_store :: store where
  "demo_store = \<lparr>st_sessions = [(''rs:1'', demo_session\<lparr>se_status := ''researching'',
       se_budget := dset ''total_tool_budget'' (PInt 3) (se_budget demo_session)\<rparr>)],
     st_jobs = [(''job:1'', demo_running)], st_evidence = [], st_events = []\<rparr>"

definition demo_dumps :: "pyobj \<Rightarrow> string" where
  "demo_dumps v = (case v of PList (_ # PStr tool # _) \<Rightarrow> tool | _ \<Rightarrow> ''{}'')"

definition demo_dispatch :: "string \<Rightarrow> store \<Rightarrow> store \<times> (string, pyobj) dict res" where
  "demo_dispatch tool st = authorize_and_consume_dispatch (\<lambda>_. []) demo_dumps demo_iso 0 ''rs:1'' ''job:1'' tool (Some []) st"

lemma demo_store_ok: "store_ok demo_store"
  by code_simp

lemma demo_dispatch_ok: "is_ok (snd (demo_dispatch ''list_sec_filings'' demo_store))"
  by code_simp

lemma receipt_reads:
  "obj_get (dispatch_receipt sid jid tool (billed_session now s) k) ''tool_calls_used'' = PInt (session_used_calls s + 1)"
  "obj_get (dispatch_receipt sid jid tool (billed_session now s) k) ''tool_budget'' = opt_obj PInt (jb_tool_budget k)"
  by (simp_all add: dispatch_receipt_def billed_session_def obj_get_def dget_default_def)

lemma upper_SEC: "upper ''SEC'' = ''SEC''"
  by code_simp

text \<open>
  C10.  A granted dispatch: the job is a running job of the session before its deadline, it is not a
  committee job, the session's stage allows the tool and an SEC job dispatches SEC tools only, and
  neither the job's nor the session's budget was used up; the grant is persisted as exactly one more
  call of the session and one less of the job, and it is what the receipt says.
\<close>

theorem dispatch_authorized:
  assumes "authorize_and_consume_dispatch show_obj dumps fromiso now sid jid tool arguments st = (st1, Ok receipt)"
    and "store_ok st"
  shows "\<exists>s j k. dget (st_sessions st) sid = Some s \<and> dget (st_jobs st) jid = Some j
    \<and> jb_session_id j = sid \<and> jb_status j = ''running'' \<and> \<not> past_deadline now j
    \<and> check_stage_tool (stage_for_session s (list_jobs st sid)) tool = Ok ()
    \<and> jb_job_type j \<notin> {''stockbot'', ''bullbot'', ''bearbot''}
    \<and> (jb_source_domain j = Some ''SEC'' \<longrightarrow> take 8 tool \<noteq> ''research'' \<longrightarrow> is_sec_tool tool)
    \<and> (\<forall>n. jb_tool_budget j = Some n \<longrightarrow> 0 < n)
    \<and> (\<forall>m. session_max_calls s default_max_tool_calls = Some m \<longrightarrow> session_used_calls s < m)
    \<and> used_calls sid st1 = used_calls sid st + 1
    \<and> dget (st_jobs st1) jid = Some k \<and> jb_tool_budget k = map_option (\<lambda>n. n - 1) (jb_tool_budget j)
    \<and> obj_get receipt ''tool_calls_used'' = PInt (used_calls sid st1)
    \<and> obj_get receipt ''tool_budget'' = opt_obj PInt (jb_tool_budget k)"
  using assms(1)
proof (cases rule: authorize_outcome)
  case (Gated s j st0 g)
  note ids = store_ok_reads(1) [OF assms(2) Gated(1)] store_ok_reads(2) [OF assms(2) Gated(2)]
  have g: "g = Ok ()" and receipt: "receipt = dispatch_receipt sid jid tool (billed_session now s) (spent_job j)"
    using Gated(9) by (cases g; simp)+
  have domain: "jb_job_type j \<notin> {''stockbot'', ''bullbot'', ''bearbot''}"
    "jb_source_domain j = Some ''SEC'' \<longrightarrow> take 8 tool \<noteq> ''research'' \<longrightarrow> is_sec_tool tool"
    using Gated(4) by (auto simp: dispatch_check_domain_def upper_SEC split: if_splits)
  obtain k where k: "dget (st_jobs st1) jid = Some k" "jb_tool_budget k = jb_tool_budget (spent_job j)"
    and s1: "dget (st_sessions st1) sid = Some (billed_session now s)"
    using Gated(8) by (cases rule: loop_gate_outcome) (auto simp: g Gated(7) ids record_action_def)
  show ?thesis
  proof (rule exI [of _ s], rule exI [of _ j], rule exI [of _ k])
  qed (use Gated(1-3,5) domain k s1 ids in \<open>simp add: bill_allowed_def check_dispatch_budgets_Ok used_calls_def receipt
        receipt_reads spent_job_def\<close>)
qed simp_all

lemma demo_granted:
  obtains st1 receipt where "demo_dispatch ''list_sec_filings'' demo_store = (st1, Ok receipt)"
  using demo_dispatch_ok by (cases "demo_dispatch ''list_sec_filings'' demo_store") (auto simp: is_ok_iff)

theorem dispatch_authorized_witness:
  "\<exists>st1 receipt. demo_dispatch ''list_sec_filings'' demo_store = (st1, Ok receipt)
     \<and> used_calls ''rs:1'' st1 = used_calls ''rs:1'' demo_store + 1"
proof -
  obtain st1 receipt where granted: "demo_dispatch ''list_sec_filings'' demo_store = (st1, Ok receipt)" by (rule demo_granted)
  with dispatch_authorized [OF granted [unfolded demo_dispatch_def] demo_store_ok] show ?thesis by blast
qed

text \<open>
  C13.  However dispatches of any jobs, heartbeats, deadline checks, new evidence and counts of a runner
  whose ledger is within the ceiling follow each other on a store, the calls billed to a session never
  exceed its ceiling, and no step moves the ceiling.
\<close>

theorem dispatches_within_ceiling:
  assumes "(store_step show_obj dumps fromiso)\<^sup>*\<^sup>* st st1" and "store_ok st"
    and "max_calls sid st = Some m" and "used_calls sid st \<le> m"
  shows "used_calls sid st1 \<le> m \<and> max_calls sid st1 = Some m"
  using dispatch_meter.run_within [OF run_writes [OF assms(1,2)] assms(3,4)]
    dispatch_meter.run_ceiling [OF run_writes [OF assms(1,2)], of sid] assms(3) by simp

theorem dispatches_within_ceiling_witness:
  "used_calls ''rs:1'' (fst (demo_dispatch ''list_sec_filings'' demo_store)) \<le> 3"
proof -
  have "store_step (\<lambda>_. []) demo_dumps demo_iso demo_store (fst (demo_dispatch ''list_sec_filings'' demo_store))"
    unfolding demo_dispatch_def by (rule Dispatched [OF prod.collapse [symmetric]])
  then have run: "(store_step (\<lambda>_. []) demo_dumps demo_iso)\<^sup>*\<^sup>* demo_store (fst (demo_dispatch ''list_sec_filings'' demo_store))" ..
  have "max_calls ''rs:1'' demo_store = Some 3" "used_calls ''rs:1'' demo_store \<le> 3" by code_simp+
  from dispatches_within_ceiling [OF run demo_store_ok this] show ?thesis by simp
qed

text \<open>
  C9.  After a granted dispatch the same call of the same job is refused, whatever was dispatched, beaten
  or expired in between, until the session holds more evidence than when it ran.
\<close>

theorem repeated_dispatch_refused:
  assumes "authorize_and_consume_dispatch show_obj dumps fromiso now sid jid tool (Some args) st = (st1, Ok receipt)"
    and "store_ok st" and "(store_step show_obj dumps fromiso)\<^sup>*\<^sup>* st1 st2"
    and "evidence_count st2 sid \<le> evidence_count st1 sid"
  shows "\<not> is_ok (snd (authorize_and_consume_dispatch show_obj dumps fromiso later sid jid tool (Some args) st2))"
proof -
  have ok1: "store_ok st1" using authorize_writes [OF assms(1,2)] assms(2) by (rule writes_ok)
  note run = run_writes [OF assms(3) ok1]
  obtain s j where "ran_at sid jid (se_objective s) (jb_source_domain j) (dispatch_key show_obj dumps j s tool args)
      (evidence_count st1 sid) st1"
    by (rule authorized_ran [OF assms(1,2)])
  from ran_at_run [OF run this] assms(4) have "ran_at sid jid (se_objective s) (jb_source_domain j)
      (dispatch_key show_obj dumps j s tool args) (evidence_count st2 sid) st2"
    by (auto simp: ran_at_def)
  from ran_at_refused [OF this writes_ok [OF run ok1]] show ?thesis .
qed

theorem repeated_dispatch_refused_witness:
  "\<not> is_ok (snd (demo_dispatch ''list_sec_filings'' (fst (demo_dispatch ''list_sec_filings'' demo_store))))"
proof -
  obtain st1 receipt where granted: "demo_dispatch ''list_sec_filings'' demo_store = (st1, Ok receipt)" by (rule demo_granted)
  from repeated_dispatch_refused [OF granted [unfolded demo_dispatch_def] demo_store_ok rtranclp.rtrancl_refl order_refl]
  show ?thesis by (simp add: granted) (simp add: demo_dispatch_def)
qed

text \<open>
  The runner's count is written over the kernel's: it forgets what the kernel billed, and a runner
  without a limit of its own can write a count above the ceiling.
\<close>

lemma runner_count_forgets:
  "used_calls ''rs:1'' (fst (demo_dispatch ''list_sec_filings'' demo_store)) = 1"
  "used_calls ''rs:1'' (fst (save_budget_used demo_iso 0 True (new_ledger None) ''rs:1''
     (fst (demo_dispatch ''list_sec_filings'' demo_store)))) = 0"
  by code_simp+

lemma runner_count_past_ceiling:
  "max_calls ''rs:1'' demo_store = Some 3"
  "used_calls ''rs:1'' (fst (save_budget_used demo_iso 0 True (hydrate_ledger (PInt 5) (new_ledger None)) ''rs:1'' demo_store)) = 5"
  by code_simp+

text \<open>The ledger itself never grants more than its limit.\<close>

lemma ledger_limit:
  assumes "consume_research_dispatch b = (b1, granted)" and "bl_limit b = Some n" and "bl_used b \<le> n"
  shows "bl_limit b1 = Some n \<and> bl_used b1 \<le> n \<and> (granted \<longleftrightarrow> bl_used b < n)"
  using assms by (auto simp: consume_research_dispatch_def split: if_splits)

text \<open>An evidence row lifts the refusal.\<close>

lemma demo_repeat_after_evidence:
  "is_ok (snd (demo_dispatch ''list_sec_filings''
     ((fst (demo_dispatch ''list_sec_filings'' demo_store))\<lparr>st_evidence := [(''rs:1'', ''ev:1'')]\<rparr>)))"
  by code_simp

end
