(* ===== verification/Baseline.thy ===== *)
theory Baseline
  imports Kernel
begin

text \<open>
  The point-in-time pick of the filings a session starts from, and the staleness check on cited
  accessions (last part of \<open>app/research/models.py\<close>).  A filing is read through its fields; \<open>str\<close>
  of a value that is not text is the argument \<open>show_obj\<close>.
\<close>

section \<open>One filing\<close>

type_synonym filing = "(string, pyobj) dict"

definition obj_text :: "(pyobj \<Rightarrow> string) \<Rightarrow> pyobj \<Rightarrow> string" where
  "obj_text show_obj v = (case v of PStr s \<Rightarrow> s | _ \<Rightarrow> show_obj v)"

definition pit_basis :: "string list" where
  "pit_basis = [''known_at'', ''accepted_at'', ''filed_at'']"

definition baseline_pit :: "(pyobj \<Rightarrow> string) \<Rightarrow> filing \<Rightarrow> (string \<times> string) option" where
  "baseline_pit show_obj f = find (\<lambda>(text, _). strip text \<noteq> [])
     (concat (map (\<lambda>basis. case obj_get f basis of PNone \<Rightarrow> [] | v \<Rightarrow> [(obj_text show_obj v, basis)]) pit_basis))"

definition annual_forms :: "string list" where
  "annual_forms = [''10-K'', ''10-K/A'']"

definition quarterly_forms :: "string list" where
  "quarterly_forms = [''10-Q'', ''10-Q/A'']"

definition current_forms :: "string list" where
  "current_forms = [''8-K'', ''8-K/A'']"

definition baseline_form :: "filing \<Rightarrow> string" where
  "baseline_form f = (case obj_get f ''form'' of PStr s \<Rightarrow> upper (strip s) | _ \<Rightarrow> [])"

definition stripped :: "pyobj \<Rightarrow> string option" where
  "stripped v = (case v of PStr s \<Rightarrow> if strip s \<noteq> [] then Some (strip s) else None | _ \<Rightarrow> None)"

definition baseline_accession :: "filing \<Rightarrow> string option" where
  "baseline_accession f = stripped (dget_default f ''accession_no'' (obj_get f ''accession''))"

definition baseline_superseded_by :: "filing \<Rightarrow> string option" where
  "baseline_superseded_by f = stripped (obj_get f ''superseded_by'')"

section \<open>The pick\<close>

definition baseline_skipped :: "filing option \<Rightarrow> string \<Rightarrow> string \<Rightarrow> bool" where
  "baseline_skipped best day best_day \<longleftrightarrow> best \<noteq> None \<and> day \<le> best_day"

definition baseline_eligible_day :: "(pyobj \<Rightarrow> string) \<Rightarrow> filing \<Rightarrow> string option \<Rightarrow> string option" where
  "baseline_eligible_day show_obj f bound = (case baseline_pit show_obj f of
       None \<Rightarrow> None
     | Some (text, _) \<Rightarrow> (case bound of
           Some b \<Rightarrow> if take 10 text > b then None else Some (take 10 text)
         | None \<Rightarrow> Some (take 10 text)))"

fun baseline_eligible :: "(pyobj \<Rightarrow> string) \<Rightarrow> filing list \<Rightarrow> string option \<Rightarrow> (string \<times> filing) list" where
  "baseline_eligible show_obj [] bound = []"
| "baseline_eligible show_obj (f # fs) bound = (case baseline_eligible_day show_obj f bound of
       None \<Rightarrow> baseline_eligible show_obj fs bound
     | Some day \<Rightarrow> (day, f) # baseline_eligible show_obj fs bound)"

definition baseline_accession_index :: "(string \<times> filing) list \<Rightarrow> (string, filing) dict" where
  "baseline_accession_index eligible = fold (\<lambda>(_, f) index. case baseline_accession f of
       None \<Rightarrow> index | Some acc \<Rightarrow> dset acc f index) eligible []"

definition baseline_replacement_eligible :: "filing \<Rightarrow> (string, filing) dict \<Rightarrow> bool" where
  "baseline_replacement_eligible f index = (case baseline_superseded_by f of None \<Rightarrow> False | Some nxt \<Rightarrow> dget index nxt \<noteq> None)"

definition pick_step :: "string list \<Rightarrow> (string, filing) dict \<Rightarrow> string \<times> filing \<Rightarrow> filing option \<times> string \<Rightarrow> filing option \<times> string" where
  "pick_step forms index candidate best = (case candidate of (day, f) \<Rightarrow> case best of (pick, best_day) \<Rightarrow>
     if baseline_form f \<notin> set forms then best
     else if baseline_replacement_eligible f index then best
     else if baseline_skipped pick day best_day then best
     else (Some f, day))"

definition baseline_pick_latest :: "(string \<times> filing) list \<Rightarrow> string list \<Rightarrow> (string, filing) dict \<Rightarrow> filing option" where
  "baseline_pick_latest eligible forms index = fst (fold (pick_step forms index) eligible (None, []))"

record baseline =
  bl_annual_10k :: "filing option"
  bl_quarterly_10q :: "filing option"
  bl_material_8k :: "filing list"
  bl_as_of :: "string option"

text \<open>\<open>sort(reverse=True)\<close> keeps the order of equal keys.\<close>

definition newest_first :: "(string \<times> filing) list \<Rightarrow> (string \<times> filing) list" where
  "newest_first xs = rev (sort_key fst (rev xs))"

definition bound_day :: "instant option \<Rightarrow> string option" where
  "bound_day bound = map_option (\<lambda>t. date_text (date_of t)) bound"

definition select_latest_baseline :: "(pyobj \<Rightarrow> string) \<Rightarrow> iso_parser \<Rightarrow> filing list \<Rightarrow> time_arg \<Rightarrow> baseline res" where
  "select_latest_baseline show_obj fromiso filings as_of =
     bindR (coerce_time fromiso as_of) (\<lambda>bound.
       let eligible = baseline_eligible show_obj filings (bound_day bound);
           index = baseline_accession_index eligible
       in Ok \<lparr>bl_annual_10k = baseline_pick_latest eligible annual_forms index,
              bl_quarterly_10q = baseline_pick_latest eligible quarterly_forms index,
              bl_material_8k = map snd (newest_first (filter (\<lambda>(_, f). baseline_form f \<in> set current_forms) eligible)),
              bl_as_of = map_option iso_of bound\<rparr>)"

section \<open>Staleness of citations\<close>

definition cited_accessions :: "pyobj \<Rightarrow> string list" where
  "cited_accessions cited = filter (\<lambda>c. c \<noteq> []) (map (\<lambda>c. strip (str_of c)) (filter is_str
     (case cited of PStr s \<Rightarrow> [PStr s] | PList xs \<Rightarrow> xs | _ \<Rightarrow> [])))"

definition superseded_current_violation :: "(pyobj \<Rightarrow> string) \<Rightarrow> (string \<Rightarrow> string) \<Rightarrow> iso_parser \<Rightarrow> filing list \<Rightarrow> pyobj \<Rightarrow> time_arg \<Rightarrow> string option res" where
  "superseded_current_violation show_obj repr fromiso filings cited as_of =
     bindR (select_latest_baseline show_obj fromiso filings as_of) (\<lambda>base.
       Ok (case Option.bind (bl_annual_10k base) baseline_accession of
             None \<Rightarrow> None
           | Some latest \<Rightarrow>
               (case cited_accessions cited of
                  [] \<Rightarrow> None
                | c # cs \<Rightarrow> if latest \<in> set (c # cs) then None
                    else Some (''current-position claim cites superseded annual '' @ repr c @ '' while latest 10-K ''
                           @ repr latest @ '' is PIT-eligible''))))"

section \<open>The specification of a pick\<close>

text \<open>The first of the newest candidates.\<close>

definition first_newest :: "(string \<times> 'a) list \<Rightarrow> 'a option \<Rightarrow> bool" where
  "first_newest cs r \<longleftrightarrow> (case r of
       None \<Rightarrow> cs = []
     | Some f \<Rightarrow> \<exists>xs day ys. cs = xs @ (day, f) # ys \<and> list_all (\<lambda>(d, _). d < day) xs \<and> list_all (\<lambda>(d, _). d \<le> day) ys)"

definition candidates :: "(string \<times> filing) list \<Rightarrow> string list \<Rightarrow> (string \<times> filing) list" where
  "candidates eligible forms = filter (\<lambda>(_, f). baseline_form f \<in> set forms
     \<and> \<not> (case baseline_superseded_by f of None \<Rightarrow> False
            | Some nxt \<Rightarrow> list_ex (\<lambda>(_, g). baseline_accession g = Some nxt) eligible)) eligible"

lemma index_dom: "dget (baseline_accession_index eligible) acc \<noteq> None \<longleftrightarrow> list_ex (\<lambda>(_, g). baseline_accession g = Some acc) eligible"
proof -
  have "dget (fold (\<lambda>(_, f) index. case baseline_accession f of None \<Rightarrow> index | Some a \<Rightarrow> dset a f index) eligible d) acc \<noteq> None
      \<longleftrightarrow> dget d acc \<noteq> None \<or> list_ex (\<lambda>(_, g). baseline_accession g = Some acc) eligible" for d
  proof (induction eligible arbitrary: d)
    case (Cons e es)
    obtain day f where e: "e = (day, f)" by (cases e)
    show ?case
    proof (cases "baseline_accession f")
      case None
      then show ?thesis by (simp add: e Cons.IH del: not_None_eq)
    next
      case (Some a)
      then show ?thesis by (simp add: e Cons.IH del: not_None_eq)
    qed
  qed simp
  then show ?thesis by (simp add: baseline_accession_index_def)
qed

lemma replacement_iff:
  "baseline_replacement_eligible f (baseline_accession_index eligible) \<longleftrightarrow>
     (case baseline_superseded_by f of None \<Rightarrow> False | Some nxt \<Rightarrow> list_ex (\<lambda>(_, g). baseline_accession g = Some nxt) eligible)"
  by (simp only: baseline_replacement_eligible_def index_dom split: option.split)

definition newer :: "string \<times> 'a \<Rightarrow> 'a option \<times> string \<Rightarrow> 'a option \<times> string" where
  "newer c best = (if fst best \<noteq> None \<and> fst c \<le> snd best then best else (Some (snd c), fst c))"

lemma fold_newer_snoc:
  "cs \<noteq> [] \<Longrightarrow> \<exists>xs day f ys. fold newer cs (None, []) = (Some f, day) \<and> cs = xs @ (day, f) # ys
     \<and> list_all (\<lambda>(d, _). d < day) xs \<and> list_all (\<lambda>(d, _). d \<le> day) ys"
proof (induction cs rule: rev_induct)
  case (snoc c cs)
  obtain e h where c: "c = (e, h)" by (cases c)
  show ?case
  proof (cases "cs = []")
    case True
    then show ?thesis by (intro exI [of _ "[]"] exI [of _ e] exI [of _ h]) (simp add: c newer_def)
  next
    case False
    from snoc.IH [OF this] obtain xs day f ys where ih: "fold newer cs (None, []) = (Some f, day)" "cs = xs @ (day, f) # ys"
      "list_all (\<lambda>(d, _). d < day) xs" "list_all (\<lambda>(d, _). d \<le> day) ys" by blast
    have run: "fold newer (cs @ [c]) (None, []) = newer c (Some f, day)" using ih(1) by simp
    show ?thesis
    proof (cases "e \<le> day")
      case True
      then have "fold newer (cs @ [c]) (None, []) = (Some f, day)" unfolding run by (simp add: c newer_def)
      moreover have "cs @ [c] = xs @ (day, f) # (ys @ [c])" using ih(2) by simp
      moreover have "list_all (\<lambda>(d, _). d \<le> day) (ys @ [c])" using ih(4) True by (simp add: c)
      ultimately show ?thesis using ih(3) by blast
    next
      case False
      then have "fold newer (cs @ [c]) (None, []) = (Some h, e)" unfolding run by (simp add: c newer_def)
      moreover have "list_all (\<lambda>(d, _). d < e) cs" using False ih(2-4) by (auto simp: list_all_iff)
      moreover have "cs @ [c] = cs @ (e, h) # []" by (simp add: c)
      moreover have "list_all (\<lambda>(d, _). d \<le> e) []" by simp
      ultimately show ?thesis by blast
    qed
  qed
qed simp

lemma fold_newer: "first_newest cs (fst (fold newer cs (None, [])))"
proof (cases "cs = []")
  case False
  from fold_newer_snoc [OF this] show ?thesis by (elim exE conjE) (simp only: first_newest_def fst_conv option.case, blast)
qed (simp add: first_newest_def)

lemma pick_step_newer:
  "pick_step forms index (day, f) best
     = (if baseline_form f \<in> set forms \<and> \<not> baseline_replacement_eligible f index then newer (day, f) best else best)"
  by (cases best) (simp add: pick_step_def newer_def baseline_skipped_def)

lemma pick_fold:
  "fold (pick_step forms index) es best
     = fold newer (filter (\<lambda>(_, f). baseline_form f \<in> set forms \<and> \<not> baseline_replacement_eligible f index) es) best"
proof (induction es arbitrary: best)
  case (Cons e es)
  show ?case by (cases e) (simp add: Cons.IH pick_step_newer)
qed simp

lemma pick_spec: "first_newest (candidates eligible forms) (baseline_pick_latest eligible forms (baseline_accession_index eligible))"
  using fold_newer [of "candidates eligible forms"]
  by (simp add: baseline_pick_latest_def pick_fold candidates_def replacement_iff)

section \<open>Order and membership\<close>

lemma newest_first_set [simp]: "set (newest_first xs) = set xs"
  by (simp add: newest_first_def)

lemma newest_first_sorted: "sorted_wrt (\<lambda>x y. fst y \<le> fst x) (newest_first xs)"
proof -
  have "sorted (map fst (sort_key fst (rev xs)))" by simp
  then show ?thesis by (simp add: newest_first_def sorted_wrt_rev sorted_map)
qed

lemma newest_first_stable: "filter (\<lambda>x. fst x = d) (newest_first xs) = filter (\<lambda>x. fst x = d) xs"
  by (simp add: newest_first_def rev_filter [symmetric] sort_key_stable)

lemma eligible_day:
  "list_all (\<lambda>(day, f). f \<in> set filings \<and> baseline_eligible_day show_obj f bound = Some day) (baseline_eligible show_obj filings bound)"
  by (induction filings) (auto simp: list_all_iff split: option.splits)

lemma eligible_day_Some:
  assumes "baseline_eligible_day show_obj f bound = Some day"
  shows "map_option (\<lambda>(t, _). take 10 t) (baseline_pit show_obj f) = Some day
    \<and> (case bound of None \<Rightarrow> True | Some d \<Rightarrow> day \<le> d)"
proof (cases "baseline_pit show_obj f")
  case None
  with assms show ?thesis by (simp add: baseline_eligible_day_def)
next
  case (Some p)
  obtain t basis where p: "p = (t, basis)" by (cases p)
  from assms show ?thesis by (cases bound) (auto simp: baseline_eligible_day_def Some p split: if_splits)
qed

section \<open>Properties\<close>

definition demo_filing :: "string \<Rightarrow> string \<Rightarrow> string \<Rightarrow> string \<Rightarrow> filing" where
  "demo_filing accession form day replacement = [(''accession_no'', PStr accession), (''form'', PStr form), (''filed_at'', PStr day),
     (''superseded_by'', if replacement = [] then PNone else PStr replacement)]"

definition demo_filings :: "filing list" where
  "demo_filings = [demo_filing ''K1'' ''10-K'' ''2025-05-01'' ''K2'', demo_filing ''K2'' ''10-K/A'' ''2025-04-01'' [],
     demo_filing ''Q1'' ''10-q'' ''2025-03-01'' [], demo_filing ''E1'' ''8-K'' ''2025-01-01'' [], demo_filing ''E2'' ''8-K'' ''2025-02-01'' []]"

text \<open>
  C16.  The baseline of a session meets its specification: nothing is picked that was not known by the
  day of the cutoff; the annual and the quarterly filing are the first of the newest candidates, where a
  filing whose named replacement is itself eligible is no candidate, and absent only when there is none;
  the current reports are all the eligible ones, newest first and in the given order within a day.
\<close>

theorem baseline_meets_spec:
  assumes "select_latest_baseline show_obj fromiso filings as_of = Ok b"
  shows "\<exists>bound eligible currents. coerce_time fromiso as_of = Ok bound
    \<and> eligible = baseline_eligible show_obj filings (bound_day bound)
    \<and> list_all (\<lambda>(day, f). f \<in> set filings \<and> map_option (\<lambda>(t, _). take 10 t) (baseline_pit show_obj f) = Some day
          \<and> (case bound_day bound of None \<Rightarrow> True | Some d \<Rightarrow> day \<le> d)) eligible
    \<and> first_newest (candidates eligible annual_forms) (bl_annual_10k b)
    \<and> first_newest (candidates eligible quarterly_forms) (bl_quarterly_10q b)
    \<and> bl_material_8k b = map snd currents \<and> sorted_wrt (\<lambda>x y. fst y \<le> fst x) currents
    \<and> (\<forall>d. filter (\<lambda>x. fst x = d) currents
          = filter (\<lambda>x. fst x = d) (filter (\<lambda>(_, f). baseline_form f \<in> set current_forms) eligible))"
proof -
  from assms obtain bound where bound: "coerce_time fromiso as_of = Ok bound"
    by (auto simp: select_latest_baseline_def bindR_Ok_iff)
  let ?eligible = "baseline_eligible show_obj filings (bound_day bound)"
  let ?currents = "newest_first (filter (\<lambda>(_, f). baseline_form f \<in> set current_forms) ?eligible)"
  have b: "bl_annual_10k b = baseline_pick_latest ?eligible annual_forms (baseline_accession_index ?eligible)"
    "bl_quarterly_10q b = baseline_pick_latest ?eligible quarterly_forms (baseline_accession_index ?eligible)"
    "bl_material_8k b = map snd ?currents"
    using assms by (auto simp: select_latest_baseline_def bound Let_def)
  have "list_all (\<lambda>(day, f). f \<in> set filings \<and> map_option (\<lambda>(t, _). take 10 t) (baseline_pit show_obj f) = Some day
      \<and> (case bound_day bound of None \<Rightarrow> True | Some d \<Rightarrow> day \<le> d)) ?eligible"
    using eligible_day [of filings show_obj "bound_day bound"]
    by (rule list.pred_mono_strong) (use eligible_day_Some in blast)
  then show ?thesis
    using bound b pick_spec newest_first_sorted newest_first_stable
    by (intro exI [of _ bound] exI [of _ ?eligible] exI [of _ ?currents]) (simp only: simp_thms)
qed

theorem baseline_meets_spec_witness:
  "\<exists>b. select_latest_baseline (\<lambda>_. []) (\<lambda>_. None) demo_filings TNone = Ok b
     \<and> first_newest (candidates (baseline_eligible (\<lambda>_. []) demo_filings None) annual_forms) (bl_annual_10k b)"
proof -
  let ?r = "select_latest_baseline (\<lambda>_. []) (\<lambda>_. None) demo_filings TNone"
  have "is_ok ?r" by (simp add: select_latest_baseline_def Let_def)
  then obtain b where b: "?r = Ok b" by (auto simp: is_ok_iff)
  from baseline_meets_spec [OF b] show ?thesis using b by (auto simp: bound_day_def)
qed

text \<open>The example picks the amendment, although the filing it replaces has a later date.\<close>

lemma demo_baseline:
  "map_option baseline_accession (bl_annual_10k (projr (select_latest_baseline (\<lambda>_. []) (\<lambda>_. None) demo_filings TNone))) = Some (Some ''K2'')"
  "map baseline_accession (bl_material_8k (projr (select_latest_baseline (\<lambda>_. []) (\<lambda>_. None) demo_filings TNone))) = [Some ''E2'', Some ''E1'']"
  by code_simp+

text \<open>A citation of the current quarterly report alone is reported as a superseded annual.\<close>

lemma quarterly_citation_reported:
  "case superseded_current_violation (\<lambda>_. []) id (\<lambda>_. None) demo_filings (PStr ''Q1'') TNone of
     Inr (Some _) \<Rightarrow> True | _ \<Rightarrow> False"
  by code_simp

text \<open>Eligibility compares days: a filing of the evening is in the baseline of that morning.\<close>

lemma evening_filing_eligible:
  "baseline_eligible_day (\<lambda>_. []) (demo_filing ''K1'' ''10-K'' (date_text (date_of 0) @ ''T23:00:00+00:00'') []) (bound_day (Some 0))
     = Some (date_text (date_of 0))"
  by code_simp

end
