(* ===== verification/Tools.thy ===== *)
theory Tools
  imports Firewall Kernel
begin

text \<open>
  The tool table and the dispatcher of \<open>app/tools.py\<close>: of every schema in \<open>TOOLS\<close> the name, the
  required keys and the property names; the argument check, the point-in-time cutoff of a historical
  run and \<open>execute_tool\<close>.  The handlers themselves, which call the data clients, are the argument
  \<open>handler\<close>; it threads a state of any type and may raise.
\<close>

section \<open>The tool table\<close>

definition tool_schemas :: "(string, string list \<times> string list) dict" where
  "tool_schemas = [
     (''get_fundamentals'', [''ticker'', ''metric''], [''ticker'', ''metric'', ''as_of'']),
     (''find_sec_entities'', [''query''], [''query'', ''as_of'', ''exhaustive'', ''limit'']),
     (''search_sec_filings'', [], [''query'', ''ticker'', ''cik'', ''company_name'', ''person_name'', ''domain'',
       ''security_identifier'', ''accession_no'', ''forms'', ''start_date'', ''end_date'', ''as_of'', ''exhaustive'',
       ''limit'']),
     (''list_sec_filings'', [''identifier''], [''identifier'', ''forms'', ''start_date'', ''end_date'', ''as_of'',
       ''limit'']),
     (''search_sec_relationships'', [''entity''], [''entity'', ''company_name'', ''relationship_types'', ''as_of'',
       ''limit'', ''exhaustive'']),
     (''get_sec_search_coverage'', [], [''source'', ''form'', ''search_id'', ''limit'']),
     (''get_sec_filing'', [''accession_no''], [''accession_no'', ''as_of'']),
     (''list_sec_documents'', [''accession_no''], [''accession_no'', ''as_of'']),
     (''get_sec_document'', [''accession_no''], [''accession_no'', ''document_name'', ''section'', ''query'',
       ''as_of'', ''offset'', ''max_chars'', ''cursor'', ''limit'', ''raw'']),
     (''diff_sec_filings'', [], [''ticker'', ''forms'', ''current_accession'', ''previous_accession'', ''section'',
       ''as_of'']),
     (''get_material_events'', [''ticker'', ''since''], [''ticker'', ''since'', ''as_of'', ''limit'']),
     (''get_beneficial_ownership'', [''ticker''], [''ticker'', ''company_name'', ''as_of'', ''limit'']),
     (''get_ownership_changes'', [''ticker''], [''ticker'', ''as_of'', ''limit'']),
     (''get_insider_activity'', [''ticker''], [''ticker'', ''company_name'', ''as_of'', ''limit'']),
     (''get_planned_insider_sales'', [''ticker''], [''ticker'', ''as_of'', ''limit'']),
     (''get_offering_history'', [''ticker''], [''ticker'', ''as_of'', ''limit'']),
     (''get_dilution_profile'', [''ticker''], [''ticker'', ''as_of'']),
     (''get_governance_events'', [''ticker''], [''ticker'', ''since'', ''as_of'', ''limit'']),
     (''get_transaction_status'', [''ticker''], [''ticker'', ''as_of'', ''limit'']),
     (''get_short_pressure_profile'', [''ticker''], [''ticker'']),
     (''search_tools'', [''query''], [''query'', ''domain'']),
     (''list_tool_domains'', [], []),
     (''describe_tool'', [], [''name'', ''names'']),
     (''browse_tools'', [], [''domain'', ''family'', ''name'']),
     (''call_tool'', [''name''], [''name'', ''arguments'']),
     (''get_recent_ownership_filings'', [], [''form_type'', ''limit'']),
     (''diff_risk_factors'', [''ticker''], [''ticker'']),
     (''get_financial_statements'', [''ticker'', ''statement_type''], [''ticker'', ''statement_type'']),
     (''get_xbrl_facts'', [''ticker'', ''concept''], [''ticker'', ''concept'']),
     (''get_short_interest'', [''ticker''], [''ticker'', ''settlementDate'']),
     (''get_short_interest_leaderboard'', [], [''limit'', ''settlement_date'', ''as_of'']),
     (''get_reg_sho_volume'', [''ticker''], [''ticker'', ''tradeDate'']),
     (''get_threshold_securities'', [], [''ticker'', ''tradeDate'']),
     (''get_analyst_estimates'', [''ticker''], [''ticker'']),
     (''get_sp500_weight'', [''ticker''], [''ticker'']),
     (''get_obligations'', [''ticker''], [''ticker'', ''company_name'']),
     (''get_valuation_metrics'', [''ticker''], [''ticker'']),
     (''list_finra_datasets'', [], [''group'', ''search'']),
     (''describe_finra_dataset'', [''dataset_id''], [''dataset_id'']),
     (''get_finra_datapoints'', [''dataset'', ''fields''], [''dataset'', ''fields'', ''ticker'', ''start_date'',
       ''end_date'', ''filters'', ''limit'', ''sort_fields'', ''sort_order'']),
     (''query_finra'', [''dataset''], [''dataset'', ''ticker'', ''start_date'', ''end_date'', ''limit'', ''offset'',
       ''filters'', ''analysis_goal'']),
     (''get_market_snapshot'', [''ticker''], [''ticker'']),
     (''get_option_chain'', [''ticker'', ''option_type''], [''ticker'', ''option_type'', ''min_dte'', ''max_dte'',
       ''strike_min'', ''strike_max'', ''limit'']),
     (''analyze_option_contract'', [''ticker'', ''expiration'', ''strike'', ''option_type''], [''ticker'',
       ''expiration'', ''strike'', ''option_type'', ''target_price'']),
     (''compare_options'', [''ticker'', ''option_type'', ''target_price''], [''ticker'', ''option_type'',
       ''target_price'', ''min_dte'', ''max_dte'', ''strike_min'', ''strike_max'', ''limit'']),
     (''get_portfolio_snapshot'', [], [''refresh'']),
     (''get_scanner_filter_specs'', [], []),
     (''evaluate_mandate'', [], []),
     (''get_scans'', [], []),
     (''run_scan'', [''scan_id''], [''scan_id'', ''limit'']),
     (''search_web'', [''query''], [''query'', ''category'', ''include_domains'', ''exclude_domains'',
       ''start_published_date'', ''end_published_date'', ''search_type'', ''limit'']),
     (''thesis_create'', [''user_thesis''], [''user_thesis'', ''scope'', ''claims'', ''assumptions'',
       ''invalidators'', ''unknowns'', ''expressions'', ''questions'']),
     (''thesis_show'', [''id''], [''id'', ''as_of'']),
     (''thesis_refine'', [''id'', ''clarification''], [''id'', ''clarification'', ''scope'', ''claims'',
       ''assumptions'', ''invalidators'', ''unknowns'', ''expressions'', ''questions'']),
     (''thesis_watch'', [''id''], [''id'', ''rule_type'', ''claim_ids'', ''expression_ids'']),
     (''thesis_journal'', [''id'', ''body''], [''id'', ''title'', ''body'', ''trigger_id'', ''run_id'', ''known_at'']),
     (''thesis_status'', [''id'', ''action''], [''id'', ''action'']),
     (''research_start'', [''question''], [''question'', ''objective'', ''as_of'']),
     (''research_resume'', [''session_id''], [''session_id'']),
     (''research_status'', [''session_id''], [''session_id'']),
     (''research_cancel'', [''session_id''], [''session_id'']),
     (''research_read'', [''session_id'', ''kind'', ''resource_id''], [''session_id'', ''kind'', ''resource_id'',
       ''freeze_id'']),
     (''research_read_search'', [''session_id'', ''search_id''], [''session_id'', ''search_id'', ''offset'',
       ''limit'', ''forms'']),
     (''research_add_evidence'', [''session_id'', ''job_id'', ''item''], [''session_id'', ''job_id'', ''item'']),
     (''research_submit_source_result'', [''session_id'', ''job_id'', ''coverage'', ''evidence_ids'',
       ''unresolved_questions''], [''session_id'', ''job_id'', ''coverage'', ''evidence_ids'',
       ''unresolved_questions'']),
     (''research_add_analysis'', [''session_id'', ''job_id'', ''role'', ''analysis''], [''session_id'', ''job_id'',
       ''role'', ''analysis'']),
     (''research_finalize'', [''session_id'', ''answer'', ''claims''], [''session_id'', ''answer'', ''claims'']),
     (''find_alternative_signals'', [], [''query'', ''geo'', ''as_of'', ''limit'']),
     (''get_trend_evidence'', [], [''start_date'', ''end_date'', ''geos'', ''geo'', ''term'', ''limit'',
       ''week_start'', ''week_end'']),
     (''investigate_social_arbitrage_candidate'', [''term''], [''term'', ''geo'', ''limit'']),
     (''get_macro_context'', [''geos'', ''variables''], [''geos'', ''variables'', ''start_date'', ''end_date'',
       ''limit'']),
     (''search_company_patents'', [''company_id'', ''assignees''], [''company_id'', ''assignees'', ''start_date'',
       ''end_date'', ''limit''])]"

definition tool_schema :: "string \<Rightarrow> string list \<times> string list" where
  "tool_schema name = dget_default tool_schemas name ([], [])"

definition required_keys :: "string \<Rightarrow> string list" where
  "required_keys name = fst (tool_schema name)"

definition tool_has_as_of :: "string \<Rightarrow> bool" where
  "tool_has_as_of name \<longleftrightarrow> ''as_of'' \<in> set (snd (tool_schema name))"

section \<open>Handler tables\<close>

definition model_handlers :: "string list" where
  "model_handlers = [''evaluate_mandate'', ''get_fundamentals'', ''search_sec_relationships'',
       ''get_sec_search_coverage'', ''list_sec_filings'', ''get_sec_filing'', ''list_sec_documents'',
       ''get_sec_document'', ''diff_sec_filings'', ''get_material_events'', ''get_beneficial_ownership'',
       ''get_ownership_changes'', ''get_insider_activity'', ''get_planned_insider_sales'', ''get_offering_history'',
       ''get_dilution_profile'', ''get_governance_events'', ''get_transaction_status'',
       ''get_short_pressure_profile'', ''search_tools'', ''list_tool_domains'', ''describe_tool'', ''browse_tools'',
       ''get_recent_ownership_filings'', ''diff_risk_factors'', ''get_xbrl_facts'', ''get_financial_statements'',
       ''get_analyst_estimates'', ''get_sp500_weight'', ''get_obligations'', ''get_valuation_metrics'',
       ''search_web'', ''find_alternative_signals'', ''get_trend_evidence'',
       ''investigate_social_arbitrage_candidate'', ''get_macro_context'', ''search_company_patents'']"

definition finra_handlers :: "string list" where
  "finra_handlers = [''get_short_interest_leaderboard'', ''get_short_interest'', ''get_reg_sho_volume'',
       ''get_threshold_securities'', ''list_finra_datasets'', ''describe_finra_dataset'', ''get_finra_datapoints'',
       ''query_finra'']"

definition robinhood_handlers :: "string list" where
  "robinhood_handlers = [''get_market_snapshot'', ''get_option_chain'', ''analyze_option_contract'',
       ''compare_options'', ''get_portfolio_snapshot'', ''get_scanner_filter_specs'', ''get_scans'', ''run_scan'']"

definition thesis_handlers :: "string list" where
  "thesis_handlers = [''thesis_create'', ''thesis_show'', ''thesis_refine'', ''thesis_watch'', ''thesis_journal'',
       ''thesis_status'']"

definition research_handlers :: "string list" where
  "research_handlers = [''research_start'', ''research_resume'', ''research_status'', ''research_cancel'',
       ''research_read'', ''research_read_search'', ''research_add_evidence'', ''research_submit_source_result'',
       ''research_add_analysis'', ''research_finalize'']"

definition sec_discovery_handlers :: "string list" where
  "sec_discovery_handlers = [''find_sec_entities'', ''search_sec_filings'']"

section \<open>Arguments\<close>

definition quoted :: "string \<Rightarrow> string" where
  "quoted s = [CHR 0x27] @ s @ [CHR 0x27]"

definition tool_error :: "string \<Rightarrow> string \<Rightarrow> (string, pyobj) dict" where
  "tool_error message kind = [(''error'', PStr message), (''error_type'', PStr kind)]"

definition not_an_object :: "string \<Rightarrow> string" where
  "not_an_object name = ''Tool arguments must be a JSON object for tool '' @ quoted name"

definition validate_tool_arguments :: "string \<Rightarrow> pyobj \<Rightarrow> string option" where
  "validate_tool_arguments name arguments = (case arguments of
       PDict d \<Rightarrow>
         (case filter (\<lambda>k. dget d k = None) (required_keys name) of
            [] \<Rightarrow> None
          | missing \<Rightarrow> Some (''Missing required argument(s) for tool '' @ quoted name @ '': '' @ join '', '' missing))
     | _ \<Rightarrow> Some (not_an_object name))"

text \<open>The parameters object the error echoes is the argument \<open>params\<close>.\<close>

definition invalid_args_error :: "(string \<Rightarrow> pyobj) \<Rightarrow> string \<Rightarrow> string \<Rightarrow> (string, pyobj) dict" where
  "invalid_args_error params name message = tool_error message ''invalid_tool_arguments'' @
     [(''tool'', PStr name), (''parameters'', params name), (''required'', py_values (required_keys name)),
      (''optional'', py_values (sort (filter (\<lambda>k. k \<notin> set (required_keys name)) (snd (tool_schema name)))))]"

definition unknown_tool_error :: "string \<Rightarrow> (string, pyobj) dict" where
  "unknown_tool_error name = tool_error (''unknown_tool '' @ quoted name) ''unknown_tool'' @
     [(''tool'', PStr name), (''hint'', PStr ''call browse_tools with no arguments, then call_tool with an exact catalog name'')]"

section \<open>The cutoff of a historical run\<close>

definition effective_at :: "request_context \<Rightarrow> string option" where
  "effective_at c = (case rc_as_of c of None \<Rightarrow> None | Some s \<Rightarrow> if s \<noteq> [] then Some s else None)"

definition as_dt :: "iso_parser \<Rightarrow> string \<Rightarrow> instant option" where
  "as_dt fromiso s = map_option normalize_time (fromiso s)"

definition pit_instant_tools :: "string list" where
  "pit_instant_tools = [''thesis_show'', ''research_status'', ''research_resume'', ''research_read'']"

definition pit_governed_mutators :: "string list" where
  "pit_governed_mutators = [''thesis_create'', ''thesis_refine'', ''thesis_watch'', ''thesis_journal'', ''thesis_status'',
     ''research_start'', ''research_cancel'', ''research_add_evidence'', ''research_submit_source_result'',
     ''research_add_analysis'', ''research_finalize'']"

definition pit_day :: "iso_parser \<Rightarrow> string \<Rightarrow> string option" where
  "pit_day fromiso cutoff = map_option (\<lambda>t. date_text (date_of t)) (as_dt fromiso cutoff)"

type_synonym checked_args = "(string, pyobj) dict \<times> (string, pyobj) dict option"

definition default_pit_value :: "iso_parser \<Rightarrow> string \<Rightarrow> (string, pyobj) dict \<Rightarrow> string \<Rightarrow> checked_args" where
  "default_pit_value fromiso name args cutoff =
     (if name \<in> set pit_instant_tools then (dset ''as_of'' (PStr cutoff) args, None)
      else case pit_day fromiso cutoff of
          None \<Rightarrow> (args, Some (tool_error (''tool '' @ quoted name @ '': bad run cutoff'') ''invalid_tool_arguments''))
        | Some day \<Rightarrow> (dset ''as_of'' (PStr day) args, None))"

definition later_than :: "iso_parser \<Rightarrow> string \<Rightarrow> string \<Rightarrow> bool" where
  "later_than fromiso supplied cutoff \<longleftrightarrow> (case as_dt fromiso supplied of None \<Rightarrow> False
     | Some s \<Rightarrow> (case as_dt fromiso cutoff of None \<Rightarrow> False | Some c \<Rightarrow> s > c))"

definition reject_future_as_of :: "iso_parser \<Rightarrow> string \<Rightarrow> (string, pyobj) dict \<Rightarrow> string \<Rightarrow> string \<Rightarrow> checked_args" where
  "reject_future_as_of fromiso name args supplied cutoff =
     (if later_than fromiso supplied cutoff
      then (args, Some (tool_error (''tool '' @ quoted name @ '': as_of is beyond the run cutoff'') ''invalid_tool_arguments''))
      else (args, None))"

definition apply_pit_cutoff :: "iso_parser \<Rightarrow> string \<Rightarrow> pyobj \<Rightarrow> request_context \<Rightarrow> checked_args" where
  "apply_pit_cutoff fromiso name arguments c = (case arguments of
       PDict args \<Rightarrow>
         (case effective_at c of
            None \<Rightarrow> (args, None)
          | Some cutoff \<Rightarrow>
              if \<not> tool_has_as_of name then (args, None)
              else (case obj_get args ''as_of'' of
                  PNone \<Rightarrow> default_pit_value fromiso name args cutoff
                | PStr s \<Rightarrow> if s = [] then default_pit_value fromiso name args cutoff
                            else reject_future_as_of fromiso name args s cutoff
                | _ \<Rightarrow> (args, None)))
     | _ \<Rightarrow> ([], Some (tool_error (not_an_object name) ''invalid_tool_arguments'')))"

definition pit_exempt :: "string \<Rightarrow> bool" where
  "pit_exempt name \<longleftrightarrow> name \<in> set pit_governed_mutators \<or> tool_has_as_of name"

definition soft :: "string \<Rightarrow> string \<Rightarrow> (string, pyobj) dict" where
  "soft message kind = tool_error message kind @ [(''soft'', PBool True)]"

definition pit_unsafe_error :: "string \<Rightarrow> request_context \<Rightarrow> (string, pyobj) dict option" where
  "pit_unsafe_error name c =
     (if effective_at c \<noteq> None \<and> \<not> pit_exempt name
      then Some (soft (''Tool '' @ quoted name @ '' is not point-in-time safe under this historical run.'') ''pit_unsafe_tool'')
      else None)"

definition permission_error :: "string \<Rightarrow> request_context \<Rightarrow> (string, pyobj) dict option" where
  "permission_error name c = (if tool_is_permitted name c then None
     else Some [(''error'', PStr (''Tool is not permitted: '' @ name))])"

section \<open>Dispatch\<close>

datatype handler_result = Returned "(string, pyobj) dict" | MissingKey string | AuthRequired | Raised string

type_synonym 's handler = "string \<Rightarrow> (string, pyobj) dict \<Rightarrow> request_context \<Rightarrow> 's \<Rightarrow> 's \<times> handler_result"

definition with_pit_flag :: "string \<Rightarrow> request_context \<Rightarrow> handler_result \<Rightarrow> handler_result" where
  "with_pit_flag name c r = (case r of
       Returned result \<Rightarrow>
         if effective_at c \<noteq> None \<and> \<not> pit_exempt name \<and> dget result ''pit_safe'' = None
         then Returned (result @ [(''pit_safe'', PBool False)]) else r
     | _ \<Rightarrow> r)"

definition context_call_handlers :: "string list" where
  "context_call_handlers = thesis_handlers @ research_handlers @ sec_discovery_handlers"

definition dispatch_tool :: "'s handler \<Rightarrow> string \<Rightarrow> (string, pyobj) dict \<Rightarrow> request_context \<Rightarrow> 's \<Rightarrow> 's \<times> handler_result" where
  "dispatch_tool handler name args c s =
     (if name \<in> set context_call_handlers then handler name args c s
      else if name \<in> set (model_handlers @ finra_handlers @ robinhood_handlers)
      then (case handler name args c s of (s1, r) \<Rightarrow> (s1, with_pit_flag name c r))
      else (s, Returned (unknown_tool_error name)))"

definition auth_required :: "(string, pyobj) dict" where
  "auth_required = soft ''Robinhood data unavailable (not authorized). Run `cli.py robinhood-login` to authorize.'' ''auth_required''
     @ [(''source'', PStr ''robinhood_mcp'')]"

definition handler_outcome :: "string \<Rightarrow> handler_result \<Rightarrow> (string, pyobj) dict" where
  "handler_outcome name r = (case r of
       Returned result \<Rightarrow> result
     | MissingKey k \<Rightarrow> [(''error'', PStr (''Missing required argument '' @ k @ '' for tool '' @ quoted name))]
     | AuthRequired \<Rightarrow> auth_required
     | Raised e \<Rightarrow>
         if name \<in> set robinhood_handlers
         then [(''error'', PStr (''Robinhood tool '' @ quoted name @ '' failed; provider details withheld.''))]
         else [(''error'', PStr (''Tool '' @ quoted name @ '' failed: '' @ e))])"

definition execute_tool :: "iso_parser \<Rightarrow> (string \<Rightarrow> pyobj) \<Rightarrow> 's handler \<Rightarrow> string \<Rightarrow> pyobj \<Rightarrow> request_context \<Rightarrow> 's
    \<Rightarrow> 's \<times> (string, pyobj) dict" where
  "execute_tool fromiso params handler name arguments c s =
     (case permission_error name c of
        Some e \<Rightarrow> (s, e)
      | None \<Rightarrow>
          (case apply_pit_cutoff fromiso name arguments c of
             (_, Some e) \<Rightarrow> (s, e)
           | (args, None) \<Rightarrow>
               (case pit_unsafe_error name c of
                  Some e \<Rightarrow> (s, e)
                | None \<Rightarrow>
                    (case validate_tool_arguments name (PDict args) of
                       Some message \<Rightarrow> (s, invalid_args_error params name message)
                     | None \<Rightarrow> (case dispatch_tool handler name args c s of (s1, r) \<Rightarrow> (s1, handler_outcome name r))))))"

section \<open>The tables agree\<close>

text \<open>Every registered tool has a schema, and every one but \<open>call_tool\<close> a single handler.\<close>

definition tool_order :: "(nat \<times> nat) list \<Rightarrow> nat list" where
  "tool_order sections = concat (map (\<lambda>(i, j). [i..<j]) sections)"

definition schema_sections :: "(nat \<times> nat) list" where
  "schema_sections = [(0, 1), (2, 4), (1, 2), (4, 29), (35, 41), (29, 35), (41, 45), (69, 70), (45, 46), (68, 69),
     (70, 72), (46, 47), (52, 68), (47, 52)]"

definition handler_sections :: "(nat \<times> nat) list" where
  "handler_sections = [(52, 68), (2, 4), (68, 69), (0, 1), (4, 6), (1, 2), (6, 24), (25, 27), (28, 29), (27, 28),
     (39, 41), (29, 31), (46, 52), (36, 37), (35, 36), (37, 39), (31, 35), (41, 45), (69, 70), (45, 46), (70, 72)]"

lemma table_sections:
  "map fst tool_schemas = map (nth (map fst tool_domains)) (tool_order schema_sections)"
  "context_call_handlers @ model_handlers @ finra_handlers @ robinhood_handlers
     = map (nth (map fst tool_domains)) (tool_order handler_sections)"
  "filter (\<lambda>n. n \<noteq> ''call_tool'') (map fst tool_domains) = map (nth (map fst tool_domains)) (filter (\<lambda>i. i \<noteq> 24) [0..<72])"
  "map fst tool_domains = map (nth (map fst tool_domains)) [0..<72]"
  by code_simp+

lemma table_orders:
  "sort (tool_order schema_sections) = [0..<72]" "sort (tool_order handler_sections) = filter (\<lambda>i. i \<noteq> 24) [0..<72]"
  by code_simp+

lemma schema_names: "set (map fst tool_schemas) = set (map fst tool_capabilities)"
proof -
  have "set (tool_order schema_sections) = set [0..<72]" by (simp only: table_orders(1) [symmetric] set_sort)
  then have "set (map fst tool_schemas) = set (map (nth (map fst tool_domains)) [0..<72])"
    by (simp only: table_sections(1) list.set_map)
  also have "\<dots> = set (map fst tool_domains)" by (simp only: table_sections(4) [symmetric])
  also have "\<dots> = set (map fst tool_capabilities)" by (rule registry_names(1) [symmetric])
  finally show ?thesis .
qed

lemma handler_names:
  "set (context_call_handlers @ model_handlers @ finra_handlers @ robinhood_handlers)
     = set (filter (\<lambda>n. n \<noteq> ''call_tool'') (map fst tool_capabilities))"
proof -
  have "set (tool_order handler_sections) = set (filter (\<lambda>i. i \<noteq> 24) [0..<72])"
    by (simp only: table_orders(2) [symmetric] set_sort)
  then have "set (context_call_handlers @ model_handlers @ finra_handlers @ robinhood_handlers)
      = set (filter (\<lambda>n. n \<noteq> ''call_tool'') (map fst tool_domains))"
    by (simp only: table_sections(2,3) list.set_map)
  then show ?thesis by (simp only: set_filter registry_names(1))
qed

lemma required_declared:
  "list_all (\<lambda>(_, required, properties). list_all (\<lambda>k. k \<in> set properties) required) tool_schemas"
  by code_simp

section \<open>What reaches a handler\<close>

text \<open>
  A call may reach a handler only for a permitted tool with its required keys present; under a cutoff
  only for a governed mutator or with an \<open>as_of\<close>.  When the text of the \<open>as_of\<close> and the cutoff
  both read as ISO times, its instant is at most the cutoff's, or it is the calendar day of the cutoff.
  A text that is no ISO time, any text under a cutoff that is none, and a value that is not text are
  left to the handler's own validation.
\<close>

definition within_cutoff :: "iso_parser \<Rightarrow> string \<Rightarrow> (string, pyobj) dict \<Rightarrow> string \<Rightarrow> bool" where
  "within_cutoff fromiso name args cutoff \<longleftrightarrow>
     (if tool_has_as_of name
      then (case obj_get args ''as_of'' of
          PNone \<Rightarrow> False
        | PStr s \<Rightarrow> s \<noteq> [] \<and>
            (case (fromiso s, fromiso cutoff) of
               (Some r, Some k) \<Rightarrow> normalize_time r \<le> normalize_time k \<or> s = date_text (date_of (normalize_time k))
             | _ \<Rightarrow> True)
        | _ \<Rightarrow> True)
      else name \<in> set pit_governed_mutators)"

definition may_reach :: "iso_parser \<Rightarrow> string \<Rightarrow> (string, pyobj) dict \<Rightarrow> request_context \<Rightarrow> bool" where
  "may_reach fromiso name args c \<longleftrightarrow> tool_is_permitted name c \<and> list_all (\<lambda>k. dget args k \<noteq> None) (required_keys name)
     \<and> (case effective_at c of None \<Rightarrow> True | Some cutoff \<Rightarrow> within_cutoff fromiso name args cutoff)"

lemma obj_get_dset [simp]: "obj_get (dset k v d) k' = (if k' = k then v else obj_get d k')"
  by (simp add: obj_get_def dget_default_def)

lemma date_text_nonempty [simp]: "date_text d \<noteq> []"
  by (simp add: date_text_def split: prod.split)

lemma default_pit_value_Ok:
  assumes "default_pit_value fromiso name args cutoff = (args', None)" and "tool_has_as_of name" and "cutoff \<noteq> []"
  shows "within_cutoff fromiso name args' cutoff"
  using assms
  by (auto simp: default_pit_value_def within_cutoff_def pit_day_def as_dt_def split: if_splits option.splits)

lemma reject_future_as_of_Ok:
  assumes "reject_future_as_of fromiso name args s cutoff = (args', None)" and "obj_get args ''as_of'' = PStr s" and "s \<noteq> []"
    and "tool_has_as_of name"
  shows "within_cutoff fromiso name args' cutoff"
  using assms
  by (auto simp: reject_future_as_of_def within_cutoff_def later_than_def as_dt_def not_less split: if_splits option.splits)

lemma effective_at_nonempty: "effective_at c = Some cutoff \<Longrightarrow> cutoff \<noteq> []"
  by (auto simp: effective_at_def split: option.splits if_splits)

lemma apply_pit_cutoff_Ok:
  assumes "apply_pit_cutoff fromiso name arguments c = (args, None)" and "pit_unsafe_error name c = None"
    and "effective_at c = Some cutoff"
  shows "within_cutoff fromiso name args cutoff"
proof -
  from assms(1) obtain d where d: "arguments = PDict d" by (cases arguments) (simp_all add: apply_pit_cutoff_def)
  show ?thesis
  proof (cases "tool_has_as_of name")
    case False
    with assms(2,3) show ?thesis by (simp add: pit_unsafe_error_def pit_exempt_def within_cutoff_def split: if_splits)
  next
    case True
    note res = assms(1) [unfolded d apply_pit_cutoff_def assms(3) pyobj.case option.case, simplified True]
    show ?thesis
    proof (cases "obj_get d ''as_of''")
      case PNone
      with res default_pit_value_Ok [OF _ True effective_at_nonempty [OF assms(3)]] show ?thesis by simp
    next
      case (PStr s)
      with res default_pit_value_Ok [OF _ True effective_at_nonempty [OF assms(3)]] reject_future_as_of_Ok [OF _ PStr _ True] show ?thesis
        by (cases "s = []") auto
    qed (use res True in \<open>auto simp: within_cutoff_def\<close>)
  qed
qed

lemma validate_Ok: "validate_tool_arguments name (PDict args) = None \<longleftrightarrow> list_all (\<lambda>k. dget args k \<noteq> None) (required_keys name)"
proof (cases "filter (\<lambda>k. dget args k = None) (required_keys name)")
  case Nil
  then show ?thesis by (simp add: validate_tool_arguments_def filter_empty_conv list_all_iff)
next
  case (Cons k ks)
  from arg_cong [OF this, of set] have "k \<in> set (required_keys name)" "dget args k = None" by auto
  then have "\<not> list_all (\<lambda>k. dget args k \<noteq> None) (required_keys name)" by (auto simp: list_all_iff)
  then show ?thesis by (simp add: validate_tool_arguments_def Cons)
qed

lemma dispatch_tool_cong:
  assumes "handler name args c s = handler' name args c s"
  shows "dispatch_tool handler name args c s = dispatch_tool handler' name args c s"
  by (simp add: dispatch_tool_def assms)


text \<open>A handler that would answer a late \<open>as_of\<close> differently makes no difference.\<close>

definition demo_clock :: iso_parser where
  "demo_clock s = (if s = ''2025'' then Some (Aware 0) else if s = ''2026'' then Some (Aware 1) else None)"

definition late_handler :: "nat handler" where
  "late_handler name args c s = (if obj_get args ''as_of'' = PStr ''2026'' then (Suc s, Raised ''late'') else (s, Returned []))"

definition demo_call :: "nat handler \<Rightarrow> nat \<times> (string, pyobj) dict" where
  "demo_call handler = execute_tool demo_clock (\<lambda>_. PNone) handler ''get_fundamentals''
     (PDict [(''ticker'', PStr ''ACME''), (''metric'', PStr ''revenue''), (''as_of'', PStr ''2026'')])
     ((local_context ''/d'')\<lparr>rc_as_of := Some ''2025''\<rparr>) 0"


text \<open>An \<open>as_of\<close> that does not parse is passed on in a historical run.\<close>

lemma unparseable_as_of_passes:
  "apply_pit_cutoff (\<lambda>s. if s = ''2025-01-01'' then Some (Aware 0) else None) ''get_fundamentals''
     (PDict [(''as_of'', PStr ''2099-1-1'')]) ((local_context ''/d'')\<lparr>rc_as_of := Some ''2025-01-01''\<rparr>)
   = ([(''as_of'', PStr ''2099-1-1'')], None)"
  by code_simp

end
