(* ===== verification/Gateway.thy ===== *)
theory Gateway
  imports Tools Dispatch
begin

text \<open>
  The gateway in front of every tool call of the model (\<open>app/pi_gateway.py\<close>).  The record \<open>gateway_env\<close>
  holds what the gateway reads and calls outside this development: the clocks, the JSON codec and
  \<open>str\<close>, company resolution, the renderer, the decoders of the scanner, the digest and the tool
  handlers.  The state is the session with its security context and budget, and the research store
  under the data root of the call.  The recorder and the logger are not modelled.
\<close>

section \<open>References and telemetry of a result\<close>

type_synonym json_dict = "(string, pyobj) dict"

definition source_ref_id_keys :: "string list" where
  "source_ref_id_keys = [''accession_no'', ''accession_number'', ''accession'', ''record_id'', ''document_name'', ''filing_id'']"

definition source_ref_url_keys :: "string list" where
  "source_ref_url_keys = [''url'', ''source_url'', ''source'', ''filing_url'', ''document_url'', ''link'']"

definition source_ref_date_keys :: "string list" where
  "source_ref_date_keys = [''known_at'', ''accepted_at'', ''acceptanceDatetime'', ''acceptedDate'', ''filed_at'', ''filingDate'',
     ''filed'', ''published_at'', ''publishedAt'', ''published'']"

definition is_uri_like :: "string \<Rightarrow> bool" where
  "is_uri_like value = (let text = strip value in sublist ''://'' text \<or> sublist ''/'' text \<or> sublist ''.'' text)"

fun dicts_of :: "pyobj \<Rightarrow> json_dict list" where
  "dicts_of (PDict d) = [d]"
| "dicts_of v = []"

definition source_ref_candidates :: "json_dict \<Rightarrow> json_dict list" where
  "source_ref_candidates result = result # concat (map (\<lambda>(_, v). case v of
       PDict d \<Rightarrow> [d] | PList xs \<Rightarrow> concat (map dicts_of xs) | _ \<Rightarrow> []) result)"

text \<open>The first key whose value passes.\<close>

definition first_hit :: "(pyobj \<Rightarrow> string option) \<Rightarrow> string list \<Rightarrow> json_dict \<Rightarrow> string option" where
  "first_hit f keys item = (case List.map_filter (\<lambda>k. f (obj_get item k)) keys of [] \<Rightarrow> None | s # _ \<Rightarrow> Some s)"

definition nonblank :: "string \<Rightarrow> string option" where
  "nonblank s = (if strip s \<noteq> [] then Some (strip s) else None)"

text \<open>A \<open>bool\<close> is an \<open>int\<close>.\<close>

definition ref_record_id :: "(pyobj \<Rightarrow> string) \<Rightarrow> json_dict \<Rightarrow> string option" where
  "ref_record_id show_obj = first_hit (\<lambda>v. case v of PStr s \<Rightarrow> nonblank s | PInt _ \<Rightarrow> nonblank (show_obj v)
     | PBool _ \<Rightarrow> nonblank (show_obj v) | _ \<Rightarrow> None) source_ref_id_keys"

definition ref_uri :: "json_dict \<Rightarrow> string option" where
  "ref_uri = first_hit (\<lambda>v. case v of PStr s \<Rightarrow> if is_uri_like s then nonblank s else None | _ \<Rightarrow> None) source_ref_url_keys"

definition ref_known_at :: "json_dict \<Rightarrow> string option" where
  "ref_known_at = first_hit (\<lambda>v. case v of PStr s \<Rightarrow> nonblank s | _ \<Rightarrow> None) source_ref_date_keys"

definition opt_entry :: "string \<Rightarrow> string option \<Rightarrow> json_dict" where
  "opt_entry k v = (case v of None \<Rightarrow> [] | Some s \<Rightarrow> [(k, PStr s)])"

definition source_ref_for :: "(pyobj \<Rightarrow> string) \<Rightarrow> json_dict \<Rightarrow> json_dict" where
  "source_ref_for show_obj item = opt_entry ''record_id'' (ref_record_id show_obj item) @ opt_entry ''uri'' (ref_uri item)
     @ opt_entry ''known_at'' (ref_known_at item)"

definition extract_source_refs :: "(pyobj \<Rightarrow> string) \<Rightarrow> json_dict \<Rightarrow> json_dict" where
  "extract_source_refs show_obj result =
     (let refs = fold (\<lambda>item acc. let ref = source_ref_for show_obj item in if ref \<noteq> [] \<and> ref \<notin> set acc then acc @ [ref] else acc)
                   (source_ref_candidates result) []
      in case refs of [] \<Rightarrow> []
         | first # rest \<Rightarrow>
             (case List.find (\<lambda>r. dget r ''record_id'' \<noteq> None) refs of Some r \<Rightarrow> r | None \<Rightarrow> first)
               @ (if rest \<noteq> [] then [(''all'', PList (map PDict refs))] else []))"

record tool_result_meta =
  tm_row_count :: pyobj
  tm_returned_count :: pyobj
  tm_truncated :: bool
  tm_as_of :: "string option"

definition non_data_list_keys :: "string list" where
  "non_data_list_keys = [''source_records'', ''warnings'', ''metrics'', ''trends'']"

text \<open>\<open>isinstance(v, int)\<close>, and the number it compares as.\<close>

definition int_like :: "pyobj \<Rightarrow> int option" where
  "int_like v = (case v of PInt n \<Rightarrow> Some n | PBool b \<Rightarrow> Some (if b then 1 else 0) | _ \<Rightarrow> None)"

definition meta_returned_count :: "json_dict \<Rightarrow> pyobj" where
  "meta_returned_count result = (if int_like (obj_get result ''returned_count'') \<noteq> None then obj_get result ''returned_count'' else PNone)"

definition meta_row_count :: "json_dict \<Rightarrow> pyobj" where
  "meta_row_count result = (if int_like (obj_get result ''row_count'') \<noteq> None then obj_get result ''row_count''
     else PInt (fold max (List.map_filter (\<lambda>(k, v). case v of PList xs \<Rightarrow>
        if k \<notin> set non_data_list_keys then Some (int (length xs)) else None | _ \<Rightarrow> None) result) 0))"

definition meta_truncated :: "json_dict \<Rightarrow> bool" where
  "meta_truncated result \<longleftrightarrow> truthy (obj_get result ''truncated'') \<or> obj_get result ''may_have_more'' = PBool True
     \<or> (case (int_like (meta_returned_count result), int_like (obj_get result ''total_records'')) of
          (Some n, Some m) \<Rightarrow> n < m | _ \<Rightarrow> False)"

definition result_meta :: "(pyobj \<Rightarrow> string) \<Rightarrow> json_dict \<Rightarrow> tool_result_meta" where
  "result_meta show_obj result =
     \<lparr>tm_row_count = meta_row_count result, tm_returned_count = meta_returned_count result, tm_truncated = meta_truncated result,
      tm_as_of = (case filter (\<lambda>v. v \<noteq> PNone) (map (obj_get result) [''as_of_date'', ''as_of'']) of
                    [] \<Rightarrow> None | v # _ \<Rightarrow> Some (case v of PStr s \<Rightarrow> s | _ \<Rightarrow> show_obj v))\<rparr>"

definition named_tool_list :: "pyobj list \<Rightarrow> string list" where
  "named_tool_list items = concat (map (\<lambda>m. case m of
       PDict d \<Rightarrow> (case obj_get d ''name'' of PStr s \<Rightarrow> [s] | _ \<Rightarrow> []) | _ \<Rightarrow> []) items)"

definition schema_tool_names :: "pyobj list \<Rightarrow> string list" where
  "schema_tool_names schemas = concat (map (\<lambda>m. case m of
       PDict d \<Rightarrow> (case obj_get d ''function'' of PDict f \<Rightarrow> (case obj_get f ''name'' of PStr s \<Rightarrow> [s] | _ \<Rightarrow> []) | _ \<Rightarrow> [])
     | _ \<Rightarrow> []) schemas)"

definition discovery_meta_names :: "json_dict \<Rightarrow> string list option \<times> string list option" where
  "discovery_meta_names result =
     (case obj_get result ''matches'' of
          PList xs \<Rightarrow> Some (named_tool_list xs)
        | _ \<Rightarrow> (case obj_get result ''schemas'' of PList xs \<Rightarrow> Some (schema_tool_names xs) | _ \<Rightarrow> None),
      case obj_get result ''tools'' of PList xs \<Rightarrow> Some (named_tool_list xs) | _ \<Rightarrow> None)"

definition sensitivity_value :: "sensitivity \<Rightarrow> string" where
  "sensitivity_value s = (case s of PUBLIC \<Rightarrow> ''public'' | PRIVATE \<Rightarrow> ''private'' | SECRET \<Rightarrow> ''secret'')"

definition integrity_value :: "integrity \<Rightarrow> string" where
  "integrity_value i = (case i of CANONICAL \<Rightarrow> ''canonical'' | AUTHENTICATED \<Rightarrow> ''authenticated''
     | HIGH_TRUST_REPORTED \<Rightarrow> ''high_trust_reported'' | PRIMARY_EXTERNAL \<Rightarrow> ''primary_external''
     | EXTERNAL \<Rightarrow> ''external'' | DERIVED \<Rightarrow> ''derived'')"

definition success_meta :: "(pyobj \<Rightarrow> string) \<Rightarrow> string \<Rightarrow> json_dict \<Rightarrow> context_envelope \<Rightarrow> string \<Rightarrow> json_dict" where
  "success_meta show_obj name result env status =
     (let m = result_meta show_obj result; refs = extract_source_refs show_obj result; found_names = discovery_meta_names result;
          names_entry = (\<lambda>k v. case v of None \<Rightarrow> [] | Some ns \<Rightarrow> [(k, py_values ns)])
      in [(''row_count'', tm_row_count m), (''returned_count'', tm_returned_count m), (''truncated'', PBool (tm_truncated m)),
          (''source'', PStr (ce_source env)), (''sensitivity'', PStr (sensitivity_value (ce_sensitivity env))),
          (''integrity'', PStr (integrity_value (ce_integrity env))), (''status'', PStr status),
          (''as_of'', opt_obj PStr (tm_as_of m))]
         @ (if refs \<noteq> [] then [(''source_refs'', PDict refs)] else [])
         @ (if name \<in> {''search_tools'', ''browse_tools''}
            then names_entry ''matches'' (fst found_names) @ names_entry ''tools'' (snd found_names) else []))"

section \<open>Environment and state\<close>

record gateway_env =
  ge_now :: rat
  ge_utc :: instant
  ge_fromiso :: iso_parser
  ge_dumps :: "pyobj \<Rightarrow> string"
  ge_dumps_sorted :: "pyobj \<Rightarrow> string"
  ge_show :: "pyobj \<Rightarrow> string"
  ge_params :: "string \<Rightarrow> pyobj"
  ge_resolve :: "string \<Rightarrow> string option"
  ge_render :: "json_dict \<Rightarrow> int \<Rightarrow> string"
  ge_decoders :: decoders
  ge_digest :: "string \<Rightarrow> string"
  ge_handler :: "store handler"
  ge_root :: string

text \<open>What the bridge passes with a call.\<close>

record pi_call =
  ca_data_root :: "string option"
  ca_as_of :: "string option"
  ca_session :: "string option"
  ca_job :: "string option"

record pi_session =
  ps_research_session :: "string option"
  ps_research_job :: "string option"
  ps_run :: run_security
  ps_budget :: execution_budget
  ps_events :: "(string \<times> string) list"

definition new_pi_session :: "bool \<Rightarrow> bool \<Rightarrow> rat \<Rightarrow> pi_session" where
  "new_pi_session grant private_seen now =
     \<lparr>ps_research_session = None, ps_research_job = None,
      ps_run = \<lparr>rs_request = fst (classify_intent []), rs_permitted_domains = snd (classify_intent []), rs_portfolio_read = grant,
        rs_data_labels = (if private_seen then [''private''] else []), rs_quarantined_items = 0, rs_source_policy = PNone\<rparr>,
      ps_budget = new_budget (li_max_tool_calls default_run_limits) None (li_max_evidence_tokens default_run_limits) None now,
      ps_events = []\<rparr>"

record gateway =
  gw_pi :: pi_session
  gw_store :: store

definition record_security :: "string \<Rightarrow> string \<Rightarrow> gateway \<Rightarrow> gateway" where
  "record_security source decision g = g\<lparr>gw_pi := (gw_pi g)\<lparr>ps_events := ps_events (gw_pi g) @ [(source, decision)]\<rparr>\<rparr>"

definition override_context :: "gateway_env \<Rightarrow> pi_call \<Rightarrow> string option \<Rightarrow> request_context" where
  "override_context env call rsid =
     (let with_root = (\<lambda>path. (local_context (ge_root env))\<lparr>rc_data_root := path, rc_as_of := ca_as_of call,
             rc_research_session_id := rsid\<rparr>)
      in case ca_data_root call of
           Some path \<Rightarrow>
             if path = [] then (if ca_as_of call = None \<and> rsid = None then local_context (ge_root env) else with_root (ge_root env))
             else if hd path \<noteq> CHR ''/'' then (if ca_as_of call \<noteq> None then with_root (ge_root env) else local_context (ge_root env))
             else with_root path
         | None \<Rightarrow> if ca_as_of call = None \<and> rsid = None then local_context (ge_root env) else with_root (ge_root env))"

section \<open>\<open>call_tool\<close>\<close>

definition call_tool_forbidden :: "string list" where
  "call_tool_forbidden = [''call_tool'', ''browse_tools'', ''search_tools'', ''list_tool_domains'', ''describe_tool'']"

definition is_tool :: "string \<Rightarrow> bool" where
  "is_tool name \<longleftrightarrow> dget tool_schemas name \<noteq> None"

definition as_mapping :: "pyobj \<Rightarrow> pyobj" where
  "as_mapping arguments = (case arguments of PDict d \<Rightarrow> arguments | _ \<Rightarrow> PDict [])"

definition call_tool_parts :: "pyobj \<Rightarrow> pyobj \<times> pyobj" where
  "call_tool_parts arguments = (case arguments of
       PDict d \<Rightarrow> (obj_get d ''name'', case obj_get d ''arguments'' of PNone \<Rightarrow> PDict [] | v \<Rightarrow> v)
     | _ \<Rightarrow> (PNone, PDict []))"

definition outer_error :: "(string \<Rightarrow> pyobj) \<Rightarrow> pyobj \<Rightarrow> string \<Rightarrow> json_dict" where
  "outer_error params arguments message = invalid_args_error params ''call_tool''
     (case validate_tool_arguments ''call_tool'' (as_mapping arguments) of Some m \<Rightarrow> m | None \<Rightarrow> message)"

text \<open>\<open>Inl\<close> is the ready-made error.\<close>

definition unwrap_call_tool :: "(string \<Rightarrow> pyobj) \<Rightarrow> pyobj \<Rightarrow> json_dict + (string \<times> json_dict)" where
  "unwrap_call_tool params arguments = (case call_tool_parts arguments of (raw_inner, inner_args) \<Rightarrow>
     (case nonblank (str_of raw_inner) of
        None \<Rightarrow> Inl (outer_error params arguments (''call_tool: '' @ quoted ''name'' @ '' must be a non-empty string''))
      | Some inner \<Rightarrow>
          (case inner_args of
             PDict d \<Rightarrow>
               if inner \<in> set call_tool_forbidden
               then Inl (invalid_args_error params ''call_tool'' (''Tool '' @ quoted inner @ '' cannot be called via call_tool; call browse_tools to find the exact canonical name, then call_tool with a research tool name''))
               else if \<not> is_tool inner then Inl (unknown_tool_error inner)
               else Inr (inner, d)
           | _ \<Rightarrow> Inl (outer_error params arguments (''call_tool: '' @ quoted ''arguments'' @ '' must be an object'')))))"

section \<open>Company names\<close>

definition pick_id_key :: "string list \<Rightarrow> string list \<Rightarrow> string option" where
  "pick_id_key required properties = (case filter (\<lambda>k. k \<in> set required \<and> k \<in> set properties) [''ticker'', ''entity''] of
       k # _ \<Rightarrow> Some k
     | [] \<Rightarrow> List.find (\<lambda>k. k \<in> set properties) [''ticker'', ''entity''])"

definition blank_obj :: "pyobj \<Rightarrow> bool" where
  "blank_obj v \<longleftrightarrow> nonblank (str_of v) = None"

definition resolve_company_arguments :: "(string \<Rightarrow> string option) \<Rightarrow> string \<Rightarrow> json_dict \<Rightarrow> json_dict" where
  "resolve_company_arguments resolve name args =
     (case tool_schema name of (required, properties) \<Rightarrow>
        (case pick_id_key required properties of
           None \<Rightarrow> args
         | Some key \<Rightarrow>
             if ''company_name'' \<notin> set properties \<or> \<not> blank_obj (obj_get args key) \<or> blank_obj (obj_get args ''company_name'')
             then args
             else (case resolve (str_of (obj_get args ''company_name'')) of
                     Some ticker \<Rightarrow> if ticker \<noteq> [] then dset key (PStr ticker) args else args
                   | None \<Rightarrow> args)))"

section \<open>The gates before a tool runs\<close>

record staged_context =
  sg_session :: "string option"
  sg_job :: "string option"
  sg_explicit :: bool

definition id_of :: "pyobj \<Rightarrow> string option" where
  "id_of v = (case v of PStr s \<Rightarrow> if s \<noteq> [] then Some s else None | _ \<Rightarrow> None)"

definition explicit_staged_ids :: "pyobj \<Rightarrow> string option \<times> string option" where
  "explicit_staged_ids arguments = (case arguments of
       PDict d \<Rightarrow> (id_of (obj_get d ''session_id''), id_of (obj_get d ''job_id'')) | _ \<Rightarrow> (None, None))"

definition given_id :: "string option \<Rightarrow> string option" where
  "given_id v = (case v of Some s \<Rightarrow> if s \<noteq> [] then Some s else None | None \<Rightarrow> None)"

definition first_id :: "string option list \<Rightarrow> string option" where
  "first_id vs = (case List.map_filter id vs of [] \<Rightarrow> None | s # _ \<Rightarrow> Some s)"

definition resolve_staged_context :: "pi_call \<Rightarrow> pi_session \<Rightarrow> pyobj \<Rightarrow> staged_context" where
  "resolve_staged_context call ps arguments =
     (let explicit = explicit_staged_ids arguments
      in \<lparr>sg_session = first_id [fst explicit, given_id (ca_session call), given_id (ps_research_session ps)],
          sg_job = first_id [snd explicit, given_id (ca_job call), given_id (ps_research_job ps)],
          sg_explicit = (fst explicit \<noteq> None)\<rparr>)"

fun err_text :: "py_error \<Rightarrow> string" where
  "err_text (ValueError m) = m"
| "err_text (TypeError m) = m"
| "err_text (KeyError m) = m"
| "err_text (AssertionError m) = m"
| "err_text (InvalidOperation m) = m"
| "err_text (DivisionByZero m) = m"
| "err_text (OverflowError m) = m"
| "err_text (FreezeIntegrityError m) = m"
| "err_text (ModelOutputFailure m) = m"
| "err_text (EvidenceIntegrityError m) = m"
| "err_text (EvidenceNotFoundError m) = m"
| "err_text (EvidenceRejectedError c m) = m"

definition plain_error :: "string \<Rightarrow> json_dict" where
  "plain_error message = [(''error'', PStr message)]"

definition check_staged_session :: "string \<Rightarrow> staged_context \<Rightarrow> store \<Rightarrow> json_dict option" where
  "check_staged_session name staged st = (case sg_session staged of
       None \<Rightarrow> None
     | Some sid \<Rightarrow>
         (case dget (st_sessions st) sid of
            None \<Rightarrow> if \<not> sg_explicit staged
              then Some (tool_error (''Unknown research session '' @ quoted sid) ''invalid_research_context'') else None
          | Some sess \<Rightarrow>
              if name \<in> set discovery_tools then None
              else (case check_stage_tool (stage_for_session sess (list_jobs st sid)) name of
                      Err e \<Rightarrow> Some (plain_error (err_text e)) | Ok _ \<Rightarrow> None)))"

definition check_permit_and_schema :: "gateway_env \<Rightarrow> string \<Rightarrow> pyobj \<Rightarrow> gateway \<Rightarrow> gateway \<times> json_dict option" where
  "check_permit_and_schema env name arguments g =
     (if name \<notin> set research_tool_names \<or> \<not> tool_is_permitted name (local_context (ge_root env))
      then (record_security name ''action_blocked'' g, Some (plain_error (''Tool is not permitted: '' @ name)))
      else case validate_tool_arguments name arguments of
          Some message \<Rightarrow> (g, Some (invalid_args_error (ge_params env) name message))
        | None \<Rightarrow>
            if int (length (ge_dumps env arguments)) > tp_max_arguments_bytes default_tool_policy
            then (g, Some (tool_error (''Tool arguments exceed the maximum size: '' @ name) ''invalid_tool_arguments''))
            else (g, None))"

text \<open>The flag says whether a slot of the kernel was consumed.\<close>

definition gate_dispatch_budget :: "gateway_env \<Rightarrow> string \<Rightarrow> staged_context \<Rightarrow> json_dict \<Rightarrow> store \<Rightarrow> store \<times> bool \<times> json_dict option" where
  "gate_dispatch_budget env name staged args st =
     (if name \<notin> set dispatch_tools then (st, False, None)
      else case sg_session staged of
          None \<Rightarrow> (st, False, None)
        | Some sid \<Rightarrow>
            (case sg_job staged of
               None \<Rightarrow> (st, False, Some (tool_error (''Active research job is required for tool '' @ quoted name) ''invalid_research_context''))
             | Some jid \<Rightarrow>
                 (case authorize_and_consume_dispatch (ge_show env) (ge_dumps_sorted env) (ge_fromiso env) (ge_utc env) sid jid name (Some args) st of
                    (st1, Ok _) \<Rightarrow> (st1, True, None)
                  | (st1, Err (KeyError m)) \<Rightarrow> (st1, False, Some (tool_error m ''invalid_research_context''))
                  | (st1, Err e) \<Rightarrow> (st1, False, Some (plain_error (err_text e))))))"

definition heartbeat_staged_job :: "gateway_env \<Rightarrow> string \<Rightarrow> staged_context \<Rightarrow> store \<Rightarrow> store" where
  "heartbeat_staged_job env name staged st = (case (sg_session staged, sg_job staged) of
       (Some _, Some jid) \<Rightarrow> if name \<in> set dispatch_tools \<or> name \<in> set control_tools then fst (heartbeat_job (ge_utc env) jid st) else st
     | _ \<Rightarrow> st)"

definition reserve_run_budget :: "gateway_env \<Rightarrow> string \<Rightarrow> bool \<Rightarrow> execution_budget \<Rightarrow> execution_budget \<times> bool" where
  "reserve_run_budget env name dispatch_consumed b =
     (if dispatch_consumed then (b, True)
      else if name \<noteq> ''search_web'' then reserve_tool_call (ge_now env) b
      else reserve_search_call (ge_now env) b)"

definition run_budget_refusal :: "gateway_env \<Rightarrow> string \<Rightarrow> execution_budget \<Rightarrow> json_dict" where
  "run_budget_refusal env name b =
     (if (case runtime_remaining (ge_now env) b of None \<Rightarrow> False | Some t \<Rightarrow> t \<le> 0)
      then tool_error ''Pi run runtime budget exceeded'' ''deadline_exceeded''
      else if name = ''search_web'' then tool_error ''Pi run search budget exceeded'' ''run_budget_exceeded''
      else tool_error ''Pi run tool budget exceeded'' ''run_budget_exceeded'')"

definition gate_sets :: "store \<Rightarrow> execution_budget \<Rightarrow> gateway \<Rightarrow> gateway" where
  "gate_sets st b g = g\<lparr>gw_pi := (gw_pi g)\<lparr>ps_budget := b\<rparr>, gw_store := st\<rparr>"

text \<open>\<open>Inl\<close> is the answer of a gate that refuses.\<close>

definition run_pre_gates :: "gateway_env \<Rightarrow> pi_call \<Rightarrow> string \<Rightarrow> pyobj \<Rightarrow> gateway \<Rightarrow> gateway \<times> (json_dict + staged_context)" where
  "run_pre_gates env call name arguments g =
     (let staged = resolve_staged_context call (gw_pi g) arguments
      in case check_staged_session name staged (gw_store g) of
          Some e \<Rightarrow> (g, Inl e)
        | None \<Rightarrow>
            (case check_permit_and_schema env name arguments g of
               (g1, Some e) \<Rightarrow> (g1, Inl e)
             | (g1, None) \<Rightarrow>
                 (case gate_dispatch_budget env name staged (case arguments of PDict d \<Rightarrow> d | _ \<Rightarrow> []) (gw_store g1) of
                    (st, _, Some e) \<Rightarrow> (gate_sets st (ps_budget (gw_pi g1)) g1, Inl e)
                  | (st, consumed, None) \<Rightarrow>
                      (case reserve_run_budget env name consumed (ps_budget (gw_pi g1)) of
                         (b, granted) \<Rightarrow>
                           (gate_sets (heartbeat_staged_job env name staged st) b g1,
                            if granted then Inr staged else Inl (run_budget_refusal env name b))))))"

definition thesis_local_tools :: "string list" where
  "thesis_local_tools = [''thesis_create'', ''thesis_show'', ''thesis_refine'', ''thesis_watch'', ''thesis_journal'']"

definition check_search_egress :: "gateway_env \<Rightarrow> string \<Rightarrow> pyobj \<Rightarrow> gateway \<Rightarrow> gateway \<times> json_dict option" where
  "check_search_egress env name arguments g =
     (case authorize_egress (ge_dumps_sorted env) ''exa'' arguments (ps_run (gw_pi g)) of
        None \<Rightarrow> (g, None)
      | Some _ \<Rightarrow> (record_security name ''egress_blocked'' g,
          Some (soft ''Egress blocked: private data must not leave Stockbot'' ''egress_denied'')))"

definition check_egress_or_private :: "gateway_env \<Rightarrow> string \<Rightarrow> pyobj \<Rightarrow> gateway \<Rightarrow> gateway \<times> json_dict option" where
  "check_egress_or_private env name arguments g =
     (if name = ''search_web'' then check_search_egress env name arguments g
      else if name \<in> set thesis_local_tools then (g, None)
      else case private_pattern_hit (ge_dumps_sorted env arguments) of
          None \<Rightarrow> (g, None)
        | Some _ \<Rightarrow> (record_security name ''action_blocked'' g,
            Some (soft ''Tool arguments contain private data that must not be transmitted'' ''private_args_denied'')))"

definition check_intent_and_egress :: "gateway_env \<Rightarrow> string \<Rightarrow> pyobj \<Rightarrow> gateway \<Rightarrow> gateway \<times> json_dict option" where
  "check_intent_and_egress env name arguments g =
     (case authorize_tool_call name arguments (ps_run (gw_pi g)) of
        Some _ \<Rightarrow> (record_security name ''action_blocked'' g,
          Some (if dget tool_domains name = Some ''portfolio_read''
                then soft ''Portfolio access is not authorized for this session'' ''authorization_denied''
                else soft ''Tool call exceeds original user intent'' ''intent_denied''))
      | None \<Rightarrow> check_egress_or_private env name arguments g)"

section \<open>The result\<close>

text \<open>\<open>str.splitlines\<close> on ASCII text.\<close>

definition line_break :: "char \<Rightarrow> bool" where
  "line_break c \<longleftrightarrow> of_char c \<in> {10, 11, 12, 13, 28, 29, 30 :: int}"

fun splitlines :: "string \<Rightarrow> string list" where
  "splitlines [] = []"
| "splitlines (c # cs) =
     (if c = CHR 0x0D \<and> cs \<noteq> [] \<and> hd cs = CHR 0x0A then [] # splitlines (tl cs)
      else if line_break c then [] # splitlines cs
      else case splitlines cs of [] \<Rightarrow> [[c]] | l # ls \<Rightarrow> (c # l) # ls)"

definition unavailable_data_response :: "gateway_env \<Rightarrow> string \<Rightarrow> json_dict \<Rightarrow> string" where
  "unavailable_data_response env name result = join [CHR 0x0A]
     ([''The requested data is unavailable: one or more tool calls failed or returned no data, so the exact values cannot be provided. No values are estimated, derived, or substituted.'', [],
       ''Tool: '' @ name] @ map (\<lambda>l. ''  '' @ l) (splitlines (ge_render env result (li_max_tool_result_bytes default_run_limits))) @
      [[], ''Next step: correct the request (dataset, fields, filters, or credentials) and retry, or use a different dataset/source. The error above states exactly what failed.''])"

definition failed_dict :: "json_dict \<Rightarrow> bool" where
  "failed_dict result \<longleftrightarrow> truthy (obj_get result ''error'')"

definition text_of :: "(pyobj \<Rightarrow> string) \<Rightarrow> pyobj \<Rightarrow> string" where
  "text_of show_obj v = (case v of PStr s \<Rightarrow> s | _ \<Rightarrow> show_obj v)"

definition failure_error_type :: "(pyobj \<Rightarrow> string) \<Rightarrow> json_dict \<Rightarrow> string option" where
  "failure_error_type show_obj result =
     (let denied = sublist ''not permitted'' (text_of show_obj (obj_get result ''error''))
      in case (if truthy (obj_get result ''error_type'') then obj_get result ''error_type''
               else PStr (if denied then ''permission_denied'' else ''tool_error'')) of
           PStr s \<Rightarrow> Some s | _ \<Rightarrow> None)"

definition failed_result_response :: "gateway_env \<Rightarrow> string \<Rightarrow> json_dict \<Rightarrow> json_dict" where
  "failed_result_response env name result =
     (if obj_get result ''soft'' = PBool True then result
      else tool_error (unavailable_data_response env name result)
             (case failure_error_type (ge_show env) result of Some t \<Rightarrow> if t \<noteq> [] then t else ''tool_error'' | None \<Rightarrow> ''tool_error''))"

definition add_label :: "string \<Rightarrow> run_security \<Rightarrow> run_security" where
  "add_label l rs = rs\<lparr>rs_data_labels := (if l \<in> set (rs_data_labels rs) then rs_data_labels rs else rs_data_labels rs @ [l])\<rparr>"

definition ingress_blocked :: json_dict where
  "ingress_blocked = soft ''Tool result withheld by Stockbot security gateway. No usable evidence was provided.'' ''ingress_blocked''"

definition withhold :: "quarantined \<Rightarrow> gateway \<Rightarrow> gateway" where
  "withhold q g = (let ps = gw_pi g in record_security (ce_source (qc_envelope q))
     (if qc_verdict q = QUARANTINE then ''quarantined'' else ''blocked'')
     (g\<lparr>gw_pi := ps\<lparr>ps_run := (ps_run ps)\<lparr>rs_quarantined_items := rs_quarantined_items (ps_run ps) + 1\<rparr>\<rparr>\<rparr>))"

definition ingress_outcome :: "gateway_env \<Rightarrow> string \<Rightarrow> json_dict \<Rightarrow> ingress" where
  "ingress_outcome env name result = prepare_context (ge_decoders env) (envelope_for_tool name (PDict result))
     (ge_render env result (li_max_tool_result_bytes default_run_limits))"

definition dlp_and_labels :: "gateway_env \<Rightarrow> string \<Rightarrow> string \<Rightarrow> context_envelope \<Rightarrow> gateway \<Rightarrow> gateway \<times> string \<times> bool" where
  "dlp_and_labels env name text env' g =
     (let ps = gw_pi g;
          final = fst (guard_response (ge_digest env) (rs_portfolio_read (ps_run ps)) text);
          rs1 = (if name = ''search_web'' then add_label ''external'' (ps_run ps) else ps_run ps);
          rs2 = (if ce_sensitivity env' = PRIVATE then add_label ''private'' rs1 else rs1);
          billed = add_evidence_tokens (int (length final) div 4) (ps_budget ps)
      in (g\<lparr>gw_pi := ps\<lparr>ps_run := rs2, ps_budget := fst billed\<rparr>\<rparr>, final, snd billed))"

definition finalize_success :: "gateway_env \<Rightarrow> string \<Rightarrow> json_dict \<Rightarrow> gateway \<Rightarrow> gateway \<times> json_dict" where
  "finalize_success env name result g =
     (case ingress_outcome env name result of
        Held q \<Rightarrow> (withhold q g, ingress_blocked)
      | Safe env' text \<Rightarrow>
          (case dlp_and_labels env name text env' g of
             (g1, final, allowed) \<Rightarrow>
               (g1, if allowed
                    then [(''content'', PStr final), (''meta'', PDict (success_meta (ge_show env) name result env' ''completed''))]
                    else tool_error ''Pi evidence-token budget exceeded'' ''evidence_budget_exceeded'')))"

section \<open>One tool call\<close>

definition run_tool :: "gateway_env \<Rightarrow> pi_call \<Rightarrow> string \<Rightarrow> pyobj \<Rightarrow> staged_context \<Rightarrow> gateway \<Rightarrow> gateway \<times> json_dict" where
  "run_tool env call name arguments staged g =
     (case execute_tool (ge_fromiso env) (ge_params env) (ge_handler env) name arguments
             (override_context env call (sg_session staged)) (gw_store g) of
        (st, result) \<Rightarrow>
          (let g1 = g\<lparr>gw_store := st\<rparr>
           in if failed_dict result then (g1, failed_result_response env name result)
              else finalize_success env name result g1))"

definition execute_inner :: "gateway_env \<Rightarrow> pi_call \<Rightarrow> string \<Rightarrow> pyobj \<Rightarrow> gateway \<Rightarrow> gateway \<times> json_dict" where
  "execute_inner env call name arguments g =
     (let args = (case arguments of PDict d \<Rightarrow> PDict (resolve_company_arguments (ge_resolve env) name d) | _ \<Rightarrow> arguments)
      in case run_pre_gates env call name args g of
           (g1, Inl answer) \<Rightarrow> (g1, answer)
         | (g1, Inr staged) \<Rightarrow>
             (case check_intent_and_egress env name args g1 of
                (g2, Some answer) \<Rightarrow> (g2, answer)
              | (g2, None) \<Rightarrow> run_tool env call name args staged g2))"

text \<open>The wrapped tool is never \<open>call_tool\<close> itself, so the tail call recurs once.\<close>

definition execute_pi_tool :: "gateway_env \<Rightarrow> pi_call \<Rightarrow> string \<Rightarrow> pyobj \<Rightarrow> gateway \<Rightarrow> gateway \<times> json_dict" where
  "execute_pi_tool env call name arguments g =
     (if name = ''call_tool''
      then (case unwrap_call_tool (ge_params env) arguments of
              Inl answer \<Rightarrow> (g, answer)
            | Inr (inner, args) \<Rightarrow> execute_inner env call inner (PDict args) g)
      else execute_inner env call name arguments g)"

section \<open>Refusals\<close>

lemma refusals_have_error [simp]:
  "dget (tool_error m k) ''error'' = Some (PStr m)" "dget (soft m k) ''error'' = Some (PStr m)"
  "dget (plain_error m) ''error'' = Some (PStr m)" "dget (invalid_args_error params name m) ''error'' = Some (PStr m)"
  "dget (unknown_tool_error name) ''error'' = Some (PStr (''unknown_tool '' @ quoted name))"
  "dget ingress_blocked ''error'' \<noteq> None"
  by (simp_all add: soft_def tool_error_def plain_error_def invalid_args_error_def unknown_tool_error_def ingress_blocked_def)

lemma failed_has_error:
  assumes "failed_dict result"
  shows "dget (failed_result_response env name result) ''error'' \<noteq> None"
proof -
  have "dget result ''error'' \<noteq> None"
    using assms by (auto simp: failed_dict_def obj_get_def dget_default_def split: option.splits)
  then show ?thesis by (simp add: failed_result_response_def)
qed

lemma unwrap_refusal: "unwrap_call_tool params arguments = Inl answer \<Longrightarrow> dget answer ''error'' \<noteq> None"
  by (auto simp: unwrap_call_tool_def outer_error_def split: prod.splits option.splits pyobj.splits if_splits)

lemma staged_refusal: "check_staged_session name staged st = Some e \<Longrightarrow> dget e ''error'' \<noteq> None"
  by (auto simp: check_staged_session_def split: option.splits if_splits sum.splits)

lemma permit_refusal: "check_permit_and_schema env name arguments g = (g1, Some e) \<Longrightarrow> dget e ''error'' \<noteq> None"
  by (auto simp: check_permit_and_schema_def split: option.splits if_splits)

lemma permit_Ok:
  assumes "check_permit_and_schema env name arguments g = (g1, None)"
  shows "g1 = g" "name \<in> set research_tool_names" "tool_is_permitted name (local_context (ge_root env))"
    "validate_tool_arguments name arguments = None" "\<exists>args. arguments = PDict args"
proof -
  show "g1 = g" "name \<in> set research_tool_names" "tool_is_permitted name (local_context (ge_root env))"
    and valid: "validate_tool_arguments name arguments = None"
    using assms by (auto simp: check_permit_and_schema_def split: option.splits if_splits)
  show "\<exists>args. arguments = PDict args"
    using valid by (cases arguments) (simp_all add: validate_tool_arguments_def)
qed

lemma dispatch_refusal:
  assumes "gate_dispatch_budget env name staged args st = (st1, consumed, Some e)"
  shows "dget e ''error'' \<noteq> None"
proof (cases "sg_session staged")
  case None
  with assms show ?thesis by (simp add: gate_dispatch_budget_def split: if_splits)
next
  case (Some sid)
  show ?thesis
  proof (cases "sg_job staged")
    case None
    with assms Some show ?thesis by (auto simp: gate_dispatch_budget_def split: if_splits)
  next
    case (Some jid)
    with assms \<open>sg_session staged = Some sid\<close> show ?thesis
      by (auto simp: gate_dispatch_budget_def split: if_splits prod.splits sum.splits py_error.splits)
  qed
qed

lemma dispatch_granted:
  assumes "gate_dispatch_budget env name staged args st = (st1, consumed, None)"
    and "name \<in> set dispatch_tools" and "sg_session staged = Some sid"
  shows "consumed \<and> (\<exists>jid receipt. sg_job staged = Some jid
    \<and> authorize_and_consume_dispatch (ge_show env) (ge_dumps_sorted env) (ge_fromiso env) (ge_utc env) sid jid name (Some args) st
        = (st1, Ok receipt))"
proof (cases "sg_job staged")
  case None
  with assms show ?thesis by (simp add: gate_dispatch_budget_def)
next
  case (Some jid)
  obtain st2 r where r: "authorize_and_consume_dispatch (ge_show env) (ge_dumps_sorted env) (ge_fromiso env) (ge_utc env) sid jid name
      (Some args) st = (st2, r)" by (rule prod.exhaust)
  with assms Some show ?thesis
    by (cases r) (auto simp: gate_dispatch_budget_def split: py_error.splits)
qed

lemma budget_refusal: "dget (run_budget_refusal env name b) ''error'' \<noteq> None"
  by (auto simp: run_budget_refusal_def split: option.splits)

lemma intent_refusal: "check_intent_and_egress env name arguments g = (g1, Some e) \<Longrightarrow> dget e ''error'' \<noteq> None"
  by (auto simp: check_intent_and_egress_def check_egress_or_private_def check_search_egress_def split: option.splits if_splits)

lemma intent_Ok:
  assumes "check_intent_and_egress env name arguments g = (g1, None)"
  shows "g1 = g" "authorize_tool_call name arguments (ps_run (gw_pi g)) = None"
    "name = ''search_web'' \<Longrightarrow> authorize_egress (ge_dumps_sorted env) ''exa'' arguments (ps_run (gw_pi g)) = None"
    "name \<noteq> ''search_web'' \<Longrightarrow> name \<notin> set thesis_local_tools \<Longrightarrow> private_pattern_hit (ge_dumps_sorted env arguments) = None"
  using assms
  by (auto simp: check_intent_and_egress_def check_egress_or_private_def check_search_egress_def split: option.splits if_splits)

section \<open>What passes the gates\<close>

lemma pre_gates_refusal: "run_pre_gates env call name arguments g = (g1, Inl e) \<Longrightarrow> dget e ''error'' \<noteq> None"
  unfolding run_pre_gates_def Let_def
  by (auto split: option.splits prod.splits if_splits dest: staged_refusal permit_refusal dispatch_refusal
      intro: budget_refusal [THEN not_None_eq [THEN iffD1]])

lemma pre_gates_pass:
  assumes "run_pre_gates env call name arguments g = (g1, Inr staged)"
  obtains args st consumed b where "arguments = PDict args" "staged = resolve_staged_context call (gw_pi g) arguments"
    "check_staged_session name staged (gw_store g) = None"
    "name \<in> set research_tool_names" "tool_is_permitted name (local_context (ge_root env))"
    "gate_dispatch_budget env name staged args (gw_store g) = (st, consumed, None)"
    "reserve_run_budget env name consumed (ps_budget (gw_pi g)) = (b, True)"
    "g1 = gate_sets (heartbeat_staged_job env name staged st) b g"
proof -
  let ?staged = "resolve_staged_context call (gw_pi g) arguments"
  note res = assms [unfolded run_pre_gates_def Let_def]
  have unstaged: "check_staged_session name ?staged (gw_store g) = None" using res by (auto split: option.splits)
  obtain g2 e where permit: "check_permit_and_schema env name arguments g = (g2, e)" by (rule prod.exhaust)
  have e: "e = None" using res unstaged permit by (auto split: option.splits)
  note permitted = permit_Ok [OF permit [unfolded e]]
  obtain args where args: "arguments = PDict args" using permitted(5) by blast
  obtain st consumed e' where dispatch: "gate_dispatch_budget env name ?staged args (gw_store g) = (st, consumed, e')"
    by (rule prod_cases3)
  have e': "e' = None" using res unstaged permit e args dispatch permitted(1) by (auto split: option.splits)
  obtain b granted where reserve: "reserve_run_budget env name consumed (ps_budget (gw_pi g)) = (b, granted)" by (rule prod.exhaust)
  have "granted \<and> staged = ?staged \<and> g1 = gate_sets (heartbeat_staged_job env name ?staged st) b g"
    using res unstaged permit e args dispatch e' reserve permitted(1) by (auto split: if_splits)
  then have passed: "granted" "staged = ?staged" "g1 = gate_sets (heartbeat_staged_job env name ?staged st) b g" by simp_all
  show ?thesis
    by (rule that [OF args passed(2)]) (use unstaged permitted dispatch e' reserve passed in simp_all)
qed

definition evidence_within :: "execution_budget \<Rightarrow> bool" where
  "evidence_within b \<longleftrightarrow> (case eb_max_evidence_tokens b of None \<Rightarrow> True | Some m \<Rightarrow> eb_evidence_tokens b \<le> m)"

lemma evidence_granted: "snd (add_evidence_tokens n b) \<Longrightarrow> evidence_within (fst (add_evidence_tokens n b))"
  by (auto simp: evidence_within_def add_evidence_tokens_def split: option.splits if_splits)

lemma prepare_context_Safe:
  "prepare_context dc env t = Safe env' t' \<Longrightarrow> t' = t \<and> ce_sensitivity env' = ce_sensitivity env \<and> ce_sensitivity env \<noteq> SECRET
     \<and> secret_pattern_hits t = [] \<and> as_verdict (assess dc t) = ALLOW"
  by (auto simp: prepare_context_def Let_def split: if_splits)

lemma finalize_outcome:
  assumes "finalize_success env name result g = (g1, r)"
  shows "dget r ''error'' \<noteq> None \<or> (\<exists>env' meta. ingress_outcome env name result = Safe env' (ge_render env result (li_max_tool_result_bytes default_run_limits))
    \<and> r = [(''content'', PStr (fst (guard_response (ge_digest env) (rs_portfolio_read (ps_run (gw_pi g)))
              (ge_render env result (li_max_tool_result_bytes default_run_limits))))), (''meta'', PDict meta)]
    \<and> evidence_within (ps_budget (gw_pi g1)))"
proof (cases "ingress_outcome env name result")
  case (Held q)
  with assms show ?thesis by (auto simp: finalize_success_def)
next
  case (Safe env' rendered)
  have rendered: "rendered = ge_render env result (li_max_tool_result_bytes default_run_limits)"
    using prepare_context_Safe Safe [unfolded ingress_outcome_def] by blast
  let ?tokens = "int (length (fst (guard_response (ge_digest env) (rs_portfolio_read (ps_run (gw_pi g))) rendered))) div 4"
  show ?thesis
  proof (cases "snd (add_evidence_tokens ?tokens (ps_budget (gw_pi g)))")
    case False
    with assms Safe show ?thesis by (auto simp: finalize_success_def dlp_and_labels_def Let_def)
  next
    case True
    from evidence_granted [OF this]
    have "evidence_within (fst (add_evidence_tokens ?tokens (ps_budget (gw_pi g))))" .
    with assms Safe True rendered show ?thesis by (auto simp: finalize_success_def dlp_and_labels_def Let_def)
  qed
qed

lemma heartbeat_budget [simp]: "ps_run (gw_pi (gate_sets st b g)) = ps_run (gw_pi g)" "gw_store (gate_sets st b g) = st"
  by (simp_all add: gate_sets_def)

section \<open>What a call leaves unchanged\<close>

text \<open>
  No call widens the grant, the domains or the source policy of the session, and none adds the private
  label: the tools whose results carry it are not permitted here.
\<close>

definition run_frame :: "run_security \<Rightarrow> run_security \<Rightarrow> bool" where
  "run_frame rs rs1 \<longleftrightarrow> rs_source_policy rs1 = rs_source_policy rs \<and> rs_portfolio_read rs1 = rs_portfolio_read rs
     \<and> rs_permitted_domains rs1 = rs_permitted_domains rs
     \<and> (''private'' \<in> set (rs_data_labels rs1) \<longleftrightarrow> ''private'' \<in> set (rs_data_labels rs))"

lemma run_frame_refl [simp]: "run_frame rs rs"
  by (simp add: run_frame_def)

lemma run_frame_trans [trans]: "run_frame a b \<Longrightarrow> run_frame b c \<Longrightarrow> run_frame a c"
  by (simp add: run_frame_def)

lemma record_security_run [simp]: "ps_run (gw_pi (record_security source decision g)) = ps_run (gw_pi g)"
  "ps_budget (gw_pi (record_security source decision g)) = ps_budget (gw_pi g)"
  by (simp_all add: record_security_def)

lemma permitted_research: "tool_is_permitted n (local_context d) \<longleftrightarrow> dget tool_capabilities n = Some CAP_RESEARCH"
  by (auto simp: tool_is_permitted_def local_context_def split: option.splits)

lemma permitted_not_private:
  assumes "tool_is_permitted n (local_context d)"
  shows "ce_sensitivity (envelope_for_tool n result) \<noteq> PRIVATE"
proof -
  have "n \<notin> set portfolio_tools"
    using assms portfolio_lookups by (auto simp: permitted_research list_all_iff)
  then show ?thesis by (simp add: envelope_for_tool_labels)
qed

lemma finalize_frame:
  assumes "finalize_success env name result g = (g1, r)" and "ce_sensitivity (envelope_for_tool name (PDict result)) \<noteq> PRIVATE"
  shows "run_frame (ps_run (gw_pi g)) (ps_run (gw_pi g1)) \<and> budget_step\<^sup>*\<^sup>* (ps_budget (gw_pi g)) (ps_budget (gw_pi g1))"
proof (cases "ingress_outcome env name result")
  case (Held q)
  then show ?thesis using assms(1) by (auto simp: finalize_success_def withhold_def Let_def run_frame_def)
next
  case (Safe env' rendered)
  from prepare_context_Safe [OF this [unfolded ingress_outcome_def]] assms(2)
  have public: "ce_sensitivity env' \<noteq> PRIVATE" by simp
  obtain final where g1: "g1 = fst (dlp_and_labels env name rendered env' g)"
    and final: "final = fst (guard_response (ge_digest env) (rs_portfolio_read (ps_run (gw_pi g))) rendered)"
    using assms(1) by (auto simp: finalize_success_def Safe split: prod.splits)
  have "budget_step (ps_budget (gw_pi g)) (fst (add_evidence_tokens (int (length final) div 4) (ps_budget (gw_pi g))))"
    by (rule Evidence) simp
  then show ?thesis unfolding g1
    by (auto simp: dlp_and_labels_def Let_def final public run_frame_def add_label_def)
qed

lemma run_tool_frame:
  assumes "run_tool env call name arguments staged g = (g1, r)" and "tool_is_permitted name (local_context d)"
  shows "run_frame (ps_run (gw_pi g)) (ps_run (gw_pi g1)) \<and> budget_step\<^sup>*\<^sup>* (ps_budget (gw_pi g)) (ps_budget (gw_pi g1))"
proof -
  obtain st result where run: "execute_tool (ge_fromiso env) (ge_params env) (ge_handler env) name arguments
      (override_context env call (sg_session staged)) (gw_store g) = (st, result)" by (rule prod.exhaust)
  note res = assms(1) [unfolded run_tool_def run prod.case Let_def]
  show ?thesis
  proof (cases "failed_dict result")
    case True
    with res show ?thesis by auto
  next
    case False
    with res have "finalize_success env name result (g\<lparr>gw_store := st\<rparr>) = (g1, r)" by simp
    from finalize_frame [OF this permitted_not_private [OF assms(2)]] show ?thesis by simp
  qed
qed

lemma intent_frame:
  "check_intent_and_egress env name arguments g = (g1, e) \<Longrightarrow> ps_run (gw_pi g1) = ps_run (gw_pi g) \<and> ps_budget (gw_pi g1) = ps_budget (gw_pi g)"
  by (auto simp: check_intent_and_egress_def check_egress_or_private_def check_search_egress_def split: option.splits if_splits)

lemma reserve_steps:
  assumes "reserve_run_budget env name consumed b = (b1, granted)"
  shows "budget_step\<^sup>*\<^sup>* b b1"
proof -
  have "b1 = b \<or> b1 = fst (reserve_tool_call (ge_now env) b) \<or> b1 = fst (reserve_search_call (ge_now env) b)"
    using assms by (auto simp: reserve_run_budget_def split: if_splits)
  then show ?thesis using Tool [of b "ge_now env"] Search [of b "ge_now env"] by auto
qed

lemma pre_gates_frame:
  assumes "run_pre_gates env call name arguments g = (g1, p)"
  shows "ps_run (gw_pi g1) = ps_run (gw_pi g) \<and> budget_step\<^sup>*\<^sup>* (ps_budget (gw_pi g)) (ps_budget (gw_pi g1))"
proof -
  let ?staged = "resolve_staged_context call (gw_pi g) arguments"
  note res = assms [unfolded run_pre_gates_def Let_def]
  obtain g2 e where permit: "check_permit_and_schema env name arguments g = (g2, e)" by (rule prod.exhaust)
  have same: "ps_run (gw_pi g2) = ps_run (gw_pi g)" "ps_budget (gw_pi g2) = ps_budget (gw_pi g)"
    using permit by (auto simp: check_permit_and_schema_def split: if_splits option.splits)
  obtain st consumed e' where dispatch: "gate_dispatch_budget env name ?staged (case arguments of PDict d \<Rightarrow> d | _ \<Rightarrow> []) (gw_store g2)
      = (st, consumed, e')" by (rule prod_cases3)
  obtain b granted where reserve: "reserve_run_budget env name consumed (ps_budget (gw_pi g2)) = (b, granted)" by (rule prod.exhaust)
  have "g1 = g \<or> g1 = g2 \<or> g1 = gate_sets st (ps_budget (gw_pi g2)) g2
      \<or> g1 = gate_sets (heartbeat_staged_job env name ?staged st) b g2"
    using res permit dispatch reserve by (auto split: option.splits if_splits)
  moreover have "ps_budget (gw_pi (gate_sets st' b' g2)) = b'" for st' b' by (simp add: gate_sets_def)
  ultimately show ?thesis using reserve_steps [OF reserve] same by auto
qed

lemma inner_frame:
  assumes "execute_inner env call tool given g = (g1, r)"
  shows "run_frame (ps_run (gw_pi g)) (ps_run (gw_pi g1)) \<and> budget_step\<^sup>*\<^sup>* (ps_budget (gw_pi g)) (ps_budget (gw_pi g1))"
proof -
  let ?given = "case given of PDict d \<Rightarrow> PDict (resolve_company_arguments (ge_resolve env) tool d) | _ \<Rightarrow> given"
  note res = assms [unfolded execute_inner_def Let_def]
  obtain g0 p where pre: "run_pre_gates env call tool ?given g = (g0, p)" by (rule prod.exhaust)
  note pre_frame = pre_gates_frame [OF pre]
  show ?thesis
  proof (cases p)
    case (Inl answer)
    with res pre pre_frame show ?thesis by simp
  next
    case (Inr staged)
    from pre [unfolded Inr] have permitted: "tool_is_permitted tool (local_context (ge_root env))" by (rule pre_gates_pass)
    obtain g2 e where intent: "check_intent_and_egress env tool ?given g0 = (g2, e)" by (rule prod.exhaust)
    note same = intent_frame [OF intent]
    show ?thesis
    proof (cases e)
      case None
      with res pre Inr intent have "run_tool env call tool ?given staged g2 = (g1, r)" by simp
      from run_tool_frame [OF this permitted] same pre_frame show ?thesis by (auto intro: rtranclp_trans)
    next
      case (Some answer)
      with res pre Inr intent same pre_frame show ?thesis by simp
    qed
  qed
qed

text \<open>Any sequence of calls on a session.\<close>

inductive gateway_step :: "gateway \<Rightarrow> gateway \<Rightarrow> bool" where
  Called: "execute_pi_tool env call name arguments g = (g1, r) \<Longrightarrow> gateway_step g g1"

lemma gateway_step_frame:
  assumes "gateway_step g g1"
  shows "run_frame (ps_run (gw_pi g)) (ps_run (gw_pi g1)) \<and> budget_step\<^sup>*\<^sup>* (ps_budget (gw_pi g)) (ps_budget (gw_pi g1))"
  using assms
proof (cases rule: gateway_step.cases)
  case (Called env call name arguments r)
  then have "g1 = g \<or> (\<exists>tool given. execute_inner env call tool given g = (g1, r))"
    by (auto simp: execute_pi_tool_def split: if_splits sum.splits)
  then show ?thesis using inner_frame by auto
qed

lemma gateway_run_frame:
  "gateway_step\<^sup>*\<^sup>* g g1 \<Longrightarrow> run_frame (ps_run (gw_pi g)) (ps_run (gw_pi g1)) \<and> budget_step\<^sup>*\<^sup>* (ps_budget (gw_pi g)) (ps_budget (gw_pi g1))"
proof (induction rule: rtranclp_induct)
  case (step h k)
  from gateway_step_frame [OF step.hyps(2)] step.IH show ?case by (auto intro: run_frame_trans rtranclp_trans)
qed simp

text \<open>The source policy of the research session never reaches the gate that reads it.\<close>

lemma gateway_never_scoped:
  "gateway_step\<^sup>*\<^sup>* \<lparr>gw_pi = new_pi_session grant seen now, gw_store = st\<rparr> g \<Longrightarrow> rs_source_policy (ps_run (gw_pi g)) = PNone"
  by (drule gateway_run_frame) (simp add: run_frame_def new_pi_session_def)

section \<open>Properties\<close>

text \<open>The tool and the arguments a call is about.\<close>

definition called :: "gateway_env \<Rightarrow> string \<Rightarrow> pyobj \<Rightarrow> (string \<times> pyobj) option" where
  "called env name arguments = (if name = ''call_tool''
     then (case unwrap_call_tool (ge_params env) arguments of Inl _ \<Rightarrow> None | Inr (inner, args) \<Rightarrow> Some (inner, PDict args))
     else Some (name, arguments))"

definition completed_args :: "gateway_env \<Rightarrow> string \<Rightarrow> pyobj \<Rightarrow> json_dict" where
  "completed_args env tool arguments = (case arguments of PDict d \<Rightarrow> resolve_company_arguments (ge_resolve env) tool d | _ \<Rightarrow> [])"

definition gates_passed :: "gateway_env \<Rightarrow> pi_call \<Rightarrow> string \<Rightarrow> json_dict \<Rightarrow> gateway \<Rightarrow> store \<Rightarrow> bool" where
  "gates_passed env call tool args g st \<longleftrightarrow>
     (let staged = resolve_staged_context call (gw_pi g) (PDict args); rs = ps_run (gw_pi g)
      in tool \<in> set research_tool_names \<and> tool_is_permitted tool (local_context (ge_root env))
       \<and> check_staged_session tool staged (gw_store g) = None
       \<and> (case sg_session staged of None \<Rightarrow> True | Some sid \<Rightarrow> tool \<in> set dispatch_tools \<longrightarrow>
            (\<exists>jid receipt st0. sg_job staged = Some jid \<and> st = heartbeat_staged_job env tool staged st0
              \<and> authorize_and_consume_dispatch (ge_show env) (ge_dumps_sorted env) (ge_fromiso env) (ge_utc env) sid jid tool (Some args)
                  (gw_store g) = (st0, Ok receipt)))
       \<and> authorize_tool_call tool (PDict args) rs = None
       \<and> (tool = ''search_web'' \<longrightarrow> authorize_egress (ge_dumps_sorted env) ''exa'' (PDict args) rs = None)
       \<and> (tool \<noteq> ''search_web'' \<longrightarrow> tool \<notin> set thesis_local_tools \<longrightarrow> private_pattern_hit (ge_dumps_sorted env (PDict args)) = None))"

abbreviation rendered_result :: "gateway_env \<Rightarrow> json_dict \<Rightarrow> string" where
  "rendered_result env result \<equiv> ge_render env result (li_max_tool_result_bytes default_run_limits)"

definition delivered :: "gateway_env \<Rightarrow> pi_call \<Rightarrow> string \<Rightarrow> json_dict \<Rightarrow> gateway \<Rightarrow> gateway \<Rightarrow> json_dict \<Rightarrow> bool" where
  "delivered env call tool args g g1 r \<longleftrightarrow> (\<exists>st result env' meta.
     gates_passed env call tool args g st
     \<and> execute_tool (ge_fromiso env) (ge_params env) (ge_handler env) tool (PDict args)
         (override_context env call (sg_session (resolve_staged_context call (gw_pi g) (PDict args)))) st = (gw_store g1, result)
     \<and> \<not> failed_dict result \<and> ingress_outcome env tool result = Safe env' (rendered_result env result)
     \<and> r = [(''content'', PStr (fst (guard_response (ge_digest env) (rs_portfolio_read (ps_run (gw_pi g))) (rendered_result env result)))),
            (''meta'', PDict meta)]
     \<and> evidence_within (ps_budget (gw_pi g1)))"

lemma finalize_store: "finalize_success env name result g = (g1, r) \<Longrightarrow> gw_store g1 = gw_store g"
  by (auto simp: finalize_success_def withhold_def record_security_def dlp_and_labels_def Let_def split: ingress.splits)

lemma run_tool_outcome:
  assumes "run_tool env call tool arguments staged g = (g1, r)" and "dget r ''error'' = None"
  shows "\<exists>result env' meta. execute_tool (ge_fromiso env) (ge_params env) (ge_handler env) tool arguments
         (override_context env call (sg_session staged)) (gw_store g) = (gw_store g1, result)
     \<and> \<not> failed_dict result \<and> ingress_outcome env tool result = Safe env' (rendered_result env result)
     \<and> r = [(''content'', PStr (fst (guard_response (ge_digest env) (rs_portfolio_read (ps_run (gw_pi g))) (rendered_result env result)))),
            (''meta'', PDict meta)]
     \<and> evidence_within (ps_budget (gw_pi g1))"
proof -
  obtain st result where run: "execute_tool (ge_fromiso env) (ge_params env) (ge_handler env) tool arguments
      (override_context env call (sg_session staged)) (gw_store g) = (st, result)" by (rule prod.exhaust)
  note res = assms(1) [unfolded run_tool_def run prod.case Let_def]
  have ok: "\<not> failed_dict result"
  proof
    assume failed: "failed_dict result"
    with res have "r = failed_result_response env tool result" by simp
    with failed_has_error [OF failed, of env tool] assms(2) show False by simp
  qed
  then have final: "finalize_success env tool result (g\<lparr>gw_store := st\<rparr>) = (g1, r)" using res by simp
  from finalize_outcome [OF final] finalize_store [OF final] run ok assms(2) show ?thesis by auto
qed

lemma inner_outcome:
  assumes "execute_inner env call tool given g = (g1, r)" and "dget r ''error'' = None"
  shows "delivered env call tool (completed_args env tool given) g g1 r"
proof -
  let ?given = "case given of PDict d \<Rightarrow> PDict (resolve_company_arguments (ge_resolve env) tool d) | _ \<Rightarrow> given"
  note res = assms(1) [unfolded execute_inner_def Let_def]
  obtain g0 p where pre: "run_pre_gates env call tool ?given g = (g0, p)" by (rule prod.exhaust)
  obtain staged where p: "p = Inr staged"
    using res pre assms(2) pre_gates_refusal by (cases p) auto
  from pre [unfolded p] obtain args st consumed b where args: "?given = PDict args"
    and staged: "staged = resolve_staged_context call (gw_pi g) ?given"
    and gates: "check_staged_session tool staged (gw_store g) = None" "tool \<in> set research_tool_names"
      "tool_is_permitted tool (local_context (ge_root env))"
    and dispatch: "gate_dispatch_budget env tool staged args (gw_store g) = (st, consumed, None)"
    and g0: "g0 = gate_sets (heartbeat_staged_job env tool staged st) b g"
    by (rule pre_gates_pass)
  have completed: "args = completed_args env tool given"
    using args by (cases given) (simp_all add: completed_args_def)
  obtain g2 e where intent: "check_intent_and_egress env tool ?given g0 = (g2, e)" by (rule prod.exhaust)
  have e: "e = None" using res pre p intent assms(2) intent_refusal [of env tool ?given g0 g2] by (cases e) auto
  note allowed = intent_Ok [OF intent [unfolded e], unfolded args g0 heartbeat_budget]
  have "run_tool env call tool (PDict args) staged g0 = (g1, r)"
    using res pre p intent e allowed(1) args g0 by simp
  from run_tool_outcome [OF this assms(2)] have
    "\<exists>result env' meta. execute_tool (ge_fromiso env) (ge_params env) (ge_handler env) tool (PDict args)
         (override_context env call (sg_session staged)) (heartbeat_staged_job env tool staged st) = (gw_store g1, result)
     \<and> \<not> failed_dict result \<and> ingress_outcome env tool result = Safe env' (rendered_result env result)
     \<and> r = [(''content'', PStr (fst (guard_response (ge_digest env) (rs_portfolio_read (ps_run (gw_pi g))) (rendered_result env result)))),
            (''meta'', PDict meta)]
     \<and> evidence_within (ps_budget (gw_pi g1))"
    by (simp add: g0)
  moreover have "gates_passed env call tool args g (heartbeat_staged_job env tool staged st)"
    unfolding gates_passed_def Let_def staged [unfolded args, symmetric]
    using gates allowed(2-4) dispatch_granted [OF dispatch] by (auto split: option.split)
  ultimately show ?thesis unfolding delivered_def completed [symmetric] staged [unfolded args, symmetric] by blast
qed

text \<open>
  C1.  Whatever the model asks for, the answer either carries an error or is the content and metadata of
  a call that passed every gate: a permitted research tool in the session's stage, in a permitted domain
  and not denied, whose arguments may leave, with a slot of the kernel consumed for a data tool of an
  attached session; it is the rendered result of that tool, cleared by the ingress scan and passed
  through the response guard, and billed within the evidence budget.
\<close>

theorem gateway_delivers_scanned:
  assumes "execute_pi_tool env call name arguments g = (g1, r)"
  shows "dget r ''error'' \<noteq> None \<or> (\<exists>tool given. called env name arguments = Some (tool, given)
    \<and> delivered env call tool (completed_args env tool given) g g1 r)"
proof (cases "called env name arguments")
  case None
  with assms have "\<exists>answer. unwrap_call_tool (ge_params env) arguments = Inl answer \<and> r = answer"
    by (auto simp: called_def execute_pi_tool_def split: if_splits sum.splits)
  then show ?thesis using unwrap_refusal by blast
next
  case (Some c)
  obtain tool given where c: "c = (tool, given)" by (cases c)
  have "execute_inner env call tool given g = (g1, r)"
    using assms Some c by (auto simp: called_def execute_pi_tool_def split: if_splits sum.splits)
  with inner_outcome Some c show ?thesis by blast
qed

definition demo_env :: gateway_env where
  "demo_env = \<lparr>ge_now = 0, ge_utc = 0, ge_fromiso = demo_iso, ge_dumps = (\<lambda>_. ''{}''), ge_dumps_sorted = (\<lambda>_. ''{}''),
     ge_show = (\<lambda>_. []), ge_params = (\<lambda>_. PNone), ge_resolve = (\<lambda>_. None), ge_render = (\<lambda>_ _. ''ok''), ge_decoders = no_decoders,
     ge_digest = id, ge_handler = (\<lambda>_ _ _ s. (s, Returned [(''count'', PInt 1)])), ge_root = ''/d''\<rparr>"

definition demo_pi_call :: pi_call where
  "demo_pi_call = \<lparr>ca_data_root = None, ca_as_of = None, ca_session = None, ca_job = None\<rparr>"

definition demo_gateway :: "bool \<Rightarrow> gateway" where
  "demo_gateway seen = \<lparr>gw_pi = new_pi_session False seen 0, gw_store = demo_store\<rparr>"

definition demo_request :: "string \<Rightarrow> gateway \<Rightarrow> gateway \<times> json_dict" where
  "demo_request tool g = execute_pi_tool demo_env demo_pi_call ''call_tool''
     (PDict [(''name'', PStr tool), (''arguments'', PDict [(''identifier'', PStr ''ACME''), (''query'', PStr ''x'')])]) g"

lemma demo_scanned: "decoding_candidates no_decoders ''ok'' = []" "normalize_text no_decoders ''ok'' = ''ok''"
  by code_simp+

lemma demo_ingress: "prepare_context no_decoders (envelope_for_tool ''list_sec_filings'' result) ''ok''
    = Safe ((envelope_for_tool ''list_sec_filings'' result)\<lparr>ce_status := Allowed\<rparr>) ''ok''"
proof -
  have "as_verdict (assess no_decoders ''ok'') = ALLOW"
    using demo_scanned short_text_unfound by (auto simp: assess_ALLOW_iff scanned_def max_scan_bytes_def list_all_iff)
  moreover have "secret_pattern_hits ''ok'' = []" by code_simp
  moreover have "ce_sensitivity (envelope_for_tool ''list_sec_filings'' result) \<noteq> SECRET"
    by (simp add: envelope_for_tool_def tool_envelopes_def envelope_def)
  ultimately show ?thesis by (simp add: prepare_context_def Let_def)
qed

abbreviation demo_args :: json_dict where
  "demo_args \<equiv> [(''identifier'', PStr ''ACME''), (''query'', PStr ''x'')]"

lemma demo_call_facts:
  "unwrap_call_tool (\<lambda>_. PNone) (PDict [(''name'', PStr ''list_sec_filings''), (''arguments'', PDict demo_args)])
     = Inr (''list_sec_filings'', demo_args)"
  "resolve_company_arguments (\<lambda>_. None) ''list_sec_filings'' demo_args = demo_args"
  "''list_sec_filings'' \<in> set research_tool_names" "tool_is_permitted ''list_sec_filings'' (local_context ''/d'')"
  "validate_tool_arguments ''list_sec_filings'' (PDict demo_args) = None"
  "authorize_tool_call ''list_sec_filings'' (PDict demo_args) (demo_run_security False []) = None"
  "private_pattern_hit ''{}'' = None" "fst (guard_response id False ''ok'') = ''ok''"
  by code_simp+

lemma demo_execution:
  "execute_tool demo_iso (\<lambda>_. PNone) (\<lambda>_ _ _ s. (s, Returned [(''count'', PInt 1)])) ''list_sec_filings'' (PDict demo_args) (local_context ''/d'') s
     = (s, [(''count'', PInt 1)])"
proof -
  have "permission_error ''list_sec_filings'' (local_context ''/d'') = None" by (simp add: permission_error_def demo_call_facts(4))
  moreover have "apply_pit_cutoff demo_iso ''list_sec_filings'' (PDict demo_args) (local_context ''/d'') = (demo_args, None)"
    "pit_unsafe_error ''list_sec_filings'' (local_context ''/d'') = None"
    "\<And>r. with_pit_flag ''list_sec_filings'' (local_context ''/d'') r = r"
    by (simp_all add: apply_pit_cutoff_def pit_unsafe_error_def with_pit_flag_def effective_at_def local_context_def split: handler_result.split)
  moreover have "''list_sec_filings'' \<in> set (model_handlers @ finra_handlers @ robinhood_handlers)" by code_simp
  then have "dispatch_tool (\<lambda>_ _ _ s. (s, Returned [(''count'', PInt 1)])) ''list_sec_filings'' demo_args (local_context ''/d'') s
      = (s, Returned [(''count'', PInt 1)])"
    using calculation(4) by (simp add: dispatch_tool_def)
  ultimately show ?thesis using demo_call_facts(5) by (simp add: execute_tool_def handler_outcome_def)
qed

lemma demo_intent:
  "check_intent_and_egress demo_env ''list_sec_filings'' (PDict demo_args) g = (g, None)"
  if "ps_run (gw_pi g) = demo_run_security False []"
  using that demo_call_facts(6,7)
  by (simp add: check_intent_and_egress_def check_egress_or_private_def thesis_local_tools_def demo_env_def)

lemma demo_gates:
  "run_pre_gates demo_env demo_pi_call ''list_sec_filings'' (PDict demo_args) (demo_gateway False)
     = (gate_sets demo_store (fst (reserve_tool_call 0 (ps_budget (new_pi_session False False 0)))) (demo_gateway False),
        Inr \<lparr>sg_session = None, sg_job = None, sg_explicit = False\<rparr>)"
proof -
  have staged: "resolve_staged_context demo_pi_call (gw_pi (demo_gateway False)) (PDict demo_args)
      = \<lparr>sg_session = None, sg_job = None, sg_explicit = False\<rparr>"
    by (simp add: resolve_staged_context_def explicit_staged_ids_def demo_pi_call_def demo_gateway_def new_pi_session_def id_of_def
        given_id_def first_id_def map_filter_simps obj_get_def dget_default_def)
  have permit: "check_permit_and_schema demo_env ''list_sec_filings'' (PDict demo_args) (demo_gateway False) = (demo_gateway False, None)"
    using demo_call_facts(3-5) by (simp add: check_permit_and_schema_def demo_env_def default_tool_policy_def)
  have reserve: "reserve_run_budget demo_env ''list_sec_filings'' False (ps_budget (gw_pi (demo_gateway False)))
      = (fst (reserve_tool_call 0 (ps_budget (new_pi_session False False 0))), True)"
    by (simp add: reserve_run_budget_def demo_env_def reserve_tool_call_def runtime_left_def at_ceiling_def new_pi_session_def
        new_budget_def default_run_limits_def demo_gateway_def)
  have dispatch: "gate_dispatch_budget demo_env ''list_sec_filings'' \<lparr>sg_session = None, sg_job = None, sg_explicit = False\<rparr>
      demo_args (gw_store (demo_gateway False)) = (demo_store, False, None)"
    by (simp add: gate_dispatch_budget_def demo_gateway_def)
  show ?thesis
    by (simp add: run_pre_gates_def staged check_staged_session_def permit dispatch reserve heartbeat_staged_job_def)
qed

lemma demo_request_answered: "dget (snd (demo_request ''list_sec_filings'' (demo_gateway False))) ''error'' = None"
proof -
  let ?g = "gate_sets demo_store (fst (reserve_tool_call 0 (ps_budget (new_pi_session False False 0)))) (demo_gateway False)"
  have run: "ps_run (gw_pi ?g) = demo_run_security False []"
    by (simp add: demo_gateway_def new_pi_session_def demo_run_security_def classify_intent_def)
  have tokens: "eb_max_evidence_tokens (ps_budget (gw_pi ?g)) = Some 48000" "eb_evidence_tokens (ps_budget (gw_pi ?g)) = 0"
    by (simp_all add: gate_sets_def demo_gateway_def new_pi_session_def new_budget_def default_run_limits_def
        reserve_tool_call_def runtime_left_def at_ceiling_def)
  have result: "dget (snd (finalize_success demo_env ''list_sec_filings'' [(''count'', PInt 1)] ?g)) ''error'' = None"
    using demo_call_facts(8) tokens run demo_ingress
    by (simp add: finalize_success_def ingress_outcome_def demo_env_def dlp_and_labels_def Let_def add_evidence_tokens_def demo_run_security_def)
  have "run_tool demo_env demo_pi_call ''list_sec_filings'' (PDict demo_args) \<lparr>sg_session = None, sg_job = None, sg_explicit = False\<rparr> ?g
      = finalize_success demo_env ''list_sec_filings'' [(''count'', PInt 1)] ?g"
    using demo_execution [of demo_store]
    by (simp add: run_tool_def demo_env_def override_context_def demo_pi_call_def failed_dict_def obj_get_def dget_default_def gate_sets_def)
  then show ?thesis
    using demo_call_facts(1,2) demo_gates demo_intent [OF run] result
    by (simp add: demo_request_def execute_pi_tool_def execute_inner_def demo_env_def)
qed

theorem gateway_delivers_scanned_witness:
  "delivered demo_env demo_pi_call ''list_sec_filings'' (completed_args demo_env ''list_sec_filings'' (PDict demo_args))
     (demo_gateway False) (fst (demo_request ''list_sec_filings'' (demo_gateway False)))
     (snd (demo_request ''list_sec_filings'' (demo_gateway False)))"
proof -
  let ?arguments = "PDict [(''name'', PStr ''list_sec_filings''), (''arguments'', PDict demo_args)]"
  have "called demo_env ''call_tool'' ?arguments = Some (''list_sec_filings'', PDict demo_args)"
    using demo_call_facts(1) by (simp add: called_def demo_env_def)
  with gateway_delivers_scanned [OF prod.collapse [symmetric], of demo_env demo_pi_call "''call_tool''" ?arguments "demo_gateway False"]
    demo_request_answered show ?thesis unfolding demo_request_def by auto
qed

section \<open>Refused calls reach no handler\<close>

text \<open>
  The handlers are where a tool acts, and so where anything is sent.  Arguments that carry a credential
  or portfolio data must stay, except for the thesis tools, which write to local files; after private
  data was seen every web search must stay.
\<close>

definition carries_private :: "gateway_env \<Rightarrow> json_dict \<Rightarrow> bool" where
  "carries_private env args \<longleftrightarrow> (let t = ge_dumps_sorted env (PDict args)
     in list_ex (\<lambda>r. found r t) credential_patterns \<or> portfolio_context t)"

definition must_stay :: "gateway_env \<Rightarrow> bool \<Rightarrow> string \<Rightarrow> json_dict \<Rightarrow> bool" where
  "must_stay env seen tool args \<longleftrightarrow>
     (if tool = ''search_web'' then seen \<or> carries_private env args
      else tool \<notin> set thesis_local_tools \<and> carries_private env args)"

lemma carries_private_hit: "carries_private env args \<longleftrightarrow> private_pattern_hit (ge_dumps_sorted env (PDict args)) \<noteq> None"
  by (simp add: carries_private_def private_pattern_hit_def Let_def)

lemma intent_stops:
  assumes "must_stay env seen tool args" and "seen \<Longrightarrow> ''private'' \<in> set (rs_data_labels (ps_run (gw_pi g)))"
  shows "\<exists>g1 e. check_intent_and_egress env tool (PDict args) g = (g1, Some e)"
proof (cases "check_intent_and_egress env tool (PDict args) g")
  case (Pair g1 e)
  have "e \<noteq> None"
  proof
    assume "e = None"
    from intent_Ok(3,4) [OF Pair [unfolded this]] assms show False
      by (auto simp: must_stay_def carries_private_hit authorize_egress_def split: if_splits)
  qed
  with Pair show ?thesis by blast
qed

lemma env_handler_free:
  "ge_now (env\<lparr>ge_handler := h\<rparr>) = ge_now env" "ge_utc (env\<lparr>ge_handler := h\<rparr>) = ge_utc env"
  "ge_fromiso (env\<lparr>ge_handler := h\<rparr>) = ge_fromiso env" "ge_dumps (env\<lparr>ge_handler := h\<rparr>) = ge_dumps env"
  "ge_dumps_sorted (env\<lparr>ge_handler := h\<rparr>) = ge_dumps_sorted env" "ge_show (env\<lparr>ge_handler := h\<rparr>) = ge_show env"
  "ge_params (env\<lparr>ge_handler := h\<rparr>) = ge_params env" "ge_root (env\<lparr>ge_handler := h\<rparr>) = ge_root env"
  by simp_all

lemma gate_handler_free:
  "check_permit_and_schema (env\<lparr>ge_handler := h\<rparr>) = check_permit_and_schema env"
  "gate_dispatch_budget (env\<lparr>ge_handler := h\<rparr>) = gate_dispatch_budget env"
  "heartbeat_staged_job (env\<lparr>ge_handler := h\<rparr>) = heartbeat_staged_job env"
  "reserve_run_budget (env\<lparr>ge_handler := h\<rparr>) = reserve_run_budget env"
  "run_budget_refusal (env\<lparr>ge_handler := h\<rparr>) = run_budget_refusal env"
  "check_egress_or_private (env\<lparr>ge_handler := h\<rparr>) = check_egress_or_private env"
  by (intro ext, simp only: check_permit_and_schema_def gate_dispatch_budget_def heartbeat_staged_job_def
      reserve_run_budget_def run_budget_refusal_def check_egress_or_private_def check_search_egress_def
      env_handler_free)+

lemma gates_handler_free:
  "run_pre_gates (env\<lparr>ge_handler := h\<rparr>) = run_pre_gates env"
  "check_intent_and_egress (env\<lparr>ge_handler := h\<rparr>) = check_intent_and_egress env"
  by (intro ext, simp only: run_pre_gates_def check_intent_and_egress_def gate_handler_free)+

definition completed :: "gateway_env \<Rightarrow> string \<Rightarrow> pyobj \<Rightarrow> pyobj" where
  "completed env tool given =
     (case given of PDict d \<Rightarrow> PDict (resolve_company_arguments (ge_resolve env) tool d) | _ \<Rightarrow> given)"

lemma inner_refused:
  assumes "run_pre_gates env call tool (completed env tool given) g = (g1, Inl e)
    \<or> (\<exists>g0 staged. run_pre_gates env call tool (completed env tool given) g = (g0, Inr staged)
        \<and> check_intent_and_egress env tool (completed env tool given) g0 = (g1, Some e))"
  shows "execute_inner (env\<lparr>ge_handler := h\<rparr>) call tool given g = (g1, e)" and "execute_inner env call tool given g = (g1, e)"
  using assms
  by (cases given; auto simp: execute_inner_def Let_def gates_handler_free completed_def)+

lemma refused_inner:
  assumes "\<And>g1. ps_run (gw_pi g1) = ps_run (gw_pi g) \<Longrightarrow>
      \<exists>g2 e. check_intent_and_egress env tool (PDict (completed_args env tool given)) g1 = (g2, Some e)"
  shows "execute_inner (env\<lparr>ge_handler := h\<rparr>) call tool given g = execute_inner env call tool given g
    \<and> dget (snd (execute_inner env call tool given g)) ''error'' \<noteq> None"
proof -
  obtain g0 p where pre: "run_pre_gates env call tool (completed env tool given) g = (g0, p)" by (rule prod.exhaust)
  show ?thesis
  proof (cases p)
    case (Inl e)
    with pre pre_gates_refusal show ?thesis by (simp add: inner_refused [of env call tool given g g0 e])
  next
    case (Inr staged)
    from pre_gates_pass [OF pre [unfolded Inr]] obtain args st b where
      args: "completed env tool given = PDict args" and g0: "g0 = gate_sets (heartbeat_staged_job env tool staged st) b g"
      by metis
    have "args = completed_args env tool given"
      using args by (cases given) (simp_all add: completed_args_def completed_def)
    with assms [of g0] g0 args obtain g2 e where
      stop: "check_intent_and_egress env tool (completed env tool given) g0 = (g2, Some e)" by auto
    with pre Inr intent_refusal [OF stop] show ?thesis
      by (simp add: inner_refused [of env call tool given g g2 e])
  qed
qed

text \<open>
  C8.  Whatever was called before in a session: the grant stays what it was, the private label is there
  exactly if private data was seen when the session started, and the evidence stays within its budget.
  A call that must stay (a web search after private data was seen, or any call but a thesis tool whose
  completed arguments match a credential pattern or carry portfolio data) is answered with an error and
  reaches no handler: with any other handlers in place of the program's, its answer and the state it
  leaves are the same.
\<close>

theorem gateway_session_confined:
  assumes "gateway_step\<^sup>*\<^sup>* \<lparr>gw_pi = new_pi_session grant seen now, gw_store = st\<rparr> g"
  shows "rs_portfolio_read (ps_run (gw_pi g)) = grant
    \<and> (''private'' \<in> set (rs_data_labels (ps_run (gw_pi g))) \<longleftrightarrow> seen)
    \<and> eb_evidence_tokens (ps_budget (gw_pi g)) \<le> 48000
    \<and> (called env name arguments = Some (tool, given) \<and> must_stay env seen tool (completed_args env tool given)
        \<longrightarrow> dget (snd (execute_pi_tool env call name arguments g)) ''error'' \<noteq> None
          \<and> execute_pi_tool (env\<lparr>ge_handler := h\<rparr>) call name arguments g = execute_pi_tool env call name arguments g)"
proof -
  note frame = gateway_run_frame [OF assms, THEN conjunct1] and steps = gateway_run_frame [OF assms, THEN conjunct2]
  have label: "''private'' \<in> set (rs_data_labels (ps_run (gw_pi g))) \<longleftrightarrow> seen"
    and granted: "rs_portfolio_read (ps_run (gw_pi g)) = grant"
    using frame by (simp_all add: run_frame_def new_pi_session_def)
  have "eb_evidence_tokens (ps_budget (gw_pi g)) \<le> 48000"
    using evidence_meter.run_within [OF steps, of 48000]
    by (simp add: new_pi_session_def new_budget_def default_run_limits_def granted_ceiling_def)
  moreover have "dget (snd (execute_pi_tool env call name arguments g)) ''error'' \<noteq> None
      \<and> execute_pi_tool (env\<lparr>ge_handler := h\<rparr>) call name arguments g = execute_pi_tool env call name arguments g"
    if c: "called env name arguments = Some (tool, given)" and stay: "must_stay env seen tool (completed_args env tool given)"
  proof -
    have run: "execute_pi_tool env' call name arguments g = execute_inner env' call tool given g"
      if "ge_params env' = ge_params env" for env'
      using c that by (auto simp: called_def execute_pi_tool_def split: if_splits sum.splits)
    have "\<exists>g2 e. check_intent_and_egress env tool (PDict (completed_args env tool given)) g1 = (g2, Some e)"
      if "ps_run (gw_pi g1) = ps_run (gw_pi g)" for g1
      using that label by (intro intent_stops [OF stay]) simp
    from refused_inner [OF this, where h = h and call = call] run [of env] run [of "env\<lparr>ge_handler := h\<rparr>"]
    show ?thesis by simp
  qed
  ultimately show ?thesis using label granted by blast
qed

text \<open>Witness: after private data was seen, a search answers with an error whatever a handler would send.\<close>

theorem gateway_session_confined_witness:
  "dget (snd (demo_request ''search_web'' (demo_gateway True))) ''error'' \<noteq> None
    \<and> execute_pi_tool (demo_env\<lparr>ge_handler := (\<lambda>_ _ _ s. (s, Raised ''sent''))\<rparr>) demo_pi_call ''call_tool''
        (PDict [(''name'', PStr ''search_web''), (''arguments'', PDict [(''identifier'', PStr ''ACME''), (''query'', PStr ''x'')])])
        (demo_gateway True)
      = demo_request ''search_web'' (demo_gateway True)"
proof -
  let ?arguments = "PDict [(''name'', PStr ''search_web''), (''arguments'', PDict [(''identifier'', PStr ''ACME''), (''query'', PStr ''x'')])]"
  have c: "called demo_env ''call_tool'' ?arguments = Some (''search_web'', PDict [(''identifier'', PStr ''ACME''), (''query'', PStr ''x'')])"
    by code_simp
  have "gateway_step\<^sup>*\<^sup>* \<lparr>gw_pi = new_pi_session False True 0, gw_store = demo_store\<rparr> (demo_gateway True)"
    by (simp add: demo_gateway_def)
  from gateway_session_confined [OF this, of demo_env "''call_tool''" ?arguments] c
  show ?thesis unfolding demo_request_def by (simp add: must_stay_def)
qed

text \<open>A handler's soft failure is handed over as it is, with whatever else it holds, unscanned.\<close>

lemma soft_failure_unscanned:
  "failed_result_response env name [(''error'', PStr ''e''), (''soft'', PBool True), (''content'', PStr t)]
     = [(''error'', PStr ''e''), (''soft'', PBool True), (''content'', PStr t)]"
  by (simp add: failed_result_response_def obj_get_def dget_default_def)

text \<open>An invalid data root silently drops the research session of the call.\<close>

lemma invalid_root_drops_session:
  "rc_research_session_id (override_context env \<lparr>ca_data_root = Some ''data'', ca_as_of = None, ca_session = None, ca_job = None\<rparr> (Some sid)) = None"
  by (simp add: override_context_def local_context_def)

end
