(* ===== verification/Thesis.thy ===== *)
theory Thesis
  imports Baseline Tools
begin

text \<open>
  The records of an investment thesis (\<open>app/thesis/models.py\<close>): claims, expressions, requirements,
  watch rules, triggers, the thesis itself with the links its validation checks, the nested state
  records and the versioned snapshot of all of them.  \<open>show_obj\<close> is \<open>str\<close> of a value that is not text;
  messages keep the constant part.
\<close>

section \<open>Vocabularies\<close>

definition thesis_statuses :: "string list" where
  "thesis_statuses = [''active'', ''paused'', ''closed'']"

definition claim_statuses :: "string list" where
  "claim_statuses = [''unvalidated'', ''supported'', ''challenged'', ''invalidated'', ''unresolved'']"

definition expression_statuses :: "string list" where
  "expression_statuses = [''undecided'', ''active'', ''flagged'', ''closed'']"

definition instruments :: "string list" where
  "instruments = [''equity'', ''option'', ''future'', ''bond'', ''cash'', ''unknown'']"

definition directions :: "string list" where
  "directions = [''long'', ''short'', ''neutral'', ''unknown'']"

definition support_statuses :: "string list" where
  "support_statuses = [''supported'', ''unsupported'']"

definition trigger_statuses :: "string list" where
  "trigger_statuses = [''pending'', ''processed'']"

definition trigger_importances :: "string list" where
  "trigger_importances = [''low'', ''medium'', ''high'']"

definition question_statuses :: "string list" where
  "question_statuses = [''open'', ''answered'']"

definition known_watch_types :: "string list" where
  "known_watch_types = [''new_filing'', ''filing_change'', ''new_material_event'', ''new_short_interest_cycle'',
     ''material_short_interest_change'', ''new_external_evidence'', ''explicit_thesis_invalidator'',
     ''scheduled_deep_review'']"

definition unknown_text :: string where
  "unknown_text = ''unknown''"

section \<open>Field readers\<close>

definition opt_unknown :: "(pyobj \<Rightarrow> string) \<Rightarrow> pyobj \<Rightarrow> string" where
  "opt_unknown show_obj v = (case v of PNone \<Rightarrow> unknown_text
     | PStr s \<Rightarrow> if strip s = [] then unknown_text else s
     | _ \<Rightarrow> show_obj v)"

definition coerce_vocab :: "(pyobj \<Rightarrow> string) \<Rightarrow> string list \<Rightarrow> pyobj \<Rightarrow> string res" where
  "coerce_vocab show_obj allowed v =
     (let t = (if v = PNone \<or> v = PStr [] then unknown_text else obj_text show_obj v)
      in if t \<in> set allowed then Ok t else Err (ValueError ''must be a known primitive or unknown''))"

definition coerce_open_text :: "pyobj \<Rightarrow> string res" where
  "coerce_open_text v = (case v of PStr s \<Rightarrow> if strip s \<noteq> [] then Ok s
        else Err (ValueError ''must be a non-empty string (open vocabulary)'')
     | _ \<Rightarrow> Err (ValueError ''must be a non-empty string (open vocabulary)''))"

definition coerce_strings :: "pyobj \<Rightarrow> string list res" where
  "coerce_strings v = (case v of PList xs \<Rightarrow> if list_all is_str xs then Ok (map str_of xs)
        else Err (ValueError ''must be a list of strings'')
     | _ \<Rightarrow> Err (ValueError ''must be a list of strings''))"

definition coerce_rule_type :: "pyobj \<Rightarrow> string res" where
  "coerce_rule_type v = (case v of PStr s \<Rightarrow> if strip s \<noteq> [] then Ok s
        else Err (ValueError ''rule_type must be a non-empty semantic monitor name'')
     | _ \<Rightarrow> Err (ValueError ''rule_type must be a non-empty semantic monitor name''))"

text \<open>\<open>None\<close> is the empty mapping; the trigger's metadata is read the same way.\<close>

definition coerce_optional_mapping :: "pyobj \<Rightarrow> (string, pyobj) dict res" where
  "coerce_optional_mapping v = (case v of PNone \<Rightarrow> Ok [] | PDict d \<Rightarrow> Ok d | _ \<Rightarrow> Err (ValueError ''must be a mapping''))"

text \<open>\<open>str(d.get(key, "") or "")\<close>.\<close>

definition text_or_blank :: "(pyobj \<Rightarrow> string) \<Rightarrow> (string, pyobj) dict \<Rightarrow> string \<Rightarrow> string" where
  "text_or_blank show_obj d key = (let v = obj_get d key in if truthy v then obj_text show_obj v else [])"

definition text_default :: "(pyobj \<Rightarrow> string) \<Rightarrow> (string, pyobj) dict \<Rightarrow> string \<Rightarrow> string \<Rightarrow> string" where
  "text_default show_obj d key v = obj_text show_obj (dget_default d key (PStr v))"

text \<open>\<open>from_dict\<close> starts by asking for a mapping.\<close>

definition as_object :: "pyobj \<Rightarrow> (string, pyobj) dict res" where
  "as_object v = (case v of PDict d \<Rightarrow> Ok d | _ \<Rightarrow> Err (ValueError ''must be a mapping''))"

text \<open>\<open>re.sub\<close> of every run of characters that are not lower-case letters or digits.\<close>

definition slug_char :: "char \<Rightarrow> bool" where
  "slug_char c \<longleftrightarrow> (let n = (of_char c :: nat) in 97 \<le> n \<and> n \<le> 122 \<or> 48 \<le> n \<and> n \<le> 57)"

function hyphenate :: "string \<Rightarrow> string" where
  "hyphenate [] = []"
| "hyphenate (c # cs) = (if slug_char c then c # hyphenate cs
     else CHR ''-'' # hyphenate (dropWhile (\<lambda>d. \<not> slug_char d) cs))"
  by pat_completeness auto
termination
  by (relation "measure length") (auto simp: length_dropWhile_le le_imp_less_Suc)

definition trim_hyphens :: "string \<Rightarrow> string" where
  "trim_hyphens s = rev (dropWhile (\<lambda>c. c = CHR ''-'') (rev (dropWhile (\<lambda>c. c = CHR ''-'') s)))"

definition slugify :: "string \<Rightarrow> string res" where
  "slugify t = (let slug = trim_hyphens (hyphenate (lower t))
     in if slug \<in> set [''.'', ''..'', []] then Err (ValueError ''cannot slugify to a usable value'') else Ok slug)"

section \<open>Claims, expressions and requirements\<close>

record thesis_claim =
  tc_claim_id :: string
  tc_statement :: string
  tc_status :: string

definition claim_to_dict :: "thesis_claim \<Rightarrow> (string, pyobj) dict" where
  "claim_to_dict c = [(''claim_id'', PStr (tc_claim_id c)), (''statement'', PStr (tc_statement c)), (''status'', PStr (tc_status c))]"

definition claim_from_dict :: "pyobj \<Rightarrow> thesis_claim res" where
  "claim_from_dict v = bindR (as_object v) (\<lambda>d.
     bindR (req_str d ''claim_id'') (\<lambda>cid.
     bindR (req_str d ''statement'') (\<lambda>statement.
     bindR (coerce_enum claim_statuses (dget_default d ''status'' (PStr ''unvalidated''))) (\<lambda>status.
     Ok \<lparr>tc_claim_id = cid, tc_statement = statement, tc_status = status\<rparr>))))"

record trade_expression =
  te_expression_id :: string
  te_intent :: string
  te_instrument :: string
  te_direction :: string
  te_structure :: string
  te_horizon :: string
  te_leverage :: "(string, pyobj) dict"
  te_parameters :: "(string, pyobj) dict"
  te_support :: string
  te_status :: string

definition expression_to_dict :: "trade_expression \<Rightarrow> (string, pyobj) dict" where
  "expression_to_dict e = [(''expression_id'', PStr (te_expression_id e)), (''intent'', PStr (te_intent e)),
     (''instrument'', PStr (te_instrument e)), (''direction'', PStr (te_direction e)),
     (''structure'', PStr (te_structure e)), (''horizon'', PStr (te_horizon e)),
     (''leverage'', PDict (te_leverage e)), (''parameters'', PDict (te_parameters e)),
     (''deterministic_support'', PStr (te_support e)), (''status'', PStr (te_status e))]"

definition expression_from_dict :: "(pyobj \<Rightarrow> string) \<Rightarrow> pyobj \<Rightarrow> trade_expression res" where
  "expression_from_dict show_obj v = bindR (as_object v) (\<lambda>d.
     bindR (coerce_vocab show_obj instruments (dget_default d ''instrument'' (PStr unknown_text))) (\<lambda>instrument.
     bindR (coerce_vocab show_obj directions (dget_default d ''direction'' (PStr unknown_text))) (\<lambda>direction.
     bindR (coerce_optional_mapping (obj_get d ''leverage'')) (\<lambda>leverage.
     bindR (coerce_optional_mapping (obj_get d ''parameters'')) (\<lambda>parameters.
     bindR (req_str d ''expression_id'') (\<lambda>eid.
     bindR (coerce_open_text (dget_default d ''structure'' (PStr unknown_text))) (\<lambda>structure.
     bindR (validate_json_mapping (PDict leverage)) (\<lambda>leverage'.
     bindR (validate_json_mapping (PDict parameters)) (\<lambda>parameters'.
     bindR (coerce_enum expression_statuses (dget_default d ''status'' (PStr ''undecided''))) (\<lambda>status.
     Ok \<lparr>te_expression_id = eid, te_intent = opt_unknown show_obj (dget_default d ''intent'' (PStr unknown_text)),
         te_instrument = instrument, te_direction = direction, te_structure = structure,
         te_horizon = opt_unknown show_obj (dget_default d ''horizon'' (PStr unknown_text)),
         te_leverage = leverage', te_parameters = parameters',
         te_support = opt_unknown show_obj (dget_default d ''deterministic_support'' (PStr unknown_text)),
         te_status = status\<rparr>))))))))))"

record expression_requirement =
  tq_requirement_id :: string
  tq_expression_id :: string
  tq_type :: string
  tq_statement :: string
  tq_status :: string

definition requirement_to_dict :: "expression_requirement \<Rightarrow> (string, pyobj) dict" where
  "requirement_to_dict r = [(''requirement_id'', PStr (tq_requirement_id r)), (''expression_id'', PStr (tq_expression_id r)),
     (''requirement_type'', PStr (tq_type r)), (''statement'', PStr (tq_statement r)), (''status'', PStr (tq_status r))]"

definition requirement_from_dict :: "pyobj \<Rightarrow> expression_requirement res" where
  "requirement_from_dict v = bindR (as_object v) (\<lambda>d.
     bindR (coerce_open_text (obj_get d ''requirement_type'')) (\<lambda>rtype.
     bindR (req_str d ''requirement_id'') (\<lambda>rid.
     bindR (req_str d ''expression_id'') (\<lambda>eid.
     bindR (req_str d ''statement'') (\<lambda>statement.
     bindR (coerce_enum question_statuses (dget_default d ''status'' (PStr ''open''))) (\<lambda>status.
     Ok \<lparr>tq_requirement_id = rid, tq_expression_id = eid, tq_type = rtype, tq_statement = statement, tq_status = status\<rparr>))))))"

section \<open>Watch rules and triggers\<close>

record watch_rule =
  wu_rule_id :: string
  wu_rule_type :: string
  wu_enabled :: bool
  wu_support_status :: string
  wu_support_reason :: string
  wu_claim_ids :: "string list"
  wu_expression_ids :: "string list"

definition watch_to_dict :: "watch_rule \<Rightarrow> (string, pyobj) dict" where
  "watch_to_dict r = [(''rule_id'', PStr (wu_rule_id r)), (''rule_type'', PStr (wu_rule_type r)),
     (''enabled'', PBool (wu_enabled r)), (''support_status'', PStr (wu_support_status r)),
     (''support_reason'', PStr (wu_support_reason r)), (''claim_ids'', py_values (wu_claim_ids r)),
     (''expression_ids'', py_values (wu_expression_ids r))]"

definition coerce_rule_enabled :: "pyobj \<Rightarrow> bool res" where
  "coerce_rule_enabled v = (case v of PBool b \<Rightarrow> Ok b | _ \<Rightarrow> Err (ValueError ''enabled must be a bool''))"

definition check_rule_known :: "string \<Rightarrow> bool \<Rightarrow> string \<Rightarrow> unit res" where
  "check_rule_known rtype enabled support =
     checkR (\<not> (rtype \<notin> set known_watch_types \<and> (enabled \<or> support \<noteq> ''unsupported'')))
       (ValueError ''unknown rule_type must stay disabled/unsupported'')"

definition watch_from_dict :: "(pyobj \<Rightarrow> string) \<Rightarrow> pyobj \<Rightarrow> watch_rule res" where
  "watch_from_dict show_obj v = bindR (as_object v) (\<lambda>d.
     bindR (coerce_rule_type (obj_get d ''rule_type'')) (\<lambda>rtype.
     bindR (coerce_rule_enabled (dget_default d ''enabled'' (PBool True))) (\<lambda>enabled.
     bindR (coerce_enum support_statuses (dget_default d ''support_status'' (PStr ''supported''))) (\<lambda>support.
     bindR (check_rule_known rtype enabled support) (\<lambda>_.
     bindR (coerce_strings (dget_default d ''claim_ids'' (PList []))) (\<lambda>claim_ids.
     bindR (coerce_strings (dget_default d ''expression_ids'' (PList []))) (\<lambda>expression_ids.
     bindR (req_str d ''rule_id'') (\<lambda>rid.
     Ok \<lparr>wu_rule_id = rid, wu_rule_type = rtype, wu_enabled = enabled, wu_support_status = support,
         wu_support_reason = text_default show_obj d ''support_reason'' [],
         wu_claim_ids = claim_ids, wu_expression_ids = expression_ids\<rparr>))))))))"

definition watch_target_ids :: "string list \<Rightarrow> string list" where
  "watch_target_ids ids = filter (\<lambda>c. c \<noteq> []) ids"

definition require_watch_targets :: "watch_rule \<Rightarrow> unit res" where
  "require_watch_targets r = checkR (watch_target_ids (wu_claim_ids r) \<noteq> [] \<or> watch_target_ids (wu_expression_ids r) \<noteq> [])
     (ValueError ''watch rule must name at least one claim_id or expression_id'')"

record trigger =
  tg_trigger_id :: string
  tg_thesis_id :: string
  tg_created_at :: string
  tg_status :: string
  tg_trigger_type :: string
  tg_importance :: string
  tg_claim_ids :: "string list"
  tg_expression_ids :: "string list"
  tg_canonical_refs :: "string list"
  tg_summary :: string
  tg_processed_at :: "string option"
  tg_run_id :: "string option"
  tg_metadata :: "(string, pyobj) dict"

definition trigger_to_dict :: "trigger \<Rightarrow> (string, pyobj) dict" where
  "trigger_to_dict t = [(''trigger_id'', PStr (tg_trigger_id t)), (''thesis_id'', PStr (tg_thesis_id t)),
     (''created_at'', PStr (tg_created_at t)), (''status'', PStr (tg_status t)), (''trigger_type'', PStr (tg_trigger_type t)),
     (''importance'', PStr (tg_importance t)), (''claim_ids'', py_values (tg_claim_ids t)),
     (''expression_ids'', py_values (tg_expression_ids t)), (''canonical_refs'', py_values (tg_canonical_refs t)),
     (''summary'', PStr (tg_summary t)), (''processed_at'', opt_obj PStr (tg_processed_at t)),
     (''run_id'', opt_obj PStr (tg_run_id t)), (''metadata'', PDict (tg_metadata t))]"

definition trigger_from_dict :: "(pyobj \<Rightarrow> string) \<Rightarrow> pyobj \<Rightarrow> trigger res" where
  "trigger_from_dict show_obj v = bindR (as_object v) (\<lambda>d.
     bindR (coerce_strings (dget_default d ''claim_ids'' (PList []))) (\<lambda>claim_ids.
     bindR (coerce_strings (dget_default d ''expression_ids'' (PList []))) (\<lambda>expression_ids.
     bindR (coerce_strings (dget_default d ''canonical_refs'' (PList []))) (\<lambda>refs.
     bindR (opt_str (obj_get d ''processed_at'')) (\<lambda>processed.
     bindR (opt_str (obj_get d ''run_id'')) (\<lambda>run.
     bindR (coerce_optional_mapping (dget_default d ''metadata'' (PDict []))) (\<lambda>meta.
     bindR (req_str d ''trigger_id'') (\<lambda>tid.
     bindR (req_str d ''thesis_id'') (\<lambda>thid.
     bindR (req_str d ''created_at'') (\<lambda>created.
     bindR (coerce_enum trigger_statuses (dget_default d ''status'' (PStr ''pending''))) (\<lambda>status.
     bindR (req_str d ''trigger_type'') (\<lambda>ttype.
     bindR (coerce_enum trigger_importances (dget_default d ''importance'' (PStr ''medium''))) (\<lambda>importance.
     bindR (validate_json_mapping (PDict meta)) (\<lambda>meta'.
     Ok \<lparr>tg_trigger_id = tid, tg_thesis_id = thid, tg_created_at = created, tg_status = status, tg_trigger_type = ttype,
         tg_importance = importance, tg_claim_ids = claim_ids, tg_expression_ids = expression_ids,
         tg_canonical_refs = refs, tg_summary = text_default show_obj d ''summary'' [], tg_processed_at = processed,
         tg_run_id = run, tg_metadata = meta'\<rparr>))))))))))))))"

section \<open>The thesis\<close>

record research_thesis =
  th_thesis_id :: string
  th_slug :: string
  th_status :: string
  th_created_at :: string
  th_updated_at :: string
  th_user_thesis :: string
  th_scope :: string
  th_claims :: "thesis_claim list"
  th_assumptions :: "string list"
  th_invalidators :: "string list"
  th_unknowns :: "string list"
  th_expressions :: "trade_expression list"
  th_requirements :: "expression_requirement list"

definition thesis_claim_ids :: "research_thesis \<Rightarrow> string list" where
  "thesis_claim_ids t = map tc_claim_id (th_claims t)"

definition thesis_expression_ids :: "research_thesis \<Rightarrow> string list" where
  "thesis_expression_ids t = map te_expression_id (th_expressions t)"

definition schema_entry :: "string \<times> pyobj" where
  "schema_entry = (''schema_version'', PInt 1)"

definition thesis_to_dict :: "research_thesis \<Rightarrow> (string, pyobj) dict" where
  "thesis_to_dict t = [(''thesis_id'', PStr (th_thesis_id t)), (''slug'', PStr (th_slug t)), (''status'', PStr (th_status t)),
     (''created_at'', PStr (th_created_at t)), (''updated_at'', PStr (th_updated_at t)),
     (''user_thesis'', PStr (th_user_thesis t)), (''scope'', PStr (th_scope t)),
     (''claims'', PList (map (PDict \<circ> claim_to_dict) (th_claims t))),
     (''assumptions'', py_values (th_assumptions t)), (''invalidators'', py_values (th_invalidators t)),
     (''unknowns'', py_values (th_unknowns t)),
     (''expressions'', PList (map (PDict \<circ> expression_to_dict) (th_expressions t))),
     (''requirements'', PList (map (PDict \<circ> requirement_to_dict) (th_requirements t))), schema_entry]"

text \<open>The ids seen so far, and the error at the first id that is among them.\<close>

fun fold_ids :: "string list \<Rightarrow> string set \<Rightarrow> string set res" where
  "fold_ids [] seen = Ok seen"
| "fold_ids (i # is) seen = (if i \<in> seen then Err (ValueError ''duplicate ID'') else fold_ids is (insert i seen))"

fun requirement_links :: "expression_requirement list \<Rightarrow> string set \<Rightarrow> string set \<Rightarrow> unit res" where
  "requirement_links [] seen exprs = Ok ()"
| "requirement_links (r # rs) seen exprs =
     (if tq_requirement_id r \<in> seen then Err (ValueError ''duplicate ID'')
      else if tq_expression_id r \<notin> exprs then Err (ValueError ''requirement references absent expression'')
      else requirement_links rs (insert (tq_requirement_id r) seen) exprs)"

definition validate_thesis :: "research_thesis \<Rightarrow> unit res" where
  "validate_thesis t = bindR (fold_ids (thesis_claim_ids t) {}) (\<lambda>seen.
     bindR (fold_ids (thesis_expression_ids t) seen) (\<lambda>seen'.
     requirement_links (th_requirements t) seen' (set (thesis_expression_ids t))))"

definition row_list :: "(string, pyobj) dict \<Rightarrow> string \<Rightarrow> pyobj list res" where
  "row_list d key = (case dget_default d key (PList []) of PList xs \<Rightarrow> Ok xs | _ \<Rightarrow> Err (ValueError ''must be a list''))"

definition thesis_from_dict :: "(pyobj \<Rightarrow> string) \<Rightarrow> pyobj \<Rightarrow> research_thesis res" where
  "thesis_from_dict show_obj v = bindR (as_object v) (\<lambda>d.
     bindR (coerce_strings (dget_default d ''assumptions'' (PList []))) (\<lambda>assumptions.
     bindR (coerce_strings (dget_default d ''invalidators'' (PList []))) (\<lambda>invalidators.
     bindR (coerce_strings (dget_default d ''unknowns'' (PList []))) (\<lambda>unknowns.
     bindR (bindR (row_list d ''claims'') (mapR claim_from_dict)) (\<lambda>claims.
     bindR (bindR (row_list d ''expressions'') (mapR (expression_from_dict show_obj))) (\<lambda>expressions.
     bindR (bindR (row_list d ''requirements'') (mapR requirement_from_dict)) (\<lambda>requirements.
     bindR (req_str d ''thesis_id'') (\<lambda>tid.
     bindR (req_str d ''slug'') (\<lambda>slug.
     bindR (coerce_enum thesis_statuses (dget_default d ''status'' (PStr ''active''))) (\<lambda>status.
     bindR (req_str d ''user_thesis'') (\<lambda>user.
     let t = \<lparr>th_thesis_id = tid, th_slug = slug, th_status = status, th_created_at = text_or_blank show_obj d ''created_at'',
         th_updated_at = text_or_blank show_obj d ''updated_at'', th_user_thesis = user,
         th_scope = opt_unknown show_obj (dget_default d ''scope'' (PStr unknown_text)), th_claims = claims,
         th_assumptions = assumptions, th_invalidators = invalidators, th_unknowns = unknowns,
         th_expressions = expressions, th_requirements = requirements\<rparr>
     in bindR (validate_thesis t) (\<lambda>_. Ok t))))))))))))"

section \<open>The nested state records\<close>

record thesis_state =
  tz_thesis_id :: string
  tz_assessment :: string
  tz_claim_assessments :: "(string, pyobj) dict"
  tz_expression_assessments :: "(string, pyobj) dict"

definition state_to_dict :: "thesis_state \<Rightarrow> (string, pyobj) dict" where
  "state_to_dict s = [schema_entry, (''thesis_id'', PStr (tz_thesis_id s)), (''assessment'', PStr (tz_assessment s)),
     (''claim_assessments'', PDict (tz_claim_assessments s)), (''expression_assessments'', PDict (tz_expression_assessments s))]"

definition state_from_dict :: "(pyobj \<Rightarrow> string) \<Rightarrow> pyobj \<Rightarrow> thesis_state res" where
  "state_from_dict show_obj v = bindR (as_object v) (\<lambda>d.
     bindR (as_object (dget_default d ''claim_assessments'' (PDict []))) (\<lambda>claims.
     bindR (as_object (dget_default d ''expression_assessments'' (PDict []))) (\<lambda>expressions.
     bindR (req_str d ''thesis_id'') (\<lambda>tid.
     bindR (validate_json_mapping (PDict claims)) (\<lambda>claims'.
     bindR (validate_json_mapping (PDict expressions)) (\<lambda>expressions'.
     Ok \<lparr>tz_thesis_id = tid, tz_assessment = text_default show_obj d ''assessment'' ''unresolved'',
         tz_claim_assessments = claims', tz_expression_assessments = expressions'\<rparr>))))))"

record thesis_question =
  qn_question_id :: string
  qn_text :: string
  qn_status :: string
  qn_answer :: "string option"

definition question_to_dict :: "thesis_question \<Rightarrow> (string, pyobj) dict" where
  "question_to_dict q = [(''question_id'', PStr (qn_question_id q)), (''text'', PStr (qn_text q)),
     (''status'', PStr (qn_status q)), (''answer'', opt_obj PStr (qn_answer q))]"

definition question_from_dict :: "pyobj \<Rightarrow> thesis_question res" where
  "question_from_dict v = bindR (as_object v) (\<lambda>d.
     bindR (opt_str (obj_get d ''answer'')) (\<lambda>answer.
     bindR (req_str d ''question_id'') (\<lambda>qid.
     bindR (req_str d ''text'') (\<lambda>body.
     bindR (coerce_enum question_statuses (dget_default d ''status'' (PStr ''open''))) (\<lambda>status.
     Ok \<lparr>qn_question_id = qid, qn_text = body, qn_status = status, qn_answer = answer\<rparr>)))))"

record thesis_memory =
  mm_memory_id :: string
  mm_text :: string
  mm_created_at :: string

definition memory_to_dict :: "thesis_memory \<Rightarrow> (string, pyobj) dict" where
  "memory_to_dict m = [(''memory_id'', PStr (mm_memory_id m)), (''text'', PStr (mm_text m)), (''created_at'', PStr (mm_created_at m))]"

definition memory_from_dict :: "(pyobj \<Rightarrow> string) \<Rightarrow> pyobj \<Rightarrow> thesis_memory res" where
  "memory_from_dict show_obj v = bindR (as_object v) (\<lambda>d.
     bindR (req_str d ''memory_id'') (\<lambda>mid.
     bindR (req_str d ''text'') (\<lambda>body.
     Ok \<lparr>mm_memory_id = mid, mm_text = body, mm_created_at = text_or_blank show_obj d ''created_at''\<rparr>)))"

record evidence_ref =
  er_evidence_id :: string
  er_thesis_id :: string
  er_canonical_ref :: string
  er_summary :: string
  er_known_at :: string

definition evidence_ref_to_dict :: "evidence_ref \<Rightarrow> (string, pyobj) dict" where
  "evidence_ref_to_dict e = [(''evidence_id'', PStr (er_evidence_id e)), (''thesis_id'', PStr (er_thesis_id e)),
     (''canonical_ref'', PStr (er_canonical_ref e)), (''summary'', PStr (er_summary e)), (''known_at'', PStr (er_known_at e))]"

definition evidence_ref_from_dict :: "(pyobj \<Rightarrow> string) \<Rightarrow> pyobj \<Rightarrow> evidence_ref res" where
  "evidence_ref_from_dict show_obj v = bindR (as_object v) (\<lambda>d.
     bindR (req_str d ''evidence_id'') (\<lambda>eid.
     bindR (req_str d ''thesis_id'') (\<lambda>tid.
     bindR (req_str d ''canonical_ref'') (\<lambda>cref.
     Ok \<lparr>er_evidence_id = eid, er_thesis_id = tid, er_canonical_ref = cref,
         er_summary = text_default show_obj d ''summary'' [], er_known_at = text_or_blank show_obj d ''known_at''\<rparr>))))"

record checkpoint =
  cp_thesis_id :: string
  cp_sources :: "(string, pyobj) dict"
  cp_recent_hashes :: "string list"

definition checkpoint_to_dict :: "checkpoint \<Rightarrow> (string, pyobj) dict" where
  "checkpoint_to_dict c = [schema_entry, (''thesis_id'', PStr (cp_thesis_id c)), (''sources'', PDict (cp_sources c)),
     (''recent_hashes'', py_values (cp_recent_hashes c))]"

definition checkpoint_from_dict :: "pyobj \<Rightarrow> checkpoint res" where
  "checkpoint_from_dict v = bindR (as_object v) (\<lambda>d.
     bindR (as_object (dget_default d ''sources'' (PDict []))) (\<lambda>sources.
     bindR (coerce_strings (dget_default d ''recent_hashes'' (PList []))) (\<lambda>hashes.
     bindR (req_str d ''thesis_id'') (\<lambda>tid.
     bindR (validate_json_mapping (PDict sources)) (\<lambda>sources'.
     Ok \<lparr>cp_thesis_id = tid, cp_sources = sources', cp_recent_hashes = hashes\<rparr>)))))"

section \<open>Snapshots\<close>

record state_snapshot =
  hs_thesis_id :: string
  hs_version :: int
  hs_effective_at :: string
  hs_recorded_at :: string
  hs_reason :: string
  hs_run_id :: string
  hs_trigger_id :: string
  hs_thesis :: "(string, pyobj) dict"
  hs_state :: "(string, pyobj) dict"
  hs_questions :: "(string, pyobj) dict"
  hs_watch :: "(string, pyobj) dict"
  hs_memory :: "(string, pyobj) dict"

definition snapshot_to_dict :: "state_snapshot \<Rightarrow> (string, pyobj) dict" where
  "snapshot_to_dict s = [schema_entry, (''thesis_id'', PStr (hs_thesis_id s)), (''version'', PInt (hs_version s)),
     (''effective_at'', PStr (hs_effective_at s)), (''recorded_at'', PStr (hs_recorded_at s)), (''reason'', PStr (hs_reason s)),
     (''run_id'', PStr (hs_run_id s)), (''trigger_id'', PStr (hs_trigger_id s)), (''thesis'', PDict (hs_thesis s)),
     (''state'', PDict (hs_state s)), (''questions'', PDict (hs_questions s)), (''watch'', PDict (hs_watch s)),
     (''memory'', PDict (hs_memory s))]"

definition snapshot_version :: "(string, pyobj) dict \<Rightarrow> int res" where
  "snapshot_version d = (case obj_get d ''version'' of
       PInt n \<Rightarrow> if n \<ge> 1 then Ok n else Err (ValueError ''version must be an int >= 1'')
     | _ \<Rightarrow> Err (ValueError ''version must be an int >= 1''))"

definition snapshot_moment :: "iso_parser \<Rightarrow> (string, pyobj) dict \<Rightarrow> string \<Rightarrow> string res" where
  "snapshot_moment fromiso d key = (case obj_get d key of
       PStr s \<Rightarrow> if s \<noteq> [] \<and> as_dt fromiso s \<noteq> None then Ok s
         else Err (ValueError ''must be a parseable ISO-8601 timestamp'')
     | _ \<Rightarrow> Err (ValueError ''must be a parseable ISO-8601 timestamp''))"

definition snapshot_section :: "(string, pyobj) dict \<Rightarrow> string \<Rightarrow> string \<Rightarrow> (string, pyobj) dict res" where
  "snapshot_section d key tid = bindR (as_object (dget_default d key (PDict []))) (\<lambda>payload.
     bindR (checkR (obj_get payload ''thesis_id'' = PStr tid) (ValueError ''thesis_id != snapshot thesis_id'')) (\<lambda>_.
     validate_json_mapping (PDict payload)))"

definition snapshot_rows :: "(string, pyobj) dict \<Rightarrow> string \<Rightarrow> pyobj list res" where
  "snapshot_rows section key = bindR (row_list section key) (\<lambda>rows.
     bindR (mapR as_object rows) (\<lambda>ds. Ok (map PDict ds)))"

text \<open>\<open>for x in xs: f(x)\<close> for its errors.\<close>

definition all_accepted :: "(pyobj \<Rightarrow> 'a res) \<Rightarrow> pyobj list \<Rightarrow> unit res" where
  "all_accepted f xs = bindR (mapR f xs) (\<lambda>_. Ok ())"

definition snapshot_validate :: "(pyobj \<Rightarrow> string) \<Rightarrow> (string, pyobj) dict \<Rightarrow> (string, pyobj) dict
    \<Rightarrow> (string, pyobj) dict \<Rightarrow> (string, pyobj) dict \<Rightarrow> (string, pyobj) dict \<Rightarrow> unit res" where
  "snapshot_validate show_obj thesis_d state questions watch memory =
     bindR (thesis_from_dict show_obj (PDict thesis_d)) (\<lambda>_.
     bindR (state_from_dict show_obj (PDict state)) (\<lambda>_.
     bindR (bindR (snapshot_rows questions ''questions'') (all_accepted question_from_dict)) (\<lambda>_.
     bindR (bindR (snapshot_rows watch ''rules'') (all_accepted (watch_from_dict show_obj))) (\<lambda>_.
     bindR (snapshot_rows memory ''memories'') (all_accepted (memory_from_dict show_obj))))))"

definition snapshot_from_dict :: "(pyobj \<Rightarrow> string) \<Rightarrow> iso_parser \<Rightarrow> pyobj \<Rightarrow> state_snapshot res" where
  "snapshot_from_dict show_obj fromiso v = bindR (as_object v) (\<lambda>d.
     bindR (snapshot_version d) (\<lambda>version.
     bindR (req_str d ''thesis_id'') (\<lambda>tid.
     bindR (snapshot_moment fromiso d ''effective_at'') (\<lambda>eff.
     bindR (snapshot_moment fromiso d ''recorded_at'') (\<lambda>recorded.
     bindR (req_str d ''reason'') (\<lambda>reason.
     bindR (snapshot_section d ''thesis'' tid) (\<lambda>thesis_d.
     bindR (snapshot_section d ''state'' tid) (\<lambda>state.
     bindR (snapshot_section d ''questions'' tid) (\<lambda>questions.
     bindR (snapshot_section d ''watch'' tid) (\<lambda>watch.
     bindR (snapshot_section d ''memory'' tid) (\<lambda>memory.
     bindR (snapshot_validate show_obj thesis_d state questions watch memory) (\<lambda>_.
     Ok \<lparr>hs_thesis_id = tid, hs_version = version, hs_effective_at = eff, hs_recorded_at = recorded, hs_reason = reason,
         hs_run_id = text_or_blank show_obj d ''run_id'', hs_trigger_id = text_or_blank show_obj d ''trigger_id'',
         hs_thesis = thesis_d, hs_state = state, hs_questions = questions, hs_watch = watch, hs_memory = memory\<rparr>))))))))))))"

section \<open>What the readers accept\<close>

text \<open>\<open>str\<close> never gives blank text for a value that is not text.\<close>

definition shows_text :: "(pyobj \<Rightarrow> string) \<Rightarrow> bool" where
  "shows_text show_obj \<longleftrightarrow> (\<forall>v. strip (show_obj v) \<noteq> [])"

named_theorems thesis_reader

lemma as_object_iff [thesis_reader]: "as_object v = Inr d \<longleftrightarrow> v = PDict d"
  by (cases v) (simp_all add: as_object_def)

lemma req_str_iff [thesis_reader]: "req_str d key = Inr s \<longleftrightarrow> dget d key = Some (PStr s) \<and> s \<noteq> []"
  by (cases "dget d key") (auto simp: req_str_def obj_get_def dget_default_def split: pyobj.splits)

lemma coerce_enum_iff [thesis_reader]: "coerce_enum allowed v = Inr s \<longleftrightarrow> v = PStr s \<and> s \<in> set allowed"
  by (cases v) (auto simp: coerce_enum_def)

lemma open_text_iff [thesis_reader]: "coerce_open_text v = Inr s \<longleftrightarrow> v = PStr s \<and> strip s \<noteq> []"
  by (cases v) (auto simp: coerce_open_text_def)

lemma strings_iff [thesis_reader]: "coerce_strings v = Inr ss \<longleftrightarrow> v = py_values ss"
proof (cases v)
  case (PList xs)
  have "list_all is_str xs \<and> map str_of xs = ss \<longleftrightarrow> xs = map PStr ss"
  proof
    assume "list_all is_str xs \<and> map str_of xs = ss"
    moreover have "is_str x \<Longrightarrow> PStr (str_of x) = x" for x by (cases x) simp_all
    ultimately show "xs = map PStr ss" by (induction xs arbitrary: ss) auto
  qed auto
  then show ?thesis using PList by (auto simp: coerce_strings_def py_values_def)
qed (simp_all add: coerce_strings_def py_values_def)

lemma vocab_member: "coerce_vocab show_obj allowed v = Inr s \<Longrightarrow> s \<in> set allowed"
  by (auto simp: coerce_vocab_def Let_def split: if_splits)

lemma vocab_text: "s \<in> set allowed \<Longrightarrow> s \<noteq> [] \<Longrightarrow> coerce_vocab show_obj allowed (PStr s) = Inr s"
  by (simp add: coerce_vocab_def obj_text_def)

lemma unknown_visible: "strip unknown_text \<noteq> []"
  by code_simp

lemma opt_unknown_visible: "shows_text show_obj \<Longrightarrow> strip (opt_unknown show_obj v) \<noteq> []"
  using unknown_visible by (cases v) (simp_all add: opt_unknown_def shows_text_def)

lemma opt_unknown_text [simp]: "strip s \<noteq> [] \<Longrightarrow> opt_unknown show_obj (PStr s) = s"
  by (simp add: opt_unknown_def)

definition wf_claim :: "thesis_claim \<Rightarrow> bool" where
  "wf_claim c \<longleftrightarrow> tc_claim_id c \<noteq> [] \<and> tc_statement c \<noteq> [] \<and> tc_status c \<in> set claim_statuses"

definition wf_expression :: "trade_expression \<Rightarrow> bool" where
  "wf_expression e \<longleftrightarrow> te_expression_id e \<noteq> [] \<and> strip (te_intent e) \<noteq> [] \<and> te_instrument e \<in> set instruments
     \<and> te_direction e \<in> set directions \<and> strip (te_structure e) \<noteq> [] \<and> strip (te_horizon e) \<noteq> []
     \<and> finite_json (PDict (te_leverage e)) \<and> finite_json (PDict (te_parameters e)) \<and> strip (te_support e) \<noteq> []
     \<and> te_status e \<in> set expression_statuses"

definition wf_requirement :: "expression_requirement \<Rightarrow> bool" where
  "wf_requirement r \<longleftrightarrow> tq_requirement_id r \<noteq> [] \<and> tq_expression_id r \<noteq> [] \<and> strip (tq_type r) \<noteq> []
     \<and> tq_statement r \<noteq> [] \<and> tq_status r \<in> set question_statuses"

lemma claim_accepted: "claim_from_dict v = Inr c \<Longrightarrow> wf_claim c"
  by (auto simp: claim_from_dict_def bindR_Ok_iff thesis_reader wf_claim_def)

lemma claim_reread: "wf_claim c \<Longrightarrow> claim_from_dict (PDict (claim_to_dict c)) = Inr c"
  by (simp add: claim_from_dict_def claim_to_dict_def bindR_Ok_iff thesis_reader wf_claim_def dget_default_def)

lemma requirement_accepted: "requirement_from_dict v = Inr r \<Longrightarrow> wf_requirement r"
  by (auto simp: requirement_from_dict_def bindR_Ok_iff thesis_reader wf_requirement_def)

lemma requirement_reread: "wf_requirement r \<Longrightarrow> requirement_from_dict (PDict (requirement_to_dict r)) = Inr r"
  by (simp add: requirement_from_dict_def requirement_to_dict_def bindR_Ok_iff thesis_reader wf_requirement_def
      dget_default_def obj_get_def)

lemma optional_mapping_iff:
  "coerce_optional_mapping v = Inr d \<longleftrightarrow> v = PDict d \<or> v = PNone \<and> d = []"
  by (cases v) (auto simp: coerce_optional_mapping_def)

lemma expression_accepted:
  assumes "shows_text show_obj" and "expression_from_dict show_obj v = Inr e"
  shows "wf_expression e"
  using assms(2)
  by (auto simp: expression_from_dict_def bindR_Ok_iff thesis_reader wf_expression_def validate_json_mapping_iff
      opt_unknown_visible [OF assms(1)] simp del: finite_json.simps dest: vocab_member)

lemma vocab_nonempty: "s \<in> set instruments \<Longrightarrow> s \<noteq> []" "s \<in> set directions \<Longrightarrow> s \<noteq> []"
  by (auto simp: instruments_def directions_def)

lemma expression_reread:
  assumes "wf_expression e"
  shows "expression_from_dict show_obj (PDict (expression_to_dict e)) = Inr e"
  using assms unfolding wf_expression_def
  by (simp add: expression_from_dict_def expression_to_dict_def bindR_Ok_iff thesis_reader validate_json_mapping_iff
      optional_mapping_iff dget_default_def obj_get_def vocab_text vocab_nonempty del: finite_json.simps)

lemma fold_ids_iff:
  "fold_ids ids seen = Inr s \<longleftrightarrow> distinct ids \<and> set ids \<inter> seen = {} \<and> s = seen \<union> set ids"
  by (induction ids arbitrary: seen) auto

lemma requirement_links_iff:
  "requirement_links rs seen exprs = Inr u \<longleftrightarrow> distinct (map tq_requirement_id rs)
     \<and> set (map tq_requirement_id rs) \<inter> seen = {} \<and> list_all (\<lambda>r. tq_expression_id r \<in> exprs) rs"
  by (induction rs arbitrary: seen) auto

definition requirement_ids :: "research_thesis \<Rightarrow> string list" where
  "requirement_ids t = map tq_requirement_id (th_requirements t)"

definition ids_linked :: "research_thesis \<Rightarrow> bool" where
  "ids_linked t \<longleftrightarrow> distinct (thesis_claim_ids t @ thesis_expression_ids t @ requirement_ids t)
     \<and> list_all (\<lambda>r. tq_expression_id r \<in> set (thesis_expression_ids t)) (th_requirements t)"

lemma validate_thesis_iff: "validate_thesis t = Inr u \<longleftrightarrow> ids_linked t"
  by (auto simp: validate_thesis_def bindR_Ok_iff fold_ids_iff requirement_links_iff ids_linked_def requirement_ids_def)

definition wf_thesis :: "research_thesis \<Rightarrow> bool" where
  "wf_thesis t \<longleftrightarrow> th_thesis_id t \<noteq> [] \<and> th_slug t \<noteq> [] \<and> th_user_thesis t \<noteq> [] \<and> th_status t \<in> set thesis_statuses
     \<and> strip (th_scope t) \<noteq> [] \<and> list_all wf_claim (th_claims t) \<and> list_all wf_expression (th_expressions t)
     \<and> list_all wf_requirement (th_requirements t) \<and> ids_linked t"

lemma mapR_list_all:
  assumes "mapR f xs = Inr ys" and "\<And>x y. f x = Inr y \<Longrightarrow> P y"
  shows "list_all P ys"
  using assms(1) by (auto simp: list_all_iff dest!: mapR_Ok_set intro: assms(2))

lemma wf_claims: "mapR claim_from_dict xs = Inr cs \<Longrightarrow> list_all wf_claim cs"
  by (erule mapR_list_all) (rule claim_accepted)

lemma wf_requirements: "mapR requirement_from_dict xs = Inr rs \<Longrightarrow> list_all wf_requirement rs"
  by (erule mapR_list_all) (rule requirement_accepted)

lemma wf_expressions:
  "shows_text show_obj \<Longrightarrow> mapR (expression_from_dict show_obj) xs = Inr es \<Longrightarrow> list_all wf_expression es"
  by (erule mapR_list_all) (rule expression_accepted)

lemma thesis_wf:
  assumes "shows_text show_obj" and "thesis_from_dict show_obj v = Inr t"
  shows "wf_thesis t"
  using assms(2)
  by (auto simp: thesis_from_dict_def Let_def bindR_Ok_iff thesis_reader validate_thesis_iff wf_thesis_def
      opt_unknown_visible [OF assms(1)] dest: wf_claims wf_requirements wf_expressions [OF assms(1)])

lemma text_or_blank_reread: "dget d key = Some (PStr s) \<Longrightarrow> text_or_blank show_obj d key = s"
  by (simp add: text_or_blank_def obj_get_def dget_default_def obj_text_def)

lemma thesis_reread:
  assumes "wf_thesis t"
  shows "thesis_from_dict show_obj (PDict (thesis_to_dict t)) = Inr t"
proof -
  let ?d = "thesis_to_dict t"
  note wf = assms [unfolded wf_thesis_def]
  have rows: "bindR (row_list ?d ''claims'') (mapR claim_from_dict) = Inr (th_claims t)"
    "bindR (row_list ?d ''expressions'') (mapR (expression_from_dict show_obj)) = Inr (th_expressions t)"
    "bindR (row_list ?d ''requirements'') (mapR requirement_from_dict) = Inr (th_requirements t)"
    using wf by (simp_all add: row_list_def dget_default_def thesis_to_dict_def list_all_iff
        mapR_roundtrip claim_reread expression_reread requirement_reread)
  have texts: "text_or_blank show_obj ?d ''created_at'' = th_created_at t"
    "text_or_blank show_obj ?d ''updated_at'' = th_updated_at t"
    by (rule text_or_blank_reread, simp add: thesis_to_dict_def)+
  have fields: "coerce_strings (dget_default ?d ''assumptions'' (PList [])) = Inr (th_assumptions t)"
    "coerce_strings (dget_default ?d ''invalidators'' (PList [])) = Inr (th_invalidators t)"
    "coerce_strings (dget_default ?d ''unknowns'' (PList [])) = Inr (th_unknowns t)"
    "coerce_enum thesis_statuses (dget_default ?d ''status'' (PStr ''active'')) = Inr (th_status t)"
    "opt_unknown show_obj (dget_default ?d ''scope'' (PStr unknown_text)) = th_scope t"
    "req_str ?d ''thesis_id'' = Inr (th_thesis_id t)" "req_str ?d ''slug'' = Inr (th_slug t)"
    "req_str ?d ''user_thesis'' = Inr (th_user_thesis t)" "validate_thesis t = Inr ()"
    using wf by (simp_all add: thesis_reader validate_thesis_iff, simp_all add: thesis_to_dict_def dget_default_def)
  have eta: "\<lparr>th_thesis_id = th_thesis_id t, th_slug = th_slug t, th_status = th_status t, th_created_at = th_created_at t,
      th_updated_at = th_updated_at t, th_user_thesis = th_user_thesis t, th_scope = th_scope t, th_claims = th_claims t,
      th_assumptions = th_assumptions t, th_invalidators = th_invalidators t, th_unknowns = th_unknowns t,
      th_expressions = th_expressions t, th_requirements = th_requirements t\<rparr> = t"
    by simp
  show ?thesis
    unfolding thesis_from_dict_def by (simp add: rows texts fields as_object_def Let_def eta)
qed


text \<open>
  C40.  What \<open>Thesis.from_dict\<close> accepts is well formed: every id, the slug and the text are there, every
  status is in its vocabulary, no id occurs twice among claims, expressions and requirements, and every
  requirement belongs to an expression of the thesis.  Its JSON form is read back as the same thesis.
\<close>

theorem thesis_normal_form:
  assumes "shows_text show_obj" and "thesis_from_dict show_obj v = Ok t"
  shows "wf_thesis t \<and> thesis_from_dict show_obj (PDict (thesis_to_dict t)) = Ok t"
  using thesis_wf [OF assms] by (simp_all add: thesis_reread)

definition demo_show :: "pyobj \<Rightarrow> string" where
  "demo_show v = ''value''"

definition demo_thesis_doc :: "(string, pyobj) dict" where
  "demo_thesis_doc = [(''thesis_id'', PStr ''thesis:1''), (''slug'', PStr ''memory-cycle''),
     (''user_thesis'', PStr ''Memory prices turn''), (''scope'', PStr '' ''),
     (''claims'', PList [PDict [(''claim_id'', PStr ''claim:1''), (''statement'', PStr ''Prices rise'')]]),
     (''expressions'', PList [PDict [(''expression_id'', PStr ''expr:1''), (''direction'', PStr ''long'')]]),
     (''requirements'', PList [PDict [(''requirement_id'', PStr ''req:1''), (''expression_id'', PStr ''expr:1''),
        (''requirement_type'', PStr ''liquidity''), (''statement'', PStr ''Enough volume'')]])]"

definition demo_thesis :: research_thesis where
  "demo_thesis = \<lparr>th_thesis_id = ''thesis:1'', th_slug = ''memory-cycle'', th_status = ''active'', th_created_at = [],
     th_updated_at = [], th_user_thesis = ''Memory prices turn'', th_scope = ''unknown'',
     th_claims = [\<lparr>tc_claim_id = ''claim:1'', tc_statement = ''Prices rise'', tc_status = ''unvalidated''\<rparr>],
     th_assumptions = [], th_invalidators = [], th_unknowns = [],
     th_expressions = [\<lparr>te_expression_id = ''expr:1'', te_intent = ''unknown'', te_instrument = ''unknown'',
        te_direction = ''long'', te_structure = ''unknown'', te_horizon = ''unknown'', te_leverage = [],
        te_parameters = [], te_support = ''unknown'', te_status = ''undecided''\<rparr>],
     th_requirements = [\<lparr>tq_requirement_id = ''req:1'', tq_expression_id = ''expr:1'', tq_type = ''liquidity'',
        tq_statement = ''Enough volume'', tq_status = ''open''\<rparr>]\<rparr>"

lemma demo_show_text: "shows_text demo_show"
proof -
  have "strip ''value'' \<noteq> []" by code_simp
  then show ?thesis by (simp add: shows_text_def demo_show_def)
qed

lemma demo_thesis_read: "thesis_from_dict demo_show (PDict demo_thesis_doc) = Ok demo_thesis"
  by code_simp

theorem thesis_normal_form_witness:
  "wf_thesis demo_thesis \<and> thesis_from_dict demo_show (PDict (thesis_to_dict demo_thesis)) = Ok demo_thesis"
  using thesis_normal_form [OF demo_show_text demo_thesis_read] by simp

section \<open>Rules and snapshots\<close>

text \<open>A rule of an unknown type is stored, but never live.\<close>

lemma unknown_rule_disabled:
  "watch_from_dict show_obj v = Inr r \<Longrightarrow> wu_rule_type r \<in> set known_watch_types
     \<or> (\<not> wu_enabled r \<and> wu_support_status r = ''unsupported'')"
  by (auto simp: watch_from_dict_def check_rule_known_def bindR_Ok_iff)

definition wf_watch :: "watch_rule \<Rightarrow> bool" where
  "wf_watch r \<longleftrightarrow> wu_rule_id r \<noteq> [] \<and> strip (wu_rule_type r) \<noteq> [] \<and> wu_support_status r \<in> set support_statuses
     \<and> (wu_rule_type r \<in> set known_watch_types \<or> (\<not> wu_enabled r \<and> wu_support_status r = ''unsupported''))"

lemma rule_type_iff [thesis_reader]: "coerce_rule_type v = Inr s \<longleftrightarrow> v = PStr s \<and> strip s \<noteq> []"
  by (cases v) (auto simp: coerce_rule_type_def)

lemma rule_enabled_iff [thesis_reader]: "coerce_rule_enabled v = Inr b \<longleftrightarrow> v = PBool b"
  by (cases v) (auto simp: coerce_rule_enabled_def)

lemma opt_str_iff [thesis_reader]: "opt_str v = Inr x \<longleftrightarrow> v = opt_obj PStr x"
  by (cases v; cases x) (auto simp: opt_str_def opt_obj_def)

lemma values_inject [simp]: "py_values xs = py_values ys \<longleftrightarrow> xs = ys"
  by (auto simp: py_values_def inj_map_eq_map inj_def)

lemma opt_text_inject [simp]: "opt_obj PStr x = opt_obj PStr y \<longleftrightarrow> x = y"
  by (cases x; cases y) (simp_all add: opt_obj_def)

lemma watch_accepted: "watch_from_dict show_obj v = Inr r \<Longrightarrow> wf_watch r"
  by (auto simp: watch_from_dict_def check_rule_known_def bindR_Ok_iff thesis_reader wf_watch_def)

lemma watch_reread: "wf_watch r \<Longrightarrow> watch_from_dict show_obj (PDict (watch_to_dict r)) = Inr r"
  by (simp add: watch_from_dict_def watch_to_dict_def check_rule_known_def bindR_Ok_iff thesis_reader wf_watch_def
      dget_default_def obj_get_def text_default_def obj_text_def)

definition wf_question :: "thesis_question \<Rightarrow> bool" where
  "wf_question q \<longleftrightarrow> qn_question_id q \<noteq> [] \<and> qn_text q \<noteq> [] \<and> qn_status q \<in> set question_statuses"

lemma question_accepted: "question_from_dict v = Inr q \<Longrightarrow> wf_question q"
  by (auto simp: question_from_dict_def bindR_Ok_iff thesis_reader wf_question_def)

lemma question_reread: "wf_question q \<Longrightarrow> question_from_dict (PDict (question_to_dict q)) = Inr q"
  by (simp add: question_from_dict_def question_to_dict_def bindR_Ok_iff thesis_reader wf_question_def
      dget_default_def obj_get_def)

lemma memory_reread:
  "mm_memory_id m \<noteq> [] \<Longrightarrow> mm_text m \<noteq> [] \<Longrightarrow> memory_from_dict show_obj (PDict (memory_to_dict m)) = Inr m"
  by (simp add: memory_from_dict_def memory_to_dict_def bindR_Ok_iff thesis_reader text_or_blank_def
      dget_default_def obj_get_def obj_text_def)

lemma memory_accepted: "memory_from_dict show_obj v = Inr m \<Longrightarrow> mm_memory_id m \<noteq> [] \<and> mm_text m \<noteq> []"
  by (auto simp: memory_from_dict_def bindR_Ok_iff thesis_reader)

definition section_of :: "string \<Rightarrow> (string, pyobj) dict \<Rightarrow> bool" where
  "section_of tid d \<longleftrightarrow> obj_get d ''thesis_id'' = PStr tid \<and> finite_json (PDict d)"

lemma section_iff [thesis_reader]:
  "snapshot_section d key tid = Inr x \<longleftrightarrow> dget_default d key (PDict []) = PDict x \<and> section_of tid x"
  by (auto simp: snapshot_section_def bindR_Ok_iff as_object_iff validate_json_mapping_iff section_of_def
      simp del: finite_json.simps)

lemma version_iff [thesis_reader]: "snapshot_version d = Inr n \<longleftrightarrow> obj_get d ''version'' = PInt n \<and> n \<ge> 1"
  by (cases "obj_get d ''version''") (auto simp: snapshot_version_def)

lemma moment_iff [thesis_reader]:
  "snapshot_moment fromiso d key = Inr s \<longleftrightarrow> obj_get d key = PStr s \<and> s \<noteq> [] \<and> as_dt fromiso s \<noteq> None"
  by (cases "obj_get d key") (auto simp: snapshot_moment_def)

definition wf_snapshot :: "(pyobj \<Rightarrow> string) \<Rightarrow> iso_parser \<Rightarrow> state_snapshot \<Rightarrow> bool" where
  "wf_snapshot show_obj fromiso s \<longleftrightarrow> hs_version s \<ge> 1 \<and> hs_thesis_id s \<noteq> []
     \<and> hs_effective_at s \<noteq> [] \<and> as_dt fromiso (hs_effective_at s) \<noteq> None
     \<and> hs_recorded_at s \<noteq> [] \<and> as_dt fromiso (hs_recorded_at s) \<noteq> None \<and> hs_reason s \<noteq> []
     \<and> list_all (section_of (hs_thesis_id s)) [hs_thesis s, hs_state s, hs_questions s, hs_watch s, hs_memory s]
     \<and> is_ok (snapshot_validate show_obj (hs_thesis s) (hs_state s) (hs_questions s) (hs_watch s) (hs_memory s))"

lemma snapshot_accepted: "snapshot_from_dict show_obj fromiso v = Inr s \<Longrightarrow> wf_snapshot show_obj fromiso s"
  by (auto simp: snapshot_from_dict_def bindR_Ok_iff thesis_reader wf_snapshot_def is_ok_iff)

lemma snapshot_reread:
  "snapshot_from_dict show_obj fromiso (PDict (snapshot_to_dict s)) = Inr s'
     \<longleftrightarrow> s' = s \<and> wf_snapshot show_obj fromiso s"
proof -
  have texts: "text_or_blank show_obj (snapshot_to_dict s) ''run_id'' = hs_run_id s"
    "text_or_blank show_obj (snapshot_to_dict s) ''trigger_id'' = hs_trigger_id s"
    by (rule text_or_blank_reread, simp add: snapshot_to_dict_def schema_entry_def)+
  have fields: "dget (snapshot_to_dict s) ''thesis_id'' = Some (PStr (hs_thesis_id s))"
    "dget (snapshot_to_dict s) ''reason'' = Some (PStr (hs_reason s))"
    "obj_get (snapshot_to_dict s) ''version'' = PInt (hs_version s)"
    "obj_get (snapshot_to_dict s) ''effective_at'' = PStr (hs_effective_at s)"
    "obj_get (snapshot_to_dict s) ''recorded_at'' = PStr (hs_recorded_at s)"
    "dget_default (snapshot_to_dict s) ''thesis'' (PDict []) = PDict (hs_thesis s)"
    "dget_default (snapshot_to_dict s) ''state'' (PDict []) = PDict (hs_state s)"
    "dget_default (snapshot_to_dict s) ''questions'' (PDict []) = PDict (hs_questions s)"
    "dget_default (snapshot_to_dict s) ''watch'' (PDict []) = PDict (hs_watch s)"
    "dget_default (snapshot_to_dict s) ''memory'' (PDict []) = PDict (hs_memory s)"
    by (simp_all add: snapshot_to_dict_def schema_entry_def obj_get_def dget_default_def)
  show ?thesis
    by (auto simp: snapshot_from_dict_def as_object_def bindR_Ok_iff thesis_reader fields texts wf_snapshot_def is_ok_iff)
qed

end
