(* ===== verification/ThesisHistory.thy ===== *)
theory ThesisHistory
  imports Thesis Identity "HOL-Library.Multiset"
begin

text \<open>
  The folder of a thesis and its versioned history (\<open>app/thesis/yaml.py\<close> and the history part of
  \<open>app/thesis/repository.py\<close>): numbered snapshots, each with the moment it is effective from, and the
  state as of a moment.  A YAML file is malformed or holds a document with JSON values, and reads back
  as the document written (nothing here depends on the order of its keys); a write is atomic.  The
  readings of the clock are arguments, one per place that reads it.
\<close>

section \<open>Files\<close>

datatype yaml_file = Malformed | Document pyobj

text \<open>\<open>== SCHEMA_VERSION\<close>.\<close>

fun equals_one :: "pyobj \<Rightarrow> bool" where
  "equals_one (PInt n) = (n = 1)"
| "equals_one (PBool b) = b"
| "equals_one (PFloat d) = (d = Fin 1)"
| "equals_one v = False"

definition load_raw :: "yaml_file option \<Rightarrow> (string, pyobj) dict res" where
  "load_raw f = (case f of None \<Rightarrow> Err (FileNotFoundError ''no such file'')
     | Some Malformed \<Rightarrow> Err (ValueError ''malformed YAML'')
     | Some (Document v) \<Rightarrow> bindR (as_object v) (\<lambda>d.
         bindR (checkR (equals_one (obj_get d ''schema_version'')) (ValueError ''unknown schema_version'')) (\<lambda>_. Ok d)))"

definition load_model :: "(pyobj \<Rightarrow> 'a res) \<Rightarrow> yaml_file option \<Rightarrow> 'a res" where
  "load_model from f = (case f of None \<Rightarrow> Err (ValueError ''file not found'') | Some _ \<Rightarrow> bindR (load_raw f) (\<lambda>d. from (PDict d)))"

definition written :: "(string, pyobj) dict \<Rightarrow> yaml_file" where
  "written d = Document (PDict d)"

text \<open>
  The folder; history, inbox and evidence map the stem of a file name to the file, the journal to its
  text, and \<open>fo_pending\<close> the safe name of a trigger to the stored result of its run.
\<close>

record folder =
  fo_thesis :: "yaml_file option"
  fo_state :: "yaml_file option"
  fo_watch :: "yaml_file option"
  fo_questions :: "yaml_file option"
  fo_memory :: "yaml_file option"
  fo_checkpoint :: "yaml_file option"
  fo_history :: "(string, yaml_file) dict"
  fo_inbox :: "(string, yaml_file) dict"
  fo_evidence :: "(string, yaml_file) dict"
  fo_journal :: "(string, string) dict"
  fo_pending :: "(string, yaml_file) dict"

record readings =
  rd_effective :: string
  rd_updated :: string
  rd_migration :: string
  rd_recorded :: string

text \<open>\<open>sorted(dir.glob("*.yaml"))\<close>.\<close>

definition sorted_files :: "(string, yaml_file) dict \<Rightarrow> (string \<times> yaml_file) list" where
  "sorted_files files = sort_key (\<lambda>(stem, _). stem @ ''.yaml'') files"

section \<open>Versions\<close>

definition pad8 :: "int \<Rightarrow> string" where
  "pad8 n = (let s = nat_str (nat \<bar>n\<bar>)
     in if n < 0 then CHR ''-'' # zeros (7 - length s) @ s else zeros (8 - length s) @ s)"

definition history_versions :: "(string, yaml_file) dict \<Rightarrow> int list" where
  "history_versions h = List.map_filter (\<lambda>(stem, _). py_int stem) h"

definition next_history_version :: "(string, yaml_file) dict \<Rightarrow> int" where
  "next_history_version h = (let vs = history_versions h in (if vs = [] then 0 else Max (set vs)) + 1)"

definition list_state_versions :: "folder \<Rightarrow> int list" where
  "list_state_versions fo = sort (history_versions (fo_history fo))"

text \<open>\<open>_history_pair\<close>: a file that does not load, or has no readable moment, is skipped.\<close>

definition history_pair :: "(pyobj \<Rightarrow> string) \<Rightarrow> iso_parser \<Rightarrow> string \<times> yaml_file \<Rightarrow> (instant \<times> int) option" where
  "history_pair show_obj fromiso e = (case e of (stem, f) \<Rightarrow> (case py_int stem of None \<Rightarrow> None
     | Some v \<Rightarrow> (case load_raw (Some f) of Err _ \<Rightarrow> None
         | Ok d \<Rightarrow> (case obj_get d ''effective_at'' of PNone \<Rightarrow> None
             | w \<Rightarrow> map_option (\<lambda>t. (t, v)) (as_dt fromiso (obj_text show_obj w))))))"

definition latest_effective :: "(pyobj \<Rightarrow> string) \<Rightarrow> iso_parser \<Rightarrow> folder \<Rightarrow> (instant \<times> int) option" where
  "latest_effective show_obj fromiso fo =
     (let pairs = List.map_filter (history_pair show_obj fromiso) (fo_history fo)
      in if pairs = [] then None else Some (Max (set (map fst pairs)), Max (set (map snd pairs))))"

text \<open>Is a moment before the latest one of the history?\<close>

definition backdated :: "(pyobj \<Rightarrow> string) \<Rightarrow> iso_parser \<Rightarrow> instant \<Rightarrow> folder \<Rightarrow> bool" where
  "backdated show_obj fromiso moment fo = (case latest_effective show_obj fromiso fo of None \<Rightarrow> False | Some (t, _) \<Rightarrow> moment < t)"

section \<open>Writing a snapshot\<close>

definition write_snapshot :: "(pyobj \<Rightarrow> string) \<Rightarrow> iso_parser \<Rightarrow> string \<Rightarrow> state_snapshot \<Rightarrow> folder \<Rightarrow> folder \<times> state_snapshot res" where
  "write_snapshot show_obj fromiso now draft fo =
     (if as_dt fromiso (hs_effective_at draft) = None then (fo, Err (ValueError ''bad effective_at''))
      else let version = next_history_version (fo_history fo);
               snap = draft\<lparr>hs_version := version, hs_recorded_at := now\<rparr>
           in case snapshot_from_dict show_obj fromiso (PDict (snapshot_to_dict snap)) of
                Err e \<Rightarrow> (fo, Err e)
              | Ok s \<Rightarrow> (fo\<lparr>fo_history := dset (pad8 version) (written (snapshot_to_dict s)) (fo_history fo)\<rparr>, Ok s))"

definition owned_by :: "string \<Rightarrow> yaml_file option \<Rightarrow> (string, pyobj) dict res" where
  "owned_by tid f = bindR (load_raw f) (\<lambda>d.
     bindR (checkR (obj_get d ''thesis_id'' = PStr tid) (ValueError ''thesis_id mismatch'')) (\<lambda>_. Ok d))"

text \<open>
  A draft carries everything but the version and the recording time.  \<open>live_sections\<close> reads the five
  live files.
\<close>

definition draft_of :: "string \<Rightarrow> string \<Rightarrow> string \<Rightarrow> string \<Rightarrow> string \<Rightarrow> (string, pyobj) dict \<Rightarrow> (string, pyobj) dict
    \<Rightarrow> (string, pyobj) dict \<Rightarrow> (string, pyobj) dict \<Rightarrow> (string, pyobj) dict \<Rightarrow> state_snapshot" where
  "draft_of tid eff reason run trig thesis_d state questions watch memory =
     \<lparr>hs_thesis_id = tid, hs_version = 0, hs_effective_at = eff, hs_recorded_at = [], hs_reason = reason, hs_run_id = run,
      hs_trigger_id = trig, hs_thesis = thesis_d, hs_state = state, hs_questions = questions, hs_watch = watch, hs_memory = memory\<rparr>"

definition live_sections :: "(pyobj \<Rightarrow> string) \<Rightarrow> string \<Rightarrow> string \<Rightarrow> string \<Rightarrow> string \<Rightarrow> string \<Rightarrow> folder \<Rightarrow> state_snapshot res" where
  "live_sections show_obj tid eff reason run trig fo =
     bindR (load_model (thesis_from_dict show_obj) (fo_thesis fo)) (\<lambda>t.
     bindR (checkR (th_thesis_id t = tid) (ValueError ''thesis_id mismatch'')) (\<lambda>_.
     bindR (load_model (state_from_dict show_obj) (fo_state fo)) (\<lambda>s.
     bindR (owned_by tid (fo_questions fo)) (\<lambda>questions.
     bindR (owned_by tid (fo_watch fo)) (\<lambda>watch.
     bindR (owned_by tid (fo_memory fo)) (\<lambda>memory.
     Ok (draft_of tid eff reason run trig (thesis_to_dict t) (state_to_dict s) questions watch memory)))))))"

text \<open>The first snapshot of a folder that was not just created is a migration, dated by the thesis.\<close>

definition migration_basis :: "iso_parser \<Rightarrow> string \<Rightarrow> folder \<Rightarrow> string \<Rightarrow> string \<Rightarrow> string \<Rightarrow> string \<times> string" where
  "migration_basis fromiso now fo reason eff updated =
     (if history_versions (fo_history fo) \<noteq> [] then (reason, eff)
      else if reason \<noteq> ''thesis_created''
        then (''history_migration'', if as_dt fromiso updated \<noteq> None then updated else now)
      else (reason, eff))"

definition snapshot_live :: "(pyobj \<Rightarrow> string) \<Rightarrow> iso_parser \<Rightarrow> readings \<Rightarrow> string \<Rightarrow> string \<Rightarrow> string \<Rightarrow> string \<Rightarrow> string
    \<Rightarrow> folder \<Rightarrow> folder \<times> state_snapshot res" where
  "snapshot_live show_obj fromiso rd tid eff reason run trig fo =
     (if as_dt fromiso eff = None then (fo, Err (ValueError ''bad effective_at''))
      else case bindR (live_sections show_obj tid eff reason run trig fo) (\<lambda>draft.
          bindR (load_model (thesis_from_dict show_obj) (fo_thesis fo)) (\<lambda>t. Ok (draft, th_updated_at t))) of
        Err e \<Rightarrow> (fo, Err e)
      | Ok (draft, updated) \<Rightarrow>
          (case migration_basis fromiso (rd_migration rd) fo reason eff updated of (reason', eff') \<Rightarrow>
             write_snapshot show_obj fromiso (rd_recorded rd) (draft\<lparr>hs_reason := reason', hs_effective_at := eff'\<rparr>) fo))"

section \<open>The state as of a moment\<close>

definition read_snapshot :: "(pyobj \<Rightarrow> string) \<Rightarrow> iso_parser \<Rightarrow> yaml_file \<Rightarrow> state_snapshot res" where
  "read_snapshot show_obj fromiso f = bindR (load_raw (Some f)) (\<lambda>d. snapshot_from_dict show_obj fromiso (PDict d))"

definition history_snaps :: "(pyobj \<Rightarrow> string) \<Rightarrow> iso_parser \<Rightarrow> folder \<Rightarrow> state_snapshot list res" where
  "history_snaps show_obj fromiso fo = (case sorted_files (fo_history fo) of
       [] \<Rightarrow> Err (HistoricalStateUnavailable ''no history'')
     | files \<Rightarrow> mapR (\<lambda>(_, f). read_snapshot show_obj fromiso f) files)"

definition effective_from :: "iso_parser \<Rightarrow> state_snapshot \<Rightarrow> instant option" where
  "effective_from fromiso s = as_dt fromiso (hs_effective_at s)"

definition in_effect :: "iso_parser \<Rightarrow> instant \<Rightarrow> state_snapshot \<Rightarrow> bool" where
  "in_effect fromiso cutoff s = (case effective_from fromiso s of None \<Rightarrow> False | Some t \<Rightarrow> t \<le> cutoff)"

text \<open>\<open>_snapshot_order_key\<close>; the moment of a loaded snapshot is readable.\<close>

definition snapshot_key :: "iso_parser \<Rightarrow> state_snapshot \<Rightarrow> instant \<times> int" where
  "snapshot_key fromiso s = (case effective_from fromiso s of Some t \<Rightarrow> (t, hs_version s) | None \<Rightarrow> (0, hs_version s))"

definition eligible_snapshot :: "iso_parser \<Rightarrow> state_snapshot list \<Rightarrow> instant \<Rightarrow> state_snapshot option" where
  "eligible_snapshot fromiso snaps cutoff =
     (case sort_key (snapshot_key fromiso) (filter (in_effect fromiso cutoff) snaps) of [] \<Rightarrow> None | s # ss \<Rightarrow> Some (last (s # ss)))"

definition load_state_as_of :: "(pyobj \<Rightarrow> string) \<Rightarrow> iso_parser \<Rightarrow> folder \<Rightarrow> string \<Rightarrow> state_snapshot res" where
  "load_state_as_of show_obj fromiso fo known = (case as_dt fromiso known of
       None \<Rightarrow> Err (ValueError ''bad known_at'')
     | Some cutoff \<Rightarrow> (case history_snaps show_obj fromiso fo of
           Err (HistoricalStateUnavailable _) \<Rightarrow> Err (HistoricalStateUnavailable ''no state as of'')
         | Err e \<Rightarrow> Err e
         | Ok snaps \<Rightarrow> (case eligible_snapshot fromiso snaps cutoff of
               None \<Rightarrow> Err (HistoricalStateUnavailable ''no state as of'') | Some s \<Rightarrow> Ok s)))"

section \<open>Numbering\<close>

lemma py_int_pad8 [simp]: "py_int (pad8 n) = Some n"
  using py_int_digits [OF _ zeros_digits]
  by (simp add: pad8_def Let_def digits_val_append digits_val_nat_str)

definition version_num :: "string \<times> yaml_file \<Rightarrow> nat" where
  "version_num e = (case py_int (fst e) of None \<Rightarrow> 0 | Some n \<Rightarrow> nat n)"

lemma numbered_versions:
  assumes "numbered version_num h"
  shows "history_versions h = map int [1..<Suc (length h)]"
    and "\<And>e. e \<in> set h \<Longrightarrow> py_int (fst e) = Some (int (version_num e))"
proof -
  show some: "py_int (fst e) = Some (int (version_num e))" if "e \<in> set h" for e
  proof -
    have "version_num e \<in> set (map version_num h)" using that by simp
    moreover have "set (map version_num h) = {1..<Suc (length h)}"
      using assms by (simp only: numbered_def set_upt)
    ultimately have "version_num e \<ge> 1" by auto
    then show ?thesis by (auto simp: version_num_def split: option.splits)
  qed
  have "history_versions h = map (\<lambda>e. int (version_num e)) h"
    using some by (induction h) (auto simp: history_versions_def split_beta)
  also have "\<dots> = map int (map version_num h)" by simp
  finally show "history_versions h = map int [1..<Suc (length h)]" using assms by (simp only: numbered_def)
qed

lemma next_version_numbered:
  assumes "numbered version_num h"
  shows "next_history_version h = int (Suc (length h))"
proof (cases "h = []")
  case True
  then show ?thesis by (simp add: next_history_version_def history_versions_def)
next
  case False
  then have "int (length h) \<in> int ` {1..<Suc (length h)}" by (intro imageI) (cases h, auto)
  then have "Max (int ` {1..<Suc (length h)}) = int (length h)" by (intro Max_eqI) auto
  then show ?thesis
    using False numbered_versions(1) [OF assms] by (simp add: next_history_version_def del: upt_Suc)
qed

lemma next_version_greater: "v \<in> set (history_versions h) \<Longrightarrow> v < next_history_version h"
  by (cases "history_versions h = []") (auto simp: next_history_version_def Let_def less_Suc_eq_le zle_add1_eq_le)

lemma next_version_fresh: "dget h (pad8 (next_history_version h)) = None"
proof (rule ccontr)
  assume "dget h (pad8 (next_history_version h)) \<noteq> None"
  then obtain f where "(pad8 (next_history_version h), f) \<in> set h" by (auto dest: map_of_SomeD)
  then have "next_history_version h \<in> set (history_versions h)"
    unfolding history_versions_def List.map_filter_def by force
  with next_version_greater show False by blast
qed

lemma dset_fresh: "dget d k = None \<Longrightarrow> dset k v d = d @ [(k, v)]"
  by (induction d) (auto split: if_splits)

text \<open>A write either leaves the folder alone or adds one file, and reading that file gives the snapshot back.\<close>

lemma write_snapshot_cases:
  obtains (Refused) e where "write_snapshot show_obj fromiso now draft fo = (fo, Err e)"
    | (Added) s where "write_snapshot show_obj fromiso now draft fo =
          (fo\<lparr>fo_history := fo_history fo @ [(pad8 (next_history_version (fo_history fo)), written (snapshot_to_dict s))]\<rparr>, Ok s)"
        and "s = draft\<lparr>hs_version := next_history_version (fo_history fo), hs_recorded_at := now\<rparr>"
        and "wf_snapshot show_obj fromiso s"
proof (cases "as_dt fromiso (hs_effective_at draft) = None")
  case True
  then show thesis by (intro Refused) (simp add: write_snapshot_def)
next
  case False
  let ?snap = "draft\<lparr>hs_version := next_history_version (fo_history fo), hs_recorded_at := now\<rparr>"
  show thesis
  proof (cases "snapshot_from_dict show_obj fromiso (PDict (snapshot_to_dict ?snap))")
    case (Inl e)
    then show thesis by (intro Refused [of e]) (simp add: write_snapshot_def Let_def False)
  next
    case (Inr s)
    then have s: "s = ?snap" "wf_snapshot show_obj fromiso s" by (simp_all add: snapshot_reread)
    show thesis
      by (rule Added [OF _ s]) (use False Inr in \<open>simp add: write_snapshot_def Let_def dset_fresh next_version_fresh\<close>)
  qed
qed

lemma read_written: "wf_snapshot show_obj fromiso s \<Longrightarrow> read_snapshot show_obj fromiso (written (snapshot_to_dict s)) = Ok s"
proof -
  assume wf: "wf_snapshot show_obj fromiso s"
  have "equals_one (obj_get (snapshot_to_dict s) ''schema_version'')"
    by (simp add: snapshot_to_dict_def schema_entry_def obj_get_def dget_default_def)
  with wf show ?thesis
    by (simp add: read_snapshot_def load_raw_def written_def as_object_def snapshot_reread)
qed


section \<open>The history as a log\<close>

text \<open>A history whose files are numbered from 1 and hold the snapshot of their number.\<close>

definition entry_ok :: "(pyobj \<Rightarrow> string) \<Rightarrow> iso_parser \<Rightarrow> string \<times> yaml_file \<Rightarrow> bool" where
  "entry_ok show_obj fromiso e \<longleftrightarrow> (case read_snapshot show_obj fromiso (snd e) of Err _ \<Rightarrow> False
     | Ok s \<Rightarrow> py_int (fst e) = Some (hs_version s))"

definition history_ok :: "(pyobj \<Rightarrow> string) \<Rightarrow> iso_parser \<Rightarrow> (string, yaml_file) dict \<Rightarrow> bool" where
  "history_ok show_obj fromiso h \<longleftrightarrow> numbered version_num h \<and> list_all (entry_ok show_obj fromiso) h"

definition snaps_of :: "(pyobj \<Rightarrow> string) \<Rightarrow> iso_parser \<Rightarrow> (string, yaml_file) dict \<Rightarrow> state_snapshot list" where
  "snaps_of show_obj fromiso h = map (\<lambda>e. projr (read_snapshot show_obj fromiso (snd e))) h"

lemma entry_okE:
  assumes "entry_ok show_obj fromiso e"
  obtains s where "read_snapshot show_obj fromiso (snd e) = Ok s" and "py_int (fst e) = Some (hs_version s)"
  using assms by (cases "read_snapshot show_obj fromiso (snd e)") (auto simp: entry_ok_def)

lemma mapR_read:
  "list_all (entry_ok show_obj fromiso) h \<Longrightarrow> mapR (\<lambda>(_, f). read_snapshot show_obj fromiso f) h = Ok (snaps_of show_obj fromiso h)"
  by (induction h) (auto simp: snaps_of_def split_beta elim: entry_okE)

lemma sort_key_Nil_iff: "sort_key f xs = [] \<longleftrightarrow> xs = []"
  by (metis length_0_conv length_sort)

lemma set_sorted_files [simp]: "set (sorted_files h) = set h" "sorted_files h = [] \<longleftrightarrow> h = []"
  by (simp_all add: sorted_files_def sort_key_Nil_iff)

lemma history_snaps_ok:
  assumes "history_ok show_obj fromiso (fo_history fo)"
  shows "history_snaps show_obj fromiso fo = (if fo_history fo = [] then Err (HistoricalStateUnavailable ''no history'')
    else Ok (snaps_of show_obj fromiso (sorted_files (fo_history fo))))"
proof (cases "sorted_files (fo_history fo)")
  case Nil
  then have empty: "fo_history fo = []" by (metis set_sorted_files(2))
  show ?thesis unfolding history_snaps_def Nil list.case by (simp add: empty)
next
  case (Cons e es)
  then have ne: "fo_history fo \<noteq> []" by (metis list.discI set_sorted_files(2))
  have "list_all (entry_ok show_obj fromiso) (sorted_files (fo_history fo))"
    using assms by (simp add: history_ok_def list_all_iff)
  from mapR_read [OF this] show ?thesis
    unfolding history_snaps_def by (simp only: Cons list.case ne if_False)
qed

lemma snaps_versions:
  assumes "history_ok show_obj fromiso h"
  shows "map hs_version (snaps_of show_obj fromiso h) = map int [1..<Suc (length h)]"
proof -
  have entries: "entry_ok show_obj fromiso e" if "e \<in> set h" for e
    using assms that by (simp add: history_ok_def list_all_iff)
  have "map hs_version (snaps_of show_obj fromiso h) = map (\<lambda>e. int (version_num e)) h"
    unfolding snaps_of_def map_map
  proof (rule map_cong [OF refl])
    fix e
    assume e: "e \<in> set h"
    from entries [OF e] obtain s where "read_snapshot show_obj fromiso (snd e) = Ok s" "py_int (fst e) = Some (hs_version s)"
      by (rule entry_okE)
    with numbered_versions(2) [OF _ e] assms
    show "(hs_version \<circ> (\<lambda>e. projr (read_snapshot show_obj fromiso (snd e)))) e = int (version_num e)"
      by (simp add: history_ok_def)
  qed
  also have "\<dots> = map int (map version_num h)" by simp
  finally show ?thesis using assms by (simp only: history_ok_def numbered_def)
qed

lemma mset_snaps: "mset (snaps_of show_obj fromiso (sorted_files h)) = mset (snaps_of show_obj fromiso h)"
  by (simp add: snaps_of_def sorted_files_def)

lemma distinct_versions:
  assumes "history_ok show_obj fromiso h"
  shows "distinct (map hs_version (snaps_of show_obj fromiso (sorted_files h)))"
proof -
  have "mset (map hs_version (snaps_of show_obj fromiso (sorted_files h))) = mset (map hs_version (snaps_of show_obj fromiso h))"
    by (simp add: mset_snaps)
  moreover have "distinct (map hs_version (snaps_of show_obj fromiso h))"
    by (simp add: snaps_versions [OF assms] distinct_map inj_on_def del: upt_Suc)
  ultimately show ?thesis by (metis mset_eq_imp_distinct_iff)
qed

text \<open>The last of the sorted snapshots is the one with the greatest key.\<close>

definition latest_in_effect :: "iso_parser \<Rightarrow> state_snapshot list \<Rightarrow> instant \<Rightarrow> state_snapshot \<Rightarrow> bool" where
  "latest_in_effect fromiso snaps cutoff s \<longleftrightarrow> s \<in> set snaps \<and> in_effect fromiso cutoff s
     \<and> list_all (\<lambda>s'. in_effect fromiso cutoff s' \<longrightarrow> snapshot_key fromiso s' \<le> snapshot_key fromiso s) snaps"

lemma sorted_last: "sorted (map f xs) \<Longrightarrow> x \<in> set xs \<Longrightarrow> f x \<le> f (last xs)"
proof (induction xs rule: rev_induct)
  case (snoc y ys)
  then show ?case by (auto simp: sorted_append)
qed simp

lemma sort_key_last: "x \<in> set (sort_key f xs) \<Longrightarrow> f x \<le> f (last (sort_key f xs))"
  by (rule sorted_last [OF sorted_sort_key])

lemma eligible_latest:
  assumes "eligible_snapshot fromiso snaps cutoff = Some s"
  shows "latest_in_effect fromiso snaps cutoff s"
proof -
  let ?xs = "sort_key (snapshot_key fromiso) (filter (in_effect fromiso cutoff) snaps)"
  have ne: "?xs \<noteq> []" and s: "s = last ?xs"
    using assms by (auto simp: eligible_snapshot_def split: list.splits)
  have "s \<in> set ?xs" unfolding s by (rule last_in_set [OF ne])
  moreover have "snapshot_key fromiso x \<le> snapshot_key fromiso s" if "x \<in> set ?xs" for x
    unfolding s by (rule sort_key_last [OF that])
  ultimately show ?thesis by (auto simp: latest_in_effect_def list_all_iff)
qed

lemma eligible_None: "eligible_snapshot fromiso snaps cutoff = None \<longleftrightarrow> filter (in_effect fromiso cutoff) snaps = []"
  by (auto simp: eligible_snapshot_def split: list.splits)
    (metis list.distinct(1) set_empty set_sort)

lemma snapshot_key_version: "snd (snapshot_key fromiso s) = hs_version s"
  by (simp add: snapshot_key_def split: option.splits)

lemma latest_unique:
  assumes "distinct (map hs_version snaps)" and "latest_in_effect fromiso snaps cutoff s"
    and "latest_in_effect fromiso snaps cutoff s'"
  shows "s = s'"
proof -
  have "snapshot_key fromiso s = snapshot_key fromiso s'"
    using assms(2,3) by (intro order.antisym) (auto simp: latest_in_effect_def list_all_iff)
  then have "hs_version s = hs_version s'" by (metis snapshot_key_version)
  then show ?thesis using assms by (auto simp: latest_in_effect_def distinct_map dest: inj_onD)
qed

lemma eligible_iff:
  assumes "distinct (map hs_version snaps)"
  shows "eligible_snapshot fromiso snaps cutoff = Some s \<longleftrightarrow> latest_in_effect fromiso snaps cutoff s"
proof
  assume s: "latest_in_effect fromiso snaps cutoff s"
  then have "filter (in_effect fromiso cutoff) snaps \<noteq> []"
    by (auto simp: latest_in_effect_def filter_empty_conv)
  then obtain s' where s': "eligible_snapshot fromiso snaps cutoff = Some s'" by (metis eligible_None option.exhaust)
  from latest_unique [OF assms s eligible_latest [OF s']] s' show "eligible_snapshot fromiso snaps cutoff = Some s" by simp
qed (rule eligible_latest)

lemma latest_cong_set: "set xs = set ys \<Longrightarrow> latest_in_effect fromiso xs = latest_in_effect fromiso ys"
  by (simp add: latest_in_effect_def list_all_iff fun_eq_iff)

lemma set_snaps_sorted: "set (snaps_of show_obj fromiso (sorted_files h)) = set (snaps_of show_obj fromiso h)"
  using arg_cong [OF mset_snaps, of set_mset] by simp

text \<open>The state as of a cutoff, without the files.\<close>

lemma as_of_iff:
  assumes "history_ok show_obj fromiso (fo_history fo)" and "as_dt fromiso known = Some cutoff"
  shows "load_state_as_of show_obj fromiso fo known = Ok s
     \<longleftrightarrow> latest_in_effect fromiso (snaps_of show_obj fromiso (fo_history fo)) cutoff s"
proof -
  let ?snaps = "snaps_of show_obj fromiso (sorted_files (fo_history fo))"
  have "load_state_as_of show_obj fromiso fo known = Ok s \<longleftrightarrow> eligible_snapshot fromiso ?snaps cutoff = Some s"
  proof (cases "fo_history fo = []")
    case True
    then show ?thesis using assms
      by (simp add: load_state_as_of_def history_snaps_ok snaps_of_def eligible_snapshot_def sorted_files_def)
  next
    case False
    then show ?thesis using assms
      by (auto simp: load_state_as_of_def history_snaps_ok split: option.splits)
  qed
  then show ?thesis
    by (simp add: eligible_iff [OF distinct_versions [OF assms(1)]] latest_cong_set [OF set_snaps_sorted])
qed

lemma as_of_Err:
  assumes "history_ok show_obj fromiso (fo_history fo)" and "as_dt fromiso known = Some cutoff"
    and "\<And>s. load_state_as_of show_obj fromiso fo known \<noteq> Ok s"
  shows "load_state_as_of show_obj fromiso fo known = Err (HistoricalStateUnavailable ''no state as of'')"
proof (cases "fo_history fo = []")
  case True
  then show ?thesis using assms(1,2) by (simp add: load_state_as_of_def history_snaps_ok)
next
  case False
  note snaps = history_snaps_ok [OF assms(1), simplified if_not_P [OF False]]
  show ?thesis
  proof (cases "eligible_snapshot fromiso (snaps_of show_obj fromiso (sorted_files (fo_history fo))) cutoff")
    case None
    then show ?thesis by (simp add: load_state_as_of_def snaps assms(2))
  next
    case (Some s)
    then show ?thesis using assms(3) [of s] by (simp add: load_state_as_of_def snaps assms(2))
  qed
qed

text \<open>What one more snapshot changes.\<close>

definition supersedes :: "iso_parser \<Rightarrow> instant \<Rightarrow> state_snapshot list \<Rightarrow> state_snapshot \<Rightarrow> bool" where
  "supersedes fromiso cutoff snaps s \<longleftrightarrow> in_effect fromiso cutoff s
     \<and> list_all (\<lambda>s'. in_effect fromiso cutoff s' \<longrightarrow> fst (snapshot_key fromiso s') \<le> fst (snapshot_key fromiso s)) snaps"


lemma history_ok_snoc:
  assumes "history_ok show_obj fromiso h" and "wf_snapshot show_obj fromiso s" and "hs_version s = next_history_version h"
  shows "history_ok show_obj fromiso (h @ [(pad8 (next_history_version h), written (snapshot_to_dict s))])"
    and "snaps_of show_obj fromiso (h @ [(pad8 (next_history_version h), written (snapshot_to_dict s))])
      = snaps_of show_obj fromiso h @ [s]"
proof -
  have num: "numbered version_num h" using assms(1) by (simp add: history_ok_def)
  then have "version_num (pad8 (next_history_version h), written (snapshot_to_dict s)) = Suc (length h)"
    by (simp add: version_num_def next_version_numbered)
  then show "history_ok show_obj fromiso (h @ [(pad8 (next_history_version h), written (snapshot_to_dict s))])"
    using assms num by (simp add: history_ok_def numbered_snoc entry_ok_def read_written)
  show "snaps_of show_obj fromiso (h @ [(pad8 (next_history_version h), written (snapshot_to_dict s))])
      = snaps_of show_obj fromiso h @ [s]"
    by (simp add: snaps_of_def read_written [OF assms(2)])
qed

lemma versions_below:
  assumes "history_ok show_obj fromiso h" and "s \<in> set (snaps_of show_obj fromiso h)"
  shows "hs_version s < next_history_version h"
proof -
  have "hs_version s \<in> set (map hs_version (snaps_of show_obj fromiso h))" using assms(2) by simp
  then have "hs_version s \<in> int ` {1..<Suc (length h)}"
    by (simp only: snaps_versions [OF assms(1)] set_map set_upt)
  moreover have "next_history_version h = int (Suc (length h))"
    using assms(1) by (intro next_version_numbered) (simp add: history_ok_def)
  ultimately show ?thesis by auto
qed

lemma latest_snoc:
  assumes "\<And>s'. s' \<in> set snaps \<Longrightarrow> hs_version s' < hs_version s"
  shows "latest_in_effect fromiso (snaps @ [s]) cutoff x
    \<longleftrightarrow> (if supersedes fromiso cutoff snaps s then x = s else latest_in_effect fromiso snaps cutoff x)"
proof (cases "supersedes fromiso cutoff snaps s")
  case True
  have below: "snapshot_key fromiso s' < snapshot_key fromiso s" if "s' \<in> set snaps" "in_effect fromiso cutoff s'" for s'
  proof -
    have "fst (snapshot_key fromiso s') \<le> fst (snapshot_key fromiso s)"
      using True that by (simp add: supersedes_def list_all_iff)
    moreover have "snd (snapshot_key fromiso s') < snd (snapshot_key fromiso s)"
      using assms [OF that(1)] by (simp add: snapshot_key_version)
    ultimately show ?thesis by (auto simp: less_prod_def')
  qed
  with True show ?thesis
    by (auto simp: latest_in_effect_def supersedes_def list_all_iff dest: leD intro: less_imp_le)
next
  case False
  show ?thesis
  proof (cases "in_effect fromiso cutoff s")
    case True
    with False obtain s' where s': "s' \<in> set snaps" "in_effect fromiso cutoff s'"
        "fst (snapshot_key fromiso s) < fst (snapshot_key fromiso s')"
      by (auto simp: supersedes_def list_all_iff not_le)
    then have above: "snapshot_key fromiso s < snapshot_key fromiso s'" by (simp add: less_prod_def')
    have "latest_in_effect fromiso (snaps @ [s]) cutoff x \<longleftrightarrow> latest_in_effect fromiso snaps cutoff x"
      using s' above by (fastforce simp: latest_in_effect_def list_all_iff)
    with False show ?thesis by simp
  next
    case out: False
    then show ?thesis using False by (auto simp: latest_in_effect_def)
  qed
qed

text \<open>After one more snapshot, the answer for a cutoff is that snapshot or the old answer.\<close>

lemma as_of_extended:
  assumes ok: "history_ok show_obj fromiso (fo_history fo)"
    and wf: "wf_snapshot show_obj fromiso s" and version: "hs_version s = next_history_version (fo_history fo)"
    and new: "fo_history fo' = fo_history fo @ [(pad8 (next_history_version (fo_history fo)), written (snapshot_to_dict s))]"
    and cutoff: "as_dt fromiso known = Some cutoff"
  shows "history_ok show_obj fromiso (fo_history fo')"
    and "load_state_as_of show_obj fromiso fo' known
      = (if supersedes fromiso cutoff (snaps_of show_obj fromiso (fo_history fo)) s then Ok s
         else load_state_as_of show_obj fromiso fo known)"
proof -
  let ?h = "fo_history fo" and ?snaps = "snaps_of show_obj fromiso (fo_history fo)"
  note ok' = history_ok_snoc [OF ok wf version, folded new]
  show "history_ok show_obj fromiso (fo_history fo')" by (rule ok'(1))
  have "hs_version s' < hs_version s" if "s' \<in> set ?snaps" for s'
    using versions_below [OF ok that] version by simp
  note latest = latest_snoc [OF this]
  have answer: "load_state_as_of show_obj fromiso fo' known = Ok x
      \<longleftrightarrow> (if supersedes fromiso cutoff ?snaps s then x = s else load_state_as_of show_obj fromiso fo known = Ok x)" for x
    unfolding as_of_iff [OF ok'(1) cutoff] as_of_iff [OF ok cutoff] ok'(2) by (rule latest)
  show "load_state_as_of show_obj fromiso fo' known
      = (if supersedes fromiso cutoff ?snaps s then Ok s else load_state_as_of show_obj fromiso fo known)"
  proof (cases "supersedes fromiso cutoff ?snaps s")
    case True
    then show ?thesis using answer [of s] by simp
  next
    case False
    note same = answer [unfolded if_not_P [OF False]]
    have "load_state_as_of show_obj fromiso fo' known = load_state_as_of show_obj fromiso fo known"
    proof (cases "load_state_as_of show_obj fromiso fo known")
      case (Inr x)
      then show ?thesis using same [of x] by simp
    next
      case (Inl e)
      then have old: "load_state_as_of show_obj fromiso fo known \<noteq> Ok x" for x by simp
      then have new: "load_state_as_of show_obj fromiso fo' known \<noteq> Ok x" for x using same [of x] by simp
      show ?thesis by (rule trans [OF as_of_Err [OF ok'(1) cutoff new] as_of_Err [OF ok cutoff old, symmetric]])
    qed
    then show ?thesis using False by simp
  qed
qed


lemma as_of_same_history: "fo_history fo' = fo_history fo \<Longrightarrow> load_state_as_of show_obj fromiso fo' = load_state_as_of show_obj fromiso fo"
  by (simp add: load_state_as_of_def history_snaps_def fun_eq_iff cong: option.case_cong sum.case_cong)

interpretation state_gate: pit_gate "in_effect fromiso" for fromiso
  by unfold_locales (auto simp: in_effect_def split: option.splits)

end
