(* ===== verification/ThesisOps.thy ===== *)
theory ThesisOps
  imports ThesisHistory Committee
begin

text \<open>
  The operations of the repository on a thesis (\<open>app/thesis/repository.py\<close>):
  updates, status changes, answers and the healing of watch rules.  Every operation that changes a
  thesis takes the moment it is effective from; before the latest moment of the history it only adds
  a snapshot based on the state as of then, otherwise it changes the live files and snapshots them.
  An operation holds the lock of the folder and is one step; it returns the folder it leaves behind,
  also when it raises.
\<close>

section \<open>Steps on a folder\<close>

definition then_do :: "'f \<times> 'a res \<Rightarrow> ('a \<Rightarrow> 'f \<Rightarrow> 'f \<times> 'b res) \<Rightarrow> 'f \<times> 'b res" where
  "then_do m f = (case snd m of Err e \<Rightarrow> (fst m, Err e) | Ok x \<Rightarrow> f x (fst m))"

definition dict_merge :: "(string, pyobj) dict \<Rightarrow> (string, pyobj) dict \<Rightarrow> (string, pyobj) dict" where
  "dict_merge patch d = fold (\<lambda>(k, v). dset k v) patch d"

definition set_default :: "string \<Rightarrow> 'v \<Rightarrow> (string, 'v) dict \<Rightarrow> (string, 'v) dict" where
  "set_default k v d = (if dget d k = None then dset k v d else d)"

text \<open>\<open>effective_at or _utcnow()\<close>, which must be a readable moment.\<close>

definition effective_clock :: "iso_parser \<Rightarrow> readings \<Rightarrow> string option \<Rightarrow> (string \<times> instant) res" where
  "effective_clock fromiso rd given =
     (let eff = (case given of None \<Rightarrow> rd_effective rd | Some e \<Rightarrow> if e \<noteq> [] then e else rd_effective rd)
      in case as_dt fromiso eff of None \<Rightarrow> Err (ValueError ''bad effective_at'') | Some t \<Rightarrow> Ok (eff, t))"

definition load_in_dir :: "(pyobj \<Rightarrow> string) \<Rightarrow> string \<Rightarrow> folder \<Rightarrow> research_thesis res" where
  "load_in_dir show_obj name fo = bindR (load_model (thesis_from_dict show_obj) (fo_thesis fo)) (\<lambda>t.
     bindR (checkR (name = th_slug t) (ValueError ''directory name does not match thesis slug'')) (\<lambda>_. Ok t))"

definition check_owner :: "(pyobj \<Rightarrow> string) \<Rightarrow> string \<Rightarrow> string \<Rightarrow> folder \<Rightarrow> research_thesis res" where
  "check_owner show_obj name tid fo = bindR (load_in_dir show_obj name fo) (\<lambda>t.
     bindR (checkR (th_thesis_id t = tid) (ValueError ''thesis_id mismatch'')) (\<lambda>_. Ok t))"

text \<open>A snapshot of the state as of a moment with another thesis section.\<close>

definition revised :: "state_snapshot \<Rightarrow> string \<Rightarrow> string \<Rightarrow> string \<Rightarrow> (string, pyobj) dict \<Rightarrow> state_snapshot" where
  "revised base tid eff reason thesis_d =
     draft_of tid eff reason [] [] thesis_d (hs_state base) (hs_questions base) (hs_watch base) (hs_memory base)"

section \<open>Updates\<close>

definition dict_rows :: "pyobj \<Rightarrow> (string, pyobj) dict list" where
  "dict_rows v = (case v of PList xs \<Rightarrow> List.map_filter (\<lambda>x. case x of PDict d \<Rightarrow> Some d | _ \<Rightarrow> None) xs | _ \<Rightarrow> [])"

definition retained_ids :: "pyobj \<Rightarrow> string \<Rightarrow> string list" where
  "retained_ids v key = List.map_filter (\<lambda>d. case obj_get d key of PStr s \<Rightarrow> Some s | _ \<Rightarrow> None) (dict_rows v)"

definition asof_ids :: "state_snapshot \<Rightarrow> string \<Rightarrow> string \<Rightarrow> pyobj list" where
  "asof_ids base key idkey = filter (\<lambda>v. v \<noteq> PNone) (map (\<lambda>d. obj_get d idkey) (dict_rows (obj_get (hs_thesis base) key)))"

definition require_no_dropped_ids :: "(string, pyobj) dict \<Rightarrow> state_snapshot \<Rightarrow> string \<Rightarrow> string \<Rightarrow> unit res" where
  "require_no_dropped_ids patch base key idkey = (case obj_get patch key of
       PList xs \<Rightarrow> checkR (list_all (\<lambda>v. v \<in> set (map PStr (retained_ids (PList xs) idkey))) (asof_ids base key idkey))
         (ValueError ''does not belong to thesis'')
     | _ \<Rightarrow> Ok ())"

definition update_backdated :: "(pyobj \<Rightarrow> string) \<Rightarrow> iso_parser \<Rightarrow> readings \<Rightarrow> string \<Rightarrow> (string, pyobj) dict \<Rightarrow> string
    \<Rightarrow> folder \<Rightarrow> folder \<times> research_thesis res" where
  "update_backdated show_obj fromiso rd tid patch eff fo =
     then_do (fo, bindR (load_state_as_of show_obj fromiso fo eff) (\<lambda>base.
         bindR (require_no_dropped_ids patch base ''claims'' ''claim_id'') (\<lambda>_.
         bindR (require_no_dropped_ids patch base ''expressions'' ''expression_id'') (\<lambda>_.
         bindR (thesis_from_dict show_obj (PDict (dset ''updated_at'' (PStr eff) (dset ''thesis_id'' (PStr tid)
             (dict_merge patch (hs_thesis base)))))) (\<lambda>t. Ok (base, t))))))
       (\<lambda>(base, t) fo. then_do (write_snapshot show_obj fromiso (rd_recorded rd) (revised base tid eff ''thesis_updated'' (thesis_to_dict t)) fo)
          (\<lambda>_ fo. (fo, Ok t)))"

text \<open>Write the live thesis, then snapshot the live files.\<close>

definition commit_live :: "(pyobj \<Rightarrow> string) \<Rightarrow> iso_parser \<Rightarrow> readings \<Rightarrow> string \<Rightarrow> string \<Rightarrow> string \<Rightarrow> pyobj
    \<Rightarrow> folder \<Rightarrow> folder \<times> research_thesis res" where
  "commit_live show_obj fromiso rd tid eff reason candidate fo =
     then_do (fo, thesis_from_dict show_obj candidate) (\<lambda>t fo.
       then_do (snapshot_live show_obj fromiso rd tid eff reason [] [] (fo\<lparr>fo_thesis := Some (written (thesis_to_dict t))\<rparr>))
         (\<lambda>_ fo. (fo, Ok t)))"

definition update_live :: "(pyobj \<Rightarrow> string) \<Rightarrow> iso_parser \<Rightarrow> readings \<Rightarrow> research_thesis \<Rightarrow> string \<Rightarrow> (string, pyobj) dict
    \<Rightarrow> string \<Rightarrow> folder \<Rightarrow> folder \<times> research_thesis res" where
  "update_live show_obj fromiso rd t tid patch eff = commit_live show_obj fromiso rd tid eff ''thesis_updated''
     (PDict (dset ''updated_at'' (PStr (rd_updated rd)) (dset ''thesis_id'' (PStr tid) (dict_merge patch (thesis_to_dict t)))))"

definition update_thesis :: "(pyobj \<Rightarrow> string) \<Rightarrow> iso_parser \<Rightarrow> readings \<Rightarrow> string \<Rightarrow> string option \<Rightarrow> (string, pyobj) dict
    \<Rightarrow> string \<Rightarrow> folder \<Rightarrow> folder \<times> research_thesis res" where
  "update_thesis show_obj fromiso rd tid given patch name fo =
     then_do (fo, bindR (effective_clock fromiso rd given) (\<lambda>clock. bindR (check_owner show_obj name tid fo) (\<lambda>t.
         bindR (checkR (dget patch ''thesis_id'' = None \<or> dget patch ''thesis_id'' = Some (PStr tid))
           (ValueError ''thesis_id is immutable'')) (\<lambda>_. Ok (clock, t)))))
       (\<lambda>((eff, m), t) fo. if backdated show_obj fromiso m fo then update_backdated show_obj fromiso rd tid patch eff fo
          else update_live show_obj fromiso rd t tid patch eff fo)"

section \<open>Status changes\<close>

definition status_candidate :: "(string, pyobj) dict \<Rightarrow> string \<Rightarrow> string \<Rightarrow> (string, pyobj) dict" where
  "status_candidate d status updated = dset ''updated_at'' (PStr updated) (dset ''status'' (PStr status) d)"

text \<open>\<open>reopening\<close> is refused; \<open>close_thesis\<close> has no such check.\<close>

definition status_backdated :: "bool \<Rightarrow> (pyobj \<Rightarrow> string) \<Rightarrow> iso_parser \<Rightarrow> readings \<Rightarrow> string \<Rightarrow> string \<Rightarrow> string
    \<Rightarrow> folder \<Rightarrow> folder \<times> research_thesis res" where
  "status_backdated closing show_obj fromiso rd tid status eff fo =
     then_do (fo, bindR (load_state_as_of show_obj fromiso fo eff) (\<lambda>base.
         bindR (checkR (closing \<or> obj_get (hs_thesis base) ''status'' \<noteq> PStr ''closed'')
           (ValueError ''thesis is closed; cannot change status'')) (\<lambda>_.
         bindR (thesis_from_dict show_obj (PDict (dset ''thesis_id'' (PStr tid) (status_candidate (hs_thesis base) status eff))))
           (\<lambda>t. Ok (base, t)))))
       (\<lambda>(base, t) fo. then_do (write_snapshot show_obj fromiso (rd_recorded rd) (revised base tid eff ''status_changed'' (thesis_to_dict t)) fo)
          (\<lambda>_ fo. (fo, Ok t)))"

definition status_live :: "bool \<Rightarrow> (pyobj \<Rightarrow> string) \<Rightarrow> iso_parser \<Rightarrow> readings \<Rightarrow> research_thesis \<Rightarrow> string \<Rightarrow> string \<Rightarrow> string
    \<Rightarrow> folder \<Rightarrow> folder \<times> research_thesis res" where
  "status_live closing show_obj fromiso rd t tid status eff fo =
     (if \<not> closing \<and> th_status t = ''closed'' then (fo, Err (ValueError ''thesis is closed; cannot change status''))
      else commit_live show_obj fromiso rd tid eff ''status_changed''
        (PDict (status_candidate (thesis_to_dict t) status (rd_updated rd))) fo)"

definition change_status :: "bool \<Rightarrow> (pyobj \<Rightarrow> string) \<Rightarrow> iso_parser \<Rightarrow> readings \<Rightarrow> string \<Rightarrow> string \<Rightarrow> string option
    \<Rightarrow> string \<Rightarrow> folder \<Rightarrow> folder \<times> research_thesis res" where
  "change_status closing show_obj fromiso rd tid status given name fo =
     then_do (fo, bindR (effective_clock fromiso rd given) (\<lambda>clock. bindR (check_owner show_obj name tid fo) (\<lambda>t. Ok (clock, t))))
       (\<lambda>((eff, m), t) fo. if backdated show_obj fromiso m fo then status_backdated closing show_obj fromiso rd tid status eff fo
          else status_live closing show_obj fromiso rd t tid status eff fo)"

definition pause_thesis :: "(pyobj \<Rightarrow> string) \<Rightarrow> iso_parser \<Rightarrow> readings \<Rightarrow> string \<Rightarrow> string option
    \<Rightarrow> string \<Rightarrow> folder \<Rightarrow> folder \<times> research_thesis res" where
  "pause_thesis show_obj fromiso rd tid = change_status False show_obj fromiso rd tid ''paused''"

definition resume_thesis :: "(pyobj \<Rightarrow> string) \<Rightarrow> iso_parser \<Rightarrow> readings \<Rightarrow> string \<Rightarrow> string option
    \<Rightarrow> string \<Rightarrow> folder \<Rightarrow> folder \<times> research_thesis res" where
  "resume_thesis show_obj fromiso rd tid = change_status False show_obj fromiso rd tid ''active''"

definition close_thesis :: "(pyobj \<Rightarrow> string) \<Rightarrow> iso_parser \<Rightarrow> readings \<Rightarrow> string \<Rightarrow> string option
    \<Rightarrow> string \<Rightarrow> folder \<Rightarrow> folder \<times> research_thesis res" where
  "close_thesis show_obj fromiso rd tid = change_status True show_obj fromiso rd tid ''closed''"

section \<open>Answers\<close>

text \<open>
  Lookup in the index of question ids: ids compare as dictionary keys do (numbers by value), and a list
  or a mapping is no key.
\<close>

fun key_of :: "pyobj \<Rightarrow> pyobj option" where
  "key_of (PBool b) = Some (PFloat (Fin (if b then 1 else 0)))"
| "key_of (PInt n) = Some (PFloat (Fin (of_int n)))"
| "key_of (PList xs) = None"
| "key_of (PDict d) = None"
| "key_of v = Some v"

definition row_key :: "string \<Rightarrow> pyobj \<Rightarrow> pyobj option" where
  "row_key idkey v = (case v of PDict d \<Rightarrow> key_of (obj_get d idkey) | _ \<Rightarrow> None)"

text \<open>The index holds the last row with an id.\<close>

fun update_last :: "('a \<Rightarrow> bool) \<Rightarrow> ('a \<Rightarrow> 'a) \<Rightarrow> 'a list \<Rightarrow> 'a list option" where
  "update_last p f [] = None"
| "update_last p f (x # xs) = (case update_last p f xs of Some ys \<Rightarrow> Some (x # ys)
     | None \<Rightarrow> if p x then Some (f x # xs) else None)"

definition answered_row :: "pyobj \<Rightarrow> pyobj \<Rightarrow> pyobj" where
  "answered_row answer v = (case v of PDict d \<Rightarrow> PDict (dset ''answer'' answer (dset ''status'' (PStr ''answered'') d)) | _ \<Rightarrow> v)"

definition fold_one_marked :: "(string, pyobj) dict \<Rightarrow> pyobj list \<Rightarrow> pyobj list res" where
  "fold_one_marked a rows = (case key_of (obj_get a ''question_id'') of
       None \<Rightarrow> Err (TypeError ''unhashable type'')
     | Some k \<Rightarrow> (case update_last (\<lambda>v. row_key ''question_id'' v = Some k) (answered_row (obj_get a ''answer'')) rows of
           None \<Rightarrow> Err (ValueError ''question vanished mid-run'') | Some rows' \<Rightarrow> Ok rows'))"

fun fold_marked :: "(string, pyobj) dict list \<Rightarrow> pyobj list \<Rightarrow> pyobj list res" where
  "fold_marked [] rows = Ok rows"
| "fold_marked (a # as) rows = bindR (fold_one_marked a rows) (fold_marked as)"

definition is_row :: "pyobj \<Rightarrow> bool" where
  "is_row v = (case v of PDict d \<Rightarrow> True | _ \<Rightarrow> False)"

definition keyed_rows :: "string \<Rightarrow> pyobj list \<Rightarrow> unit res" where
  "keyed_rows idkey rows = checkR (list_all (\<lambda>v. is_row v \<longrightarrow> row_key idkey v \<noteq> None) rows) (TypeError ''unhashable type'')"

definition mark_answers :: "pyobj \<Rightarrow> (string, pyobj) dict list \<Rightarrow> pyobj list res" where
  "mark_answers entries answered = (case entries of
       PList rows \<Rightarrow> bindR (keyed_rows ''question_id'' rows) (\<lambda>_.
         bindR (fold_marked answered rows) (\<lambda>rows'.
         bindR (all_accepted question_from_dict rows') (\<lambda>_. Ok rows')))
     | _ \<Rightarrow> Err (ValueError ''questions must be a list''))"

definition answer_backdated :: "(pyobj \<Rightarrow> string) \<Rightarrow> iso_parser \<Rightarrow> readings \<Rightarrow> string \<Rightarrow> (string, pyobj) dict list \<Rightarrow> string
    \<Rightarrow> folder \<Rightarrow> folder \<times> state_snapshot res" where
  "answer_backdated show_obj fromiso rd tid answered eff fo =
     then_do (fo, bindR (load_state_as_of show_obj fromiso fo eff) (\<lambda>base.
         bindR (mark_answers (dget_default (hs_questions base) ''questions'' (PList [])) answered) (\<lambda>rows. Ok (base, rows))))
       (\<lambda>(base, rows). write_snapshot show_obj fromiso (rd_recorded rd)
          ((revised base tid eff ''questions_answered'' (hs_thesis base))\<lparr>hs_questions := dset ''questions'' (PList rows) (hs_questions base)\<rparr>))"

definition answer_live :: "(pyobj \<Rightarrow> string) \<Rightarrow> iso_parser \<Rightarrow> readings \<Rightarrow> string \<Rightarrow> (string, pyobj) dict list \<Rightarrow> string
    \<Rightarrow> folder \<Rightarrow> folder \<times> state_snapshot res" where
  "answer_live show_obj fromiso rd tid answered eff fo =
     then_do (fo, bindR (owned_by tid (fo_questions fo)) (\<lambda>raw.
         bindR (mark_answers (dget_default raw ''questions'' (PList [])) answered) (\<lambda>rows. Ok (dset ''questions'' (PList rows) raw))))
       (\<lambda>raw fo. snapshot_live show_obj fromiso rd tid eff ''questions_answered'' [] [] (fo\<lparr>fo_questions := Some (written raw)\<rparr>))"

definition answer_questions :: "(pyobj \<Rightarrow> string) \<Rightarrow> iso_parser \<Rightarrow> readings \<Rightarrow> string \<Rightarrow> (string, pyobj) dict list \<Rightarrow> string option
    \<Rightarrow> folder \<Rightarrow> folder \<times> unit res" where
  "answer_questions show_obj fromiso rd tid answered given fo =
     (if answered = [] then (fo, Ok ())
      else then_do (fo, effective_clock fromiso rd given) (\<lambda>(eff, m) fo.
        then_do (if backdated show_obj fromiso m fo then answer_backdated show_obj fromiso rd tid answered eff fo
                 else answer_live show_obj fromiso rd tid answered eff fo) (\<lambda>_ fo. (fo, Ok ()))))"

section \<open>Healing watch rules\<close>

definition supported_handlers :: "string list" where
  "supported_handlers = [''new_filing'', ''filing_change'', ''new_material_event'', ''new_short_interest_cycle'',
     ''material_short_interest_change'', ''explicit_thesis_invalidator'', ''scheduled_deep_review'']"

definition repr_obj :: "(pyobj \<Rightarrow> string) \<Rightarrow> pyobj \<Rightarrow> string" where
  "repr_obj show_obj v = (case v of PStr s \<Rightarrow> py_repr s | _ \<Rightarrow> show_obj v)"

definition heal_reason :: "(pyobj \<Rightarrow> string) \<Rightarrow> (string, pyobj) dict \<Rightarrow> (string, pyobj) dict" where
  "heal_reason show_obj rule = (if truthy (obj_get rule ''support_reason'') then rule
     else if obj_get rule ''rule_type'' = PStr ''new_external_evidence''
       then dset ''support_reason'' (PStr ''no production source for 'new_external_evidence'; never queried'') rule
     else dset ''support_reason'' (PStr (''no deterministic monitor backing for '' @ repr_obj show_obj (obj_get rule ''rule_type'')
         @ ''; never queried'')) rule)"

text \<open>The rule and whether it changed.\<close>

definition heal_watch_rule :: "(pyobj \<Rightarrow> string) \<Rightarrow> pyobj \<Rightarrow> (pyobj \<times> bool) res" where
  "heal_watch_rule show_obj v = bindR (as_object v) (\<lambda>rule.
     bindR (checkR (row_key ''rule_type'' v \<noteq> None) (TypeError ''unhashable type'')) (\<lambda>_.
     Ok (if in_vocab (obj_get rule ''rule_type'') supported_handlers then (v, False)
       else if \<not> truthy (obj_get rule ''enabled'') \<and> obj_get rule ''support_status'' = PStr ''unsupported'' then (v, False)
       else (PDict (heal_reason show_obj (dset ''support_status'' (PStr ''unsupported'') (dset ''enabled'' (PBool False) rule))), True))))"

definition heal_watch_rules :: "(pyobj \<Rightarrow> string) \<Rightarrow> pyobj \<Rightarrow> (pyobj list \<times> bool) res" where
  "heal_watch_rules show_obj entries = (case entries of
       PList rows \<Rightarrow> bindR (mapR (heal_watch_rule show_obj) rows) (\<lambda>healed. Ok (map fst healed, list_ex snd healed))
     | _ \<Rightarrow> Err (ValueError ''rules must be a list''))"

definition normalize_backdated :: "(pyobj \<Rightarrow> string) \<Rightarrow> iso_parser \<Rightarrow> readings \<Rightarrow> string \<Rightarrow> string \<Rightarrow> folder \<Rightarrow> folder \<times> unit res" where
  "normalize_backdated show_obj fromiso rd tid eff fo =
     then_do (fo, bindR (load_state_as_of show_obj fromiso fo eff) (\<lambda>base.
         bindR (heal_watch_rules show_obj (dget_default (hs_watch base) ''rules'' (PList []))) (\<lambda>healed. Ok (base, healed))))
       (\<lambda>(base, rows, changed) fo. if changed then then_do (write_snapshot show_obj fromiso (rd_recorded rd)
              ((revised base tid eff ''watch_normalized'' (hs_thesis base))\<lparr>hs_watch := dset ''rules'' (PList rows) (hs_watch base)\<rparr>) fo)
            (\<lambda>_ fo. (fo, Ok ()))
          else (fo, Ok ()))"

definition normalize_live :: "(pyobj \<Rightarrow> string) \<Rightarrow> iso_parser \<Rightarrow> readings \<Rightarrow> string \<Rightarrow> string \<Rightarrow> folder \<Rightarrow> folder \<times> unit res" where
  "normalize_live show_obj fromiso rd tid eff fo =
     then_do (fo, bindR (owned_by tid (fo_watch fo)) (\<lambda>raw.
         bindR (heal_watch_rules show_obj (dget_default raw ''rules'' (PList []))) (\<lambda>healed. Ok (raw, healed))))
       (\<lambda>(raw, rows, changed) fo. if changed then then_do (snapshot_live show_obj fromiso rd tid eff ''watch_normalized'' [] []
              (fo\<lparr>fo_watch := Some (written (dset ''rules'' (PList rows) raw))\<rparr>)) (\<lambda>_ fo. (fo, Ok ()))
          else (fo, Ok ()))"

definition normalize_watch :: "(pyobj \<Rightarrow> string) \<Rightarrow> iso_parser \<Rightarrow> readings \<Rightarrow> string \<Rightarrow> string option \<Rightarrow> string
    \<Rightarrow> folder \<Rightarrow> folder \<times> unit res" where
  "normalize_watch show_obj fromiso rd tid given name fo =
     then_do (fo, bindR (effective_clock fromiso rd given) (\<lambda>clock. bindR (check_owner show_obj name tid fo) (\<lambda>_. Ok clock)))
       (\<lambda>(eff, m) fo. if backdated show_obj fromiso m fo then normalize_backdated show_obj fromiso rd tid eff fo
          else normalize_live show_obj fromiso rd tid eff fo)"


section \<open>What an operation adds\<close>

text \<open>
  The history stays, or one snapshot is added; it is effective from the moment given, but for the first
  one of a folder without history.
\<close>

definition adds :: "(pyobj \<Rightarrow> string) \<Rightarrow> iso_parser \<Rightarrow> string \<Rightarrow> folder \<Rightarrow> folder \<Rightarrow> bool" where
  "adds show_obj fromiso eff fo fo' \<longleftrightarrow> fo_history fo' = fo_history fo
     \<or> (\<exists>s. wf_snapshot show_obj fromiso s \<and> hs_version s = next_history_version (fo_history fo)
         \<and> fo_history fo' = fo_history fo @ [(pad8 (next_history_version (fo_history fo)), written (snapshot_to_dict s))]
         \<and> (history_versions (fo_history fo) \<noteq> [] \<longrightarrow> hs_effective_at s = eff))"

named_theorems adding

lemma adds_refl [adding]: "adds show_obj fromiso eff fo fo"
  by (simp add: adds_def)

lemma adds_same [adding]:
  "fo_history g = fo_history fo \<Longrightarrow> adds show_obj fromiso eff g fo' \<Longrightarrow> adds show_obj fromiso eff fo fo'"
  by (simp add: adds_def)

lemma adds_then_pure [adding]:
  "(\<And>x. r = Ok x \<Longrightarrow> adds show_obj fromiso eff fo (fst (f x fo))) \<Longrightarrow> adds show_obj fromiso eff fo (fst (then_do (fo, r) f))"
  by (cases r) (simp_all add: then_do_def adds_refl)

lemma fst_then_return [simp]: "fst (then_do m (\<lambda>x fo. (fo, g x))) = fst m"
  by (cases "snd m") (simp_all add: then_do_def)

lemma adds_write [adding]:
  assumes "history_versions (fo_history fo) \<noteq> [] \<Longrightarrow> hs_effective_at draft = eff"
  shows "adds show_obj fromiso eff fo (fst (write_snapshot show_obj fromiso now draft fo))"
  by (rule write_snapshot_cases [of show_obj fromiso now draft fo]) (use assms in \<open>auto simp: adds_def\<close>)

lemma migration_later: "history_versions (fo_history fo) \<noteq> [] \<Longrightarrow> migration_basis fromiso now fo reason eff updated = (reason, eff)"
  by (simp add: migration_basis_def)

lemma adds_live [adding]: "adds show_obj fromiso eff fo (fst (snapshot_live show_obj fromiso rd tid eff reason run trig fo))"
proof (cases "as_dt fromiso eff = None \<or> \<not> is_ok (bindR (live_sections show_obj tid eff reason run trig fo) (\<lambda>draft.
          bindR (load_model (thesis_from_dict show_obj) (fo_thesis fo)) (\<lambda>t. Ok (draft, th_updated_at t))))")
  case True
  then show ?thesis by (auto simp: snapshot_live_def adds_refl is_ok_iff split: sum.splits)
next
  case False
  then obtain draft updated where "bindR (live_sections show_obj tid eff reason run trig fo) (\<lambda>draft.
      bindR (load_model (thesis_from_dict show_obj) (fo_thesis fo)) (\<lambda>t. Ok (draft, th_updated_at t))) = Ok (draft, updated)"
    by (auto simp: is_ok_iff)
  moreover obtain reason' eff' where basis: "migration_basis fromiso (rd_migration rd) fo reason eff updated = (reason', eff')"
    by (cases "migration_basis fromiso (rd_migration rd) fo reason eff updated")
  moreover obtain y where "as_dt fromiso eff = Some y" using False by auto
  ultimately have "snapshot_live show_obj fromiso rd tid eff reason run trig fo
      = write_snapshot show_obj fromiso (rd_recorded rd) (draft\<lparr>hs_reason := reason', hs_effective_at := eff'\<rparr>) fo"
    by (simp add: snapshot_live_def)
  then show ?thesis using basis by (auto intro!: adds_write simp: migration_later)
qed

lemma revised_effective [simp]: "hs_effective_at (revised base tid eff reason thesis_d) = eff"
  by (simp add: revised_def draft_of_def)

lemma adds_commit [adding]: "adds show_obj fromiso eff fo (fst (commit_live show_obj fromiso rd tid eff reason candidate fo))"
  unfolding commit_live_def
proof (rule adds_then_pure)
  fix t
  let ?g = "fo\<lparr>fo_thesis := Some (written (thesis_to_dict t))\<rparr>"
  have "adds show_obj fromiso eff ?g (fst (snapshot_live show_obj fromiso rd tid eff reason [] [] ?g))" by (rule adds_live)
  then show "adds show_obj fromiso eff fo (fst (then_do (snapshot_live show_obj fromiso rd tid eff reason [] [] ?g) (\<lambda>_ fo. (fo, Ok t))))"
    by (simp add: adds_def)
qed


lemma adds_update:
  "adds show_obj fromiso eff fo (fst (update_backdated show_obj fromiso rd tid patch eff fo))"
  "adds show_obj fromiso eff fo (fst (update_live show_obj fromiso rd t tid patch eff fo))"
  by (auto simp: update_backdated_def update_live_def split_beta intro!: adds_then_pure adds_write adds_commit)

lemma adds_status:
  "adds show_obj fromiso eff fo (fst (status_backdated closing show_obj fromiso rd tid status eff fo))"
  "adds show_obj fromiso eff fo (fst (status_live closing show_obj fromiso rd t tid status eff fo))"
  by (auto simp: status_backdated_def status_live_def split_beta intro!: adds_then_pure adds_write adds_commit adds_refl)

lemma adds_answer:
  "adds show_obj fromiso eff fo (fst (answer_backdated show_obj fromiso rd tid answered eff fo))"
  "adds show_obj fromiso eff fo (fst (answer_live show_obj fromiso rd tid answered eff fo))"
  by (auto simp: answer_backdated_def answer_live_def split_beta intro!: adds_then_pure adds_write adds_same [OF _ adds_live])

lemma adds_normalize:
  "adds show_obj fromiso eff fo (fst (normalize_backdated show_obj fromiso rd tid eff fo))"
  "adds show_obj fromiso eff fo (fst (normalize_live show_obj fromiso rd tid eff fo))"
  by (auto simp: normalize_backdated_def normalize_live_def split_beta
      intro!: adds_then_pure adds_write adds_refl adds_same [OF _ adds_live])

end
