(* ===== verification/ThesisApply.thy ===== *)
theory ThesisApply
  imports ThesisOps Injection Freeze
begin

text \<open>
  The commit of a research result on a thesis (\<open>apply_research_result\<close> and the helpers it uses in
  \<open>app/thesis/repository.py\<close>): patches of claims and expressions, evidence references with their
  provenance gate, the sections of the state, the journal and the processed trigger, in the order of the
  code.  A live commit that raises leaves the writes made before behind; a backdated one checks
  everything before its first write but for hostile text.
\<close>

section \<open>Environment\<close>

text \<open>\<open>str\<close>, the date parser, the decoders of the scanner, the clock readings and the ids minted per row.\<close>

record apply_env =
  ae_show :: "pyobj \<Rightarrow> string"
  ae_fromiso :: iso_parser
  ae_decoders :: decoders
  ae_readings :: readings
  ae_processed :: string
  ae_journaled :: string
  ae_question :: "nat \<Rightarrow> string"
  ae_memory :: "nat \<Rightarrow> string"
  ae_rule :: "nat \<Rightarrow> string"
  ae_evidence :: "nat \<Rightarrow> string"
  ae_journal :: string

section \<open>The payload\<close>

record apply_inputs =
  ai_claims :: "pyobj list"
  ai_expressions :: "pyobj list"
  ai_trigger :: string
  ai_evidence :: "pyobj list"
  ai_state :: pyobj
  ai_questions :: "pyobj list"
  ai_memories :: "pyobj list"
  ai_watch :: "pyobj list"
  ai_answers :: "pyobj list"
  ai_journal :: "(string, pyobj) dict option"

definition apply_list :: "(string, pyobj) dict \<Rightarrow> string \<Rightarrow> pyobj list res" where
  "apply_list d key = (case obj_get d key of PNone \<Rightarrow> Ok [] | PList xs \<Rightarrow> Ok xs | _ \<Rightarrow> Err (ValueError ''bad list''))"

definition apply_trigger_id :: "(string, pyobj) dict \<Rightarrow> string res" where
  "apply_trigger_id d = (case obj_get d ''trigger_id'' of PNone \<Rightarrow> Ok [] | PStr s \<Rightarrow> Ok s | _ \<Rightarrow> Err (ValueError ''bad trigger_id''))"

definition apply_journal :: "(string, pyobj) dict \<Rightarrow> (string, pyobj) dict option res" where
  "apply_journal d = (case obj_get d ''journal_entry'' of PNone \<Rightarrow> Ok None | PDict j \<Rightarrow> Ok (Some j)
     | _ \<Rightarrow> Err (ValueError ''bad journal_entry''))"

definition coerce_apply_inputs :: "(string, pyobj) dict \<Rightarrow> apply_inputs res" where
  "coerce_apply_inputs d =
     bindR (apply_list d ''claim_updates'') (\<lambda>claims.
     bindR (apply_list d ''expression_updates'') (\<lambda>expressions.
     bindR (apply_trigger_id d) (\<lambda>trig.
     bindR (apply_list d ''evidence_refs'') (\<lambda>evidence.
     bindR (apply_list d ''questions_add'') (\<lambda>questions.
     bindR (apply_list d ''memories_add'') (\<lambda>memories.
     bindR (apply_list d ''watch_add'') (\<lambda>watch.
     bindR (apply_list d ''questions_answered'') (\<lambda>answers.
     bindR (apply_journal d) (\<lambda>journal.
     Ok \<lparr>ai_claims = claims, ai_expressions = expressions, ai_trigger = trig, ai_evidence = evidence,
         ai_state = obj_get d ''state'', ai_questions = questions, ai_memories = memories, ai_watch = watch,
         ai_answers = answers, ai_journal = journal\<rparr>)))))))))"

section \<open>Patches of claims and expressions\<close>

type_synonym patches = "(string, (string, pyobj) dict) dict"

definition patch_entry :: "string \<Rightarrow> string list \<Rightarrow> string list \<Rightarrow> pyobj \<Rightarrow> (string \<times> (string, pyobj) dict) res" where
  "patch_entry idkey allowed members v = (case v of
       PDict d \<Rightarrow> (case obj_get d idkey of
           PStr i \<Rightarrow> bindR (checkR (i \<noteq> []) (ValueError ''bad update'')) (\<lambda>_.
             bindR (checkR (i \<in> set members) (ValueError ''does not belong to thesis'')) (\<lambda>_.
             bindR (checkR (key_of (obj_get d ''status'') \<noteq> None) (TypeError ''unhashable type'')) (\<lambda>_.
             bindR (checkR (obj_get d ''status'' = PNone \<or> in_vocab (obj_get d ''status'') allowed) (ValueError ''bad status'')) (\<lambda>_.
             Ok (i, d)))))
         | _ \<Rightarrow> Err (ValueError ''bad update''))
     | _ \<Rightarrow> Err (ValueError ''bad update''))"

definition apply_patch :: "string \<Rightarrow> string list \<Rightarrow> pyobj list \<Rightarrow> string list \<Rightarrow> patches res" where
  "apply_patch idkey allowed updates members = bindR (mapR (patch_entry idkey allowed members) updates)
     (\<lambda>es. Ok (fold (\<lambda>(i, d). dset i d) es []))"

definition merge_patched :: "string \<Rightarrow> patches \<Rightarrow> pyobj \<Rightarrow> pyobj" where
  "merge_patched idkey patch v = (case v of
       PDict d \<Rightarrow> (case obj_get d idkey of
           PStr i \<Rightarrow> (case dget patch i of None \<Rightarrow> v | Some extra \<Rightarrow> PDict (dict_merge extra d))
         | _ \<Rightarrow> v)
     | _ \<Rightarrow> v)"

definition list_rows :: "(string, pyobj) dict \<Rightarrow> string \<Rightarrow> pyobj list" where
  "list_rows d key = (case obj_get d key of PList xs \<Rightarrow> xs | _ \<Rightarrow> [])"

definition fold_claim_expression :: "(pyobj \<Rightarrow> string) \<Rightarrow> (string, pyobj) dict \<Rightarrow> patches \<Rightarrow> patches \<Rightarrow> string \<Rightarrow> string
    \<Rightarrow> research_thesis res" where
  "fold_claim_expression show_obj d claims expressions tid eff =
     thesis_from_dict show_obj (PDict (dset ''updated_at'' (PStr eff) (dset ''thesis_id'' (PStr tid)
       (dset ''expressions'' (PList (map (merge_patched ''expression_id'' expressions) (list_rows d ''expressions'')))
       (dset ''claims'' (PList (map (merge_patched ''claim_id'' claims) (list_rows d ''claims''))) d)))))"

section \<open>Provenance\<close>

definition forbidden_evidence_keys :: "string list" where
  "forbidden_evidence_keys = [''body'', ''content'', ''filing_body'', ''full_text'', ''document_text'', ''url'', ''urls'', ''link'',
     ''links'', ''source_url'', ''provenance'', ''publication'', ''published_at'', ''retrieved_at'', ''retrieval'', ''origin'']"

definition evidence_provenance :: "string list option \<Rightarrow> pyobj \<Rightarrow> unit res" where
  "evidence_provenance allowed v = bindR (as_object v) (\<lambda>d.
     bindR (checkR (list_all (\<lambda>k. \<not> truthy (obj_get d k)) forbidden_evidence_keys)
       (ValueError ''evidence refs must not carry bodies/provenance'')) (\<lambda>_.
     case allowed of None \<Rightarrow> Ok ()
     | Some refs \<Rightarrow> bindR (checkR (key_of (obj_get d ''canonical_ref'') \<noteq> None) (TypeError ''unhashable type''))
         (\<lambda>_. checkR (in_vocab (obj_get d ''canonical_ref'') refs) (ValueError ''foreign canonical_ref''))))"

definition check_evidence_provenance :: "string list option \<Rightarrow> pyobj list \<Rightarrow> unit res" where
  "check_evidence_provenance allowed refs = all_accepted (evidence_provenance allowed) refs"

definition pit_known_at :: "(pyobj \<Rightarrow> string) \<Rightarrow> (string, pyobj) dict \<Rightarrow> string" where
  "pit_known_at show_obj d = (case obj_get d ''known_at'' of PNone \<Rightarrow> [] | v \<Rightarrow> obj_text show_obj v)"

text \<open>The reference of a stored evidence file of this thesis, if it was known by the cut.\<close>

definition pit_file_ref :: "(pyobj \<Rightarrow> string) \<Rightarrow> iso_parser \<Rightarrow> string \<Rightarrow> instant \<Rightarrow> yaml_file \<Rightarrow> string option" where
  "pit_file_ref show_obj fromiso tid cutoff f = (case load_raw (Some f) of Err _ \<Rightarrow> None
     | Ok d \<Rightarrow> if obj_get d ''thesis_id'' \<noteq> PStr tid then None
         else (case obj_get d ''canonical_ref'' of
             PStr r \<Rightarrow> if r = [] \<or> pit_known_at show_obj d = [] then None
               else (case as_dt fromiso (pit_known_at show_obj d) of None \<Rightarrow> None
                   | Some t \<Rightarrow> if t \<le> cutoff then Some r else None)
           | _ \<Rightarrow> None))"

definition pit_allowed_refs :: "(pyobj \<Rightarrow> string) \<Rightarrow> iso_parser \<Rightarrow> string \<Rightarrow> instant option \<Rightarrow> folder \<Rightarrow> string list" where
  "pit_allowed_refs show_obj fromiso tid cutoff fo = (case cutoff of None \<Rightarrow> []
     | Some c \<Rightarrow> List.map_filter (\<lambda>(stem, f). pit_file_ref show_obj fromiso tid c f) (sorted_files (fo_evidence fo)))"

definition trigger_allowed_refs :: "(string, pyobj) dict \<Rightarrow> string list" where
  "trigger_allowed_refs raw = map str_of (filter is_str (list_rows raw ''canonical_refs''))"

text \<open>The time of the payload: the journal's \<open>known_at\<close>, else the creation of the trigger.\<close>

definition payload_cut :: "(pyobj \<Rightarrow> string) \<Rightarrow> (string, pyobj) dict option \<Rightarrow> (string, pyobj) dict \<Rightarrow> string" where
  "payload_cut show_obj journal raw =
     (let known = (case journal of None \<Rightarrow> PNone | Some j \<Rightarrow> obj_get j ''known_at'');
          v = (if truthy known then known else obj_get raw ''created_at'')
      in case v of PNone \<Rightarrow> [] | _ \<Rightarrow> obj_text show_obj v)"

definition payload_moment :: "(pyobj \<Rightarrow> string) \<Rightarrow> iso_parser \<Rightarrow> (string, pyobj) dict option \<Rightarrow> (string, pyobj) dict \<Rightarrow> instant option" where
  "payload_moment show_obj fromiso journal raw =
     (let known = payload_cut show_obj journal raw in if known = [] then None else as_dt fromiso known)"

definition gate_allowed :: "(pyobj \<Rightarrow> string) \<Rightarrow> iso_parser \<Rightarrow> string \<Rightarrow> (string, pyobj) dict option \<Rightarrow> (string, pyobj) dict
    \<Rightarrow> string list option \<Rightarrow> folder \<Rightarrow> string list" where
  "gate_allowed show_obj fromiso tid journal raw allowed fo = (case allowed of Some refs \<Rightarrow> refs
     | None \<Rightarrow> trigger_allowed_refs raw @ pit_allowed_refs show_obj fromiso tid (payload_moment show_obj fromiso journal raw) fo)"

section \<open>Triggers\<close>

text \<open>\<open>re.sub(r"[^A-Za-z0-9_.-]+", "_", s)\<close>.\<close>

definition safe_char :: "char \<Rightarrow> bool" where
  "safe_char c \<longleftrightarrow> slug_char (lower_char c) \<or> c \<in> set ''_.-''"

function safe_name :: "string \<Rightarrow> string" where
  "safe_name [] = []"
| "safe_name (c # cs) = (if safe_char c then c # safe_name cs
     else CHR ''_'' # safe_name (dropWhile (\<lambda>d. \<not> safe_char d) cs))"
  by pat_completeness auto
termination
  by (relation "measure length") (auto simp: length_dropWhile_le le_imp_less_Suc)

definition scan_hit :: "string \<Rightarrow> string \<Rightarrow> string \<times> yaml_file \<Rightarrow> (string \<times> (string, pyobj) dict) res option" where
  "scan_hit tid trig e = (case load_raw (Some (snd e)) of Err _ \<Rightarrow> None
     | Ok d \<Rightarrow> if obj_get d ''trigger_id'' = PStr trig
         then Some (bindR (owned_by tid (Some (snd e))) (\<lambda>raw. Ok (fst e, raw))) else None)"

definition load_trigger_raw :: "string \<Rightarrow> string \<Rightarrow> folder \<Rightarrow> (string \<times> (string, pyobj) dict) res" where
  "load_trigger_raw tid trig fo = (case dget (fo_inbox fo) (safe_name trig) of
       Some f \<Rightarrow> bindR (owned_by tid (Some f)) (\<lambda>raw. Ok (safe_name trig, raw))
     | None \<Rightarrow> (case List.map_filter (scan_hit tid trig) (sorted_files (fo_inbox fo)) of
           [] \<Rightarrow> Err (KeyError ''unknown trigger'') | r # _ \<Rightarrow> r))"

text \<open>The trigger and the references it allows; no trigger allows any reference.\<close>

definition apply_gate :: "apply_env \<Rightarrow> string \<Rightarrow> apply_inputs \<Rightarrow> string list option \<Rightarrow> folder
    \<Rightarrow> (string option \<times> string list option) res" where
  "apply_gate env tid ai allowed fo = (if ai_trigger ai = [] then Ok (None, None)
     else bindR (load_trigger_raw tid (ai_trigger ai) fo) (\<lambda>(stem, raw).
       Ok (Some stem, Some (gate_allowed (ae_show env) (ae_fromiso env) tid (ai_journal ai) raw allowed fo))))"

definition processed_trigger :: "apply_env \<Rightarrow> string \<Rightarrow> string \<Rightarrow> string \<Rightarrow> folder \<Rightarrow> trigger res" where
  "processed_trigger env tid run stem fo = bindR (owned_by tid (dget (fo_inbox fo) stem)) (\<lambda>raw.
     let raw' = dset ''processed_at'' (PStr (ae_processed env)) (dset ''status'' (PStr ''processed'') raw)
     in trigger_from_dict (ae_show env) (PDict (if run \<noteq> [] then dset ''run_id'' (PStr run) raw' else raw')))"

definition mark_trigger_processed :: "apply_env \<Rightarrow> string \<Rightarrow> string \<Rightarrow> string option \<Rightarrow> folder \<Rightarrow> folder \<times> string option res" where
  "mark_trigger_processed env tid run stem fo = (case stem of None \<Rightarrow> (fo, Ok None)
     | Some s \<Rightarrow> if dget (fo_inbox fo) s = None then (fo, Ok None)
         else (case processed_trigger env tid run s fo of Err e \<Rightarrow> (fo, Err e)
           | Ok t \<Rightarrow> (fo\<lparr>fo_inbox := dset s (written (schema_entry # trigger_to_dict t)) (fo_inbox fo)\<rparr>, Ok (Some (tg_trigger_id t)))))"

section \<open>Evidence files\<close>

definition reject_hostile :: "apply_env \<Rightarrow> pyobj \<Rightarrow> unit res" where
  "reject_hostile env v = checkR (as_verdict (assess (ae_decoders env)
       (case v of PNone \<Rightarrow> [] | _ \<Rightarrow> obj_text (ae_show env) v)) = ALLOW) (ValueError ''hostile text rejected'')"

definition evidence_file :: "apply_env \<Rightarrow> string \<Rightarrow> string \<Rightarrow> pyobj \<Rightarrow> (string \<times> evidence_ref) res" where
  "evidence_file env tid fresh v = bindR (as_object v) (\<lambda>d.
     bindR (reject_hostile env (dget_default d ''summary'' (PStr []))) (\<lambda>_.
     bindR (evidence_ref_from_dict (ae_show env) (PDict (dset ''thesis_id'' (PStr tid) (set_default ''evidence_id'' (PStr fresh) d)))) (\<lambda>e.
     Ok (safe_name (er_evidence_id e), e))))"

text \<open>One file per reference; an existing file is kept.\<close>

definition add_evidence :: "string \<times> evidence_ref \<Rightarrow> folder \<Rightarrow> folder" where
  "add_evidence e fo = (if dget (fo_evidence fo) (fst e) \<noteq> None then fo
     else fo\<lparr>fo_evidence := dset (fst e) (written (schema_entry # evidence_ref_to_dict (snd e))) (fo_evidence fo)\<rparr>)"

fun append_evidence_refs :: "apply_env \<Rightarrow> string \<Rightarrow> nat \<Rightarrow> pyobj list \<Rightarrow> folder \<Rightarrow> folder \<times> unit res" where
  "append_evidence_refs env tid n [] fo = (fo, Ok ())"
| "append_evidence_refs env tid n (v # vs) fo = then_do (fo, evidence_file env tid (ae_evidence env n) v)
     (\<lambda>e fo. append_evidence_refs env tid (Suc n) vs (add_evidence e fo))"

section \<open>Sections\<close>

definition known_ids :: "string \<Rightarrow> pyobj list \<Rightarrow> string list" where
  "known_ids idkey rows = retained_ids (PList rows) idkey"

fun append_rows :: "(nat \<Rightarrow> pyobj \<Rightarrow> (string \<times> (string, pyobj) dict) res) \<Rightarrow> nat \<Rightarrow> pyobj list \<Rightarrow> string list
    \<Rightarrow> pyobj list \<Rightarrow> (pyobj list \<times> bool) res" where
  "append_rows row n [] known rows = Ok (rows, False)"
| "append_rows row n (v # vs) known rows = bindR (row n v) (\<lambda>(i, d).
     if i \<in> set known then append_rows row (Suc n) vs known rows
     else bindR (append_rows row (Suc n) vs (i # known) (rows @ [PDict d])) (\<lambda>(rows', _). Ok (rows', True)))"

definition question_row :: "apply_env \<Rightarrow> nat \<Rightarrow> pyobj \<Rightarrow> (string \<times> (string, pyobj) dict) res" where
  "question_row env n v = bindR (as_object v) (\<lambda>d.
     bindR (question_from_dict (PDict (set_default ''question_id'' (PStr (ae_question env n)) d))) (\<lambda>q. Ok (qn_question_id q, question_to_dict q)))"

definition memory_row :: "apply_env \<Rightarrow> string \<Rightarrow> nat \<Rightarrow> pyobj \<Rightarrow> (string \<times> (string, pyobj) dict) res" where
  "memory_row env eff n v = bindR (as_object v) (\<lambda>d.
     bindR (memory_from_dict (ae_show env) (PDict (set_default ''created_at'' (PStr eff)
       (set_default ''memory_id'' (PStr (ae_memory env n)) d)))) (\<lambda>m. Ok (mm_memory_id m, memory_to_dict m)))"

definition watch_row :: "apply_env \<Rightarrow> (string, pyobj) dict \<Rightarrow> nat \<Rightarrow> pyobj \<Rightarrow> (string \<times> (string, pyobj) dict) res" where
  "watch_row env thesis_d n v = bindR (as_object v) (\<lambda>d.
     bindR (watch_from_dict (ae_show env) (PDict (set_default ''rule_id'' (PStr (ae_rule env n)) d))) (\<lambda>r.
     bindR (checkR (set (wu_claim_ids r) \<subseteq> set (retained_ids (obj_get thesis_d ''claims'') ''claim_id''))
       (ValueError ''rule references absent claim'')) (\<lambda>_.
     bindR (checkR (set (wu_expression_ids r) \<subseteq> set (retained_ids (obj_get thesis_d ''expressions'') ''expression_id''))
       (ValueError ''rule references absent expression'')) (\<lambda>_.
     bindR (require_watch_targets r) (\<lambda>_. Ok (wu_rule_id r, watch_to_dict r))))))"

text \<open>The rows of a section with the additions, and whether anything landed.\<close>

definition extend_section :: "string \<Rightarrow> (nat \<Rightarrow> pyobj \<Rightarrow> (string \<times> (string, pyobj) dict) res) \<Rightarrow> pyobj list \<Rightarrow> pyobj list
    \<Rightarrow> (pyobj list \<times> bool) res" where
  "extend_section idkey row additions rows = bindR (keyed_rows idkey rows) (\<lambda>_.
     append_rows row 0 additions (known_ids idkey rows) rows)"

definition answer_one :: "pyobj \<Rightarrow> pyobj list \<Rightarrow> pyobj list res" where
  "answer_one a rows = bindR (as_object a) (\<lambda>d. case obj_get d ''question_id'' of
       PStr i \<Rightarrow> (case update_last (\<lambda>v. row_key ''question_id'' v = Some (PStr i)) (answered_row (obj_get d ''answer'')) rows of
           None \<Rightarrow> Err (ValueError ''answer names absent question'')
         | Some rows' \<Rightarrow> (case obj_get d ''answer'' of
               PStr s \<Rightarrow> if s \<noteq> [] then Ok rows' else Err (ValueError ''answer must be a non-empty string'')
             | _ \<Rightarrow> Err (ValueError ''answer must be a non-empty string'')))
     | _ \<Rightarrow> Err (ValueError ''answer names absent question''))"

fun answer_rows :: "pyobj list \<Rightarrow> pyobj list \<Rightarrow> pyobj list res" where
  "answer_rows [] rows = Ok rows"
| "answer_rows (a # as) rows = bindR (answer_one a rows) (answer_rows as)"

definition mark_questions_answered :: "pyobj list \<Rightarrow> pyobj list \<Rightarrow> pyobj list res" where
  "mark_questions_answered answers rows = bindR (keyed_rows ''question_id'' rows) (\<lambda>_.
     bindR (answer_rows answers rows) (\<lambda>rows'. bindR (all_accepted question_from_dict rows') (\<lambda>_. Ok rows')))"

definition fold_state :: "apply_env \<Rightarrow> string \<Rightarrow> pyobj \<Rightarrow> thesis_state res" where
  "fold_state env tid v = bindR (as_object v) (\<lambda>d. state_from_dict (ae_show env) (PDict (dset ''thesis_id'' (PStr tid) d)))"


section \<open>The journal\<close>

text \<open>\<open>s.split("---")\<close>, and whether a text occurs in another.\<close>

function split_dashes :: "string \<Rightarrow> string list" where
  "split_dashes [] = [[]]"
| "split_dashes (c # cs) = (if take 3 (c # cs) = ''---'' then [] # split_dashes (drop 2 cs)
     else (case split_dashes cs of [] \<Rightarrow> [[c]] | p # ps \<Rightarrow> (c # p) # ps))"
  by pat_completeness auto
termination
  by (relation "measure length") auto

definition occurs_in :: "string \<Rightarrow> string \<Rightarrow> bool" where
  "occurs_in needle s \<longleftrightarrow> list_ex (\<lambda>i. take (length needle) (drop i s) = needle) [0..<Suc (length s)]"

definition names_entry :: "string \<Rightarrow> string \<Rightarrow> bool" where
  "names_entry entry body = (case split_dashes body of _ # front # _ \<Rightarrow> occurs_in (''entry_id: '' @ entry) front | _ \<Rightarrow> False)"

definition find_journal_file :: "string \<Rightarrow> folder \<Rightarrow> string option" where
  "find_journal_file entry fo = map_option fst (List.find (\<lambda>(stem, body). names_entry entry body) (fo_journal fo))"

definition journal_front_matter :: "(pyobj \<Rightarrow> string) \<Rightarrow> string \<Rightarrow> string \<Rightarrow> string \<Rightarrow> (string, pyobj) dict \<Rightarrow> string" where
  "journal_front_matter show_obj entry tid created d = ''---'' @ newline @ ''entry_id: '' @ entry @ newline @ ''thesis_id: '' @ tid @ newline
     @ ''created_at: '' @ created @ newline
     @ (if truthy (obj_get d ''known_at'') then ''known_at: '' @ obj_text show_obj (obj_get d ''known_at'') @ newline else [])
     @ ''run_id: '' @ text_default show_obj d ''run_id'' [] @ newline @ ''trigger_id: '' @ text_default show_obj d ''trigger_id'' [] @ newline
     @ ''---'' @ newline"

definition journal_entry_id :: "apply_env \<Rightarrow> (string, pyobj) dict \<Rightarrow> string" where
  "journal_entry_id env d = (let v = (if truthy (obj_get d ''entry_id'') then obj_get d ''entry_id'' else obj_get d ''journal_id'')
     in case v of PStr s \<Rightarrow> if s \<noteq> [] then s else ae_journal env | _ \<Rightarrow> ae_journal env)"

definition journal_body :: "apply_env \<Rightarrow> (string, pyobj) dict \<Rightarrow> string" where
  "journal_body env d = (case dget_default d ''body'' (dget_default d ''summary'' (PStr [])) of PNone \<Rightarrow> [] | v \<Rightarrow> obj_text (ae_show env) v)"

definition write_journal_entry :: "apply_env \<Rightarrow> string \<Rightarrow> string \<Rightarrow> string \<Rightarrow> (string, pyobj) dict option \<Rightarrow> folder
    \<Rightarrow> folder \<times> string option res" where
  "write_journal_entry env tid run trig journal fo = (case journal of None \<Rightarrow> (fo, Ok None)
     | Some j \<Rightarrow>
         let d' = set_default ''run_id'' (PStr run) j; d = (if trig \<noteq> [] then set_default ''trigger_id'' (PStr trig) d' else d');
             entry = journal_entry_id env d; title = text_default (ae_show env) d ''title'' ''Research run''; body = journal_body env d
         in case find_journal_file entry fo of Some stem \<Rightarrow> (fo, Ok (Some stem))
            | None \<Rightarrow> (case bindR (reject_hostile env (PStr title)) (\<lambda>_. reject_hostile env (PStr body)) of
                Err e \<Rightarrow> (fo, Err e)
              | Ok _ \<Rightarrow> (fo\<lparr>fo_journal := dset (safe_name entry) (journal_front_matter (ae_show env) entry tid (ae_journaled env) d
                    @ ''# '' @ title @ newline @ newline @ body @ newline) (fo_journal fo)\<rparr>, Ok (Some (safe_name entry)))))"

section \<open>The backdated commit\<close>

definition check_closed :: "bool \<Rightarrow> unit res" where
  "check_closed is_closed = checkR (\<not> is_closed) (ValueError ''thesis is closed; refusing research writeback'')"

record sections_draft =
  sd_thesis :: "(string, pyobj) dict"
  sd_state :: "(string, pyobj) dict"
  sd_questions :: "pyobj list"
  sd_memories :: "pyobj list"
  sd_watch :: "pyobj list"
  sd_dirty :: bool

text \<open>An owned copy of a section: version, owner and rows.\<close>

definition copy_section :: "(string, pyobj) dict \<Rightarrow> string \<Rightarrow> string \<Rightarrow> pyobj list \<Rightarrow> (string, pyobj) dict" where
  "copy_section section key tid rows = [(''schema_version'', dget_default section ''schema_version'' (PInt 1)),
     (''thesis_id'', PStr tid), (key, PList rows)]"

text \<open>The additions, then the answers; an empty list of additions is not looked at.\<close>

definition extend_if :: "string \<Rightarrow> (nat \<Rightarrow> pyobj \<Rightarrow> (string \<times> (string, pyobj) dict) res) \<Rightarrow> pyobj list \<Rightarrow> pyobj list
    \<Rightarrow> (pyobj list \<times> bool) res" where
  "extend_if idkey row additions rows = (if additions = [] then Ok (rows, False) else extend_section idkey row additions rows)"

definition backdated_sections :: "apply_env \<Rightarrow> string \<Rightarrow> string \<Rightarrow> apply_inputs \<Rightarrow> state_snapshot \<Rightarrow> patches \<Rightarrow> patches
    \<Rightarrow> sections_draft res" where
  "backdated_sections env tid eff ai base claims expressions =
     bindR (if claims \<noteq> [] \<or> expressions \<noteq> []
         then bindR (fold_claim_expression (ae_show env) (hs_thesis base) claims expressions tid eff) (\<lambda>t. Ok (thesis_to_dict t))
         else Ok (hs_thesis base)) (\<lambda>thesis_d.
     bindR (if ai_state ai \<noteq> PNone then bindR (fold_state env tid (ai_state ai)) (\<lambda>s. Ok (state_to_dict s)) else Ok (hs_state base)) (\<lambda>state.
     bindR (extend_if ''question_id'' (question_row env) (ai_questions ai) (list_rows (hs_questions base) ''questions'')) (\<lambda>(questions, q).
     bindR (extend_if ''memory_id'' (memory_row env eff) (ai_memories ai) (list_rows (hs_memory base) ''memories'')) (\<lambda>(memories, m).
     bindR (extend_if ''rule_id'' (watch_row env thesis_d) (ai_watch ai) (list_rows (hs_watch base) ''rules'')) (\<lambda>(watch, w).
     bindR (if ai_answers ai = [] then Ok questions else mark_questions_answered (ai_answers ai) questions) (\<lambda>questions'.
     Ok \<lparr>sd_thesis = thesis_d, sd_state = state, sd_questions = questions', sd_memories = memories, sd_watch = watch,
         sd_dirty = (claims \<noteq> [] \<or> expressions \<noteq> [] \<or> ai_state ai \<noteq> PNone \<or> q \<or> m \<or> w \<or> ai_answers ai \<noteq> [])\<rparr>))))))"

definition backdated_plan :: "apply_env \<Rightarrow> string \<Rightarrow> string \<Rightarrow> apply_inputs \<Rightarrow> string list option \<Rightarrow> folder
    \<Rightarrow> (state_snapshot \<times> sections_draft \<times> string option) res" where
  "backdated_plan env tid eff ai allowed fo =
     bindR (load_state_as_of (ae_show env) (ae_fromiso env) fo eff) (\<lambda>base.
     bindR (check_closed (obj_get (hs_thesis base) ''status'' = PStr ''closed'')) (\<lambda>_.
     bindR (apply_patch ''claim_id'' claim_statuses (ai_claims ai) (retained_ids (obj_get (hs_thesis base) ''claims'') ''claim_id'')) (\<lambda>claims.
     bindR (apply_patch ''expression_id'' expression_statuses (ai_expressions ai)
         (retained_ids (obj_get (hs_thesis base) ''expressions'') ''expression_id'')) (\<lambda>expressions.
     bindR (apply_gate env tid ai allowed fo) (\<lambda>(stem, refs).
     bindR (check_evidence_provenance refs (ai_evidence ai)) (\<lambda>_.
     bindR (backdated_sections env tid eff ai base claims expressions) (\<lambda>sd. Ok (base, sd, stem))))))))"

record apply_outcome =
  ao_evidence :: nat
  ao_journal :: "string option"
  ao_trigger :: "string option"

definition apply_backdated :: "apply_env \<Rightarrow> string \<Rightarrow> string \<Rightarrow> apply_inputs \<Rightarrow> string \<Rightarrow> string list option
    \<Rightarrow> folder \<Rightarrow> folder \<times> apply_outcome res" where
  "apply_backdated env tid eff ai run allowed fo =
     then_do (fo, backdated_plan env tid eff ai allowed fo) (\<lambda>(base, sd, stem) fo.
     then_do (append_evidence_refs env tid 0 (ai_evidence ai) fo) (\<lambda>_ fo.
     then_do (write_journal_entry env tid run (ai_trigger ai) (ai_journal ai) fo) (\<lambda>journaled fo.
     then_do (mark_trigger_processed env tid run stem fo) (\<lambda>marked fo.
     then_do (if sd_dirty sd then then_do (write_snapshot (ae_show env) (ae_fromiso env) (rd_recorded (ae_readings env))
           (draft_of tid eff ''research_result'' run (ai_trigger ai) (sd_thesis sd) (sd_state sd)
             (copy_section (hs_questions base) ''questions'' tid (sd_questions sd)) (copy_section (hs_watch base) ''rules'' tid (sd_watch sd))
             (copy_section (hs_memory base) ''memories'' tid (sd_memories sd))) fo) (\<lambda>_ fo. (fo, Ok ()))
         else (fo, Ok ())) (\<lambda>_ fo.
     (fo, Ok \<lparr>ao_evidence = length (ai_evidence ai), ao_journal = journaled, ao_trigger = marked\<rparr>))))))"

section \<open>The live commit\<close>

text \<open>A live section must be a list; additions to an absent one are lost with the default the code reads.\<close>

definition live_rows :: "(string, pyobj) dict \<Rightarrow> string \<Rightarrow> pyobj list res" where
  "live_rows raw key = row_list raw key"

definition put_rows :: "string \<Rightarrow> pyobj list \<Rightarrow> (string, pyobj) dict \<Rightarrow> (string, pyobj) dict" where
  "put_rows key rows raw = (if dget raw key = None then raw else dset key (PList rows) raw)"

definition live_thesis :: "apply_env \<Rightarrow> string \<Rightarrow> research_thesis \<Rightarrow> patches \<Rightarrow> patches \<Rightarrow> folder \<Rightarrow> folder \<times> research_thesis res" where
  "live_thesis env tid t claims expressions fo = (if claims = [] \<and> expressions = [] then (fo, Ok t)
     else then_do (fo, fold_claim_expression (ae_show env) (thesis_to_dict t) claims expressions tid (rd_updated (ae_readings env)))
       (\<lambda>t' fo. (fo\<lparr>fo_thesis := Some (written (thesis_to_dict t'))\<rparr>, Ok t')))"

definition live_state :: "apply_env \<Rightarrow> string \<Rightarrow> pyobj \<Rightarrow> folder \<Rightarrow> folder \<times> unit res" where
  "live_state env tid v fo = (if v = PNone then (fo, Ok ())
     else then_do (fo, fold_state env tid v) (\<lambda>s fo. (fo\<lparr>fo_state := Some (written (state_to_dict s))\<rparr>, Ok ())))"

definition live_questions :: "apply_env \<Rightarrow> string \<Rightarrow> pyobj list \<Rightarrow> folder \<Rightarrow> folder \<times> bool res" where
  "live_questions env tid additions fo = (if additions = [] then (fo, Ok False)
     else then_do (fo, bindR (owned_by tid (fo_questions fo)) (\<lambda>raw. bindR (live_rows raw ''questions'') (\<lambda>rows.
         bindR (extend_section ''question_id'' (question_row env) additions rows) (\<lambda>(rows', added). Ok (put_rows ''questions'' rows' raw, added)))))
       (\<lambda>(raw, added) fo. (fo\<lparr>fo_questions := Some (written raw)\<rparr>, Ok added)))"

definition live_memories :: "apply_env \<Rightarrow> string \<Rightarrow> string \<Rightarrow> pyobj list \<Rightarrow> folder \<Rightarrow> folder \<times> bool res" where
  "live_memories env tid eff additions fo = (if additions = [] then (fo, Ok False)
     else then_do (fo, bindR (owned_by tid (fo_memory fo)) (\<lambda>raw. bindR (live_rows raw ''memories'') (\<lambda>rows.
         bindR (extend_section ''memory_id'' (memory_row env eff) additions rows) (\<lambda>(rows', added). Ok (put_rows ''memories'' rows' raw, added)))))
       (\<lambda>(raw, added) fo. (fo\<lparr>fo_memory := Some (written raw)\<rparr>, Ok added)))"

definition live_watch :: "apply_env \<Rightarrow> string \<Rightarrow> research_thesis \<Rightarrow> pyobj list \<Rightarrow> folder \<Rightarrow> folder \<times> bool res" where
  "live_watch env tid t additions fo = (if additions = [] then (fo, Ok False)
     else then_do (fo, bindR (owned_by tid (fo_watch fo)) (\<lambda>raw. bindR (live_rows raw ''rules'') (\<lambda>rows.
         bindR (extend_section ''rule_id'' (watch_row env (thesis_to_dict t)) additions rows) (\<lambda>(rows', added). Ok (put_rows ''rules'' rows' raw, added)))))
       (\<lambda>(raw, added) fo. (fo\<lparr>fo_watch := Some (written raw)\<rparr>, Ok added)))"

definition live_answers :: "apply_env \<Rightarrow> string \<Rightarrow> pyobj list \<Rightarrow> folder \<Rightarrow> folder \<times> bool res" where
  "live_answers env tid answers fo = (if answers = [] then (fo, Ok False)
     else then_do (fo, bindR (owned_by tid (fo_questions fo)) (\<lambda>raw. bindR (live_rows raw ''questions'') (\<lambda>rows.
         bindR (mark_questions_answered answers rows) (\<lambda>rows'. Ok (put_rows ''questions'' rows' raw)))))
       (\<lambda>raw fo. (fo\<lparr>fo_questions := Some (written raw)\<rparr>, Ok True)))"

definition live_sections_fold :: "apply_env \<Rightarrow> string \<Rightarrow> string \<Rightarrow> research_thesis \<Rightarrow> apply_inputs \<Rightarrow> folder \<Rightarrow> folder \<times> bool res" where
  "live_sections_fold env tid eff t ai fo =
     then_do (live_state env tid (ai_state ai) fo) (\<lambda>_ fo.
     then_do (live_questions env tid (ai_questions ai) fo) (\<lambda>q fo.
     then_do (live_memories env tid eff (ai_memories ai) fo) (\<lambda>m fo.
     then_do (live_watch env tid t (ai_watch ai) fo) (\<lambda>w fo.
     then_do (live_answers env tid (ai_answers ai) fo) (\<lambda>a fo.
     (fo, Ok (ai_state ai \<noteq> PNone \<or> q \<or> m \<or> w \<or> a)))))))"

definition live_plan :: "apply_env \<Rightarrow> string \<Rightarrow> research_thesis \<Rightarrow> apply_inputs \<Rightarrow> string list option \<Rightarrow> folder
    \<Rightarrow> (patches \<times> patches \<times> string option) res" where
  "live_plan env tid t ai allowed fo =
     bindR (check_closed (th_status t = ''closed'')) (\<lambda>_.
     bindR (apply_patch ''claim_id'' claim_statuses (ai_claims ai) (thesis_claim_ids t)) (\<lambda>claims.
     bindR (apply_patch ''expression_id'' expression_statuses (ai_expressions ai) (thesis_expression_ids t)) (\<lambda>expressions.
     bindR (apply_gate env tid ai allowed fo) (\<lambda>(stem, refs).
     bindR (check_evidence_provenance refs (ai_evidence ai)) (\<lambda>_. Ok (claims, expressions, stem))))))"

definition apply_live :: "apply_env \<Rightarrow> string \<Rightarrow> research_thesis \<Rightarrow> string \<Rightarrow> apply_inputs \<Rightarrow> string \<Rightarrow> string list option
    \<Rightarrow> folder \<Rightarrow> folder \<times> apply_outcome res" where
  "apply_live env tid t eff ai run allowed fo =
     then_do (fo, live_plan env tid t ai allowed fo) (\<lambda>(claims, expressions, stem) fo.
     then_do (live_thesis env tid t claims expressions fo) (\<lambda>t' fo.
     then_do (append_evidence_refs env tid 0 (ai_evidence ai) fo) (\<lambda>_ fo.
     then_do (live_sections_fold env tid eff t' ai fo) (\<lambda>changed fo.
     then_do (write_journal_entry env tid run (ai_trigger ai) (ai_journal ai) fo) (\<lambda>journaled fo.
     then_do (mark_trigger_processed env tid run stem fo) (\<lambda>marked fo.
     then_do (if claims \<noteq> [] \<or> expressions \<noteq> [] \<or> changed
         then then_do (snapshot_live (ae_show env) (ae_fromiso env) (ae_readings env) tid eff ''research_result'' run (ai_trigger ai) fo)
           (\<lambda>_ fo. (fo, Ok ()))
         else (fo, Ok ())) (\<lambda>_ fo.
     (fo, Ok \<lparr>ao_evidence = length (ai_evidence ai), ao_journal = journaled, ao_trigger = marked\<rparr>))))))))"

definition apply_research_result :: "apply_env \<Rightarrow> string \<Rightarrow> pyobj \<Rightarrow> string \<Rightarrow> string list option \<Rightarrow> string option
    \<Rightarrow> string \<Rightarrow> folder \<Rightarrow> folder \<times> apply_outcome res" where
  "apply_research_result env tid result run allowed given name fo =
     then_do (fo, bindR (as_object result) (\<lambda>d.
         bindR (effective_clock (ae_fromiso env) (ae_readings env) given) (\<lambda>clock.
         bindR (check_owner (ae_show env) name tid fo) (\<lambda>t.
         bindR (coerce_apply_inputs d) (\<lambda>ai. Ok (clock, t, ai))))))
       (\<lambda>((eff, m), t, ai) fo. if backdated (ae_show env) (ae_fromiso env) m fo
          then apply_backdated env tid eff ai run allowed fo
          else apply_live env tid t eff ai run allowed fo)"


section \<open>What each stage leaves alone\<close>

named_theorems stage_frame

lemma then_do_keeps:
  "(\<And>x g. sel (fst (f x g)) = sel g) \<Longrightarrow> sel (fst (then_do m f)) = sel (fst m)"
  by (cases "snd m") (simp_all add: then_do_def)

lemma write_snapshot_frame [stage_frame]:
  "fo_evidence (fst (write_snapshot show_obj fromiso now draft fo)) = fo_evidence fo"
  "fo_inbox (fst (write_snapshot show_obj fromiso now draft fo)) = fo_inbox fo"
  by (rule write_snapshot_cases [of show_obj fromiso now draft fo]; simp)+

lemma snapshot_live_frame [stage_frame]:
  "fo_evidence (fst (snapshot_live show_obj fromiso rd tid eff reason run trig fo)) = fo_evidence fo"
  "fo_inbox (fst (snapshot_live show_obj fromiso rd tid eff reason run trig fo)) = fo_inbox fo"
  by (auto simp: snapshot_live_def stage_frame split: sum.splits prod.splits)

lemma journal_frame [stage_frame]:
  "fo_evidence (fst (write_journal_entry env tid run trig journal fo)) = fo_evidence fo"
  "fo_history (fst (write_journal_entry env tid run trig journal fo)) = fo_history fo"
  by (auto simp: write_journal_entry_def Let_def split: option.splits sum.splits)

lemma trigger_frame [stage_frame]:
  "fo_evidence (fst (mark_trigger_processed env tid run stem fo)) = fo_evidence fo"
  "fo_history (fst (mark_trigger_processed env tid run stem fo)) = fo_history fo"
  by (auto simp: mark_trigger_processed_def split: option.splits sum.splits)

lemma append_evidence_frame [stage_frame]:
  "fo_history (fst (append_evidence_refs env tid n vs fo)) = fo_history fo"
proof (induction vs arbitrary: n fo)
  case (Cons v vs)
  show ?case by (cases "evidence_file env tid (ae_evidence env n) v") (simp_all add: then_do_def Cons.IH, simp add: add_evidence_def)
qed simp

lemma pure_stage:
  "(\<And>x. sel (fst (f x fo)) = sel fo) \<Longrightarrow> sel (fst (then_do (fo, r) f)) = sel fo"
  by (cases r) (simp_all add: then_do_def)

lemma live_thesis_frame [stage_frame]:
  "fo_evidence (fst (live_thesis env tid t claims expressions fo)) = fo_evidence fo"
  "fo_history (fst (live_thesis env tid t claims expressions fo)) = fo_history fo"
  by (simp_all add: live_thesis_def pure_stage)

lemma live_section_frame [stage_frame]:
  "fo_evidence (fst (live_state env tid v fo)) = fo_evidence fo" "fo_history (fst (live_state env tid v fo)) = fo_history fo"
  "fo_evidence (fst (live_questions env tid vs fo)) = fo_evidence fo" "fo_history (fst (live_questions env tid vs fo)) = fo_history fo"
  "fo_evidence (fst (live_memories env tid eff vs fo)) = fo_evidence fo" "fo_history (fst (live_memories env tid eff vs fo)) = fo_history fo"
  "fo_evidence (fst (live_watch env tid t vs fo)) = fo_evidence fo" "fo_history (fst (live_watch env tid t vs fo)) = fo_history fo"
  "fo_evidence (fst (live_answers env tid vs fo)) = fo_evidence fo" "fo_history (fst (live_answers env tid vs fo)) = fo_history fo"
  by (auto simp: live_state_def live_questions_def live_memories_def live_watch_def live_answers_def
      intro!: pure_stage split: prod.splits)

lemma live_sections_frame [stage_frame]:
  "fo_evidence (fst (live_sections_fold env tid eff t ai fo)) = fo_evidence fo"
  "fo_history (fst (live_sections_fold env tid eff t ai fo)) = fo_history fo"
  unfolding live_sections_fold_def by (rule trans, rule then_do_keeps, simp_all add: stage_frame then_do_keeps)

section \<open>What a commit adds to the history\<close>

lemma adds_then:
  assumes "fo_history (fst m) = fo_history fo" and "\<And>x. adds show_obj fromiso eff (fst m) (fst (f x (fst m)))"
  shows "adds show_obj fromiso eff fo (fst (then_do m f))"
  using assms by (cases "snd m") (auto simp: then_do_def adds_def)

lemma adds_last: "adds show_obj fromiso eff fo (fst m) \<Longrightarrow> adds show_obj fromiso eff fo (fst (then_do m (\<lambda>x fo. (fo, g x))))"
  by simp

lemma adds_if_dirty:
  "hs_effective_at draft = eff \<Longrightarrow> adds show_obj fromiso eff fo (fst (if dirty
      then then_do (write_snapshot show_obj fromiso now draft fo) (\<lambda>_ fo. (fo, Ok ())) else (fo, Ok ())))"
  "adds show_obj fromiso eff fo (fst (if dirty
      then then_do (snapshot_live show_obj fromiso rd tid eff reason run trig fo) (\<lambda>_ fo. (fo, Ok ())) else (fo, Ok ())))"
  by (simp_all add: adds_write adds_live adds_refl)

lemma draft_effective [simp]: "hs_effective_at (draft_of tid eff reason run trig t st q w m) = eff"
  by (simp add: draft_of_def)

lemma adds_apply_backdated: "adds (ae_show env) (ae_fromiso env) eff fo (fst (apply_backdated env tid eff ai run allowed fo))"
  unfolding apply_backdated_def split_beta
  by (rule adds_then_pure, rule adds_then, rule append_evidence_frame, rule adds_then, rule journal_frame,
      rule adds_then, rule trigger_frame, rule adds_last, rule adds_if_dirty, rule draft_effective)

lemma adds_apply_live: "adds (ae_show env) (ae_fromiso env) eff fo (fst (apply_live env tid t eff ai run allowed fo))"
  unfolding apply_live_def split_beta
  by (rule adds_then_pure, rule adds_then, rule live_thesis_frame, rule adds_then, rule append_evidence_frame,
      rule adds_then, rule live_sections_frame, rule adds_then, rule journal_frame, rule adds_then, rule trigger_frame,
      rule adds_last, rule adds_if_dirty)

lemma adds_apply:
  assumes "effective_clock (ae_fromiso env) (ae_readings env) given = Ok (eff, m)"
  shows "adds (ae_show env) (ae_fromiso env) eff fo (fst (apply_research_result env tid result run allowed given name fo))"
  unfolding apply_research_result_def
proof (rule adds_then_pure, goal_cases)
  case (1 x)
  then obtain t ai where "x = ((eff, m), t, ai)" using assms by (auto simp: bindR_Ok_iff)
  then show ?case by (simp add: adds_apply_backdated adds_apply_live)
qed


section \<open>Evidence files come from permitted references\<close>

text \<open>A stored evidence file of the thesis whose reference is among the allowed ones.\<close>

definition permitted_file :: "string \<Rightarrow> string list option \<Rightarrow> yaml_file \<Rightarrow> bool" where
  "permitted_file tid refs f = (case load_raw (Some f) of Err _ \<Rightarrow> False
     | Ok d \<Rightarrow> obj_get d ''thesis_id'' = PStr tid
         \<and> (case refs of None \<Rightarrow> True | Some rs \<Rightarrow> in_vocab (obj_get d ''canonical_ref'') rs))"

definition new_entries :: "folder \<Rightarrow> folder \<Rightarrow> (string \<times> yaml_file) list" where
  "new_entries fo fo' = drop (length (fo_evidence fo)) (fo_evidence fo')"

definition evidence_grows :: "string \<Rightarrow> string list option \<Rightarrow> folder \<Rightarrow> folder \<Rightarrow> bool" where
  "evidence_grows tid refs fo fo' \<longleftrightarrow> prefix (fo_evidence fo) (fo_evidence fo')
     \<and> list_all (\<lambda>(stem, f). permitted_file tid refs f) (new_entries fo fo')"

lemma evidence_grows_refl: "fo_evidence fo' = fo_evidence fo \<Longrightarrow> evidence_grows tid refs fo fo'"
  by (simp add: evidence_grows_def new_entries_def)

lemma evidence_grows_trans: "evidence_grows tid refs f g \<Longrightarrow> evidence_grows tid refs g h \<Longrightarrow> evidence_grows tid refs f h"
  by (auto simp: evidence_grows_def new_entries_def prefix_def)

lemma evidence_grows_cong:
  "fo_evidence f = fo_evidence f' \<Longrightarrow> fo_evidence g = fo_evidence g' \<Longrightarrow> evidence_grows tid refs f' g' \<Longrightarrow> evidence_grows tid refs f g"
  by (simp add: evidence_grows_def new_entries_def)

lemma set_default_other: "k \<noteq> k' \<Longrightarrow> dget (set_default k v d) k' = dget d k'"
  by (simp add: set_default_def update_conv)

lemma evidence_file_permitted:
  assumes "evidence_file env tid fresh v = Ok (stem, e)" and "evidence_provenance refs v = Ok ()"
  shows "permitted_file tid refs (written (schema_entry # evidence_ref_to_dict e))"
proof -
  obtain d where d: "v = PDict d" using assms(2) by (auto simp: evidence_provenance_def bindR_Ok_iff thesis_reader)
  have e: "evidence_ref_from_dict (ae_show env) (PDict (dset ''thesis_id'' (PStr tid) (set_default ''evidence_id'' (PStr fresh) d))) = Ok e"
    using assms(1) by (auto simp: evidence_file_def bindR_Ok_iff thesis_reader d)
  have "er_thesis_id e = tid" and "dget d ''canonical_ref'' = Some (PStr (er_canonical_ref e))"
    using e by (auto simp: evidence_ref_from_dict_def bindR_Ok_iff thesis_reader update_conv set_default_other)
  moreover have "in_vocab (obj_get d ''canonical_ref'') rs" if "refs = Some rs" for rs
    using assms(2) that d by (auto simp: evidence_provenance_def bindR_Ok_iff thesis_reader)
  ultimately show ?thesis
    by (auto simp: permitted_file_def load_raw_def written_def as_object_def schema_entry_def evidence_ref_to_dict_def
        obj_get_def dget_default_def split: option.splits)
qed

lemma add_evidence_grows:
  "permitted_file tid refs (written (schema_entry # evidence_ref_to_dict (snd e))) \<Longrightarrow> evidence_grows tid refs fo (add_evidence e fo)"
  by (auto simp: add_evidence_def evidence_grows_def new_entries_def dset_fresh)

lemma append_evidence_grows:
  assumes "list_all (\<lambda>v. evidence_provenance refs v = Ok ()) vs"
  shows "evidence_grows tid refs fo (fst (append_evidence_refs env tid n vs fo))"
  using assms
proof (induction vs arbitrary: n fo)
  case Nil
  show ?case by (simp add: evidence_grows_refl)
next
  case (Cons v vs)
  show ?case
  proof (cases "evidence_file env tid (ae_evidence env n) v")
    case (Inl x)
    then show ?thesis by (simp add: then_do_def evidence_grows_refl)
  next
    case (Inr p)
    obtain stem e where p: "p = (stem, e)" by (cases p)
    have "evidence_grows tid refs fo (add_evidence p fo)"
      using evidence_file_permitted [OF Inr [unfolded p]] Cons.prems by (intro add_evidence_grows) (simp add: p)
    then have "evidence_grows tid refs fo (fst (append_evidence_refs env tid (Suc n) vs (add_evidence p fo)))"
      by (rule evidence_grows_trans) (rule Cons.IH, use Cons.prems in simp)
    then show ?thesis using Inr by (simp add: then_do_def)
  qed
qed

lemma provenance_all: "check_evidence_provenance refs vs = Ok u \<Longrightarrow> list_all (\<lambda>v. evidence_provenance refs v = Ok ()) vs"
  by (auto simp: check_evidence_provenance_def all_accepted_def bindR_Ok_iff list_all_iff dest: mapR_Ok_mem)

lemma then_do_pure: "then_do (fo, Ok x) f = f x fo" "then_do (fo, Err e) f = (fo, Err e)"
  by (simp_all add: then_do_def)

lemma evidence_then:
  "fo_evidence (fst m) = fo_evidence fo \<Longrightarrow> (\<And>x g. fo_evidence (fst (f x g)) = fo_evidence g)
     \<Longrightarrow> fo_evidence (fst (then_do m f)) = fo_evidence fo"
  by (simp add: then_do_keeps [where sel = fo_evidence])

lemma backdated_evidence:
  assumes "backdated_plan env tid eff ai allowed fo = Ok p"
  shows "fo_evidence (fst (apply_backdated env tid eff ai run allowed fo)) = fo_evidence (fst (append_evidence_refs env tid 0 (ai_evidence ai) fo))"
  unfolding apply_backdated_def assms then_do_pure split_beta
  by (rule then_do_keeps [where sel = fo_evidence], rule evidence_then, rule journal_frame, rule evidence_then, rule trigger_frame,
      rule evidence_then) (simp_all add: write_snapshot_frame)

lemma live_evidence:
  assumes "live_plan env tid t ai allowed fo = Ok p"
  obtains g where "fo_evidence g = fo_evidence fo"
    and "fo_evidence (fst (apply_live env tid t eff ai run allowed fo)) = fo_evidence g
       \<or> fo_evidence (fst (apply_live env tid t eff ai run allowed fo)) = fo_evidence (fst (append_evidence_refs env tid 0 (ai_evidence ai) g))"
proof -
  obtain claims expressions stem where p: "p = (claims, expressions, stem)" by (cases p)
  let ?m = "live_thesis env tid t claims expressions fo"
  have same: "fo_evidence (fst ?m) = fo_evidence fo" by (rule live_thesis_frame)
  show thesis
  proof (cases "snd ?m")
    case (Inl e)
    then show thesis using same
      by (intro that [of "fst ?m"]) (simp_all add: apply_live_def assms p then_do_pure, simp add: then_do_def)
  next
    case (Inr t')
    have m: "?m = (fst ?m, Ok t')" using Inr by (metis prod.collapse)
    have "fo_evidence (fst (apply_live env tid t eff ai run allowed fo))
        = fo_evidence (fst (append_evidence_refs env tid 0 (ai_evidence ai) (fst ?m)))"
      unfolding apply_live_def assms p then_do_pure prod.case
      by (subst m, unfold then_do_pure, rule then_do_keeps [where sel = fo_evidence], rule evidence_then, rule live_sections_frame,
          rule evidence_then, rule journal_frame, rule evidence_then, rule trigger_frame,
          rule evidence_then) (simp_all add: snapshot_live_frame)
    then show thesis using same by (intro that [of "fst ?m"]) simp_all
  qed
qed


text \<open>The references a commit may cite, and those stored that were known when its payload was.\<close>

definition citable :: "apply_env \<Rightarrow> string \<Rightarrow> apply_inputs \<Rightarrow> string list option \<Rightarrow> folder \<Rightarrow> string list" where
  "citable env tid ai allowed fo = (case load_trigger_raw tid (ai_trigger ai) fo of Err _ \<Rightarrow> []
     | Ok (stem, raw) \<Rightarrow> gate_allowed (ae_show env) (ae_fromiso env) tid (ai_journal ai) raw allowed fo)"

text \<open>
  Known by then, from the documents themselves: a stored file of the thesis names the reference and
  carries a \<open>known_at\<close> whose text reads as an instant not after the time of the payload, which is the
  journal entry's \<open>known_at\<close> where it has one and the trigger's \<open>created_at\<close> otherwise.
\<close>

definition shown :: "(pyobj \<Rightarrow> string) \<Rightarrow> pyobj \<Rightarrow> string" where
  "shown show_obj v = (case v of PNone \<Rightarrow> [] | PStr s \<Rightarrow> s | _ \<Rightarrow> show_obj v)"

definition no_later :: "iso_parser \<Rightarrow> string \<Rightarrow> string \<Rightarrow> bool" where
  "no_later fromiso a b \<longleftrightarrow> (case (fromiso a, fromiso b) of
       (Some x, Some y) \<Rightarrow> normalize_time x \<le> normalize_time y | _ \<Rightarrow> False)"

definition payload_time :: "(pyobj \<Rightarrow> string) \<Rightarrow> (string, pyobj) dict option \<Rightarrow> (string, pyobj) dict \<Rightarrow> string" where
  "payload_time show_obj journal raw = (case journal of
       Some j \<Rightarrow> if truthy (obj_get j ''known_at'') then shown show_obj (obj_get j ''known_at'')
                 else shown show_obj (obj_get raw ''created_at'')
     | None \<Rightarrow> shown show_obj (obj_get raw ''created_at''))"

definition stored_by_then :: "apply_env \<Rightarrow> string \<Rightarrow> apply_inputs \<Rightarrow> (string, pyobj) dict \<Rightarrow> folder \<Rightarrow> string \<Rightarrow> bool" where
  "stored_by_then env tid ai raw fo r \<longleftrightarrow> list_ex (\<lambda>(stem, f). case f of
       Document (PDict d) \<Rightarrow> dget d ''thesis_id'' = Some (PStr tid) \<and> dget d ''canonical_ref'' = Some (PStr r)
         \<and> no_later (ae_fromiso env) (shown (ae_show env) (obj_get d ''known_at''))
             (payload_time (ae_show env) (ai_journal ai) raw)
     | _ \<Rightarrow> False) (fo_evidence fo)"

definition citable_source :: "apply_env \<Rightarrow> string \<Rightarrow> apply_inputs \<Rightarrow> folder \<Rightarrow> string \<Rightarrow> bool" where
  "citable_source env tid ai fo r = (case load_trigger_raw tid (ai_trigger ai) fo of Err _ \<Rightarrow> False
     | Ok (stem, raw) \<Rightarrow> r \<in> set (trigger_allowed_refs raw) \<or> stored_by_then env tid ai raw fo r)"

lemma load_raw_Document: "load_raw (Some f) = Ok d \<Longrightarrow> f = Document (PDict d)"
  by (cases f) (auto simp: load_raw_def as_object_def bindR_Ok_iff split: pyobj.splits)

lemma obj_get_PStr: "obj_get d k = PStr x \<longleftrightarrow> dget d k = Some (PStr x)"
  by (simp add: obj_get_def dget_default_def split: option.split)

lemma shown_text: "(case v of PNone \<Rightarrow> [] | _ \<Rightarrow> obj_text show_obj v) = shown show_obj v"
  by (cases v) (simp_all add: shown_def obj_text_def)

lemma payload_cut_time: "payload_cut show_obj journal raw = payload_time show_obj journal raw"
  unfolding payload_cut_def Let_def shown_text by (simp add: payload_time_def split: option.split)

lemma moment_reads:
  "payload_moment show_obj fromiso journal raw = Some c
     \<Longrightarrow> \<exists>y. fromiso (payload_time show_obj journal raw) = Some y \<and> normalize_time y = c"
  by (auto simp: payload_moment_def payload_cut_time as_dt_def Let_def split: if_splits)

lemma file_ref_reads:
  assumes "pit_file_ref show_obj fromiso tid c f = Some r"
  shows "\<exists>d x. f = Document (PDict d) \<and> dget d ''thesis_id'' = Some (PStr tid) \<and> dget d ''canonical_ref'' = Some (PStr r)
    \<and> fromiso (shown show_obj (obj_get d ''known_at'')) = Some x \<and> normalize_time x \<le> c"
proof -
  obtain d where d: "load_raw (Some f) = Ok d" using assms by (auto simp: pit_file_ref_def split: sum.splits)
  have "shown show_obj (obj_get d ''known_at'') = pit_known_at show_obj d"
    by (cases "obj_get d ''known_at''") (simp_all add: pit_known_at_def shown_def obj_text_def)
  with assms d load_raw_Document [OF d] show ?thesis
    by (auto simp: pit_file_ref_def as_dt_def obj_get_PStr split: pyobj.splits if_splits option.splits)
qed

lemma set_map_filter_pairs: "set (List.map_filter f xs) = {y. \<exists>x \<in> set xs. f x = Some y}"
  by (force simp: List.map_filter_def)

lemma citable_sources: "list_all (citable_source env tid ai fo) (citable env tid ai None fo)"
proof (cases "load_trigger_raw tid (ai_trigger ai) fo")
  case (Inl e)
  then show ?thesis by (simp add: citable_def)
next
  case (Inr p)
  obtain stem raw where p: "p = (stem, raw)" by (cases p)
  have "stored_by_then env tid ai raw fo r"
    if "r \<in> set (pit_allowed_refs (ae_show env) (ae_fromiso env) tid (payload_moment (ae_show env) (ae_fromiso env) (ai_journal ai) raw) fo)" for r
  proof (cases "payload_moment (ae_show env) (ae_fromiso env) (ai_journal ai) raw")
    case None
    with that show ?thesis by (simp add: pit_allowed_refs_def)
  next
    case (Some c)
    with that obtain stem f where f: "(stem, f) \<in> set (fo_evidence fo)" and ref: "pit_file_ref (ae_show env) (ae_fromiso env) tid c f = Some r"
      by (auto simp: pit_allowed_refs_def set_map_filter_pairs)
    from file_ref_reads [OF ref] moment_reads [OF Some] f show ?thesis
      by (force simp: stored_by_then_def list_ex_iff no_later_def)
  qed
  with Inr p show ?thesis by (auto simp: citable_def citable_source_def gate_allowed_def list_all_iff)
qed

lemma apply_gate_citable:
  assumes "apply_gate env tid ai allowed fo = Ok (stem, refs)" and "ai_trigger ai \<noteq> []"
  shows "refs = Some (citable env tid ai allowed fo)"
  using assms by (auto simp: apply_gate_def bindR_Ok_iff citable_def)

lemma apply_backdated_grows:
  assumes "ai_trigger ai \<noteq> []"
  shows "evidence_grows tid (Some (citable env tid ai allowed fo)) fo (fst (apply_backdated env tid eff ai run allowed fo))"
proof (cases "backdated_plan env tid eff ai allowed fo")
  case (Inl e)
  then show ?thesis by (simp add: apply_backdated_def then_do_pure evidence_grows_refl)
next
  case (Inr p)
  then obtain stem refs u where gate: "apply_gate env tid ai allowed fo = Ok (stem, refs)"
      and clean: "check_evidence_provenance refs (ai_evidence ai) = Ok u"
    by (auto simp: backdated_plan_def bindR_Ok_iff)
  from append_evidence_grows [OF provenance_all [OF clean]] apply_gate_citable [OF gate assms]
  have "evidence_grows tid (Some (citable env tid ai allowed fo)) fo (fst (append_evidence_refs env tid 0 (ai_evidence ai) fo))" by simp
  then show ?thesis by (rule evidence_grows_cong [OF refl backdated_evidence [OF Inr]])
qed

lemma apply_live_grows:
  assumes "ai_trigger ai \<noteq> []"
  shows "evidence_grows tid (Some (citable env tid ai allowed fo)) fo (fst (apply_live env tid t eff ai run allowed fo))"
proof (cases "live_plan env tid t ai allowed fo")
  case (Inl e)
  then show ?thesis by (simp add: apply_live_def then_do_pure evidence_grows_refl)
next
  case (Inr p)
  then obtain stem refs u where gate: "apply_gate env tid ai allowed fo = Ok (stem, refs)"
      and clean: "check_evidence_provenance refs (ai_evidence ai) = Ok u"
    by (auto simp: live_plan_def bindR_Ok_iff)
  have grows: "evidence_grows tid (Some (citable env tid ai allowed fo)) g (fst (append_evidence_refs env tid 0 (ai_evidence ai) g))" for g
    using append_evidence_grows [OF provenance_all [OF clean]] apply_gate_citable [OF gate assms] by simp
  from live_evidence [OF Inr, of eff run] obtain g where g: "fo_evidence g = fo_evidence fo"
    and cases: "fo_evidence (fst (apply_live env tid t eff ai run allowed fo)) = fo_evidence g
       \<or> fo_evidence (fst (apply_live env tid t eff ai run allowed fo)) = fo_evidence (fst (append_evidence_refs env tid 0 (ai_evidence ai) g))"
    by blast
  from cases show ?thesis
  proof
    assume "fo_evidence (fst (apply_live env tid t eff ai run allowed fo)) = fo_evidence g"
    then show ?thesis by (simp add: evidence_grows_refl g)
  next
    assume last: "fo_evidence (fst (apply_live env tid t eff ai run allowed fo)) = fo_evidence (fst (append_evidence_refs env tid 0 (ai_evidence ai) g))"
    show ?thesis by (rule evidence_grows_cong [OF g [symmetric] last grows])
  qed
qed

lemma apply_grows:
  assumes "coerce_apply_inputs d = Ok ai" and "ai_trigger ai \<noteq> []"
  shows "evidence_grows tid (Some (citable env tid ai allowed fo)) fo (fst (apply_research_result env tid (PDict d) run allowed given name fo))"
proof (cases "bindR (effective_clock (ae_fromiso env) (ae_readings env) given) (\<lambda>clock. bindR (check_owner (ae_show env) name tid fo) (\<lambda>t. Ok (clock, t)))")
  case (Inl e)
  then have "fst (apply_research_result env tid (PDict d) run allowed given name fo) = fo"
    by (cases "effective_clock (ae_fromiso env) (ae_readings env) given"; cases "check_owner (ae_show env) name tid fo")
      (simp_all add: apply_research_result_def as_object_def then_do_pure)
  then show ?thesis by (simp add: evidence_grows_refl)
next
  case (Inr p)
  then obtain eff m t where "effective_clock (ae_fromiso env) (ae_readings env) given = Ok (eff, m)" "check_owner (ae_show env) name tid fo = Ok t"
    by (auto simp: bindR_Ok_iff)
  then have "apply_research_result env tid (PDict d) run allowed given name fo
      = (if backdated (ae_show env) (ae_fromiso env) m fo then apply_backdated env tid eff ai run allowed fo
         else apply_live env tid t eff ai run allowed fo)"
    using assms(1) by (simp add: apply_research_result_def as_object_def then_do_pure)
  then show ?thesis using apply_backdated_grows [OF assms(2)] apply_live_grows [OF assms(2)] by simp
qed


text \<open>
  C5.  A commit for a trigger keeps every stored evidence file and adds files of this thesis only, each
  citing a reference the gate allows, whatever else the commit does and also when it fails half way.
  Without an explicit set, a reference is allowed when the trigger names it or a stored file of the
  thesis names it that was known by the time of the payload.
\<close>

theorem writeback_provenance:
  assumes "apply_research_result env tid (PDict d) run allowed given name fo = (fo', r)"
    and "coerce_apply_inputs d = Ok ai" and "ai_trigger ai \<noteq> []"
  shows "prefix (fo_evidence fo) (fo_evidence fo')
    \<and> list_all (\<lambda>(stem, f). permitted_file tid (Some (citable env tid ai allowed fo)) f) (new_entries fo fo')
    \<and> list_all (citable_source env tid ai fo) (citable env tid ai None fo)"
  using apply_grows [OF assms(2,3), of tid env allowed fo run given name] citable_sources [of env tid ai fo]
  by (simp_all add: assms(1) evidence_grows_def)

definition commit_env :: apply_env where
  "commit_env = \<lparr>ae_show = demo_show, ae_fromiso = demo_iso, ae_decoders = no_decoders,
     ae_readings = \<lparr>rd_effective = ''2025-01-01'', rd_updated = ''2025-01-01'', rd_migration = ''2025-01-01'', rd_recorded = ''2025-01-01''\<rparr>,
     ae_processed = ''2025-01-01'', ae_journaled = ''2025-01-01'', ae_question = (\<lambda>n. ''q:'' @ nat_str n), ae_memory = (\<lambda>n. ''m:'' @ nat_str n),
     ae_rule = (\<lambda>n. ''r:'' @ nat_str n), ae_evidence = (\<lambda>n. ''e:'' @ nat_str n), ae_journal = ''j1''\<rparr>"

definition commit_folder :: "string \<Rightarrow> folder" where
  "commit_folder status = \<lparr>fo_thesis = Some (written (schema_entry # (''status'', PStr status) # demo_thesis_doc)), fo_state = None,
     fo_watch = None, fo_questions = None, fo_memory = None, fo_checkpoint = None, fo_history = [],
     fo_inbox = [(''trig_1'', written [schema_entry, (''trigger_id'', PStr ''trig:1''), (''thesis_id'', PStr ''thesis:1''),
        (''canonical_refs'', PList [PStr ''acc:1''])])],
     fo_evidence = [], fo_journal = [], fo_pending = []\<rparr>"

definition commit_payload :: "string \<Rightarrow> (string, pyobj) dict" where
  "commit_payload cited = [(''trigger_id'', PStr ''trig:1''), (''evidence_refs'', PList [PDict [(''canonical_ref'', PStr cited)]])]"

definition commit_run :: "string \<Rightarrow> string \<Rightarrow> folder \<times> apply_outcome res" where
  "commit_run status cited = apply_research_result commit_env ''thesis:1'' (PDict (commit_payload cited)) ''run:1'' None None
     ''memory-cycle'' (commit_folder status)"

theorem writeback_provenance_witness:
  "list_all (\<lambda>(stem, f). permitted_file ''thesis:1'' (Some [''acc:1'']) f)
     (new_entries (commit_folder ''active'') (fst (commit_run ''active'' ''acc:1'')))"
proof -
  let ?ai = "projr (coerce_apply_inputs (commit_payload ''acc:1''))"
  have "is_ok (coerce_apply_inputs (commit_payload ''acc:1''))" by code_simp
  then have ai: "coerce_apply_inputs (commit_payload ''acc:1'') = Ok ?ai" by (auto simp: is_ok_iff)
  have trig: "ai_trigger ?ai \<noteq> []" by code_simp
  have cited: "citable commit_env ''thesis:1'' ?ai None (commit_folder ''active'') = [''acc:1'']" by code_simp
  show ?thesis
    using writeback_provenance [OF prod.collapse [symmetric] ai trig, where env = commit_env and tid = "''thesis:1''"
        and run = "''run:1''" and allowed = None and given = None and name = "''memory-cycle''" and fo = "commit_folder ''active''"]
    by (simp only: cited commit_run_def simp_thms)
qed

section \<open>A closed thesis\<close>

text \<open>Is the thesis closed as of the moment of an operation?\<close>

definition closed_then :: "apply_env \<Rightarrow> string \<Rightarrow> string \<Rightarrow> string \<Rightarrow> instant \<Rightarrow> folder \<Rightarrow> bool" where
  "closed_then env tid name eff m fo \<longleftrightarrow> (if backdated (ae_show env) (ae_fromiso env) m fo
     then (case load_state_as_of (ae_show env) (ae_fromiso env) fo eff of Err _ \<Rightarrow> False | Ok s \<Rightarrow> obj_get (hs_thesis s) ''status'' = PStr ''closed'')
     else (case check_owner (ae_show env) name tid fo of Err _ \<Rightarrow> False | Ok t \<Rightarrow> th_status t = ''closed''))"

definition refused :: "folder \<Rightarrow> folder \<times> 'a res \<Rightarrow> bool" where
  "refused fo p \<longleftrightarrow> fst p = fo \<and> \<not> is_ok (snd p)"

lemma refused_pure: "refused fo (then_do (fo, Err e) f)"
  by (simp add: refused_def then_do_pure)

lemma closed_status:
  assumes "effective_clock (ae_fromiso env) (ae_readings env) given = Ok (eff, m)" and "closed_then env tid name eff m fo"
  shows "refused fo (change_status False (ae_show env) (ae_fromiso env) (ae_readings env) tid status given name fo)"
proof (cases "check_owner (ae_show env) name tid fo")
  case (Inl e)
  then show ?thesis by (simp add: change_status_def assms(1) refused_pure)
next
  case (Inr t)
  show ?thesis
  proof (cases "backdated (ae_show env) (ae_fromiso env) m fo")
    case True
    then obtain s where "load_state_as_of (ae_show env) (ae_fromiso env) fo eff = Ok s" "obj_get (hs_thesis s) ''status'' = PStr ''closed''"
      using assms(2) by (auto simp: closed_then_def split: sum.splits)
    then show ?thesis using True Inr
      by (simp add: change_status_def assms(1) then_do_pure status_backdated_def refused_def)
  next
    case False
    then show ?thesis using assms(2) Inr
      by (simp add: change_status_def assms(1) then_do_pure status_live_def closed_then_def refused_def)
  qed
qed

lemma closed_apply:
  assumes "effective_clock (ae_fromiso env) (ae_readings env) given = Ok (eff, m)" and "closed_then env tid name eff m fo"
  shows "refused fo (apply_research_result env tid result run allowed given name fo)"
proof (cases "bindR (as_object result) (\<lambda>d. bindR (check_owner (ae_show env) name tid fo) (\<lambda>t. bindR (coerce_apply_inputs d) (\<lambda>ai. Ok (t, ai))))")
  case (Inl e)
  then show ?thesis
    by (cases "as_object result"; cases "check_owner (ae_show env) name tid fo")
      (auto simp: apply_research_result_def assms(1) refused_pure bindR_Err_iff)
next
  case (Inr p)
  then obtain d t ai where parts: "as_object result = Ok d" "check_owner (ae_show env) name tid fo = Ok t" "coerce_apply_inputs d = Ok ai"
    by (auto simp: bindR_Ok_iff)
  then have result: "apply_research_result env tid result run allowed given name fo
      = (if backdated (ae_show env) (ae_fromiso env) m fo then apply_backdated env tid eff ai run allowed fo
         else apply_live env tid t eff ai run allowed fo)"
    by (simp add: apply_research_result_def assms(1) then_do_pure)
  show ?thesis
  proof (cases "backdated (ae_show env) (ae_fromiso env) m fo")
    case True
    then obtain s where "load_state_as_of (ae_show env) (ae_fromiso env) fo eff = Ok s" "obj_get (hs_thesis s) ''status'' = PStr ''closed''"
      using assms(2) by (auto simp: closed_then_def split: sum.splits)
    then have "backdated_plan env tid eff ai allowed fo = Err (ValueError ''thesis is closed; refusing research writeback'')"
      by (simp add: backdated_plan_def check_closed_def)
    then show ?thesis using True by (simp add: result apply_backdated_def refused_pure)
  next
    case False
    then have "live_plan env tid t ai allowed fo = Err (ValueError ''thesis is closed; refusing research writeback'')"
      using assms(2) parts(2) by (simp add: live_plan_def check_closed_def closed_then_def)
    then show ?thesis using False by (simp add: result apply_live_def refused_pure)
  qed
qed

text \<open>
  C39.  A thesis that is closed as of the moment of the call is neither paused nor resumed and takes no
  research result: the call raises and its folder stays as it is, on the live and on the backdated path.
\<close>

theorem closed_thesis_refuses:
  assumes "effective_clock (ae_fromiso env) (ae_readings env) given = Ok (eff, m)" and "closed_then env tid name eff m fo"
  shows "refused fo (pause_thesis (ae_show env) (ae_fromiso env) (ae_readings env) tid given name fo)
    \<and> refused fo (resume_thesis (ae_show env) (ae_fromiso env) (ae_readings env) tid given name fo)
    \<and> refused fo (apply_research_result env tid result run allowed given name fo)"
  using closed_status [OF assms] closed_apply [OF assms] by (simp_all add: pause_thesis_def resume_thesis_def)

theorem closed_thesis_refuses_witness: "refused (commit_folder ''closed'') (commit_run ''closed'' ''acc:1'')"
proof -
  have "effective_clock (ae_fromiso commit_env) (ae_readings commit_env) None = Ok (''2025-01-01'', 200)" by code_simp
  moreover have "closed_then commit_env ''thesis:1'' ''memory-cycle'' ''2025-01-01'' 200 (commit_folder ''closed'')" by code_simp
  ultimately show ?thesis unfolding commit_run_def using closed_thesis_refuses by blast
qed

text \<open>The journal is searched for a line that begins with the id, so a longer id hides a shorter one.\<close>

lemma journal_prefix_hides_entry:
  "find_journal_file ''j1'' ((commit_folder ''active'')\<lparr>fo_journal :=
     [(''j10'', ''---'' @ newline @ ''entry_id: j10'' @ newline @ ''---'')]\<rparr>) = Some ''j10''"
  by code_simp

text \<open>A patch of a claim's status may carry any other field of the claim with it.\<close>

lemma status_patch_rewrites_claim:
  "merge_patched ''claim_id'' [(''c1'', [(''claim_id'', PStr ''c1''), (''statement'', PStr ''new'')])]
     (PDict [(''claim_id'', PStr ''c1''), (''statement'', PStr ''old'')])
   = PDict [(''claim_id'', PStr ''c1''), (''statement'', PStr ''new'')]"
  by code_simp

end
