(* ===== verification/ThesisRepo.thy ===== *)
theory ThesisRepo
  imports ThesisOps
begin

text \<open>
  The root directory of the theses (\<open>app/thesis/repository.py\<close>): the scan that finds the healthy folders
  and quarantines the others, the lookup by id or slug, and the creation of a thesis with its first
  snapshot.  A directory is an association list from names to children.
\<close>

section \<open>The scan\<close>

text \<open>
  \<open>DanglingLink\<close> is a symbolic link whose target is missing, \<open>SymlinkDir\<close> one to a directory; a link
  to a regular file is skipped like any other file.
\<close>

datatype child = Folder folder | SymlinkDir | DanglingLink | Other

type_synonym root_dir = "(string \<times> child) list"

datatype classified = Healthy folder research_thesis | Symlinked | Unloadable string | Skipped

definition message :: "py_error \<Rightarrow> string" where
  "message e = (case e of ValueError m \<Rightarrow> m | _ \<Rightarrow> [])"

definition classify_child :: "(pyobj \<Rightarrow> string) \<Rightarrow> child \<Rightarrow> classified" where
  "classify_child show_obj c = (case c of Other \<Rightarrow> Skipped | SymlinkDir \<Rightarrow> Symlinked | DanglingLink \<Rightarrow> Symlinked
     | Folder fo \<Rightarrow> if fo_thesis fo = None then Skipped
         else (case load_model (thesis_from_dict show_obj) (fo_thesis fo) of Ok t \<Rightarrow> Healthy fo t | Err e \<Rightarrow> Unloadable (message e)))"

text \<open>The id in a file that does not load.\<close>

definition best_effort_thesis_id :: "yaml_file option \<Rightarrow> string option" where
  "best_effort_thesis_id f = (case f of Some (Document (PDict d)) \<Rightarrow>
         (case obj_get d ''thesis_id'' of PStr s \<Rightarrow> if s \<noteq> [] then Some s else None | _ \<Rightarrow> None)
     | _ \<Rightarrow> None)"

record thesis_scan =
  sc_loaded :: "(string \<times> research_thesis) list"
  sc_found :: "(string, string) dict"
  sc_bad_dirs :: "(string, string) dict"
  sc_bad_ids :: "(string, string) dict"

definition note_unloadable :: "string \<Rightarrow> string \<Rightarrow> child \<Rightarrow> thesis_scan \<Rightarrow> thesis_scan" where
  "note_unloadable name reason c s =
     (let s' = s\<lparr>sc_bad_dirs := dset name reason (sc_bad_dirs s)\<rparr>
      in case (case c of Folder fo \<Rightarrow> best_effort_thesis_id (fo_thesis fo) | _ \<Rightarrow> None) of
           None \<Rightarrow> s' | Some tid \<Rightarrow> s'\<lparr>sc_bad_ids := set_default tid reason (sc_bad_ids s')\<rparr>)"

text \<open>A child loaded twice under one id is an error, wherever it is.\<close>

definition scan_child :: "(pyobj \<Rightarrow> string) \<Rightarrow> string \<times> child \<Rightarrow> thesis_scan \<Rightarrow> thesis_scan res" where
  "scan_child show_obj e s = (case e of (name, c) \<Rightarrow> (case classify_child show_obj c of
       Healthy fo t \<Rightarrow> bindR (checkR (th_thesis_id t \<notin> set (map (\<lambda>(n, u). th_thesis_id u) (sc_loaded s)))
           (ValueError ''duplicate thesis ID'')) (\<lambda>_. Ok (s\<lparr>sc_loaded := sc_loaded s @ [(name, t)]\<rparr>))
     | Symlinked \<Rightarrow> Ok (s\<lparr>sc_bad_dirs := dset name ''symlinked thesis directories are not allowed'' (sc_bad_dirs s)\<rparr>)
     | Unloadable m \<Rightarrow> Ok (note_unloadable name m c s)
     | Skipped \<Rightarrow> Ok s))"

fun scan_children :: "(pyobj \<Rightarrow> string) \<Rightarrow> (string \<times> child) list \<Rightarrow> thesis_scan \<Rightarrow> thesis_scan res" where
  "scan_children show_obj [] s = Ok s"
| "scan_children show_obj (c # cs) s = bindR (scan_child show_obj c s) (scan_children show_obj cs)"

definition fold_slug_match :: "string \<times> research_thesis \<Rightarrow> thesis_scan \<Rightarrow> thesis_scan" where
  "fold_slug_match e s = (case e of (name, t) \<Rightarrow>
     if name \<noteq> th_slug t
     then s\<lparr>sc_bad_dirs := dset name ''directory name does not match thesis slug'' (sc_bad_dirs s),
            sc_bad_ids := set_default (th_thesis_id t) ''directory name does not match thesis slug'' (sc_bad_ids s)\<rparr>
     else s\<lparr>sc_found := dset (th_thesis_id t) name (sc_found s)\<rparr>)"

definition empty_scan :: thesis_scan where
  "empty_scan = \<lparr>sc_loaded = [], sc_found = [], sc_bad_dirs = [], sc_bad_ids = []\<rparr>"

definition scan_all :: "(pyobj \<Rightarrow> string) \<Rightarrow> root_dir \<Rightarrow> thesis_scan res" where
  "scan_all show_obj root_d = bindR (scan_children show_obj (sort_key fst root_d) empty_scan)
     (\<lambda>s. Ok (fold fold_slug_match (sc_loaded s) s))"

section \<open>Lookup\<close>

definition unknown_thesis :: "string \<Rightarrow> thesis_scan \<Rightarrow> py_error" where
  "unknown_thesis key s = (case dget (sc_bad_dirs s) key of Some m \<Rightarrow> ValueError m
     | None \<Rightarrow> (case dget (sc_bad_ids s) key of Some m \<Rightarrow> ValueError m
         | None \<Rightarrow> if sc_bad_dirs s \<noteq> [] then ValueError ''unknown thesis (quarantined)'' else KeyError ''unknown thesis''))"

definition folder_of :: "root_dir \<Rightarrow> string \<Rightarrow> folder option" where
  "folder_of root_d name = (case dget root_d name of Some (Folder fo) \<Rightarrow> Some fo | _ \<Rightarrow> None)"

text \<open>A found folder carries its slug as its name.\<close>

definition slug_hit :: "(pyobj \<Rightarrow> string) \<Rightarrow> root_dir \<Rightarrow> string \<Rightarrow> string \<times> string \<Rightarrow> bool" where
  "slug_hit show_obj root_d key e = (case folder_of root_d (snd e) of None \<Rightarrow> False
     | Some fo \<Rightarrow> (case load_model (thesis_from_dict show_obj) (fo_thesis fo) of Ok t \<Rightarrow> th_slug t = key | Err _ \<Rightarrow> False))"

definition dir_for_thesis :: "(pyobj \<Rightarrow> string) \<Rightarrow> root_dir \<Rightarrow> string \<Rightarrow> string res" where
  "dir_for_thesis show_obj root_d key = bindR (scan_all show_obj root_d) (\<lambda>s.
     case dget (sc_found s) key of Some name \<Rightarrow> Ok name
     | None \<Rightarrow> (case List.find (slug_hit show_obj root_d key) (sc_found s) of
           Some (_, name) \<Rightarrow> Ok name | None \<Rightarrow> Err (unknown_thesis key s)))"

definition resolve_id :: "(pyobj \<Rightarrow> string) \<Rightarrow> root_dir \<Rightarrow> string \<Rightarrow> string res" where
  "resolve_id show_obj root_d key = bindR (scan_all show_obj root_d) (\<lambda>s.
     if dget (sc_found s) key \<noteq> None then Ok key
     else (case List.find (slug_hit show_obj root_d key) (sc_found s) of
         Some (tid, _) \<Rightarrow> Ok tid | None \<Rightarrow> Err (unknown_thesis key s)))"

definition load_thesis :: "(pyobj \<Rightarrow> string) \<Rightarrow> root_dir \<Rightarrow> string \<Rightarrow> research_thesis res" where
  "load_thesis show_obj root_d key = bindR (dir_for_thesis show_obj root_d key) (\<lambda>name.
     case folder_of root_d name of None \<Rightarrow> Err (KeyError ''unknown thesis'') | Some fo \<Rightarrow> load_in_dir show_obj name fo)"

text \<open>An operation on the folder that holds a thesis.\<close>

definition on_folder :: "(pyobj \<Rightarrow> string) \<Rightarrow> string \<Rightarrow> (string \<Rightarrow> folder \<Rightarrow> folder \<times> 'a res) \<Rightarrow> root_dir \<Rightarrow> root_dir \<times> 'a res" where
  "on_folder show_obj key oper root_d = (case dir_for_thesis show_obj root_d key of
       Err e \<Rightarrow> (root_d, Err e)
     | Ok name \<Rightarrow> (case folder_of root_d name of
           None \<Rightarrow> (root_d, Err (KeyError ''unknown thesis''))
         | Some fo \<Rightarrow> (case oper name fo of (fo', r) \<Rightarrow> (dset name (Folder fo') root_d, r))))"

definition repo_update :: "(pyobj \<Rightarrow> string) \<Rightarrow> iso_parser \<Rightarrow> readings \<Rightarrow> string \<Rightarrow> string option \<Rightarrow> (string, pyobj) dict
    \<Rightarrow> root_dir \<Rightarrow> root_dir \<times> research_thesis res" where
  "repo_update show_obj fromiso rd key given patch root_d = (case bindR (effective_clock fromiso rd given)
         (\<lambda>_. resolve_id show_obj root_d key) of
       Err e \<Rightarrow> (root_d, Err e)
     | Ok tid \<Rightarrow> on_folder show_obj tid (update_thesis show_obj fromiso rd tid given patch) root_d)"

definition repo_status :: "bool \<Rightarrow> (pyobj \<Rightarrow> string) \<Rightarrow> iso_parser \<Rightarrow> readings \<Rightarrow> string \<Rightarrow> string \<Rightarrow> string option
    \<Rightarrow> root_dir \<Rightarrow> root_dir \<times> research_thesis res" where
  "repo_status closing show_obj fromiso rd tid status given root_d = (case effective_clock fromiso rd given of
       Err e \<Rightarrow> (root_d, Err e)
     | Ok _ \<Rightarrow> on_folder show_obj tid (change_status closing show_obj fromiso rd tid status given) root_d)"

section \<open>Creation\<close>

text \<open>\<open>fresh\<close> gives the id minted for the row at a position.\<close>

definition coerce_claim :: "string \<Rightarrow> pyobj \<Rightarrow> thesis_claim res" where
  "coerce_claim fresh v = (case v of
       PStr s \<Rightarrow> Ok \<lparr>tc_claim_id = fresh, tc_statement = s, tc_status = ''unvalidated''\<rparr>
     | PDict d \<Rightarrow> claim_from_dict (PDict (set_default ''status'' (PStr ''unvalidated'') (set_default ''claim_id'' (PStr fresh) d)))
     | _ \<Rightarrow> Err (ValueError ''claim must be str, mapping, or ThesisClaim''))"

definition coerce_expression :: "(pyobj \<Rightarrow> string) \<Rightarrow> string \<Rightarrow> pyobj \<Rightarrow> trade_expression res" where
  "coerce_expression show_obj fresh v = (case v of
       PDict d \<Rightarrow> expression_from_dict show_obj (PDict (set_default ''expression_id'' (PStr fresh) d))
     | _ \<Rightarrow> Err (ValueError ''expression must be a mapping or TradeExpression''))"

definition coerce_requirement :: "string \<Rightarrow> pyobj \<Rightarrow> expression_requirement res" where
  "coerce_requirement fresh v = (case v of
       PDict d \<Rightarrow> requirement_from_dict (PDict (set_default ''requirement_id'' (PStr fresh) d))
     | _ \<Rightarrow> Err (ValueError ''requirement must be a mapping or ExpressionRequirement''))"

fun minted :: "(string \<Rightarrow> 'a \<Rightarrow> 'b res) \<Rightarrow> (nat \<Rightarrow> string) \<Rightarrow> nat \<Rightarrow> 'a list \<Rightarrow> 'b list res" where
  "minted f fresh n [] = Ok []"
| "minted f fresh n (x # xs) = bindR (f (fresh n) x) (\<lambda>y. bindR (minted f fresh (Suc n) xs) (\<lambda>ys. Ok (y # ys)))"

record proposal =
  pr_scope :: string
  pr_claims :: "pyobj list"
  pr_assumptions :: "string list"
  pr_invalidators :: "string list"
  pr_unknowns :: "string list"
  pr_expressions :: "pyobj list"
  pr_requirements :: "pyobj list"
  pr_watch_rules :: "(string, pyobj) dict list"

record minting =
  mi_thesis :: string
  mi_claim :: "nat \<Rightarrow> string"
  mi_expression :: "nat \<Rightarrow> string"
  mi_requirement :: "nat \<Rightarrow> string"

definition build_candidate :: "(pyobj \<Rightarrow> string) \<Rightarrow> minting \<Rightarrow> string \<Rightarrow> string \<Rightarrow> proposal \<Rightarrow> research_thesis res" where
  "build_candidate show_obj mi body eff p =
     bindR (minted coerce_claim (mi_claim mi) 0 (pr_claims p)) (\<lambda>claims.
     bindR (minted (coerce_expression show_obj) (mi_expression mi) 0 (pr_expressions p)) (\<lambda>expressions.
     bindR (minted coerce_requirement (mi_requirement mi) 0 (pr_requirements p)) (\<lambda>requirements.
     let t = \<lparr>th_thesis_id = mi_thesis mi, th_slug = ''tmp'', th_status = ''active'', th_created_at = eff, th_updated_at = eff,
         th_user_thesis = strip body, th_scope = (if pr_scope p = [] then unknown_text else pr_scope p), th_claims = claims,
         th_assumptions = pr_assumptions p, th_invalidators = pr_invalidators p, th_unknowns = pr_unknowns p,
         th_expressions = expressions, th_requirements = requirements\<rparr>
     in bindR (validate_thesis t) (\<lambda>_. Ok t))))"

definition rule_refs_gate :: "research_thesis \<Rightarrow> watch_rule \<Rightarrow> unit res" where
  "rule_refs_gate t r = bindR (checkR (set (wu_claim_ids r) \<subseteq> set (thesis_claim_ids t)) (ValueError ''rule references absent claim''))
     (\<lambda>_. checkR (set (wu_expression_ids r) \<subseteq> set (thesis_expression_ids t)) (ValueError ''rule references absent expression''))"

definition create_rules :: "(pyobj \<Rightarrow> string) \<Rightarrow> research_thesis \<Rightarrow> (string, pyobj) dict list \<Rightarrow> watch_rule list res" where
  "create_rules show_obj t rs = mapR (\<lambda>d. bindR (watch_from_dict show_obj (PDict d)) (\<lambda>r. bindR (rule_refs_gate t r) (\<lambda>_. Ok r))) rs"

text \<open>\<open>re.findall(r"[A-Za-z0-9]+", text)\<close>.\<close>

definition word_char :: "char \<Rightarrow> bool" where
  "word_char c \<longleftrightarrow> slug_char (lower_char c)"

function find_words :: "string \<Rightarrow> string list" where
  "find_words [] = []"
| "find_words (c # cs) = (if word_char c then (c # takeWhile word_char cs) # find_words (dropWhile word_char cs) else find_words cs)"
  by pat_completeness auto
termination
  by (relation "measure length") (auto simp: length_dropWhile_le le_imp_less_Suc)

definition slug_base :: "string \<Rightarrow> string" where
  "slug_base body = (let ws = take 8 (find_words body); ws' = (if ws = [] then [''thesis''] else ws)
     in case slugify (join ''-'' ws') of Ok s \<Rightarrow> s | Err _ \<Rightarrow> ''thesis'')"

text \<open>
  The loop tries \<open>base\<close>, \<open>base-2\<close>, \<open>base-3\<close> and so on; among the first candidates, one more than there are
  names, one is free.  \<open>Path.exists\<close> follows links, so a dangling link does not count.
\<close>

definition slug_candidates :: "string \<Rightarrow> nat \<Rightarrow> string list" where
  "slug_candidates base n = base # map (\<lambda>i. base @ ''-'' @ nat_str i) [2..<n + 2]"

definition path_exists :: "root_dir \<Rightarrow> string \<Rightarrow> bool" where
  "path_exists root_d name \<longleftrightarrow> list_ex (\<lambda>(n, c). n = name \<and> c \<noteq> DanglingLink) root_d"

definition reserve_slug :: "root_dir \<Rightarrow> string \<Rightarrow> string" where
  "reserve_slug root_d body = hd (filter (\<lambda>s. \<not> path_exists root_d s) (slug_candidates (slug_base body) (length root_d)))"

definition new_folder :: "research_thesis \<Rightarrow> watch_rule list \<Rightarrow> folder" where
  "new_folder t rs = (let owner = (''thesis_id'', PStr (th_thesis_id t)) in
     \<lparr>fo_thesis = Some (written (thesis_to_dict t)),
      fo_state = Some (written (state_to_dict \<lparr>tz_thesis_id = th_thesis_id t, tz_assessment = ''unresolved'',
        tz_claim_assessments = [], tz_expression_assessments = []\<rparr>)),
      fo_watch = Some (written [schema_entry, owner, (''rules'', PList (map (PDict \<circ> watch_to_dict) rs))]),
      fo_questions = Some (written [schema_entry, owner, (''questions'', PList [])]),
      fo_memory = Some (written [schema_entry, owner, (''memories'', PList [])]),
      fo_checkpoint = Some (written (checkpoint_to_dict \<lparr>cp_thesis_id = th_thesis_id t, cp_sources = [], cp_recent_hashes = []\<rparr>)),
      fo_history = [], fo_inbox = [], fo_evidence = [], fo_journal = [], fo_pending = []\<rparr>)"

definition create_clock :: "iso_parser \<Rightarrow> readings \<Rightarrow> string option \<Rightarrow> string res" where
  "create_clock fromiso rd given = bindR (effective_clock fromiso rd given) (\<lambda>(eff, m). Ok eff)"

definition prepare_thesis :: "(pyobj \<Rightarrow> string) \<Rightarrow> iso_parser \<Rightarrow> readings \<Rightarrow> minting \<Rightarrow> string \<Rightarrow> proposal \<Rightarrow> string option
    \<Rightarrow> root_dir \<Rightarrow> (research_thesis \<times> watch_rule list) res" where
  "prepare_thesis show_obj fromiso rd mi body p given root_d =
     bindR (checkR (strip body \<noteq> []) (ValueError ''user_thesis must be a non-empty string'')) (\<lambda>_.
     bindR (create_clock fromiso rd given) (\<lambda>eff.
     bindR (build_candidate show_obj mi (strip body) eff p) (\<lambda>t.
     bindR (create_rules show_obj t (pr_watch_rules p)) (\<lambda>rs.
     Ok (t\<lparr>th_slug := reserve_slug root_d (strip body)\<rparr>, rs)))))"

text \<open>Making the directories fails where a dangling link has the name.\<close>

definition create_thesis :: "(pyobj \<Rightarrow> string) \<Rightarrow> iso_parser \<Rightarrow> readings \<Rightarrow> minting \<Rightarrow> string \<Rightarrow> proposal \<Rightarrow> string option
    \<Rightarrow> root_dir \<Rightarrow> root_dir \<times> research_thesis res" where
  "create_thesis show_obj fromiso rd mi body p given root_d =
     (case prepare_thesis show_obj fromiso rd mi body p given root_d of
        Err e \<Rightarrow> (root_d, Err e)
      | Ok (t, rs) \<Rightarrow>
          if dget root_d (th_slug t) = Some DanglingLink then (root_d, Err (FileExistsError ''mkdir''))
          else (case snapshot_live show_obj fromiso rd (th_thesis_id t) (th_created_at t) ''thesis_created'' [] [] (new_folder t rs) of
          (fo, r) \<Rightarrow> (root_d @ [(th_slug t, Folder fo)], bindR r (\<lambda>_. Ok t))))"


section \<open>The slug is free\<close>

lemma candidates_distinct: "distinct (slug_candidates base n)"
proof -
  have "inj (\<lambda>i. base @ ''-'' @ nat_str i)" by (rule injI) (simp add: nat_str_inject)
  then show ?thesis
    by (auto simp: slug_candidates_def distinct_map simp del: upt_Suc intro: inj_on_subset)
qed

lemma path_exists_iff: "path_exists root_d name \<longleftrightarrow> (\<exists>c. (name, c) \<in> set root_d \<and> c \<noteq> DanglingLink)"
  by (auto simp: path_exists_def list_ex_iff)

lemma some_candidate_free: "\<exists>s \<in> set (slug_candidates base (length root_d)). s \<notin> fst ` set root_d"
proof (rule ccontr)
  assume "\<not> ?thesis"
  then have "card (set (slug_candidates base (length root_d))) \<le> card (fst ` set root_d)"
    by (intro card_mono) auto
  also have "\<dots> \<le> length root_d" by (metis card_length length_map list.set_map)
  finally show False
    by (simp add: distinct_card [OF candidates_distinct]) (simp add: slug_candidates_def del: upt_Suc)
qed

lemma reserved_free: "\<not> path_exists root_d (reserve_slug root_d body)"
proof -
  let ?free = "filter (\<lambda>s. \<not> path_exists root_d s) (slug_candidates (slug_base body) (length root_d))"
  have "?free \<noteq> []" using some_candidate_free [of "slug_base body" root_d]
    by (force simp: filter_empty_conv path_exists_iff)
  then have "hd ?free \<in> set ?free" by (rule hd_in_set)
  then show ?thesis by (simp add: reserve_slug_def)
qed

lemma free_name:
  assumes "\<not> path_exists root_d name" and "dget root_d name \<noteq> Some DanglingLink"
  shows "name \<notin> fst ` set root_d"
proof (cases "dget root_d name")
  case None
  then show ?thesis by (simp add: map_of_eq_None_iff)
next
  case (Some c)
  with assms show ?thesis by (auto simp: path_exists_iff dest: map_of_SomeD)
qed

section \<open>One broken folder hides no other\<close>

definition healthy_in :: "(pyobj \<Rightarrow> string) \<Rightarrow> root_dir \<Rightarrow> string \<Rightarrow> research_thesis \<Rightarrow> bool" where
  "healthy_in show_obj root_d name t \<longleftrightarrow> (case folder_of root_d name of None \<Rightarrow> False
     | Some fo \<Rightarrow> fo_thesis fo \<noteq> None \<and> load_model (thesis_from_dict show_obj) (fo_thesis fo) = Ok t)"

definition healthy_child :: "(pyobj \<Rightarrow> string) \<Rightarrow> string \<times> child \<Rightarrow> (string \<times> research_thesis) option" where
  "healthy_child show_obj e = (case classify_child show_obj (snd e) of Healthy fo t \<Rightarrow> Some (fst e, t) | _ \<Rightarrow> None)"

lemma scan_child_loaded:
  assumes "scan_child show_obj e s = Ok s'"
  shows "sc_loaded s' = sc_loaded s @ (case healthy_child show_obj e of None \<Rightarrow> [] | Some x \<Rightarrow> [x])"
    and "sc_found s' = sc_found s"
    and "distinct (map (\<lambda>(n, t). th_thesis_id t) (sc_loaded s)) \<Longrightarrow> distinct (map (\<lambda>(n, t). th_thesis_id t) (sc_loaded s'))"
  using assms
  by (auto simp: scan_child_def healthy_child_def note_unloadable_def Let_def bindR_Ok_iff
      split: prod.splits classified.splits option.splits child.splits)

lemma map_filter_Cons: "List.map_filter f (x # xs) = (case f x of None \<Rightarrow> [] | Some y \<Rightarrow> [y]) @ List.map_filter f xs"
  by (simp add: List.map_filter_def split: option.splits)

lemma mem_map_filter: "y \<in> set (List.map_filter f xs) \<longleftrightarrow> (\<exists>x \<in> set xs. f x = Some y)"
  by (induction xs) (auto simp: map_filter_Cons List.map_filter_def split: option.splits)

lemma healthy_child_name: "healthy_child show_obj (m, c) = Some (n, t) \<Longrightarrow> m = n"
  by (auto simp: healthy_child_def split: classified.splits)

lemma scan_children_loaded:
  "scan_children show_obj cs s = Ok s' \<Longrightarrow>
     sc_loaded s' = sc_loaded s @ List.map_filter (healthy_child show_obj) cs \<and> sc_found s' = sc_found s"
proof (induction cs arbitrary: s)
  case (Cons c cs)
  then obtain s1 where s1: "scan_child show_obj c s = Ok s1" "scan_children show_obj cs s1 = Ok s'"
    by (auto simp: bindR_Ok_iff)
  from Cons.IH [OF s1(2)] scan_child_loaded(1,2) [OF s1(1)] show ?case by (simp only: map_filter_Cons append_assoc)
qed (simp add: List.map_filter_def)

lemma scan_children_distinct:
  "scan_children show_obj cs s = Ok s' \<Longrightarrow> distinct (map (\<lambda>(n, t). th_thesis_id t) (sc_loaded s))
     \<Longrightarrow> distinct (map (\<lambda>(n, t). th_thesis_id t) (sc_loaded s'))"
proof (induction cs arbitrary: s)
  case (Cons c cs)
  then obtain s1 where s1: "scan_child show_obj c s = Ok s1" "scan_children show_obj cs s1 = Ok s'"
    by (auto simp: bindR_Ok_iff)
  from Cons.IH [OF s1(2)] scan_child_loaded(3) [OF s1(1) Cons.prems(2)] show ?case by simp
qed simp

lemma fold_found:
  assumes "distinct (map (\<lambda>(n, t). th_thesis_id t) xs)"
  shows "dget (sc_found (fold fold_slug_match xs s)) tid
    = (case List.find (\<lambda>(n, t). th_thesis_id t = tid \<and> n = th_slug t) xs of Some (n, t) \<Rightarrow> Some n | None \<Rightarrow> dget (sc_found s) tid)"
  using assms
proof (induction xs arbitrary: s)
  case (Cons x xs)
  obtain n t where x: "x = (n, t)" by (cases x)
  have none: "List.find (\<lambda>(n, t). th_thesis_id t = tid \<and> n = th_slug t) xs = None" if "th_thesis_id t = tid"
    using Cons.prems that by (force simp: find_None_iff x)
  from Cons show ?case
    by (auto simp: x fold_slug_match_def none update_conv split: option.splits)
qed simp

lemma healthy_child_iff:
  "healthy_child show_obj (m, c) = Some (n, t)
     \<longleftrightarrow> m = n \<and> (\<exists>fo. c = Folder fo \<and> fo_thesis fo \<noteq> None \<and> load_model (thesis_from_dict show_obj) (fo_thesis fo) = Ok t)"
  by (cases c) (auto simp: healthy_child_def classify_child_def split: sum.splits)

lemma healthy_in_iff:
  "healthy_in show_obj root_d name t \<longleftrightarrow> (\<exists>c. dget root_d name = Some c \<and> healthy_child show_obj (name, c) = Some (name, t))"
proof (cases "dget root_d name")
  case None
  then show ?thesis by (simp add: healthy_in_def folder_of_def)
next
  case (Some c)
  then show ?thesis by (cases c) (simp_all add: healthy_in_def folder_of_def healthy_child_iff)
qed

lemma loaded_iff:
  assumes "sc_loaded s = List.map_filter (healthy_child show_obj) (sort_key fst root_d)" and "distinct (map fst root_d)"
  shows "(n, t) \<in> set (sc_loaded s) \<longleftrightarrow> healthy_in show_obj root_d n t"
proof -
  have "(n, t) \<in> set (sc_loaded s) \<longleftrightarrow> (\<exists>e \<in> set root_d. healthy_child show_obj e = Some (n, t))"
    by (simp add: assms(1) mem_map_filter)
  also have "\<dots> \<longleftrightarrow> (\<exists>c. (n, c) \<in> set root_d \<and> healthy_child show_obj (n, c) = Some (n, t))"
    by (metis healthy_child_name surj_pair)
  also have "\<dots> \<longleftrightarrow> healthy_in show_obj root_d n t"
    by (simp add: healthy_in_iff map_of_eq_Some_iff [OF assms(2)])
  finally show ?thesis .
qed

lemma find_id:
  assumes "distinct (map (\<lambda>(n, t). th_thesis_id t) xs)"
  shows "(case List.find (\<lambda>(n, t). th_thesis_id t = tid \<and> n = th_slug t) xs of Some (n, t) \<Rightarrow> Some n | None \<Rightarrow> None) = Some name
    \<longleftrightarrow> (\<exists>t. (name, t) \<in> set xs \<and> th_thesis_id t = tid \<and> th_slug t = name)"
  using assms
proof (induction xs)
  case (Cons x xs)
  obtain n t where x: "x = (n, t)" by (cases x)
  have fresh: "th_thesis_id u \<noteq> th_thesis_id t" if "(m, u) \<in> set xs" for m u
    using Cons.prems that by (force simp: x)
  from Cons show ?case by (auto simp: x dest: fresh)
qed simp

lemma scan_found_iff:
  assumes "scan_all show_obj root_d = Ok s" and "distinct (map fst root_d)"
  shows "dget (sc_found s) tid = Some name \<longleftrightarrow> (\<exists>t. healthy_in show_obj root_d name t \<and> th_thesis_id t = tid \<and> th_slug t = name)"
proof -
  obtain s0 where s0: "scan_children show_obj (sort_key fst root_d) empty_scan = Ok s0" and s: "s = fold fold_slug_match (sc_loaded s0) s0"
    using assms(1) by (auto simp: scan_all_def bindR_Ok_iff)
  have loaded: "sc_loaded s0 = List.map_filter (healthy_child show_obj) (sort_key fst root_d)" and found: "sc_found s0 = []"
    using scan_children_loaded [OF s0] by (simp_all add: empty_scan_def)
  have dist: "distinct (map (\<lambda>(n, t). th_thesis_id t) (sc_loaded s0))"
    by (rule scan_children_distinct [OF s0]) (simp add: empty_scan_def)
  have "dget (sc_found s) tid = (case List.find (\<lambda>(n, t). th_thesis_id t = tid \<and> n = th_slug t) (sc_loaded s0) of
      Some (n, t) \<Rightarrow> Some n | None \<Rightarrow> None)"
    unfolding s fold_found [OF dist] found map_of.simps by (rule refl)
  then show ?thesis by (simp only: find_id [OF dist] loaded_iff [OF loaded assms(2)])
qed


lemma healthy_load: "healthy_in show_obj root_d (th_slug t) t \<Longrightarrow> folder_of root_d (th_slug t) = Some fo
    \<Longrightarrow> load_in_dir show_obj (th_slug t) fo = Ok t"
  by (simp add: healthy_in_def load_in_dir_def)

lemma load_healthy:
  assumes "folder_of root_d name = Some fo" and "load_in_dir show_obj name fo = Ok u"
  shows "healthy_in show_obj root_d (th_slug u) u" and "th_slug u = name"
proof -
  have u: "load_model (thesis_from_dict show_obj) (fo_thesis fo) = Ok u" "th_slug u = name"
    using assms(2) by (auto simp: load_in_dir_def bindR_Ok_iff)
  moreover have "fo_thesis fo \<noteq> None" using u(1) by (auto simp: load_model_def split: option.splits)
  ultimately show "healthy_in show_obj root_d (th_slug u) u" "th_slug u = name" using assms(1) by (simp_all add: healthy_in_def)
qed

lemma dir_for_cases:
  assumes "dir_for_thesis show_obj root_d key = Ok name"
  obtains (Id) s where "scan_all show_obj root_d = Ok s" "dget (sc_found s) key = Some name"
    | (Slug) tid where "slug_hit show_obj root_d key (tid, name)"
proof -
  obtain s where s: "scan_all show_obj root_d = Ok s" using assms by (auto simp: dir_for_thesis_def bindR_Ok_iff)
  show thesis
  proof (cases "dget (sc_found s) key")
    case (Some n)
    then show thesis using assms s by (intro Id [of s]) (simp_all add: dir_for_thesis_def)
  next
    case None
    then obtain tid where "List.find (slug_hit show_obj root_d key) (sc_found s) = Some (tid, name)"
      using assms s by (auto simp: dir_for_thesis_def split: option.splits)
    then have "slug_hit show_obj root_d key (tid, name)" by (auto simp: find_Some_iff)
    then show thesis by (rule Slug)
  qed
qed

lemma slug_hit_load:
  "slug_hit show_obj root_d key (tid, name) \<Longrightarrow> folder_of root_d name = Some fo \<Longrightarrow> load_in_dir show_obj name fo = Ok u \<Longrightarrow> th_slug u = key"
  by (auto simp: slug_hit_def load_in_dir_def bindR_Ok_iff)

text \<open>
  C11.  When the scan succeeds, every folder whose thesis loads and carries the folder's name as its slug
  is found by its id, however many other folders are broken, and a lookup by id or slug only ever returns
  such a thesis.
\<close>

theorem thesis_lookup_sound:
  assumes "scan_all show_obj root_d = Ok s" and "distinct (map fst root_d)"
  shows "(healthy_in show_obj root_d (th_slug t) t \<longrightarrow> load_thesis show_obj root_d (th_thesis_id t) = Ok t)
    \<and> (load_thesis show_obj root_d key = Ok u \<longrightarrow> healthy_in show_obj root_d (th_slug u) u \<and> key \<in> {th_thesis_id u, th_slug u})"
proof (intro conjI impI)
  assume healthy: "healthy_in show_obj root_d (th_slug t) t"
  then obtain fo where fo: "folder_of root_d (th_slug t) = Some fo" by (auto simp: healthy_in_def split: option.splits)
  have "dget (sc_found s) (th_thesis_id t) = Some (th_slug t)"
    using scan_found_iff [OF assms, of "th_thesis_id t" "th_slug t"] healthy by blast
  then have "dir_for_thesis show_obj root_d (th_thesis_id t) = Ok (th_slug t)" by (simp add: dir_for_thesis_def assms(1))
  then show "load_thesis show_obj root_d (th_thesis_id t) = Ok t" by (simp add: load_thesis_def fo healthy_load [OF healthy fo])
next
  assume "load_thesis show_obj root_d key = Ok u"
  then obtain name fo where name: "dir_for_thesis show_obj root_d key = Ok name" and fo: "folder_of root_d name = Some fo"
      and u: "load_in_dir show_obj name fo = Ok u"
    by (auto simp: load_thesis_def bindR_Ok_iff split: option.splits)
  note healthy = load_healthy [OF fo u]
  from name have "key \<in> {th_thesis_id u, th_slug u}"
  proof (cases rule: dir_for_cases)
    case (Id s')
    then obtain v where "healthy_in show_obj root_d name v" "th_thesis_id v = key"
      using scan_found_iff [OF Id(1) assms(2), of key name] by blast
    then show ?thesis using healthy by (simp add: healthy_in_def fo)
  next
    case (Slug tid)
    then show ?thesis using slug_hit_load [OF Slug fo u] by simp
  qed
  then show "key \<in> {th_thesis_id u, th_slug u}" .
  show "healthy_in show_obj root_d (th_slug u) u" by (rule healthy(1))
qed

definition demo_root :: root_dir where
  "demo_root = [(''broken'', Folder ((new_folder demo_thesis [])\<lparr>fo_thesis := Some Malformed\<rparr>)),
     (''linked'', SymlinkDir), (''memory-cycle'', Folder (new_folder demo_thesis []))]"

lemma demo_root_scan: "is_ok (scan_all demo_show demo_root)" "distinct (map fst demo_root)"
    "healthy_in demo_show demo_root ''memory-cycle'' demo_thesis"
  by code_simp+

theorem thesis_lookup_sound_witness: "load_thesis demo_show demo_root ''thesis:1'' = Ok demo_thesis"
proof -
  obtain s where s: "scan_all demo_show demo_root = Ok s" using demo_root_scan(1) by (auto simp: is_ok_iff)
  have slug: "th_slug demo_thesis = ''memory-cycle''" "th_thesis_id demo_thesis = ''thesis:1''" by (simp_all add: demo_thesis_def)
  from thesis_lookup_sound [OF s demo_root_scan(2), of demo_thesis] demo_root_scan(3) show ?thesis by (simp add: slug)
qed

end
