(* ===== verification/ThesisRuns.thy ===== *)
theory ThesisRuns
  imports ThesisApply ThesisRepo
begin

text \<open>
  The operations on a thesis together: one step relation over updates, status changes, answers, healing
  and research commits, the history as a numbered log and the evidence files as an append-only log under
  every run of them, and what a run can and cannot change of the state as of a moment.
\<close>

section \<open>One step\<close>

text \<open>One call of an operation, with the moment it is effective from.\<close>

inductive folder_step :: "(pyobj \<Rightarrow> string) \<Rightarrow> iso_parser \<Rightarrow> instant \<Rightarrow> folder \<Rightarrow> folder \<Rightarrow> bool"
  for show_obj fromiso where
  Update: "effective_clock fromiso rd given = Ok (eff, m) \<Longrightarrow> update_thesis show_obj fromiso rd tid given patch name fo = (fo', r)
    \<Longrightarrow> folder_step show_obj fromiso m fo fo'"
| Status: "effective_clock fromiso rd given = Ok (eff, m) \<Longrightarrow> change_status closing show_obj fromiso rd tid status given name fo = (fo', r)
    \<Longrightarrow> folder_step show_obj fromiso m fo fo'"
| Answer: "effective_clock fromiso rd given = Ok (eff, m) \<Longrightarrow> answer_questions show_obj fromiso rd tid answered given fo = (fo', u)
    \<Longrightarrow> folder_step show_obj fromiso m fo fo'"
| Normalize: "effective_clock fromiso rd given = Ok (eff, m) \<Longrightarrow> normalize_watch show_obj fromiso rd tid given name fo = (fo', u)
    \<Longrightarrow> folder_step show_obj fromiso m fo fo'"
| Apply: "effective_clock (ae_fromiso env) (ae_readings env) given = Ok (eff, m) \<Longrightarrow> ae_show env = show_obj \<Longrightarrow> ae_fromiso env = fromiso
    \<Longrightarrow> apply_research_result env tid result run allowed given name fo = (fo', out)
    \<Longrightarrow> folder_step show_obj fromiso m fo fo'"

lemma clock_moment: "effective_clock fromiso rd given = Ok (eff, m) \<Longrightarrow> as_dt fromiso eff = Some m"
  by (auto simp: effective_clock_def Let_def split: option.splits)

lemma adds_operations:
  assumes "effective_clock fromiso rd given = Ok (eff, m)"
  shows "adds show_obj fromiso eff fo (fst (update_thesis show_obj fromiso rd tid given patch name fo))"
    and "adds show_obj fromiso eff fo (fst (change_status closing show_obj fromiso rd tid status given name fo))"
    and "adds show_obj fromiso eff fo (fst (answer_questions show_obj fromiso rd tid answered given fo))"
    and "adds show_obj fromiso eff fo (fst (normalize_watch show_obj fromiso rd tid given name fo))"
  using assms
  by (auto simp: update_thesis_def change_status_def answer_questions_def normalize_watch_def split_beta bindR_Ok_iff
      intro!: adds_then_pure adds_update adds_status adds_answer adds_normalize adds_refl)

lemma folder_step_adds:
  assumes "folder_step show_obj fromiso m fo fo'"
  obtains eff where "as_dt fromiso eff = Some m" and "adds show_obj fromiso eff fo fo'"
  using assms
proof cases
  case (Update rd given eff)
  then show thesis using that [OF clock_moment [OF Update(1)]] adds_operations(1) [OF Update(1)] by (metis fst_conv)
next
  case (Status rd given eff)
  then show thesis using that [OF clock_moment [OF Status(1)]] adds_operations(2) [OF Status(1)] by (metis fst_conv)
next
  case (Answer rd given eff)
  then show thesis using that [OF clock_moment [OF Answer(1)]] adds_operations(3) [OF Answer(1)] by (metis fst_conv)
next
  case (Normalize rd given eff)
  then show thesis using that [OF clock_moment [OF Normalize(1)]] adds_operations(4) [OF Normalize(1)] by (metis fst_conv)
next
  case (Apply env given eff tid result run allowed name out)
  have "adds show_obj fromiso eff fo fo'"
    using adds_apply [OF Apply(1), of fo tid result run allowed name] by (simp add: Apply(2-4))
  then show thesis using that clock_moment [OF Apply(1)] Apply(3) by simp
qed


section \<open>The history under every run of operations\<close>

definition some_step :: "(pyobj \<Rightarrow> string) \<Rightarrow> iso_parser \<Rightarrow> folder \<Rightarrow> folder \<Rightarrow> bool" where
  "some_step show_obj fromiso fo fo' \<longleftrightarrow> (\<exists>m. folder_step show_obj fromiso m fo fo')"

interpretation state_log: numbered_log fo_history "some_step show_obj fromiso" version_num for show_obj fromiso
proof
  fix fo fo'
  assume "some_step show_obj fromiso fo fo'"
  then obtain eff where adds: "adds show_obj fromiso eff fo fo'"
    unfolding some_step_def by (auto elim: folder_step_adds)
  then show "prefix (fo_history fo) (fo_history fo')" by (auto simp: adds_def)
  show "numbered version_num (fo_history fo')" if "numbered version_num (fo_history fo)"
    using adds that by (auto simp: adds_def numbered_snoc version_num_def next_version_numbered)
qed

lemma step_cases:
  assumes step: "folder_step show_obj fromiso m fo fo'" and ok: "history_ok show_obj fromiso (fo_history fo)"
    and ne: "fo_history fo \<noteq> []"
  obtains (Same) "fo_history fo' = fo_history fo"
    | (Added) s where "wf_snapshot show_obj fromiso s" "hs_version s = next_history_version (fo_history fo)"
        "fo_history fo' = fo_history fo @ [(pad8 (next_history_version (fo_history fo)), written (snapshot_to_dict s))]"
        "effective_from fromiso s = Some m"
proof -
  from step obtain eff where m: "as_dt fromiso eff = Some m" and adds: "adds show_obj fromiso eff fo fo'"
    by (rule folder_step_adds)
  have versions: "history_versions (fo_history fo) \<noteq> []"
    using ok ne numbered_versions(1) [of "fo_history fo"] by (simp add: history_ok_def del: upt_Suc)
  from adds [unfolded adds_def] show thesis
  proof (elim disjE exE conjE)
    assume "fo_history fo' = fo_history fo"
    then show thesis by (rule Same)
  next
    fix s
    assume "wf_snapshot show_obj fromiso s" "hs_version s = next_history_version (fo_history fo)"
      "fo_history fo' = fo_history fo @ [(pad8 (next_history_version (fo_history fo)), written (snapshot_to_dict s))]"
      "history_versions (fo_history fo) \<noteq> [] \<longrightarrow> hs_effective_at s = eff"
    then show thesis using versions by (intro Added [of s]) (simp_all add: effective_from_def m)
  qed
qed

lemma step_history:
  assumes "folder_step show_obj fromiso m fo fo'" and "history_ok show_obj fromiso (fo_history fo)"
    and "fo_history fo \<noteq> []"
  shows "history_ok show_obj fromiso (fo_history fo') \<and> fo_history fo' \<noteq> []"
  using assms
proof (cases rule: step_cases)
  case Same
  then show ?thesis using assms(2,3) by simp
next
  case (Added s)
  then show ?thesis using history_ok_snoc(1) [OF assms(2) Added(1,2)] by simp
qed

lemma step_answer:
  assumes "folder_step show_obj fromiso m fo fo'" and ok: "history_ok show_obj fromiso (fo_history fo)"
    and "fo_history fo \<noteq> []" and cutoff: "as_dt fromiso known = Some cutoff"
  shows "load_state_as_of show_obj fromiso fo' known = load_state_as_of show_obj fromiso fo known
    \<or> (\<exists>s. load_state_as_of show_obj fromiso fo' known = Ok s \<and> effective_from fromiso s = Some m
         \<and> supersedes fromiso cutoff (snaps_of show_obj fromiso (fo_history fo)) s)"
  using assms(1-3)
proof (cases rule: step_cases)
  case Same
  then show ?thesis by (simp add: as_of_same_history [OF Same])
next
  case (Added s)
  note answer = as_of_extended(2) [OF ok Added(1-3) cutoff]
  show ?thesis
  proof (cases "supersedes fromiso cutoff (snaps_of show_obj fromiso (fo_history fo)) s")
    case True
    then show ?thesis using Added(4) answer by (intro disjI2 exI [of _ s]) simp
  next
    case False
    then show ?thesis using answer by (intro disjI1) simp
  qed
qed

text \<open>Nothing effective from after a cutoff changes the state as of it.\<close>

lemma past_step:
  assumes "folder_step show_obj fromiso m fo fo'" and "history_ok show_obj fromiso (fo_history fo)"
    and "fo_history fo \<noteq> []" and "as_dt fromiso known = Some cutoff" and "cutoff < m"
  shows "load_state_as_of show_obj fromiso fo' known = load_state_as_of show_obj fromiso fo known"
  using step_answer [OF assms(1-4)] assms(5) by (elim disjE exE conjE) (simp_all add: supersedes_def in_effect_def)

definition later_step :: "(pyobj \<Rightarrow> string) \<Rightarrow> iso_parser \<Rightarrow> instant \<Rightarrow> folder \<Rightarrow> folder \<Rightarrow> bool" where
  "later_step show_obj fromiso cutoff fo fo' \<longleftrightarrow> (\<exists>m > cutoff. folder_step show_obj fromiso m fo fo')"

lemma past_run:
  assumes "(later_step show_obj fromiso cutoff)\<^sup>*\<^sup>* fo fo'" and "history_ok show_obj fromiso (fo_history fo)"
    and "fo_history fo \<noteq> []" and cutoff: "as_dt fromiso known = Some cutoff"
  shows "history_ok show_obj fromiso (fo_history fo') \<and> fo_history fo' \<noteq> []
    \<and> load_state_as_of show_obj fromiso fo' known = load_state_as_of show_obj fromiso fo known"
  using assms(1)
proof (induction rule: rtranclp_induct)
  case base
  then show ?case using assms(2,3) by simp
next
  case (step f g)
  from step.hyps(2) obtain m where m: "m > cutoff" "folder_step show_obj fromiso m f g"
    by (auto simp: later_step_def)
  from step.IH step_history [OF m(2)] past_step [OF m(2) _ _ cutoff m(1)] show ?case by simp
qed


section \<open>Stored evidence is never rewritten\<close>

lemma append_evidence_prefix: "prefix (fo_evidence fo) (fo_evidence (fst (append_evidence_refs env tid n vs fo)))"
proof (induction vs arbitrary: n fo)
  case (Cons v vs)
  show ?case
  proof (cases "evidence_file env tid (ae_evidence env n) v")
    case (Inr p)
    have "prefix (fo_evidence fo) (fo_evidence (add_evidence p fo))"
      by (auto simp: add_evidence_def dset_fresh)
    also have "prefix \<dots> (fo_evidence (fst (append_evidence_refs env tid (Suc n) vs (add_evidence p fo))))" by (rule Cons.IH)
    finally show ?thesis using Inr by (simp add: then_do_pure)
  qed (simp add: then_do_pure)
qed simp

lemma apply_prefix: "prefix (fo_evidence fo) (fo_evidence (fst (apply_research_result env tid result run allowed given name fo)))"
proof -
  have retro: "prefix (fo_evidence fo) (fo_evidence (fst (apply_backdated env tid eff ai run allowed fo)))" for eff ai
  proof (cases "backdated_plan env tid eff ai allowed fo")
    case (Inr p)
    then show ?thesis by (simp add: backdated_evidence append_evidence_prefix)
  qed (simp add: apply_backdated_def then_do_pure)
  have live: "prefix (fo_evidence fo) (fo_evidence (fst (apply_live env tid t eff ai run allowed fo)))" for t eff ai
  proof (cases "live_plan env tid t ai allowed fo")
    case (Inr p)
    from live_evidence [OF Inr, of eff run] obtain g where "fo_evidence g = fo_evidence fo"
      and "fo_evidence (fst (apply_live env tid t eff ai run allowed fo)) = fo_evidence g
        \<or> fo_evidence (fst (apply_live env tid t eff ai run allowed fo)) = fo_evidence (fst (append_evidence_refs env tid 0 (ai_evidence ai) g))"
      by blast
    then show ?thesis using append_evidence_prefix [of g] by auto
  qed (simp add: apply_live_def then_do_pure)
  show ?thesis
    unfolding apply_research_result_def
    by (cases "bindR (as_object result) (\<lambda>d. bindR (effective_clock (ae_fromiso env) (ae_readings env) given) (\<lambda>clock.
        bindR (check_owner (ae_show env) name tid fo) (\<lambda>t. bindR (coerce_apply_inputs d) (\<lambda>ai. Ok (clock, t, ai)))))")
      (simp_all add: then_do_pure retro live split: prod.splits)
qed

lemma commit_live_evidence: "fo_evidence (fst (commit_live show_obj fromiso rd tid eff reason candidate fo)) = fo_evidence fo"
  unfolding commit_live_def by (rule pure_stage) (simp add: snapshot_live_frame)

lemmas evidence_pure = pure_stage [where sel = fo_evidence]

lemma branches_evidence:
  "fo_evidence (fst (update_backdated show_obj fromiso rd tid patch eff fo)) = fo_evidence fo"
  "fo_evidence (fst (update_live show_obj fromiso rd t tid patch eff fo)) = fo_evidence fo"
  "fo_evidence (fst (status_backdated closing show_obj fromiso rd tid status eff fo)) = fo_evidence fo"
  "fo_evidence (fst (status_live closing show_obj fromiso rd t tid status eff fo)) = fo_evidence fo"
  "fo_evidence (fst (answer_backdated show_obj fromiso rd tid answered eff fo)) = fo_evidence fo"
  "fo_evidence (fst (answer_live show_obj fromiso rd tid answered eff fo)) = fo_evidence fo"
  "fo_evidence (fst (normalize_backdated show_obj fromiso rd tid eff fo)) = fo_evidence fo"
  "fo_evidence (fst (normalize_live show_obj fromiso rd tid eff fo)) = fo_evidence fo"
  unfolding update_backdated_def update_live_def status_backdated_def status_live_def answer_backdated_def answer_live_def
    normalize_backdated_def normalize_live_def split_beta
  by (simp_all add: evidence_pure write_snapshot_frame snapshot_live_frame commit_live_evidence)

lemma operations_evidence:
  "fo_evidence (fst (update_thesis show_obj fromiso rd tid given patch name fo)) = fo_evidence fo"
  "fo_evidence (fst (change_status closing show_obj fromiso rd tid status given name fo)) = fo_evidence fo"
  "fo_evidence (fst (answer_questions show_obj fromiso rd tid answered given fo)) = fo_evidence fo"
  "fo_evidence (fst (normalize_watch show_obj fromiso rd tid given name fo)) = fo_evidence fo"
  unfolding update_thesis_def change_status_def answer_questions_def normalize_watch_def split_beta
  by (simp_all add: evidence_pure branches_evidence)

interpretation evidence_files: append_log fo_evidence "some_step show_obj fromiso" for show_obj fromiso
proof
  fix fo fo'
  assume "some_step show_obj fromiso fo fo'"
  then obtain m where "folder_step show_obj fromiso m fo fo'" by (auto simp: some_step_def)
  then show "prefix (fo_evidence fo) (fo_evidence fo')"
  proof cases
    case (Update rd given eff tid patch name r)
    then show ?thesis using operations_evidence(1) by (metis fst_conv prefix_order.refl)
  next
    case (Status rd given eff closing tid status name r)
    then show ?thesis using operations_evidence(2) by (metis fst_conv prefix_order.refl)
  next
    case (Answer rd given eff tid answered u)
    then show ?thesis using operations_evidence(3) by (metis fst_conv prefix_order.refl)
  next
    case (Normalize rd given eff tid name u)
    then show ?thesis using operations_evidence(4) by (metis fst_conv prefix_order.refl)
  next
    case (Apply env given eff tid result run allowed name out)
    then show ?thesis using apply_prefix [of fo env tid result run allowed given name] by simp
  qed
qed

section \<open>A new thesis\<close>

lemma first_snapshot:
  assumes "snapshot_live show_obj fromiso rd tid eff ''thesis_created'' run trig fo = (fo', Ok s)" and "fo_history fo = []"
  shows "fo_history fo' = [(pad8 1, written (snapshot_to_dict s))]" and "wf_snapshot show_obj fromiso s"
    and "hs_version s = 1" and "hs_effective_at s = eff" and "hs_thesis_id s = tid"
proof -
  obtain draft where draft: "live_sections show_obj tid eff ''thesis_created'' run trig fo = Ok draft"
      and wrote: "write_snapshot show_obj fromiso (rd_recorded rd) (draft\<lparr>hs_reason := ''thesis_created'', hs_effective_at := eff\<rparr>) fo = (fo', Ok s)"
    using assms by (auto simp: snapshot_live_def migration_basis_def history_versions_def List.map_filter_def
        split: if_splits sum.splits prod.splits simp: bindR_Ok_iff)
  have owner: "hs_thesis_id draft = tid" using draft by (auto simp: live_sections_def bindR_Ok_iff draft_of_def)
  have next_one: "next_history_version (fo_history fo) = 1" by (simp add: assms(2) next_history_version_def history_versions_def List.map_filter_def)
  show "fo_history fo' = [(pad8 1, written (snapshot_to_dict s))]" "wf_snapshot show_obj fromiso s" "hs_version s = 1"
    "hs_effective_at s = eff" "hs_thesis_id s = tid"
    by (rule write_snapshot_cases [of show_obj fromiso "rd_recorded rd" "draft\<lparr>hs_reason := ''thesis_created'', hs_effective_at := eff\<rparr>" fo];
        use wrote owner next_one assms(2) in simp)+
qed

lemma first_state:
  assumes "fo_history fo = [(pad8 1, written (snapshot_to_dict s))]" and wf: "wf_snapshot show_obj fromiso s" and one: "hs_version s = 1"
  shows "history_ok show_obj fromiso (fo_history fo)" and "load_state_as_of show_obj fromiso fo (hs_effective_at s) = Ok s"
proof -
  have "history_ok show_obj fromiso []" by (simp add: history_ok_def)
  moreover have "next_history_version ([] :: (string, yaml_file) dict) = 1" by (simp add: next_history_version_def history_versions_def List.map_filter_def)
  ultimately have ok: "history_ok show_obj fromiso (fo_history fo)" and snaps: "snaps_of show_obj fromiso (fo_history fo) = [s]"
    using history_ok_snoc [of show_obj fromiso "[]" s] wf one assms(1) by (simp_all add: snaps_of_def)
  show "history_ok show_obj fromiso (fo_history fo)" by (rule ok)
  obtain m where m: "as_dt fromiso (hs_effective_at s) = Some m" using wf by (auto simp: wf_snapshot_def)
  show "load_state_as_of show_obj fromiso fo (hs_effective_at s) = Ok s"
    by (simp add: as_of_iff [OF ok m] snaps latest_in_effect_def in_effect_def effective_from_def m)
qed


text \<open>
  C12.  A created thesis gets a free directory name next to the directories that were there, its history
  is the one snapshot of version 1, and that snapshot is the state as of the creation.
\<close>

theorem create_thesis_sound:
  assumes "create_thesis show_obj fromiso rd mi body p given root_d = (root_d', Ok t)"
  shows "th_slug t \<notin> fst ` set root_d
    \<and> (\<exists>fo s. root_d' = root_d @ [(th_slug t, Folder fo)] \<and> history_ok show_obj fromiso (fo_history fo)
      \<and> length (fo_history fo) = 1 \<and> load_state_as_of show_obj fromiso fo (th_created_at t) = Ok s
      \<and> hs_version s = 1 \<and> hs_thesis_id s = th_thesis_id t)"
proof -
  obtain rs where prep: "prepare_thesis show_obj fromiso rd mi body p given root_d = Ok (t, rs)"
    using assms by (auto simp: create_thesis_def bindR_Ok_iff split: sum.splits prod.splits if_splits)
  then obtain u where "t = u\<lparr>th_slug := reserve_slug root_d (strip body)\<rparr>"
    by (auto simp: prepare_thesis_def bindR_Ok_iff)
  then have "\<not> path_exists root_d (th_slug t)"
    using reserved_free [of root_d "strip body"] by simp
  moreover have link: "dget root_d (th_slug t) \<noteq> Some DanglingLink"
    using assms prep by (auto simp: create_thesis_def)
  ultimately have free: "th_slug t \<notin> fst ` set root_d" by (rule free_name)
  obtain fo s where live: "snapshot_live show_obj fromiso rd (th_thesis_id t) (th_created_at t) ''thesis_created'' [] [] (new_folder t rs) = (fo, Ok s)"
      and root': "root_d' = root_d @ [(th_slug t, Folder fo)]"
    using assms prep link by (auto simp: create_thesis_def bindR_Ok_iff split: prod.splits)
  have empty: "fo_history (new_folder t rs) = []" by (simp add: new_folder_def Let_def)
  note first = first_snapshot [OF live empty]
  have "root_d' = root_d @ [(th_slug t, Folder fo)] \<and> history_ok show_obj fromiso (fo_history fo)
      \<and> length (fo_history fo) = 1 \<and> load_state_as_of show_obj fromiso fo (th_created_at t) = Ok s
      \<and> hs_version s = 1 \<and> hs_thesis_id s = th_thesis_id t"
    using root' first_state [OF first(1-3)] first by simp
  with free show ?thesis by blast
qed

definition demo_days :: iso_parser where
  "demo_days s = (if s = ''2024-01-01'' then Some (Naive 100) else if s = ''2024-02-01'' then Some (Naive 200)
     else if s = ''2024-03-01'' then Some (Naive 300) else None)"

definition demo_rd :: readings where
  "demo_rd = \<lparr>rd_effective = ''2024-03-01'', rd_updated = ''2024-03-01'', rd_migration = ''2024-03-01'', rd_recorded = ''2024-03-01''\<rparr>"

definition demo_minting :: minting where
  "demo_minting = \<lparr>mi_thesis = ''thesis:1'', mi_claim = (\<lambda>n. ''claim:'' @ nat_str n), mi_expression = (\<lambda>n. ''expr:'' @ nat_str n),
     mi_requirement = (\<lambda>n. ''req:'' @ nat_str n)\<rparr>"

definition demo_proposal :: "pyobj list \<Rightarrow> proposal" where
  "demo_proposal claims = \<lparr>pr_scope = ''MU'', pr_claims = claims, pr_assumptions = [], pr_invalidators = [], pr_unknowns = [],
     pr_expressions = [], pr_requirements = [], pr_watch_rules = []\<rparr>"

definition demo_create :: "pyobj list \<Rightarrow> root_dir \<times> research_thesis res" where
  "demo_create claims = create_thesis demo_show demo_days demo_rd demo_minting ''Memory turns'' (demo_proposal claims)
     (Some ''2024-01-01'') [(''memory-turns'', Other)]"

definition demo_created :: research_thesis where
  "demo_created = \<lparr>th_thesis_id = ''thesis:1'', th_slug = ''memory-turns-2'', th_status = ''active'', th_created_at = ''2024-01-01'',
     th_updated_at = ''2024-01-01'', th_user_thesis = ''Memory turns'', th_scope = ''MU'',
     th_claims = [\<lparr>tc_claim_id = ''claim:0'', tc_statement = ''Prices rise'', tc_status = ''unvalidated''\<rparr>],
     th_assumptions = [], th_invalidators = [], th_unknowns = [], th_expressions = [], th_requirements = []\<rparr>"

lemma demo_create_ok: "snd (demo_create [PStr ''Prices rise'']) = Ok demo_created"
  by code_simp

theorem create_thesis_sound_witness:
  "\<exists>fo s. fst (demo_create [PStr ''Prices rise'']) = [(''memory-turns'', Other), (''memory-turns-2'', Folder fo)]
     \<and> load_state_as_of demo_show demo_days fo ''2024-01-01'' = Ok s \<and> hs_version s = 1"
proof -
  have "create_thesis demo_show demo_days demo_rd demo_minting ''Memory turns'' (demo_proposal [PStr ''Prices rise''])
      (Some ''2024-01-01'') [(''memory-turns'', Other)] = (fst (demo_create [PStr ''Prices rise'']), Ok demo_created)"
    using demo_create_ok by (simp add: demo_create_def prod_eq_iff)
  from create_thesis_sound [OF this] show ?thesis by (auto simp: demo_created_def)
qed

text \<open>
  A dangling link that has the wanted name is no obstacle to the reservation, and then makes the creation
  fail.
\<close>

lemma dangling_link_blocks:
  "create_thesis demo_show demo_days demo_rd demo_minting ''Memory turns'' (demo_proposal []) (Some ''2024-01-01'')
     [(''memory-turns'', DanglingLink)] = ([(''memory-turns'', DanglingLink)], Err (FileExistsError ''mkdir''))"
  by code_simp

section \<open>The past\<close>

text \<open>
  C4.  No sequence of updates, status changes, answers, healings and research commits that are all
  effective after a moment changes the state of the thesis as of that moment: the history only grows at
  its end, stays numbered and readable, and gives the same answer.
\<close>

theorem thesis_past_immutable:
  assumes "(later_step show_obj fromiso cutoff)\<^sup>*\<^sup>* fo fo'" and "history_ok show_obj fromiso (fo_history fo)"
    and "fo_history fo \<noteq> []" and "as_dt fromiso known = Some cutoff"
  shows "prefix (fo_history fo) (fo_history fo') \<and> history_ok show_obj fromiso (fo_history fo')
    \<and> load_state_as_of show_obj fromiso fo' known = load_state_as_of show_obj fromiso fo known"
proof -
  have "(some_step show_obj fromiso)\<^sup>*\<^sup>* fo fo'"
    using assms(1) by (rule rtranclp_mono [THEN predicate2D, rotated]) (auto simp: later_step_def some_step_def)
  then have "prefix (fo_history fo) (fo_history fo')" by (rule state_log.run_extends)
  with past_run [OF assms] show ?thesis by simp
qed

definition demo_first :: "folder \<times> state_snapshot res" where
  "demo_first = snapshot_live demo_show demo_days demo_rd ''thesis:1'' ''2024-01-01'' ''thesis_created'' [] [] (new_folder demo_created [])"

definition demo_home :: folder where
  "demo_home = fst demo_first"

lemma demo_home_history: "history_ok demo_show demo_days (fo_history demo_home)" "fo_history demo_home \<noteq> []"
proof -
  have "is_ok (snd demo_first)" by code_simp
  then obtain s where s: "demo_first = (demo_home, Ok s)" by (auto simp: demo_home_def is_ok_iff prod_eq_iff)
  have "fo_history (new_folder demo_created []) = []" by (simp add: new_folder_def Let_def)
  note first = first_snapshot [OF s [unfolded demo_first_def] this]
  show "history_ok demo_show demo_days (fo_history demo_home)" by (rule first_state(1) [OF first(1-3)])
  show "fo_history demo_home \<noteq> []" by (simp add: first(1))
qed

definition demo_paused :: "folder \<times> research_thesis res" where
  "demo_paused = pause_thesis demo_show demo_days demo_rd ''thesis:1'' (Some ''2024-03-01'') ''memory-turns-2'' demo_home"

lemma demo_pause_ok: "is_ok (snd demo_paused) \<and> length (fo_history (fst demo_paused)) = 2"
  by code_simp

theorem thesis_past_immutable_witness:
  "load_state_as_of demo_show demo_days (fst demo_paused) ''2024-02-01'' = load_state_as_of demo_show demo_days demo_home ''2024-02-01''"
proof -
  have clock: "effective_clock demo_days demo_rd (Some ''2024-03-01'') = Ok (''2024-03-01'', 300)" by code_simp
  have "folder_step demo_show demo_days 300 demo_home (fst demo_paused)"
    by (rule folder_step.Status [OF clock]) (simp add: demo_paused_def pause_thesis_def prod_eq_iff)
  then have "later_step demo_show demo_days 200 demo_home (fst demo_paused)"
    unfolding later_step_def by (intro exI [of _ 300]) simp
  then have run: "(later_step demo_show demo_days 200)\<^sup>*\<^sup>* demo_home (fst demo_paused)" by (rule r_into_rtranclp)
  have known: "as_dt demo_days ''2024-02-01'' = Some 200" by code_simp
  show ?thesis using thesis_past_immutable [OF run demo_home_history known] by blast
qed

section \<open>What the code lets through\<close>

text \<open>A blank claim makes the creation fail, and leaves a folder that no lookup returns.\<close>

lemma blank_claim_leaves_folder:
  "\<not> is_ok (snd (demo_create [PStr []]))
     \<and> map fst (fst (demo_create [PStr []])) = [''memory-turns'', ''memory-turns-2'']
     \<and> \<not> is_ok (dir_for_thesis demo_show (fst (demo_create [PStr []])) ''thesis:1'')"
  by code_simp

text \<open>An update may set the status, and so opens a closed thesis again.\<close>

definition demo_closed :: "folder \<times> research_thesis res" where
  "demo_closed = close_thesis demo_show demo_days demo_rd ''thesis:1'' (Some ''2024-02-01'') ''memory-turns-2'' demo_home"

lemma update_reopens_closed:
  "bindR (snd demo_closed) (\<lambda>t. Ok (th_status t)) = Ok ''closed''
     \<and> bindR (snd (update_thesis demo_show demo_days demo_rd ''thesis:1'' (Some ''2024-03-01'')
          [(''status'', PStr ''active'')] ''memory-turns-2'' (fst demo_closed))) (\<lambda>t. Ok (th_status t)) = Ok ''active''"
  by code_simp

text \<open>An update of the slug does not rename the directory, and the thesis is no longer found.\<close>

lemma slug_update_loses_thesis:
  "bindR (snd (update_thesis demo_show demo_days demo_rd ''thesis:1'' (Some ''2024-03-01'')
       [(''slug'', PStr ''other'')] ''memory-turns-2'' demo_home)) (\<lambda>t. Ok (th_slug t)) = Ok ''other''
     \<and> \<not> is_ok (dir_for_thesis demo_show [(''memory-turns-2'', Folder (fst (update_thesis demo_show demo_days demo_rd ''thesis:1''
          (Some ''2024-03-01'') [(''slug'', PStr ''other'')] ''memory-turns-2'' demo_home)))] ''thesis:1'')"
  by code_simp

text \<open>One unreadable file in the history directory hides the state as of every moment; the numbering skips it.\<close>

lemma stray_file_hides_history:
  "is_ok (load_state_as_of demo_show demo_days demo_home ''2024-02-01'')
     \<and> \<not> is_ok (load_state_as_of demo_show demo_days (demo_home\<lparr>fo_history := fo_history demo_home @ [(''draft'', Malformed)]\<rparr>) ''2024-02-01'')
     \<and> history_versions (fo_history demo_home @ [(''draft'', Malformed)]) = [1]"
  by code_simp

end
