(* ===== verification/Spec2Isabelle.thy ===== *)
theory Spec2Isabelle
  imports Risk Identity Relationships Firewall Budget Calendar Kernel Temporal Session Jobs Evidence Journal
    Freeze Grounding Committee Director Stage Dispatch
    Baseline Tools Gateway ThesisRuns
begin

text \<open>
  A verification library for the research bot under \<open>src/app\<close>: a server that lets language
  models work on securities under a research kernel which decides what they may call, what they may
  cite and when they may stop.  The library models the deterministic code of that kernel and of the
  domain it serves; the language models, the data clients and the databases are arguments.

  \<^bold>\<open>The program.\<close>  A tool call of a model enters through the gateway (\<open>pi_gateway.py\<close>).  The gateway
  asks, in this order, the session for the run context, the stage of the research session which tools
  it allows, the security context and its grant whether the tool may run, the kernel whether the
  dispatch is within the persisted budgets, the egress policy what may leave, and the execution
  budget whether calls are left.  Then the dispatcher (\<open>tools.py\<close>) checks the arguments and the
  cutoff and runs the handler; the rendered result passes the ingress scan, the redaction and the
  evidence-token budget before the model sees it.  Behind the gateway the research kernel keeps
  sessions, jobs, an append-only evidence ledger and a journal, freezes the evidence of a wave, lets
  three committee agents analyse the freeze, merges their analyses, and a director decides whether
  another wave runs.  Beside it stands the domain: portfolio snapshots and the mandate evaluator, the
  identity of securities, and the evidence workflow of relationships between companies.  Long-lived
  investment theses are kept as folders of YAML files with a versioned history, into which a research
  run commits its result.

  \<^bold>\<open>Foundations.\<close>
  \<^item> \<open>Prelude\<close>: Python exceptions as the datatype \<open>py_error\<close>, results as \<open>'a res\<close> (\<open>Ok\<close> or \<open>Err\<close>) with
    the bind \<open>bindR\<close>, the guard \<open>checkR\<close> (\<open>if not b: raise e\<close>), ASCII strings and the methods the
    code calls on them, dictionaries as association lists in insertion order.
  \<^item> \<open>Interfaces\<close>: the contracts several components share, as locales (below).
  \<^item> \<open>PyDecimal\<close>: \<open>decimal.Decimal\<close> under the default context: finite values are rationals, every
    operation rounds half-even to 28 digits, NaN and the infinities are constructors, comparison with a
    NaN raises.  The exponent range is not modelled.
  \<^item> \<open>PyValue\<close>: values of \<open>json.loads\<close> as the datatype \<open>pyobj\<close>, with truth, equality and access.
  \<^item> \<open>Regex\<close>: a backtracking matcher for the constructs of \<open>re\<close> the code uses; every loop of the
    matcher consumes text, so it is total without fuel.
  \<^item> \<open>Calendar\<close>: \<open>datetime\<close> on the proleptic Gregorian calendar; an instant counts microseconds.

  \<^bold>\<open>The domain\<close> (\<open>app/domain\<close>).
  \<^item> \<open>Portfolio\<close> (\<open>portfolio/models.py, valuation.py, snapshot.py, market/quotes.py\<close>): one definition per
    function.  Weights of a long-only snapshot stay in the unit interval although every step rounds.
  \<^item> \<open>Mandate\<close> (\<open>risk/mandate.py\<close>): the validator of a parsed mandate.  What it accepts is well formed;
    which inputs it rejects with which exception.
  \<^item> \<open>Risk\<close> (\<open>risk/evaluation.py, breaches.py\<close>): the evaluator with its lazily raised errors, refined
    to a reference verdict per limit that never raises on finite snapshots; an evaluation without
    breach and issue measures every limit; the sector table sums to the positions.
  \<^item> \<open>Identity\<close> (\<open>market/ids.py, identity.py\<close>): derived ids and point-in-time ticker resolution: its
    meaning, its independence of the order of rows, and that later rows do not change history.
  \<^item> \<open>Relationships\<close> (\<open>evidence/relationships.py\<close>): every operation on the mutable relationship gives
    the object it leaves behind, also when it raises; the step relation \<open>rel_step\<close> is any call.  The
    revision log of every reachable relationship is an audit trail, automatic verification is
    conservative.

  \<^bold>\<open>Security\<close> (\<open>app/security, policy.py, redact.py, robinhood/capabilities.py\<close>).
  \<^item> \<open>Redact\<close> (\<open>redact.py, response_guard.py\<close>): patterns over \<open>Regex\<close>, redaction of records and answers.
  \<^item> \<open>Injection\<close> (\<open>prompt_injection.py\<close>): the rule table, the matcher, the verdict.
  \<^item> \<open>Firewall\<close> (\<open>context.py, action_policy.py, context_gateway.py, policy.py\<close>, the capability registry of
    \<open>tools.py\<close>): what an authorised call, an allowed egress and an admitted result satisfy.
  \<^item> \<open>Budget\<close> (\<open>runtime.py\<close>): three metered counters under every interleaving of reservations.

  \<^bold>\<open>The research kernel\<close> (\<open>app/research\<close>).
  \<^item> \<open>Kernel\<close> (\<open>models.py\<close>): validation of JSON values, field readers, timestamps, the point-in-time
    predicates and the source policy; \<open>Temporal\<close>: from the wording of a question to its cutoff;
    \<open>Baseline\<close>: the pick of the latest filings before the cutoff, refined to its specification.
  \<^item> \<open>Session\<close> (\<open>session.py\<close>), \<open>Jobs\<close> (\<open>jobs.py\<close>), \<open>Journal\<close> (\<open>journal.py\<close>), \<open>Evidence\<close> (\<open>evidence.py\<close>): the
    records with their constructors' checks, JSON forms and round trips, the lifecycles as step
    relations, the admission limits, the append-only logs, the ingest gate of the ledger.
  \<^item> \<open>Freeze\<close> (\<open>freeze.py\<close>): the snapshot of a wave with its hash.
  \<^item> \<open>Grounding\<close> (\<open>agents/__init__.py, stockbot.py, bullbot.py, bearbot.py\<close>): model output into typed claims
    that cite only the freeze; \<open>Committee\<close> (\<open>synthesis/committee.py\<close>): the merge of the analyses.
  \<^item> \<open>Director\<close> (\<open>director.py\<close>): the gate on the next wave, the wave over injected steps, the loop detector.
  \<^item> \<open>Stage\<close> (\<open>stage.py\<close>): the stage a stored session is in and its tools.
  \<^item> \<open>Dispatch\<close> (\<open>service.py, repository.py\<close>): the transaction that authorizes and bills one tool
    dispatch, over a store of sessions, jobs and dispatch rows; \<open>row_write\<close> is any such write.

  \<^bold>\<open>Theses\<close> (\<open>app/thesis\<close>).
  \<^item> \<open>Thesis\<close> (\<open>models.py\<close>): the records with their readers and writers; what is read is in normal form.
  \<^item> \<open>ThesisHistory\<close> (\<open>yaml.py\<close>, the history part of \<open>repository.py\<close>): the folder of a thesis as a record
    of files, numbered snapshots, and the state as of a moment with its characterisation.
  \<^item> \<open>ThesisOps\<close>, \<open>ThesisApply\<close> (\<open>repository.py\<close>): updates, status changes, answers and healing; the commit of
    a research result with its provenance gate.  Each operation returns the folder it leaves behind, also
    when it raises half way, and adds at most one snapshot (\<open>adds\<close>).
  \<^item> \<open>ThesisRepo\<close> (\<open>repository.py\<close>): the scan that quarantines broken folders, lookup and creation.
  \<^item> \<open>ThesisRuns\<close>: \<open>folder_step\<close> is any operation on a folder with the moment it is effective from;
    operations effective after a moment never change the state as of it.

  \<^bold>\<open>The front.\<close>
  \<^item> \<open>Tools\<close> (\<open>tools.py\<close>): the tool table (names, required keys, properties), the argument check, the
    cutoff of a historical run and \<open>execute_tool\<close>.
  \<^item> \<open>Gateway\<close> (\<open>pi_gateway.py\<close>): the gates above composed as the code composes them, over \<open>Firewall\<close>,
    \<open>Stage\<close>, \<open>Dispatch\<close>, \<open>Budget\<close>, \<open>Tools\<close>, \<open>Injection\<close> and \<open>Redact\<close>.  Content reaches the model only from a
    call that passed them all; runs of calls keep the invariants of the session.

  \<^bold>\<open>The interfaces.\<close>  A locale of \<open>Interfaces\<close> states a contract once, and each provider interprets it
  on the model's own step relation:
  \<^item> \<open>append_log\<close>, entries are never changed or dropped: the evidence and counterevidence of
    a relationship, the evidence ledger, the journal of each session, the evidence files of a thesis; its
    extension \<open>numbered_log\<close>: the revisions of a relationship, the history of a thesis.
  \<^item> \<open>lifecycle\<close>, terminal states have no successor: sessions; \<open>bounded_lifecycle\<close>, with a rank that falls: jobs.
  \<^item> \<open>pit_gate\<close>, visibility grows with time: ticker aliases, the snapshots of a thesis.
  \<^item> \<open>metered\<close>, a counter no step moves past its ceiling: the three counters of the execution budget,
    active and total jobs, the billed calls of a session.
  \<^item> \<open>rounding\<close> (in \<open>PyDecimal\<close>), a monotone idempotent rounding: the 28-digit rounding.

  \<^bold>\<open>Arguments of the model.\<close>  What is outside the source or not a function of its inputs is an argument:
  the clock readings and random ids, \<open>datetime.fromisoformat\<close> (\<open>iso_parser\<close>), SHA-256, the JSON codec, Unicode
  normalisation and the byte decoders of the scanner, the answer of a language model, the data handlers,
  the renderer, company resolution.  Where a theorem relies on such an argument its hypothesis says so
  (a hash that does not collide on the two texts at hand, a parser that reads back what \<open>isoformat\<close>
  wrote) and the witness instantiates it with a concrete function.

  \<^bold>\<open>Conventions.\<close>  Text is ASCII.  Interpolated values of messages are dropped, except where a message
  is data the code stores or compares.  An operation under a lock or in a transaction is one step, and
  interleavings are runs of steps.  No recursion uses fuel: loops of the source are structural
  recursions, or \<open>function\<close>s with a measure (the chain of corrections, the decoders of the scanner,
  replacement in strings).

  \<^bold>\<open>Not modelled.\<close>
  \<^item> Retrieval and analysis of SEC filings (\<open>sec/, edgar_client.py, obligations.py, valuation.py\<close>), the market data
    clients and the broker client: HTTP, HTML and XBRL parsing, floating-point statistics.
  \<^item> The handlers of \<open>tools.py\<close> that call those clients, the discovery search, the renderer and the prompts.
  \<^item> The orchestration of agents over threads and SQLite (\<open>research/runner.py\<close>, most of \<open>service.py\<close> and
    \<open>repository.py\<close>, \<open>synthesis/final.py\<close>), the run recorder and the logger of the gateway.
  \<^item> Lost updates: the dispatch gate reads a job row and writes it back; a database row reads back as it
    was written and each transaction is one step, so a write between the two is not represented.
  \<^item> The thesis monitor, the intake and the runner of thesis research; below the repository the path checks
    and the staging of atomic writes: a YAML file holds a JSON document and reads back as written, and a
    directory is searched in the order of its association list where the code relies on none.
  \<^item> Storage (Parquet, DuckDB), analytics and configuration.
  \<^item> Floating-point ids and the plain \<open>Security\<close> and \<open>Entity\<close> rows of \<open>market/\<close>.
\<close>

end
